(* ===== verification/GtxPrelude.thy ===== *)
theory GtxPrelude
  imports Complex_Main "HOL-Library.Sublist" "HOL-Library.Char_ord" "HOL-Library.List_Lexorder"
    "HOL-Library.Product_Lexorder"
begin

text \<open>
  Shared vocabulary of the development: the collections of lemmas the component theories draw on,
  Python's string methods on strings of code points below 256 (Latin-1), JSON documents with
  Python's notion of truth and equality, and association lists updated in place, which stand for
  SQL tables.
\<close>

section \<open>Collections\<close>

named_theorems table_simps \<open>reading a table after an update\<close>
named_theorems wp_intros \<open>one rule per construct of the session monad\<close>
named_theorems obeys_intros \<open>one rule per construct for the guarantee of a method\<close>
named_theorems db_step_intros \<open>the effects a statement may have on the database\<close>
named_theorems legal_intros \<open>updates that move every task along the transition table\<close>

section \<open>Strings\<close>

type_synonym pystr = string

definition upper_ascii :: pystr where
  "upper_ascii = ''ABCDEFGHIJKLMNOPQRSTUVWXYZ''"

definition lower_ascii :: pystr where
  "lower_ascii = ''abcdefghijklmnopqrstuvwxyz''"

definition digit_chars :: pystr where
  "digit_chars = ''0123456789''"

definition lower_char :: "char \<Rightarrow> char" where
  "lower_char c = (case map_of (zip upper_ascii lower_ascii) c of
     Some d \<Rightarrow> d
   | None \<Rightarrow> (let n = (of_char c :: nat) in
       if 192 \<le> n \<and> n \<le> 222 \<and> n \<noteq> 215 then char_of (n + 32) else c))"

definition lower :: "pystr \<Rightarrow> pystr" where
  "lower s = map lower_char s"

definition is_space :: "char \<Rightarrow> bool" where
  "is_space c = (let n = (of_char c :: nat) in
     (9 \<le> n \<and> n \<le> 13) \<or> (28 \<le> n \<and> n \<le> 32) \<or> n = 133 \<or> n = 160)"

definition lstrip :: "pystr \<Rightarrow> pystr" where
  "lstrip s = dropWhile is_space s"

definition rstrip :: "pystr \<Rightarrow> pystr" where
  "rstrip s = rev (dropWhile is_space (rev s))"

definition strip :: "pystr \<Rightarrow> pystr" where
  "strip s = rstrip (lstrip s)"

definition rstrip_char :: "char \<Rightarrow> pystr \<Rightarrow> pystr" where
  "rstrip_char c s = rev (dropWhile ((=) c) (rev s))"

definition lstrip_char :: "char \<Rightarrow> pystr \<Rightarrow> pystr" where
  "lstrip_char c s = dropWhile ((=) c) s"

definition starts_with :: "pystr \<Rightarrow> pystr \<Rightarrow> bool" where
  "starts_with p s = (take (length p) s = p)"

definition ends_with :: "pystr \<Rightarrow> pystr \<Rightarrow> bool" where
  "ends_with p s = starts_with (rev p) (rev s)"

fun contains :: "pystr \<Rightarrow> pystr \<Rightarrow> bool" where
  "contains p [] = (p = [])"
| "contains p (c # s) = (starts_with p (c # s) \<or> contains p s)"

fun split_on :: "char \<Rightarrow> pystr \<Rightarrow> pystr list" where
  "split_on d [] = [[]]"
| "split_on d (c # s) = (if c = d then [] # split_on d s
     else (case split_on d s of [] \<Rightarrow> [[c]] | w # ws \<Rightarrow> (c # w) # ws))"

fun join :: "pystr \<Rightarrow> pystr list \<Rightarrow> pystr" where
  "join sep [] = []"
| "join sep [w] = w"
| "join sep (w # v # ws) = w @ sep @ join sep (v # ws)"

fun split_space_acc :: "pystr \<Rightarrow> pystr \<Rightarrow> pystr list" where
  "split_space_acc w [] = (if w = [] then [] else [rev w])"
| "split_space_acc w (c # s) =
     (if is_space c then (if w = [] then split_space_acc [] s
                          else rev w # split_space_acc [] s)
      else split_space_acc (c # w) s)"

definition split_space :: "pystr \<Rightarrow> pystr list" where
  "split_space s = split_space_acc [] s"

definition is_line_break :: "char \<Rightarrow> bool" where
  "is_line_break c = (let n = (of_char c :: nat) in
     (10 \<le> n \<and> n \<le> 13) \<or> (28 \<le> n \<and> n \<le> 30) \<or> n = 133)"

fun splitlines_acc :: "pystr \<Rightarrow> pystr \<Rightarrow> pystr list" where
  "splitlines_acc w [] = (if w = [] then [] else [rev w])"
| "splitlines_acc w (c # s) =
     (if c = CHR 0x0D \<and> s \<noteq> [] \<and> hd s = CHR 0x0A then splitlines_acc w s
      else if is_line_break c then rev w # splitlines_acc [] s
      else splitlines_acc (c # w) s)"

definition splitlines :: "pystr \<Rightarrow> pystr list" where
  "splitlines s = splitlines_acc [] s"

definition py_repr :: "pystr \<Rightarrow> pystr" where
  "py_repr s = (let q = (if CHR 0x27 \<in> set s \<and> CHR 0x22 \<notin> set s then CHR 0x22 else CHR 0x27) in
     [q] @ concat (map (\<lambda>c. if c = q \<or> c = CHR 0x5C then [CHR 0x5C, c] else [c]) s) @ [q])"

function show_digits :: "int \<Rightarrow> pystr" where
  "show_digits n = (if n < 10 then [digit_chars ! nat n]
     else show_digits (n div 10) @ [digit_chars ! nat (n mod 10)])"
  by pat_completeness auto
termination by (relation "measure nat") auto

declare show_digits.simps [simp del]

definition show_int :: "int \<Rightarrow> pystr" where
  "show_int i = (if i < 0 then ''-'' @ show_digits (- i) else show_digits i)"

definition show_nat :: "nat \<Rightarrow> pystr" where
  "show_nat n = show_int (int n)"

text \<open>The text of the UTC instant given in microseconds since 1970, as \<open>datetime.isoformat\<close> has it.\<close>

definition pad_left :: "nat \<Rightarrow> int \<Rightarrow> pystr" where
  "pad_left n i = (let s = show_int i in replicate (n - length s) CHR ''0'' @ s)"

definition civil_date :: "int \<Rightarrow> int \<times> int \<times> int" where
  "civil_date days = (let z = days + 719468; era = z div 146097; doe = z mod 146097;
      yoe = (doe - doe div 1460 + doe div 36524 - doe div 146096) div 365;
      doy = doe - (365 * yoe + yoe div 4 - yoe div 100);
      mp = (5 * doy + 2) div 153; day = doy - (153 * mp + 2) div 5 + 1;
      month = (if mp < 10 then mp + 3 else mp - 9);
      year = yoe + era * 400 + (if month \<le> 2 then 1 else 0)
    in (year, month, day))"

definition iso_utc :: "int \<Rightarrow> pystr" where
  "iso_utc t = (let secs = t div 1000000; micro = t mod 1000000; days = secs div 86400; tod = secs mod 86400 in
     case civil_date days of (y, m, d) \<Rightarrow>
       pad_left 4 y @ ''-'' @ pad_left 2 m @ ''-'' @ pad_left 2 d @ ''T'' @
       pad_left 2 (tod div 3600) @ '':'' @ pad_left 2 (tod div 60 mod 60) @ '':'' @ pad_left 2 (tod mod 60) @
       (if micro = 0 then '''' else ''.'' @ pad_left 6 micro) @ ''+00:00'')"

definition show_opt :: "pystr option \<Rightarrow> pystr" where
  "show_opt s = (case s of None \<Rightarrow> ''None'' | Some t \<Rightarrow> t)"

definition has_text :: "pystr option \<Rightarrow> bool" where
  "has_text s = (case s of None \<Rightarrow> False | Some t \<Rightarrow> t \<noteq> [])"

lemma split_on_not_Nil [simp]: "split_on d s \<noteq> []"
  by (induction s) (auto split: list.splits)

lemma join_Cons: "ws \<noteq> [] \<Longrightarrow> join sep (w # ws) = w @ sep @ join sep ws"
  by (cases ws) simp_all

lemma join_Cons_Cons: "join sep ((c # w) # ws) = c # join sep (w # ws)"
  by (cases ws) simp_all

lemma join_split_on: "join [d] (split_on d s) = s"
  by (induction s) (auto simp: join_Cons join_Cons_Cons split: list.splits)

lemma starts_with_iff: "starts_with p s \<longleftrightarrow> (\<exists>b. s = p @ b)"
  unfolding starts_with_def by (metis append_take_drop_id append_eq_conv_conj)

lemma contains_iff_infix: "contains p s \<longleftrightarrow> (\<exists>a b. s = a @ p @ b)"
proof (induction s)
  case (Cons c s)
  show ?case
  proof
    assume "contains p (c # s)"
    then consider b where "c # s = p @ b" | a b where "s = a @ p @ b"
      using Cons by (auto simp: starts_with_iff)
    then show "\<exists>a b. c # s = a @ p @ b"
      by cases (metis append_Nil, metis append_Cons)
  next
    assume "\<exists>a b. c # s = a @ p @ b"
    then obtain a b where ab: "c # s = a @ p @ b" by blast
    then consider "starts_with p (c # s)" | a' where "s = a' @ p @ b"
      by (cases a) (auto simp: starts_with_iff)
    then show "contains p (c # s)"
      using Cons by cases auto
  qed
qed simp

lemma strip_Nil [simp]: "strip [] = []"
  by (simp add: strip_def lstrip_def rstrip_def)

lemma strip_space_ends:
  assumes "strip s \<noteq> []"
  shows "\<not> is_space (hd (strip s)) \<and> \<not> is_space (last (strip s))"
proof -
  have 1: "rstrip t = [] \<or> \<not> is_space (last (rstrip t))" for t
    using hd_dropWhile [of is_space "rev t"] by (auto simp: rstrip_def last_rev)
  have 2: "\<exists>u. t = rstrip t @ u" for t
    unfolding rstrip_def by (metis rev_append rev_rev_ident takeWhile_dropWhile_id)
  obtain u where u: "lstrip s = strip s @ u"
    using 2 [of "lstrip s"] by (auto simp: strip_def)
  have "\<not> is_space (hd (lstrip s))"
    using u assms hd_dropWhile [of is_space s] by (auto simp: lstrip_def)
  with u assms have "\<not> is_space (hd (strip s))" by simp
  with 1 [of "lstrip s"] assms show ?thesis by (simp add: strip_def)
qed

section \<open>JSON documents\<close>

text \<open>A finite Python float is the rational it denotes.\<close>

datatype pyfloat = Fin rat | PosInf | NegInf | NaN

datatype json =
    JNull
  | JBool bool
  | JInt int
  | JFloat pyfloat
  | JStr pystr
  | JArr "json list"
  | JObj "(pystr \<times> json) list"

type_synonym pydict = "(pystr \<times> json) list"

definition dget :: "pydict \<Rightarrow> pystr \<Rightarrow> json" where
  "dget d k = (case map_of d k of Some v \<Rightarrow> v | None \<Rightarrow> JNull)"

definition dput :: "pydict \<Rightarrow> pystr \<Rightarrow> json \<Rightarrow> pydict" where
  "dput d k v = (if k \<in> fst ` set d
     then map (\<lambda>(k', v'). if k' = k then (k', v) else (k', v')) d
     else d @ [(k, v)])"

fun truthy :: "json \<Rightarrow> bool" where
  "truthy JNull = False"
| "truthy (JBool b) = b"
| "truthy (JInt i) = (i \<noteq> 0)"
| "truthy (JFloat f) = (f \<noteq> Fin 0)"
| "truthy (JStr s) = (s \<noteq> [])"
| "truthy (JArr xs) = (xs \<noteq> [])"
| "truthy (JObj d) = (d \<noteq> [])"

fun float_num :: "json \<Rightarrow> pyfloat option" where
  "float_num (JBool b) = Some (Fin (if b then 1 else 0))"
| "float_num (JInt i) = Some (Fin (of_int i))"
| "float_num (JFloat f) = Some f"
| "float_num _ = None"

fun py_eq :: "json \<Rightarrow> json \<Rightarrow> bool"
and py_eq_list :: "json list \<Rightarrow> json list \<Rightarrow> bool"
and py_sub :: "pydict \<Rightarrow> pydict \<Rightarrow> bool" where
  "py_eq (JStr a) (JStr b) = (a = b)"
| "py_eq JNull JNull = True"
| "py_eq (JArr xs) (JArr ys) = py_eq_list xs ys"
| "py_eq (JObj d) (JObj e) = (py_sub d e \<and> fst ` set e \<subseteq> fst ` set d)"
| "py_eq x y = (case (float_num x, float_num y) of
      (Some a, Some b) \<Rightarrow> a = b \<and> a \<noteq> NaN | _ \<Rightarrow> False)"
| "py_eq_list [] [] = True"
| "py_eq_list (x # xs) (y # ys) = (py_eq x y \<and> py_eq_list xs ys)"
| "py_eq_list _ _ = False"
| "py_sub [] e = True"
| "py_sub ((k, v) # d) e =
     ((case map_of e k of Some w \<Rightarrow> py_eq v w | None \<Rightarrow> False) \<and> py_sub d e)"

lemma map_of_replace:
  "map_of (map (\<lambda>(k', v'). if k' = k then (k', v) else (k', v')) d) x =
   (if x = k \<and> k \<in> fst ` set d then Some v else map_of d x)"
proof (induction d)
  case (Cons a d)
  then show ?case by (cases a) (simp split: if_splits, auto)
qed simp

lemma map_of_dput [table_simps]:
  "map_of (dput d k v) k' = (if k' = k then Some v else map_of d k')"
proof (cases "k \<in> fst ` set d")
  case False
  then have "map_of d k = None" by (simp add: map_of_eq_None_iff)
  with False show ?thesis
    by (auto simp: dput_def map_add_def split: option.splits)
qed (simp add: dput_def map_of_replace)

lemma dget_dput [table_simps]: "dget (dput d k v) k' = (if k' = k then v else dget d k')"
  by (simp add: dget_def map_of_dput)

section \<open>Tables\<close>

text \<open>
  A table is the list of its rows in the order they were inserted. \<open>row_of\<close> is a SELECT by
  primary key, \<open>update_where\<close> an UPDATE with a WHERE clause and \<open>count_where\<close> the row count of
  either.
\<close>

definition row_of :: "('r \<Rightarrow> 'k) \<Rightarrow> 'k \<Rightarrow> 'r list \<Rightarrow> 'r option" where
  "row_of key k rows = find (\<lambda>r. key r = k) rows"

definition update_where :: "('r \<Rightarrow> bool) \<Rightarrow> ('r \<Rightarrow> 'r) \<Rightarrow> 'r list \<Rightarrow> 'r list" where
  "update_where p f rows = map (\<lambda>r. if p r then f r else r) rows"

definition count_where :: "('r \<Rightarrow> bool) \<Rightarrow> 'r list \<Rightarrow> nat" where
  "count_where p rows = length (filter p rows)"

lemma length_update_where [simp]: "length (update_where p f rows) = length rows"
  by (simp add: update_where_def)

lemma set_update_where:
  "set (update_where p f rows) = (\<lambda>r. if p r then f r else r) ` set rows"
  by (simp add: update_where_def)

lemma update_where_Nil [simp]: "update_where p f [] = []"
  by (simp add: update_where_def)

lemma update_where_False [simp]: "update_where (\<lambda>r. False) f rows = rows"
  by (simp add: update_where_def)

lemma map_update_where_same:
  "(\<And>r. p r \<Longrightarrow> g (f r) = g r) \<Longrightarrow> map g (update_where p f rows) = map g rows"
  by (simp add: update_where_def)

lemma row_of_Some_in: "row_of key k rows = Some r \<Longrightarrow> r \<in> set rows \<and> key r = k"
  by (auto simp: row_of_def find_Some_iff)

lemma row_of_None_iff: "row_of key k rows = None \<longleftrightarrow> k \<notin> key ` set rows"
  by (auto simp: row_of_def find_None_iff)

lemma row_of_Nil [simp]: "row_of key k [] = None"
  by (simp add: row_of_def)

lemma row_of_Cons [simp]:
  "row_of key k (r # rows) = (if key r = k then Some r else row_of key k rows)"
  by (simp add: row_of_def)

lemma row_of_append:
  "row_of key k (xs @ ys) = (case row_of key k xs of Some r \<Rightarrow> Some r | None \<Rightarrow> row_of key k ys)"
  by (induction xs) (auto split: option.splits)

lemma row_of_update_where:
  "(\<And>r. p r \<Longrightarrow> key (f r) = key r) \<Longrightarrow>
   row_of key k (update_where p f rows) = map_option (\<lambda>r. if p r then f r else r) (row_of key k rows)"
  by (induction rows) (auto simp: update_where_def row_of_def)

lemma row_of_distinct_iff:
  assumes "distinct (map key rows)"
  shows "row_of key k rows = Some r \<longleftrightarrow> r \<in> set rows \<and> key r = k"
proof
  assume "r \<in> set rows \<and> key r = k"
  then show "row_of key k rows = Some r"
    using assms by (induction rows) (auto simp: rev_image_eqI)
qed (rule row_of_Some_in)

lemma count_where_pos_iff: "0 < count_where p rows \<longleftrightarrow> (\<exists>r \<in> set rows. p r)"
  by (auto simp: count_where_def filter_empty_conv)

lemma count_where_zero_iff: "count_where p rows = 0 \<longleftrightarrow> (\<forall>r \<in> set rows. \<not> p r)"
  by (auto simp: count_where_def filter_empty_conv)

lemma update_where_none: "count_where p rows = 0 \<Longrightarrow> update_where p f rows = rows"
  by (auto simp: count_where_zero_iff update_where_def intro: map_idI)

lemma count_where_key:
  assumes "distinct (map key rows)" "row_of key k rows = Some r" "q r"
  shows "count_where (\<lambda>r. key r = k \<and> q r) rows = 1"
  using assms
proof (induction rows)
  case (Cons x rows)
  show ?case
  proof (cases "key x = k")
    case True
    then have "count_where (\<lambda>r. key r = k \<and> q r) rows = 0"
      using Cons.prems by (auto simp: count_where_zero_iff rev_image_eqI)
    with True Cons.prems show ?thesis by (simp add: count_where_def)
  next
    case False
    with Cons show ?thesis by (simp add: count_where_def)
  qed
qed simp

end
