(* ===== verification/BrokerDb.thy ===== *)
theory BrokerDb
  imports GtxPrelude
begin

text \<open>
  The tables of the broker's SQLite database (scheduler.py \<open>_init_db\<close>, workers.py, migrations.py) as
  lists of records.  Timestamps are microseconds since the epoch: the code stores them as ISO texts of
  UTC instants, whose text order is the order of the instants.  A stored JSON text is the document it
  was dumped from.
\<close>

section \<open>Task states\<close>

datatype task_state =
    Accepted | Queued | Claimed | Running | Succeeded | FailedTerminal | RetryWait | AwaitingReview
  | Cancelled

fun state_name :: "task_state \<Rightarrow> pystr" where
  "state_name Accepted = ''accepted''"
| "state_name Queued = ''queued''"
| "state_name Claimed = ''claimed''"
| "state_name Running = ''running''"
| "state_name Succeeded = ''succeeded''"
| "state_name FailedTerminal = ''failed_terminal''"
| "state_name RetryWait = ''retry_wait''"
| "state_name AwaitingReview = ''awaiting_review''"
| "state_name Cancelled = ''cancelled''"

lemma state_name_inj [simp]: "state_name a = state_name b \<longleftrightarrow> a = b"
  by (cases a; cases b) simp_all

fun state_transitions :: "task_state \<Rightarrow> task_state list" where
  "state_transitions Accepted = [Queued, Cancelled]"
| "state_transitions Queued = [Claimed, Cancelled]"
| "state_transitions Claimed = [Running, RetryWait, FailedTerminal, Cancelled]"
| "state_transitions Running = [Succeeded, FailedTerminal, RetryWait, AwaitingReview]"
| "state_transitions Succeeded = []"
| "state_transitions FailedTerminal = []"
| "state_transitions RetryWait = [Queued]"
| "state_transitions AwaitingReview = [Queued, Succeeded, FailedTerminal]"
| "state_transitions Cancelled = []"

definition validate_transition :: "task_state \<Rightarrow> task_state \<Rightarrow> bool" where
  "validate_transition a b = (b \<in> set (state_transitions a))"

section \<open>Rows\<close>

record task =
  t_id :: pystr
  t_kind :: pystr
  t_state :: task_state
  t_priority :: int
  t_mode :: pystr
  t_payload :: "pydict option"
  t_input :: "pystr option"
  t_output :: "pystr option"
  t_idem :: "pystr option"
  t_retry_at :: "int option"
  t_error :: "pystr option"
  t_review_tag :: "int option"
  t_schedule :: "pystr option"
  t_review_worker :: "pystr option"
  t_epoch :: "pystr option"
  t_created :: int
  t_updated :: int

record attempt =
  a_id :: nat
  a_task :: pystr
  a_worker :: "pystr option"
  a_model :: "pystr option"
  a_start :: "int option"
  a_end :: "int option"
  a_result :: "json option"
  a_failure :: "pystr option"
  a_created :: int

record task_event =
  ev_id :: nat
  ev_task :: pystr
  ev_type :: pystr
  ev_from :: "task_state option"
  ev_to :: "task_state option"
  ev_details :: "pystr option"
  ev_created :: int

datatype worker_status = Available | Unavailable | Busy | Maintenance

fun status_value :: "worker_status \<Rightarrow> pystr" where
  "status_value Available = ''available''"
| "status_value Unavailable = ''unavailable''"
| "status_value Busy = ''busy''"
| "status_value Maintenance = ''maintenance''"

record worker =
  w_profile :: pystr
  w_endpoint :: pystr
  w_capability :: pystr
  w_status :: worker_status
  w_resource :: "pystr option"
  w_max_concurrent :: int
  w_context_limit :: "int option"
  w_model :: "pystr option"
  w_created :: int
  w_updated :: int

record control =
  c_name :: pystr
  c_value :: pystr
  c_updated :: int
  c_by :: pystr

record control_event =
  ce_id :: nat
  ce_control :: pystr
  ce_old :: "pystr option"
  ce_new :: pystr
  ce_actor :: pystr
  ce_reason :: "pystr option"
  ce_created :: int

record epoch =
  ep_id :: pystr
  ep_name :: pystr
  ep_start :: int
  ep_end :: int
  ep_triggered :: int
  ep_barrier :: "int option"
  ep_result :: "json option"
  ep_updated :: int

record db =
  d_tasks :: "task list"
  d_attempts :: "attempt list"
  d_events :: "task_event list"
  d_workers :: "worker list"
  d_controls :: "control list"
  d_ctl_events :: "control_event list"
  d_epochs :: "epoch list"

section \<open>Reading and updating\<close>

definition task_of :: "db \<Rightarrow> pystr \<Rightarrow> task option" where
  "task_of d i = row_of t_id i (d_tasks d)"

definition worker_of :: "db \<Rightarrow> pystr \<Rightarrow> worker option" where
  "worker_of d p = row_of w_profile p (d_workers d)"

definition update_tasks :: "(task \<Rightarrow> bool) \<Rightarrow> (task \<Rightarrow> task) \<Rightarrow> db \<Rightarrow> db" where
  "update_tasks p f d = d\<lparr>d_tasks := update_where p f (d_tasks d)\<rparr>"

definition update_attempts :: "(attempt \<Rightarrow> bool) \<Rightarrow> (attempt \<Rightarrow> attempt) \<Rightarrow> db \<Rightarrow> db" where
  "update_attempts p f d = d\<lparr>d_attempts := update_where p f (d_attempts d)\<rparr>"

definition insert_event :: "pystr \<Rightarrow> pystr \<Rightarrow> task_state option \<Rightarrow> task_state option \<Rightarrow> pystr option
    \<Rightarrow> int \<Rightarrow> db \<Rightarrow> db" where
  "insert_event i ty fr to det now d = d\<lparr>d_events := d_events d @
     [\<lparr>ev_id = length (d_events d) + 1, ev_task = i, ev_type = ty, ev_from = fr, ev_to = to,
       ev_details = det, ev_created = now\<rparr>]\<rparr>"

definition insert_control_event :: "pystr \<Rightarrow> pystr option \<Rightarrow> pystr \<Rightarrow> pystr \<Rightarrow> pystr option
    \<Rightarrow> int \<Rightarrow> db \<Rightarrow> db" where
  "insert_control_event c old new actor reason now d = d\<lparr>d_ctl_events := d_ctl_events d @
     [\<lparr>ce_id = length (d_ctl_events d) + 1, ce_control = c, ce_old = old, ce_new = new,
       ce_actor = actor, ce_reason = reason, ce_created = now\<rparr>]\<rparr>"

definition state_of :: "db \<Rightarrow> pystr \<Rightarrow> task_state option" where
  "state_of d i = map_option t_state (task_of d i)"

lemma update_tasks_sel [table_simps]:
  "d_tasks (update_tasks p f d) = update_where p f (d_tasks d)"
  "d_attempts (update_tasks p f d) = d_attempts d"
  "d_events (update_tasks p f d) = d_events d"
  "d_workers (update_tasks p f d) = d_workers d"
  "d_controls (update_tasks p f d) = d_controls d"
  "d_ctl_events (update_tasks p f d) = d_ctl_events d"
  "d_epochs (update_tasks p f d) = d_epochs d"
  by (simp_all add: update_tasks_def)

lemma update_attempts_sel [table_simps]:
  "d_tasks (update_attempts p g d) = d_tasks d"
  "d_attempts (update_attempts p g d) = update_where p g (d_attempts d)"
  "d_events (update_attempts p g d) = d_events d"
  "d_workers (update_attempts p g d) = d_workers d"
  "d_controls (update_attempts p g d) = d_controls d"
  "d_ctl_events (update_attempts p g d) = d_ctl_events d"
  "d_epochs (update_attempts p g d) = d_epochs d"
  by (simp_all add: update_attempts_def)

lemma insert_event_sel [table_simps]:
  "d_tasks (insert_event i ty fr to det now d) = d_tasks d"
  "d_attempts (insert_event i ty fr to det now d) = d_attempts d"
  "d_workers (insert_event i ty fr to det now d) = d_workers d"
  "d_controls (insert_event i ty fr to det now d) = d_controls d"
  "d_ctl_events (insert_event i ty fr to det now d) = d_ctl_events d"
  "d_epochs (insert_event i ty fr to det now d) = d_epochs d"
  by (simp_all add: insert_event_def)

lemma insert_control_event_sel [table_simps]:
  "d_tasks (insert_control_event c old new actor reason now d) = d_tasks d"
  "d_attempts (insert_control_event c old new actor reason now d) = d_attempts d"
  "d_events (insert_control_event c old new actor reason now d) = d_events d"
  "d_workers (insert_control_event c old new actor reason now d) = d_workers d"
  "d_controls (insert_control_event c old new actor reason now d) = d_controls d"
  "d_epochs (insert_control_event c old new actor reason now d) = d_epochs d"
  by (simp_all add: insert_control_event_def)

lemma task_of_update_tasks [table_simps]:
  assumes "\<And>r. p r \<Longrightarrow> t_id (f r) = t_id r"
  shows "task_of (update_tasks p f d) i = map_option (\<lambda>r. if p r then f r else r) (task_of d i)"
  using assms by (simp add: task_of_def table_simps row_of_update_where)

lemma task_of_other [table_simps]:
  "task_of (update_attempts q g d) i = task_of d i"
  "task_of (insert_event j ty fr to det now d) i = task_of d i"
  "task_of (insert_control_event c old new actor reason now d) i = task_of d i"
  by (simp_all add: task_of_def table_simps)

lemma task_of_id: "task_of d i = Some r \<Longrightarrow> t_id r = i \<and> r \<in> set (d_tasks d)"
  unfolding task_of_def by (blast dest: row_of_Some_in)

end
