(* ===== verification/SqlSession.thy ===== *)
theory SqlSession
  imports BrokerDb
begin

text \<open>
  How a scheduler method talks to SQLite.  A session is the committed database, the working copy of an
  open BEGIN IMMEDIATE transaction (if any) and a statement counter.  Each statement of the Python code
  is one step of the session: it may fail (the environment says which statements do, and how), and,
  while this client holds no write lock, other clients may change the database just before it.
  Connections are opened with \<open>isolation_level=None\<close>, so a statement outside a transaction commits by
  itself.  While a transaction is open no other connection can write, the same method's own second
  connections included.
\<close>

section \<open>Exceptions\<close>

datatype exn =
    Locked
  | Operational
  | Integrity
  | Programming
  | SqlOther
  | ValueErr pystr
  | TypeErr
  | AttributeErr
  | UnboundLocal
  | OsErr
  | JsonErr
  | StopIter
  | Expired
  | ProcessErr
  | KeyErr
  | IndexErr
  | OverflowErr
  | UrlErr
  | ProfileErr pystr
  | PermErr
  | ExistsErr
  | NotFoundErr pystr
  | SecurityErr pystr
  | RecursionErr

fun is_operational :: "exn \<Rightarrow> bool" where
  "is_operational Locked = True"
| "is_operational Operational = True"
| "is_operational _ = False"

fun is_sqlite :: "exn \<Rightarrow> bool" where
  "is_sqlite Locked = True"
| "is_sqlite Operational = True"
| "is_sqlite Integrity = True"
| "is_sqlite Programming = True"
| "is_sqlite SqlOther = True"
| "is_sqlite _ = False"

fun is_value_error :: "exn \<Rightarrow> bool" where
  "is_value_error (ValueErr m) = True"
| "is_value_error JsonErr = True"
| "is_value_error (SecurityErr m) = True"
| "is_value_error _ = False"

text \<open>\<open>OSError\<close> and the classes below it that the code tells apart.\<close>

fun os_error :: "exn \<Rightarrow> bool" where
  "os_error OsErr = True"
| "os_error PermErr = True"
| "os_error ExistsErr = True"
| "os_error (NotFoundErr m) = True"
| "os_error UrlErr = True"
| "os_error _ = False"

lemma operational_is_sqlite: "is_operational e \<Longrightarrow> is_sqlite e"
  by (cases e) simp_all

section \<open>Sessions\<close>

record env =
  e_fault :: "nat \<Rightarrow> exn option"
  e_others :: "nat \<Rightarrow> db \<Rightarrow> db"
  e_clock :: "nat \<Rightarrow> int"

record sess =
  s_db :: db
  s_txn :: "db option"
  s_tick :: nat

type_synonym 'a session = "env \<Rightarrow> sess \<Rightarrow> (exn + 'a) \<times> sess"

definition visible :: "sess \<Rightarrow> db" where
  "visible s = (case s_txn s of None \<Rightarrow> s_db s | Some w \<Rightarrow> w)"

definition interfere :: "env \<Rightarrow> sess \<Rightarrow> sess" where
  "interfere env s = s\<lparr>s_db := (if s_txn s = None then e_others env (s_tick s) (s_db s) else s_db s),
                       s_tick := s_tick s + 1\<rparr>"

definition stmt :: "(sess \<Rightarrow> (exn + 'a) \<times> sess) \<Rightarrow> 'a session" where
  "stmt f env s = (case e_fault env (s_tick s) of
      Some e \<Rightarrow> (Inl e, interfere env s)
    | None \<Rightarrow> f (interfere env s))"

definition ret :: "'a \<Rightarrow> 'a session" where
  "ret a env s = (Inr a, s)"

definition throw :: "exn \<Rightarrow> 'a session" where
  "throw e env s = (Inl e, s)"

definition sbind :: "'a session \<Rightarrow> ('a \<Rightarrow> 'b session) \<Rightarrow> 'b session" where
  "sbind m f env s = (case m env s of (Inl e, s') \<Rightarrow> (Inl e, s') | (Inr a, s') \<Rightarrow> f a env s')"

definition sthen :: "'a session \<Rightarrow> 'b session \<Rightarrow> 'b session" where
  "sthen m n = sbind m (\<lambda>_. n)"

text \<open>\<open>try m except p: h\<close>\<close>

definition try_except :: "'a session \<Rightarrow> (exn \<Rightarrow> bool) \<Rightarrow> (exn \<Rightarrow> 'a session) \<Rightarrow> 'a session" where
  "try_except m p h env s = (case m env s of
      (Inl e, s') \<Rightarrow> if p e then h e env s' else (Inl e, s')
    | (Inr a, s') \<Rightarrow> (Inr a, s'))"

text \<open>The session's clock; reading it is not a statement.\<close>

definition now_utc :: "int session" where
  "now_utc env s = (Inr (e_clock env (s_tick s)), s)"

section \<open>Statements\<close>

definition connect :: "unit session" where
  "connect = stmt (\<lambda>s. (Inr (), s))"

definition query :: "(db \<Rightarrow> 'a) \<Rightarrow> 'a session" where
  "query f = stmt (\<lambda>s. (Inr (f (visible s)), s))"

text \<open>A query on another connection sees the committed database only.\<close>

definition query_other :: "(db \<Rightarrow> 'a) \<Rightarrow> 'a session" where
  "query_other f = stmt (\<lambda>s. (Inr (f (s_db s)), s))"

text \<open>
  A writing statement gives the new database and its row count, or a constraint violation.
\<close>

definition exec :: "(db \<Rightarrow> exn + db \<times> nat) \<Rightarrow> nat session" where
  "exec f = stmt (\<lambda>s. case f (visible s) of
      Inl e \<Rightarrow> (Inl e, s)
    | Inr (d, n) \<Rightarrow> (Inr n, (case s_txn s of None \<Rightarrow> s\<lparr>s_db := d\<rparr> | Some w \<Rightarrow> s\<lparr>s_txn := Some d\<rparr>)))"

definition exec_other :: "(db \<Rightarrow> exn + db \<times> nat) \<Rightarrow> nat session" where
  "exec_other f = stmt (\<lambda>s. case s_txn s of Some w \<Rightarrow> (Inl Locked, s)
     | None \<Rightarrow> (case f (s_db s) of Inl e \<Rightarrow> (Inl e, s) | Inr (d, n) \<Rightarrow> (Inr n, s\<lparr>s_db := d\<rparr>)))"

definition begin_immediate :: "unit session" where
  "begin_immediate = stmt (\<lambda>s. (Inr (), s\<lparr>s_txn := Some (s_db s)\<rparr>))"

definition commit :: "unit session" where
  "commit = stmt (\<lambda>s. (Inr (), (case s_txn s of None \<Rightarrow> s | Some w \<Rightarrow> s\<lparr>s_db := w, s_txn := None\<rparr>)))"

definition rollback :: "unit session" where
  "rollback env s = (Inr (), s\<lparr>s_txn := None\<rparr>)"

text \<open>
  A method's connection is closed (or collected) when the method returns or raises: whatever transaction
  is still open is rolled back.
\<close>

definition scoped :: "'a session \<Rightarrow> 'a session" where
  "scoped m env s = (case m env s of (r, s') \<Rightarrow> (r, s'\<lparr>s_txn := None\<rparr>))"

section \<open>Weakest preconditions\<close>

text \<open>
  \<open>gwp C m Q E d w\<close>: from committed database \<open>d\<close> and transaction \<open>w\<close>, in every environment of \<open>C\<close>, \<open>m\<close> ends in
  \<open>Q\<close> when it returns and in \<open>E\<close> when it raises.  \<open>wp R\<close> is the case where any statement may fail and the
  other clients act within \<open>R\<close>; \<open>calm_sql\<close> that of a client alone with a database that works.
\<close>

definition others_within :: "(db \<Rightarrow> db \<Rightarrow> bool) \<Rightarrow> env \<Rightarrow> bool" where
  "others_within R env = (\<forall>t d. R d (e_others env t d))"

definition calm_sql :: "env \<Rightarrow> bool" where
  "calm_sql env = ((\<forall>t d. e_others env t d = d) \<and> (\<forall>t. e_fault env t = None))"

definition gwp :: "(env \<Rightarrow> bool) \<Rightarrow> 'a session \<Rightarrow> ('a \<Rightarrow> db \<Rightarrow> db option \<Rightarrow> bool)
    \<Rightarrow> (exn \<Rightarrow> db \<Rightarrow> db option \<Rightarrow> bool) \<Rightarrow> db \<Rightarrow> db option \<Rightarrow> bool" where
  "gwp C m Q E d w = (\<forall>env s. C env \<and> s_db s = d \<and> s_txn s = w \<longrightarrow>
     (case m env s of (Inr a, s') \<Rightarrow> Q a (s_db s') (s_txn s') | (Inl e, s') \<Rightarrow> E e (s_db s') (s_txn s')))"

abbreviation wp :: "(db \<Rightarrow> db \<Rightarrow> bool) \<Rightarrow> 'a session \<Rightarrow> ('a \<Rightarrow> db \<Rightarrow> db option \<Rightarrow> bool)
    \<Rightarrow> (exn \<Rightarrow> db \<Rightarrow> db option \<Rightarrow> bool) \<Rightarrow> db \<Rightarrow> db option \<Rightarrow> bool" where
  "wp R \<equiv> gwp (others_within R)"

lemma wpD:
  assumes "gwp C m Q E d w" "C env" "s_db s = d" "s_txn s = w" "m env s = (r, s')"
  shows "case r of Inr a \<Rightarrow> Q a (s_db s') (s_txn s') | Inl e \<Rightarrow> E e (s_db s') (s_txn s')"
  using assms by (fastforce simp: gwp_def split: sum.splits)

lemma wp_ret [wp_intros]: "Q a d w \<Longrightarrow> gwp C (ret a) Q E d w"
  by (simp add: gwp_def ret_def)

lemma wp_throw [wp_intros]: "E e d w \<Longrightarrow> gwp C (throw e) Q E d w"
  by (simp add: gwp_def throw_def)

lemma wp_sbind [wp_intros]: "gwp C m (\<lambda>a. gwp C (f a) Q E) E d w \<Longrightarrow> gwp C (sbind m f) Q E d w"
  by (fastforce simp: gwp_def sbind_def split: prod.splits sum.splits)

lemma wp_sthen [wp_intros]: "gwp C m (\<lambda>a. gwp C n Q E) E d w \<Longrightarrow> gwp C (sthen m n) Q E d w"
  by (simp add: sthen_def wp_sbind)

lemma wp_try [wp_intros]:
  "gwp C m Q (\<lambda>e d' w'. if p e then gwp C (h e) Q E d' w' else E e d' w') d w \<Longrightarrow>
   gwp C (try_except m p h) Q E d w"
  by (fastforce simp: gwp_def try_except_def split: prod.splits sum.splits if_splits)

lemma wp_if [wp_intros]:
  "(b \<Longrightarrow> gwp C m Q E d w) \<Longrightarrow> (\<not> b \<Longrightarrow> gwp C n Q E d w) \<Longrightarrow> gwp C (if b then m else n) Q E d w"
  by simp

lemma wp_case_option [wp_intros]:
  "(x = None \<Longrightarrow> gwp C m Q E d w) \<Longrightarrow> (\<And>a. x = Some a \<Longrightarrow> gwp C (f a) Q E d w) \<Longrightarrow>
   gwp C (case x of None \<Rightarrow> m | Some a \<Rightarrow> f a) Q E d w"
  by (cases x) simp_all

lemma wp_case_sum [wp_intros]:
  "(\<And>e. x = Inl e \<Longrightarrow> gwp C (g e) Q E d w) \<Longrightarrow> (\<And>a. x = Inr a \<Longrightarrow> gwp C (f a) Q E d w) \<Longrightarrow>
   gwp C (case x of Inl e \<Rightarrow> g e | Inr a \<Rightarrow> f a) Q E d w"
  by (cases x) simp_all

lemma wp_let [wp_intros]: "gwp C (f x) Q E d w \<Longrightarrow> gwp C (let y = x in f y) Q E d w"
  by simp

lemma wp_now [wp_intros]: "(\<And>t. Q t d w) \<Longrightarrow> gwp C now_utc Q E d w"
  by (simp add: gwp_def now_utc_def)

lemma wp_rollback [wp_intros]: "Q () d None \<Longrightarrow> gwp C rollback Q E d w"
  by (simp add: gwp_def rollback_def)

lemma wp_scoped [wp_intros]:
  "gwp C m (\<lambda>a d' w'. Q a d' None) (\<lambda>e d' w'. E e d' None) d w \<Longrightarrow> gwp C (scoped m) Q E d w"
  by (fastforce simp: gwp_def scoped_def split: prod.splits sum.splits)

lemma interfere_auto:
  "s_txn s = None \<Longrightarrow> interfere env s =
     \<lparr>s_db = e_others env (s_tick s) (s_db s), s_txn = None, s_tick = s_tick s + 1\<rparr>"
  by (cases s) (simp add: interfere_def)

lemma interfere_txn:
  "s_txn s = Some x \<Longrightarrow> interfere env s = \<lparr>s_db = s_db s, s_txn = Some x, s_tick = s_tick s + 1\<rparr>"
  by (cases s) (simp add: interfere_def)

lemma wp_stmt_auto:
  assumes "\<And>d' t. R d d' \<Longrightarrow> case f \<lparr>s_db = d', s_txn = None, s_tick = t\<rparr> of
      (Inr a, s') \<Rightarrow> Q a (s_db s') (s_txn s') | (Inl e, s') \<Rightarrow> E e (s_db s') (s_txn s')"
    and "\<And>e d'. R d d' \<Longrightarrow> E e d' None"
  shows "wp R (stmt f) Q E d None"
  unfolding gwp_def stmt_def
proof (intro allI impI, elim conjE)
  fix env :: env and s :: sess assume a: "others_within R env" "s_db s = d" "s_txn s = None"
  then have "R d (e_others env (s_tick s) (s_db s))" by (simp add: others_within_def)
  then show "case (case e_fault env (s_tick s) of None \<Rightarrow> f (interfere env s) | Some e \<Rightarrow> (Inl e, interfere env s)) of
      (Inl e, s') \<Rightarrow> E e (s_db s') (s_txn s') | (Inr a, s') \<Rightarrow> Q a (s_db s') (s_txn s')"
    using assms by (simp add: interfere_auto [OF a(3)] split: option.splits)
qed

lemma wp_stmt_txn:
  assumes "\<And>t. case f \<lparr>s_db = d, s_txn = Some x, s_tick = t\<rparr> of
      (Inr a, s') \<Rightarrow> Q a (s_db s') (s_txn s') | (Inl e, s') \<Rightarrow> E e (s_db s') (s_txn s')"
    and "\<And>e. E e d (Some x)"
  shows "wp R (stmt f) Q E d (Some x)"
  unfolding gwp_def stmt_def
proof (intro allI impI, elim conjE)
  fix env :: env and s :: sess assume a: "s_db s = d" "s_txn s = Some x"
  show "case (case e_fault env (s_tick s) of None \<Rightarrow> f (interfere env s) | Some e \<Rightarrow> (Inl e, interfere env s)) of
      (Inl e, s') \<Rightarrow> E e (s_db s') (s_txn s') | (Inr a, s') \<Rightarrow> Q a (s_db s') (s_txn s')"
    using assms a by (simp add: interfere_txn [OF a(2)] split: option.splits)
qed

lemma wp_connect [wp_intros]:
  "(\<And>d'. R d d' \<Longrightarrow> Q () d' None) \<Longrightarrow> (\<And>e d'. R d d' \<Longrightarrow> E e d' None) \<Longrightarrow> wp R connect Q E d None"
  unfolding connect_def by (rule wp_stmt_auto) auto

lemma wp_connect_txn [wp_intros]:
  "Q () d (Some x) \<Longrightarrow> (\<And>e. E e d (Some x)) \<Longrightarrow> wp R connect Q E d (Some x)"
  unfolding connect_def by (rule wp_stmt_txn) auto

lemma wp_query [wp_intros]:
  "(\<And>d'. R d d' \<Longrightarrow> Q (f d') d' None) \<Longrightarrow> (\<And>e d'. R d d' \<Longrightarrow> E e d' None) \<Longrightarrow> wp R (query f) Q E d None"
  unfolding query_def by (rule wp_stmt_auto) (auto simp: visible_def)

lemma wp_query_txn [wp_intros]:
  "Q (f x) d (Some x) \<Longrightarrow> (\<And>e. E e d (Some x)) \<Longrightarrow> wp R (query f) Q E d (Some x)"
  unfolding query_def by (rule wp_stmt_txn) (auto simp: visible_def)

lemma wp_query_other [wp_intros]:
  "(\<And>d'. R d d' \<Longrightarrow> Q (f d') d' None) \<Longrightarrow> (\<And>e d'. R d d' \<Longrightarrow> E e d' None) \<Longrightarrow>
   wp R (query_other f) Q E d None"
  unfolding query_other_def by (rule wp_stmt_auto) auto

lemma wp_query_other_txn [wp_intros]:
  "Q (f d) d (Some x) \<Longrightarrow> (\<And>e. E e d (Some x)) \<Longrightarrow> wp R (query_other f) Q E d (Some x)"
  unfolding query_other_def by (rule wp_stmt_txn) auto

lemma wp_exec [wp_intros]:
  "(\<And>d' d'' n. R d d' \<Longrightarrow> f d' = Inr (d'', n) \<Longrightarrow> Q n d'' None) \<Longrightarrow>
   (\<And>e d'. R d d' \<Longrightarrow> E e d' None) \<Longrightarrow> wp R (exec f) Q E d None"
  unfolding exec_def by (rule wp_stmt_auto) (auto simp: visible_def split: sum.splits prod.splits)

lemma wp_exec_txn [wp_intros]:
  "(\<And>x' n. f x = Inr (x', n) \<Longrightarrow> Q n d (Some x')) \<Longrightarrow> (\<And>e. E e d (Some x)) \<Longrightarrow>
   wp R (exec f) Q E d (Some x)"
  unfolding exec_def by (rule wp_stmt_txn) (auto simp: visible_def split: sum.splits prod.splits)

lemma wp_exec_other [wp_intros]:
  "(\<And>d' d'' n. R d d' \<Longrightarrow> f d' = Inr (d'', n) \<Longrightarrow> Q n d'' None) \<Longrightarrow>
   (\<And>e d'. R d d' \<Longrightarrow> E e d' None) \<Longrightarrow> wp R (exec_other f) Q E d None"
  unfolding exec_other_def by (rule wp_stmt_auto) (auto split: sum.splits prod.splits)

lemma wp_begin [wp_intros]:
  "(\<And>d'. R d d' \<Longrightarrow> Q () d' (Some d')) \<Longrightarrow> (\<And>e d'. R d d' \<Longrightarrow> E e d' None) \<Longrightarrow>
   wp R begin_immediate Q E d None"
  unfolding begin_immediate_def by (rule wp_stmt_auto) auto

lemma wp_commit_txn [wp_intros]:
  "Q () x None \<Longrightarrow> (\<And>e. E e d (Some x)) \<Longrightarrow> wp R commit Q E d (Some x)"
  unfolding commit_def by (rule wp_stmt_txn) auto

lemma wp_commit_auto [wp_intros]:
  "(\<And>d'. R d d' \<Longrightarrow> Q () d' None) \<Longrightarrow> (\<And>e d'. R d d' \<Longrightarrow> E e d' None) \<Longrightarrow> wp R commit Q E d None"
  unfolding commit_def by (rule wp_stmt_auto) auto

lemma wp_mono:
  assumes "gwp C m Q E d w" "\<And>a d' w'. Q a d' w' \<Longrightarrow> Q' a d' w'" "\<And>e d' w'. E e d' w' \<Longrightarrow> E' e d' w'"
  shows "gwp C m Q' E' d w"
  using assms by (fastforce simp: gwp_def split: prod.splits sum.splits)

lemma gwp_stmt_calm:
  assumes "\<And>t. case f \<lparr>s_db = d, s_txn = w, s_tick = t\<rparr> of
      (Inr a, s') \<Rightarrow> Q a (s_db s') (s_txn s') | (Inl e, s') \<Rightarrow> E e (s_db s') (s_txn s')"
  shows "gwp calm_sql (stmt f) Q E d w"
  unfolding gwp_def stmt_def
proof (intro allI impI, elim conjE)
  fix env :: env and s :: sess assume a: "calm_sql env" "s_db s = d" "s_txn s = w"
  then have "interfere env s = \<lparr>s_db = d, s_txn = w, s_tick = s_tick s + 1\<rparr>"
    by (cases s) (simp add: interfere_def calm_sql_def)
  then show "case (case e_fault env (s_tick s) of None \<Rightarrow> f (interfere env s) | Some e \<Rightarrow> (Inl e, interfere env s)) of
      (Inl e, s') \<Rightarrow> E e (s_db s') (s_txn s') | (Inr a, s') \<Rightarrow> Q a (s_db s') (s_txn s')"
    using assms a(1) by (simp add: calm_sql_def)
qed

lemma gwp_calm [wp_intros]:
  "Q () d w \<Longrightarrow> gwp calm_sql connect Q E d w"
  "P (f (case w of None \<Rightarrow> d | Some x \<Rightarrow> x)) d w \<Longrightarrow> gwp calm_sql (query f) P E d w"
  "P' (g d) d w \<Longrightarrow> gwp calm_sql (query_other g) P' E d w"
  "Q () d (Some d) \<Longrightarrow> gwp calm_sql begin_immediate Q E d w"
  "(case w of None \<Rightarrow> Q () d None | Some x \<Rightarrow> Q () x None) \<Longrightarrow> gwp calm_sql commit Q E d w"
  by (cases w; auto intro!: gwp_stmt_calm
       simp: connect_def query_def query_other_def begin_immediate_def commit_def visible_def)+

lemma gwp_exec_calm [wp_intros]:
  assumes "case h (case w of None \<Rightarrow> d | Some x \<Rightarrow> x) of Inl e \<Rightarrow> E e d w
    | Inr (d', n) \<Rightarrow> (case w of None \<Rightarrow> Q n d' None | Some x \<Rightarrow> Q n d (Some d'))"
  shows "gwp calm_sql (exec h) Q E d w"
  unfolding exec_def by (rule gwp_stmt_calm) (use assms in \<open>auto simp: visible_def split: option.splits sum.splits\<close>)

lemma gwp_exec_other_calm [wp_intros]:
  assumes "case w of Some x \<Rightarrow> E Locked d w | None \<Rightarrow> (case h d of Inl e \<Rightarrow> E e d w | Inr (d', n) \<Rightarrow> Q n d' w)"
  shows "gwp calm_sql (exec_other h) Q E d w"
  unfolding exec_other_def by (rule gwp_stmt_calm) (use assms in \<open>auto split: option.splits sum.splits\<close>)

section \<open>A contract for methods\<close>

text \<open>
  \<open>obeys G m\<close>: run from outside a transaction, among clients that keep to \<open>G\<close>, the method \<open>m\<close> changes
  the committed database only as \<open>G\<close> allows, whatever fails, and leaves no transaction open.  When \<open>G\<close>
  is reflexive and transitive the contract is closed under sequencing and handlers.
\<close>

definition obeys :: "(db \<Rightarrow> db \<Rightarrow> bool) \<Rightarrow> 'a session \<Rightarrow> bool" where
  "obeys G m = (\<forall>d. wp G m (\<lambda>_ d' w. w = None \<and> G d d') (\<lambda>_ d' w. w = None \<and> G d d') d None)"

locale guarantee =
  fixes G :: "db \<Rightarrow> db \<Rightarrow> bool"
  assumes G_refl: "G d d"
    and G_trans: "G a b \<Longrightarrow> G b c \<Longrightarrow> G a c"
begin

lemma obeys_ret [obeys_intros]: "obeys G (ret a)"
  by (simp add: obeys_def wp_ret G_refl)

lemma obeys_throw [obeys_intros]: "obeys G (throw e)"
  by (simp add: obeys_def wp_throw G_refl)

lemma obeys_use:
  assumes "obeys G m" "G d0 d"
    "\<And>a d'. G d0 d' \<Longrightarrow> Q a d' None" "\<And>e d'. G d0 d' \<Longrightarrow> E e d' None"
  shows "wp G m Q E d None"
proof (rule wp_mono)
  show "wp G m (\<lambda>_ d' w. w = None \<and> G d d') (\<lambda>_ d' w. w = None \<and> G d d') d None"
    using assms(1) by (simp add: obeys_def)
qed (use assms(2-4) G_trans in blast)+

lemma obeys_sbind [obeys_intros]: "obeys G m \<Longrightarrow> (\<And>a. obeys G (f a)) \<Longrightarrow> obeys G (sbind m f)"
  unfolding obeys_def [of G "sbind m f"]
  by (blast intro: wp_sbind obeys_use G_refl)

lemma obeys_sthen [obeys_intros]: "obeys G m \<Longrightarrow> obeys G n \<Longrightarrow> obeys G (sthen m n)"
  by (simp add: sthen_def obeys_sbind)

lemma obeys_query [obeys_intros]: "obeys G (query f)"
  by (auto simp: obeys_def intro!: wp_query)

lemma obeys_query_other [obeys_intros]: "obeys G (query_other f)"
  by (auto simp: obeys_def intro!: wp_query_other)

lemma obeys_connect [obeys_intros]: "obeys G connect"
  by (auto simp: obeys_def intro!: wp_connect)

lemma obeys_commit [obeys_intros]: "obeys G commit"
  by (auto simp: obeys_def intro!: wp_commit_auto)

lemma obeys_rollback [obeys_intros]: "obeys G rollback"
  by (simp add: obeys_def wp_rollback G_refl)

lemma obeys_now [obeys_intros]: "obeys G now_utc"
  by (simp add: obeys_def wp_now G_refl)

lemma obeys_exec [obeys_intros]:
  "(\<And>d d' n. f d = Inr (d', n) \<Longrightarrow> G d d') \<Longrightarrow> obeys G (exec f)"
  by (auto simp: obeys_def intro!: wp_exec intro: G_trans)

lemma obeys_exec_other [obeys_intros]:
  "(\<And>d d' n. f d = Inr (d', n) \<Longrightarrow> G d d') \<Longrightarrow> obeys G (exec_other f)"
  by (auto simp: obeys_def intro!: wp_exec_other intro: G_trans)

lemma obeys_scoped [obeys_intros]: "obeys G m \<Longrightarrow> obeys G (scoped m)"
  unfolding obeys_def [of G "scoped m"] by (auto intro!: wp_scoped obeys_use [of m] intro: G_refl)

lemma obeys_if [obeys_intros]:
  "(b \<Longrightarrow> obeys G m) \<Longrightarrow> (\<not> b \<Longrightarrow> obeys G n) \<Longrightarrow> obeys G (if b then m else n)"
  by simp

lemma obeys_option [obeys_intros]:
  "obeys G m \<Longrightarrow> (\<And>a. x = Some a \<Longrightarrow> obeys G (f a)) \<Longrightarrow> obeys G (case x of None \<Rightarrow> m | Some a \<Rightarrow> f a)"
  by (cases x) simp_all

lemma obeys_sum [obeys_intros]:
  "(\<And>e. x = Inl e \<Longrightarrow> obeys G (g e)) \<Longrightarrow> (\<And>a. x = Inr a \<Longrightarrow> obeys G (f a)) \<Longrightarrow>
   obeys G (case x of Inl e \<Rightarrow> g e | Inr a \<Rightarrow> f a)"
  by (cases x) simp_all

lemma obeys_let [obeys_intros]: "obeys G (f x) \<Longrightarrow> obeys G (let y = x in f y)"
  by simp

lemma obeys_try [obeys_intros]: "obeys G m \<Longrightarrow> (\<And>e. obeys G (h e)) \<Longrightarrow> obeys G (try_except m p h)"
  unfolding obeys_def [of G "try_except m p h"]
  by (auto intro!: wp_try obeys_use [of m] obeys_use [of "h _"] intro: G_refl)

lemma obeys_run:
  assumes "obeys G m" "others_within G env" "s_txn s = None" "m env s = (r, s')"
  shows "s_txn s' = None \<and> G (s_db s) (s_db s')"
  using wpD [OF spec [of _ "s_db s", OF assms(1) [unfolded obeys_def]] assms(2) refl assms(3,4)]
  by (cases r) simp_all

end

text \<open>With no other client at work a property of the pair of databases is all that is left.\<close>

definition quiet :: "env \<Rightarrow> bool" where
  "quiet env = (\<forall>t d. e_others env t d = d)"

lemma quiet_within: "quiet env \<longleftrightarrow> others_within (\<lambda>d d'. d' = d) env"
  by (simp add: quiet_def others_within_def)

end
