(* ===== verification/Workers.thy ===== *)
theory Workers
  imports SqlSession
begin

text \<open>
  The worker registry of gtx_broker/scheduler/workers.py.  Every registry method opens its own
  connection, so it reads the committed database and cannot write while the caller holds a transaction.
\<close>

section \<open>Registry\<close>

definition insert_worker_row :: "worker \<Rightarrow> db \<Rightarrow> exn + db \<times> nat" where
  "insert_worker_row w d = (if worker_of d (w_profile w) = None
     then Inr (d\<lparr>d_workers := d_workers d @ [w]\<rparr>, 1) else Inr (d, 0))"

definition replace_worker_row :: "worker \<Rightarrow> db \<Rightarrow> exn + db \<times> nat" where
  "replace_worker_row w d =
     Inr (d\<lparr>d_workers := filter (\<lambda>v. w_profile v \<noteq> w_profile w) (d_workers d) @ [w]\<rparr>, 1)"

definition set_worker_status :: "pystr \<Rightarrow> worker_status \<Rightarrow> int \<Rightarrow> db \<Rightarrow> exn + db \<times> nat" where
  "set_worker_status p st now d =
     Inr (d\<lparr>d_workers := update_where (\<lambda>w. w_profile w = p)
               (\<lambda>w. w\<lparr>w_status := st, w_updated := now\<rparr>) (d_workers d)\<rparr>,
          count_where (\<lambda>w. w_profile w = p) (d_workers d))"

definition register_worker :: "worker \<Rightarrow> bool session" where
  "register_worker w = scoped (
     sbind now_utc (\<lambda>t.
     sthen (exec_other (replace_worker_row (w\<lparr>w_created := t\<rparr>)))
     (ret True)))"

definition insert_worker :: "worker \<Rightarrow> bool session" where
  "insert_worker w = sbind (exec_other (insert_worker_row w)) (\<lambda>n. ret (n > 0))"

definition get_worker :: "pystr \<Rightarrow> worker option session" where
  "get_worker p = query_other (\<lambda>d. worker_of d p)"

definition get_worker_by_resource :: "pystr \<Rightarrow> worker option session" where
  "get_worker_by_resource r = query_other (\<lambda>d. find (\<lambda>w. w_resource w = Some r) (d_workers d))"

definition get_all_workers :: "worker list session" where
  "get_all_workers = query_other d_workers"

definition update_status :: "pystr \<Rightarrow> worker_status \<Rightarrow> bool session" where
  "update_status p st = sbind now_utc (\<lambda>t.
     sbind (exec_other (set_worker_status p st t)) (\<lambda>n. ret (n > 0)))"

text \<open>The choice among the registered workers; a context size of 0 asks for nothing.\<close>

definition capable_workers :: "pystr \<Rightarrow> int \<Rightarrow> worker list \<Rightarrow> worker list" where
  "capable_workers capability context_size ws = (let
      capable = filter (\<lambda>w. contains (lower capability) (lower (w_capability w))) ws;
      fitting = (if context_size \<noteq> 0
        then filter (\<lambda>w. case w_context_limit w of None \<Rightarrow> True | Some l \<Rightarrow> context_size \<le> l) capable
        else capable)
    in filter (\<lambda>w. w_status w = Available) fitting)"

definition select_worker :: "pystr \<Rightarrow> int \<Rightarrow> worker option session" where
  "select_worker capability context_size = sbind get_all_workers (\<lambda>ws.
     case capable_workers capability context_size ws of [] \<Rightarrow> ret None | w # _ \<Rightarrow> ret (Some w))"

section \<open>Default workers\<close>

definition worker_profile :: "pystr \<Rightarrow> pystr \<Rightarrow> pystr \<Rightarrow> worker_status \<Rightarrow> pystr option \<Rightarrow> int option
    \<Rightarrow> pystr option \<Rightarrow> int \<Rightarrow> worker" where
  "worker_profile profile endpoint capability status resource limit model now =
     \<lparr>w_profile = profile, w_endpoint = endpoint, w_capability = capability, w_status = status,
      w_resource = resource, w_max_concurrent = 1, w_context_limit = limit, w_model = model,
      w_created = now, w_updated = now\<rparr>"

definition default_workers :: "int \<Rightarrow> worker list" where
  "default_workers now =
    [worker_profile ''p40-coding'' ''127.0.0.1:11436/v1'' ''text,code,coding'' Available (Some ''p40'')
       (Some 262144) (Some ''qwen35-coding'') now,
     worker_profile ''p40-vision'' ''127.0.0.1:11436/v1'' ''vision'' Available (Some ''p40'')
       (Some 65536) (Some ''qwen35-vision'') now,
     worker_profile ''slow-coder'' ''127.0.0.1:11437/v1'' ''text,code,coding,maintenance'' Available
       (Some ''slow-coder'') (Some 65536) (Some ''slow-coder'') now,
     worker_profile ''gtx-chat'' ''127.0.0.1:11438/v1'' ''conversation,brokering'' Available None
       (Some 65536) None now,
     worker_profile ''codex-review'' '''' ''review'' Unavailable None None (Some ''codex-review'') now,
     worker_profile ''air-review'' '''' ''review'' Unavailable None None (Some ''air-review'') now,
     worker_profile ''external-provider'' '''' ''explicit-only'' Unavailable None None None now]"

text \<open>The three environment variables \<open>initialize_workers\<close> reads, as \<open>os.getenv\<close> returns them.\<close>

record review_env =
  re_codex_review :: "pystr option"
  re_codex :: "pystr option"
  re_air_review :: "pystr option"

definition env_or :: "pystr option \<Rightarrow> pystr option \<Rightarrow> pystr option" where
  "env_or a b = (case a of Some v \<Rightarrow> if v \<noteq> [] then a else b | None \<Rightarrow> b)"

definition command_set :: "pystr option \<Rightarrow> bool" where
  "command_set c = (case c of None \<Rightarrow> False | Some v \<Rightarrow> strip v \<noteq> [])"

definition review_configured :: "review_env \<Rightarrow> (pystr \<times> bool) list" where
  "review_configured e =
     [(''codex-review'', command_set (env_or (re_codex_review e) (re_codex e))),
      (''air-review'', command_set (re_air_review e))]"

fun insert_workers :: "worker list \<Rightarrow> unit session" where
  "insert_workers [] = ret ()"
| "insert_workers (w # ws) = sthen (insert_worker w) (insert_workers ws)"

fun sync_reviewers :: "(pystr \<times> bool) list \<Rightarrow> unit session" where
  "sync_reviewers [] = ret ()"
| "sync_reviewers ((p, available) # ps) = sbind (get_worker p) (\<lambda>w.
     sthen (case w of
         None \<Rightarrow> ret True
       | Some w \<Rightarrow> if w_status w \<in> {Available, Unavailable}
           then update_status p (if available then Available else Unavailable) else ret True)
     (sync_reviewers ps))"

definition initialize_workers :: "int \<Rightarrow> review_env \<Rightarrow> unit session" where
  "initialize_workers now e =
     sthen (insert_workers (default_workers now)) (sync_reviewers (review_configured e))"

section \<open>Lemmas\<close>

lemma capable_workers_available:
  "w \<in> set (capable_workers c n ws) \<Longrightarrow> w \<in> set ws \<and> w_status w = Available"
  by (auto simp: capable_workers_def Let_def split: if_splits)

lemma worker_of_profile: "worker_of d p = Some w \<Longrightarrow> w_profile w = p \<and> w \<in> set (d_workers d)"
  unfolding worker_of_def by (blast dest: row_of_Some_in)

lemma worker_of_other [table_simps]:
  "worker_of (update_tasks q f d) p = worker_of d p"
  "worker_of (update_attempts u g d) p = worker_of d p"
  "worker_of (insert_event i ty fr to det t d) p = worker_of d p"
  "worker_of (insert_control_event c old new actor reason t d) p = worker_of d p"
  by (simp_all add: worker_of_def table_simps)

end
