(* ===== verification/RepositoryBoundary.thy ===== *)
theory RepositoryBoundary
  imports GtxPrelude
begin

text \<open>
  The owned-repository registry and the checkout preflight of gtx_broker/repository_boundary.py.
  The host is a parameter: \<open>fsys\<close> gives symlink resolution, the home directory, what is a file or
  a directory, and the answer of a read-only git command.  Paths are pathlib's pure POSIX paths and
  remotes are parsed by the part of urllib.parse.urlparse the code relies on.
\<close>

section \<open>Paths\<close>

record ppath =
  p_root :: pystr
  p_parts :: "pystr list"

definition path_of :: "pystr \<Rightarrow> ppath" where
  "path_of s = \<lparr>p_root = (if starts_with ''///'' s then ''/'' else if starts_with ''//'' s then ''//''
                     else if starts_with ''/'' s then ''/'' else ''''),
                p_parts = filter (\<lambda>w. w \<noteq> [] \<and> w \<noteq> ''.'') (split_on CHR ''/'' s)\<rparr>"

definition path_str :: "ppath \<Rightarrow> pystr" where
  "path_str p = (if p_root p = [] \<and> p_parts p = [] then ''.''
     else p_root p @ join ''/'' (p_parts p))"

definition is_absolute :: "ppath \<Rightarrow> bool" where
  "is_absolute p = (p_root p \<noteq> [])"

definition path_join :: "ppath \<Rightarrow> ppath \<Rightarrow> ppath" where
  "path_join p q = (if is_absolute q then q else p\<lparr>p_parts := p_parts p @ p_parts q\<rparr>)"

definition in_parents :: "ppath \<Rightarrow> ppath \<Rightarrow> bool" where
  "in_parents a p = (p_root a = p_root p \<and> strict_prefix (p_parts a) (p_parts p))"

section \<open>The host\<close>

record git_result =
  g_code :: int
  g_out :: pystr
  g_err :: pystr

datatype gtx_error =
    BoundaryError pystr
  | ManifestError pystr
  | OsError pystr
  | PlainValueError pystr

record fsys =
  fs_resolve :: "ppath \<Rightarrow> ppath"
  fs_expand :: "ppath \<Rightarrow> ppath"
  fs_is_dir :: "ppath \<Rightarrow> bool"
  fs_is_file :: "ppath \<Rightarrow> bool"
  fs_git :: "ppath \<Rightarrow> pystr list \<Rightarrow> pystr + git_result"

definition expanduser :: "fsys \<Rightarrow> ppath \<Rightarrow> ppath" where
  "expanduser fs p = (if p_root p = [] \<and> p_parts p \<noteq> [] \<and> starts_with ''~'' (hd (p_parts p))
     then fs_expand fs p else p)"

section \<open>Remotes\<close>

text \<open>The first occurrence of one of the characters, and the two halves around it.\<close>

definition partition_at :: "(char \<Rightarrow> bool) \<Rightarrow> pystr \<Rightarrow> pystr \<times> pystr \<times> pystr" where
  "partition_at p s = (takeWhile (\<lambda>c. \<not> p c) s, take 1 (dropWhile (\<lambda>c. \<not> p c) s),
                       drop 1 (dropWhile (\<lambda>c. \<not> p c) s))"

definition is_alpha :: "char \<Rightarrow> bool" where
  "is_alpha c = (c \<in> set upper_ascii \<or> c \<in> set lower_ascii)"

definition is_scheme_char :: "char \<Rightarrow> bool" where
  "is_scheme_char c = (is_alpha c \<or> c \<in> set digit_chars \<or> c \<in> set ''+-.'')"

record url =
  u_scheme :: pystr
  u_netloc :: pystr
  u_path :: pystr

definition uses_params :: "pystr list" where
  "uses_params = ['''', ''ftp'', ''hdl'', ''prospero'', ''http'', ''https'', ''shttp'', ''rtsp'', ''rtspu'',
     ''sip'', ''sips'', ''mms'', ''sftp'', ''tel'']"

definition split_params :: "pystr \<Rightarrow> pystr" where
  "split_params p = (case rev (split_on CHR ''/'' p) of
       [] \<Rightarrow> p
     | l # r \<Rightarrow> join ''/'' (rev (takeWhile ((\<noteq>) CHR '';'') l # r)))"

definition urlparse :: "pystr \<Rightarrow> gtx_error + url" where
  "urlparse s0 = (let s = filter (\<lambda>c. c \<notin> {CHR 0x09, CHR 0x0A, CHR 0x0D})
                       (dropWhile (\<lambda>c. (of_char c :: nat) \<le> 32) s0);
       pre = takeWhile ((\<noteq>) CHR '':'') s;
       has_scheme = (CHR '':'' \<in> set s \<and> pre \<noteq> [] \<and> is_alpha (hd pre) \<and> list_all is_scheme_char pre);
       scheme = (if has_scheme then lower pre else '''');
       rest = (if has_scheme then drop (length pre + 1) s else s);
       has_net = starts_with ''//'' rest;
       netloc = (if has_net then takeWhile (\<lambda>c. c \<notin> set ''/?#'') (drop 2 rest) else '''');
       tail = (if has_net then drop (2 + length netloc) rest else rest);
       path = takeWhile (\<lambda>c. c \<notin> set ''?#'') tail
     in if (CHR ''['' \<in> set netloc) \<noteq> (CHR '']'' \<in> set netloc)
        then Inl (PlainValueError ''Invalid IPv6 URL'')
        else Inr \<lparr>u_scheme = scheme, u_netloc = netloc,
                  u_path = (if scheme \<in> set uses_params then split_params path else path)\<rparr>)"

definition url_hostname :: "url \<Rightarrow> pystr" where
  "url_hostname u = (let info = last (split_on CHR ''@'' (u_netloc u)) in
     if CHR ''['' \<in> set info
     then (case partition_at ((=) CHR ''['') info of (_, _, b) \<Rightarrow> takeWhile ((\<noteq>) CHR '']'') b)
     else takeWhile ((\<noteq>) CHR '':'') info)"

definition normalize_remote :: "pystr \<Rightarrow> gtx_error + pystr" where
  "normalize_remote remote = (if strip remote = []
     then Inl (BoundaryError ''repository remote must be a non-empty string'')
     else let value = rstrip_char CHR ''/'' (strip remote);
              value = (if starts_with ''git@'' value \<and> CHR '':'' \<in> set value
                       then (case partition_at ((=) CHR '':'') (drop 4 value) of (host, _, path) \<Rightarrow>
                               ''ssh://git@'' @ host @ ''/'' @ path)
                       else value)
       in case urlparse value of
            Inl e \<Rightarrow> Inl e
          | Inr u \<Rightarrow>
              if u_scheme u \<noteq> [] \<and> u_netloc u \<noteq> []
              then let host = url_hostname u;
                       path = lstrip_char CHR ''/'' (u_path u);
                       path = (if ends_with ''.git'' path then take (length path - 4) path else path)
                   in Inr (lower host @ ''/'' @
                           lstrip_char CHR ''/'' (rstrip_char CHR ''/'' (lower path)))
              else Inl (BoundaryError (''unsupported repository remote: '' @ remote)))"

section \<open>Owned repositories\<close>

record owned_repository =
  or_name :: pystr
  or_canonical :: pystr
  or_roots :: "ppath list"
  or_alternates :: "pystr list"

definition allowed_remotes :: "owned_repository \<Rightarrow> pystr list" where
  "allowed_remotes r = or_canonical r # or_alternates r"

fun any_remote :: "pystr \<Rightarrow> pystr list \<Rightarrow> gtx_error + bool" where
  "any_remote n [] = Inr False"
| "any_remote n (c # cs) = (case normalize_remote c of Inl e \<Rightarrow> Inl e
     | Inr m \<Rightarrow> if n = m then Inr True else any_remote n cs)"

definition matches_remote :: "owned_repository \<Rightarrow> pystr \<Rightarrow> gtx_error + bool" where
  "matches_remote r remote = (case normalize_remote remote of Inl e \<Rightarrow> Inl e
     | Inr n \<Rightarrow> any_remote n (allowed_remotes r))"

definition repo_contains :: "fsys \<Rightarrow> owned_repository \<Rightarrow> ppath \<Rightarrow> bool" where
  "repo_contains fs r path = (let candidate = fs_resolve fs path in
     list_ex (\<lambda>root. candidate = fs_resolve fs root \<or> in_parents (fs_resolve fs root) candidate)
       (or_roots r))"

record preflight =
  pf_repository :: owned_repository
  pf_worktree :: ppath
  pf_remotes :: "pystr list"
  pf_branch :: pystr
  pf_push_remote :: pystr

type_synonym registry = "owned_repository list"

definition repository_registry :: "owned_repository list \<Rightarrow> gtx_error + registry" where
  "repository_registry entries = (if distinct (map or_name entries) then Inr entries
     else Inl (PlainValueError ''repository names must be unique''))"

definition registry_get :: "registry \<Rightarrow> pystr \<Rightarrow> gtx_error + owned_repository" where
  "registry_get reg name = (case row_of or_name name reg of Some r \<Rightarrow> Inr r
     | None \<Rightarrow> Inl (BoundaryError (''repository is not owned: '' @ name)))"

definition registry_names :: "registry \<Rightarrow> pystr list" where
  "registry_names reg = sort (map or_name reg)"

definition owned :: "ppath \<Rightarrow> ppath \<Rightarrow> pystr \<Rightarrow> pystr \<Rightarrow> pystr list \<Rightarrow> owned_repository" where
  "owned src wt name remote alts = \<lparr>or_name = name, or_canonical = remote,
     or_roots = [path_join src (path_of name), wt], or_alternates = alts\<rparr>"

definition compute01_entries :: "ppath \<Rightarrow> ppath \<Rightarrow> owned_repository list" where
  "compute01_entries src wt =
    [owned src wt ''gtx-broker'' ''https://github.com/andyfied-agent/gtx-broker.git''
       [''https://github.com/andyfied-Thargoid/gtx-broker.git''],
     owned src wt ''workstation'' ''https://github.com/andyfied-agent/workstation.git'' [],
     owned src wt ''telegram-chat-bot'' ''https://github.com/andyfied-Thargoid/telegram-chat-bot.git''
       [''https://github.com/andyfied-agent/telegram-chat-bot.git''],
     owned src wt ''esp32-s3-monitor'' ''https://github.com/andyfied-agent/esp32-s3-monitor.git'' [],
     owned src wt ''rotary-trinkey-volume''
       ''ssh://git@github-rotary-trinkey/andyfied-Thargoid/rotary-trinkey-volume.git''
       [''https://github.com/andyfied-Thargoid/rotary-trinkey-volume.git''],
     owned src wt ''WeatherPanel'' ''https://github.com/andyfied-agent/WeatherPanel.git'' []]"

definition compute01_defaults :: "gtx_error + registry" where
  "compute01_defaults = repository_registry
     (compute01_entries (path_of ''/home/andyfied/src'') (path_of ''/home/andyfied/src/worktrees''))"

section \<open>Checkout preflight\<close>

definition run_git :: "fsys \<Rightarrow> ppath \<Rightarrow> pystr list \<Rightarrow> gtx_error + pystr" where
  "run_git fs path args = (case fs_git fs path args of
       Inl msg \<Rightarrow> Inl (OsError msg)
     | Inr r \<Rightarrow> if g_code r \<noteq> 0
         then Inl (BoundaryError (''Git preflight failed: '' @
                strip (if g_err r \<noteq> [] then g_err r else g_out r)))
         else Inr (g_out r))"

definition optional_git :: "fsys \<Rightarrow> ppath \<Rightarrow> pystr list \<Rightarrow> gtx_error + pystr" where
  "optional_git fs path args = (case fs_git fs path args of
       Inl msg \<Rightarrow> Inl (OsError msg)
     | Inr r \<Rightarrow> Inr (if g_code r = 0 then strip (g_out r) else ''''))"

fun and_then :: "'e + 'a \<Rightarrow> ('a \<Rightarrow> 'e + 'b) \<Rightarrow> 'e + 'b" where
  "and_then (Inl e) f = Inl e"
| "and_then (Inr a) f = f a"

text \<open>The distinct URLs of the second column of \<open>git remote -v\<close>, in order.\<close>

fun remote_urls :: "pystr list \<Rightarrow> pystr list \<Rightarrow> pystr list" where
  "remote_urls acc [] = acc"
| "remote_urls acc (line # lines) = (let fields = split_space line in
     if length fields \<ge> 2 \<and> fields ! 1 \<notin> set acc then remote_urls (acc @ [fields ! 1]) lines
     else remote_urls acc lines)"

text \<open>The name of the effective push remote, in the order git resolves it.\<close>

definition push_remote_name :: "fsys \<Rightarrow> ppath \<Rightarrow> pystr \<Rightarrow> gtx_error + pystr" where
  "push_remote_name fs path branch =
    and_then (optional_git fs path [''config'', ''--get'', ''branch.'' @ branch @ ''.pushRemote'']) (\<lambda>n1.
    if n1 \<noteq> [] then Inr n1 else
    and_then (optional_git fs path [''config'', ''--get'', ''remote.pushDefault'']) (\<lambda>n2.
    if n2 \<noteq> [] then Inr n2 else
    and_then (optional_git fs path [''config'', ''--get'', ''branch.'' @ branch @ ''.remote'']) (\<lambda>n3.
    Inr (if n3 \<noteq> [] then n3 else ''origin''))))"

definition push_url_list :: "fsys \<Rightarrow> ppath \<Rightarrow> pystr \<Rightarrow> gtx_error + pystr list" where
  "push_url_list fs path name =
    and_then (optional_git fs path [''config'', ''--get-all'', ''remote.'' @ name @ ''.pushurl'']) (\<lambda>u.
    if u \<noteq> [] then Inr (splitlines u) else
    and_then (optional_git fs path [''config'', ''--get-all'', ''remote.'' @ name @ ''.url'']) (\<lambda>v.
    Inr (if v \<noteq> [] then splitlines v else [])))"

fun all_match :: "owned_repository \<Rightarrow> pystr list \<Rightarrow> gtx_error + bool" where
  "all_match r [] = Inr True"
| "all_match r (u # us) = and_then (matches_remote r u) (\<lambda>b. if b then all_match r us else Inr False)"

fun any_match :: "owned_repository \<Rightarrow> pystr list \<Rightarrow> gtx_error + bool" where
  "any_match r [] = Inr False"
| "any_match r (u # us) = and_then (matches_remote r u) (\<lambda>b. if b then Inr True else any_match r us)"

fun any_differs :: "pystr \<Rightarrow> pystr list \<Rightarrow> gtx_error + bool" where
  "any_differs n [] = Inr False"
| "any_differs n (u # us) = and_then (normalize_remote u) (\<lambda>m. if m \<noteq> n then Inr True else any_differs n us)"

definition check_expected :: "owned_repository \<Rightarrow> pystr option \<Rightarrow> pystr list \<Rightarrow> gtx_error + unit" where
  "check_expected r expected urls = (case expected of None \<Rightarrow> Inr ()
     | Some e \<Rightarrow> and_then (normalize_remote e) (\<lambda>n.
         and_then (matches_remote r e) (\<lambda>ok.
         and_then (if ok then any_differs n urls else Inr True) (\<lambda>bad.
         if bad then Inl (BoundaryError ''manifest remote must match the configured push remote'')
         else Inr ()))))"

definition check_push :: "fsys \<Rightarrow> owned_repository \<Rightarrow> pystr \<Rightarrow> ppath \<Rightarrow> pystr \<Rightarrow> pystr option
    \<Rightarrow> gtx_error + pystr list" where
  "check_push fs r name path branch expected =
    and_then (push_remote_name fs path branch) (\<lambda>push_name.
    if push_name = ''.'' then Inl (BoundaryError ''checkout push target is the local repository'') else
    and_then (push_url_list fs path push_name) (\<lambda>urls.
    if urls = [] then Inl (BoundaryError (''push remote '' @ push_name @ '' has no configured push URL'')) else
    and_then (all_match r urls) (\<lambda>ok.
    if \<not> ok then Inl (BoundaryError (''push remote '' @ push_name @
         '' is not approved for owned repository '' @ name)) else
    and_then (check_expected r expected urls) (\<lambda>_. Inr urls))))"

definition validate_checkout :: "fsys \<Rightarrow> registry \<Rightarrow> pystr \<Rightarrow> pystr \<Rightarrow> pystr option
    \<Rightarrow> gtx_error + preflight" where
  "validate_checkout fs reg name worktree expected =
    and_then (registry_get reg name) (\<lambda>r.
    let path = fs_resolve fs (expanduser fs (path_of worktree)) in
    if \<not> repo_contains fs r path then Inl (BoundaryError
         (''worktree is outside the owned roots for '' @ name @ '': '' @ path_str path)) else
    if \<not> fs_is_dir fs path then Inl (BoundaryError (''worktree does not exist: '' @ path_str path)) else
    and_then (run_git fs path [''rev-parse'', ''--show-toplevel'']) (\<lambda>top.
    let root = fs_resolve fs (path_of (strip top)) in
    if root \<noteq> path then Inl (BoundaryError (''worktree path is not the Git checkout root: '' @
         path_str path @ '' != '' @ path_str root)) else
    and_then (run_git fs path [''status'', ''--porcelain'', ''--untracked-files=all'']) (\<lambda>status.
    if strip status \<noteq> [] then Inl (BoundaryError ''worktree must be clean before task admission'') else
    and_then (run_git fs path [''branch'', ''--show-current'']) (\<lambda>out.
    let branch = strip out in
    if branch = [] \<or> branch \<in> {''main'', ''master''}
    then Inl (BoundaryError ''task worktree must be on a non-default branch'') else
    and_then (run_git fs path [''remote'', ''-v'']) (\<lambda>listing.
    let remotes = remote_urls [] (splitlines listing) in
    if remotes = [] then Inl (BoundaryError
         (''checkout has no configured remote for owned repository '' @ name)) else
    and_then (check_push fs r name path branch expected) (\<lambda>urls.
    and_then (any_match r remotes) (\<lambda>belongs.
    if \<not> belongs then Inl (BoundaryError
         (''no configured remote belongs to owned repository '' @ name))
    else Inr \<lparr>pf_repository = r, pf_worktree = path, pf_remotes = remotes, pf_branch = branch,
              pf_push_remote = hd urls\<rparr>)))))))"

section \<open>What a successful preflight guarantees\<close>

lemma and_then_Inr_iff [simp]: "and_then m f = Inr b \<longleftrightarrow> (\<exists>a. m = Inr a \<and> f a = Inr b)"
  by (cases m) auto

lemma registry_get_Inr_iff: "registry_get reg name = Inr r \<longleftrightarrow> row_of or_name name reg = Some r"
  by (auto simp: registry_get_def split: option.splits)

lemma all_match_True: "all_match r us = Inr True \<Longrightarrow> u \<in> set us \<Longrightarrow> matches_remote r u = Inr True"
  by (induction us) (auto split: if_splits)

lemma any_differs_False: "any_differs n us = Inr False \<Longrightarrow> u \<in> set us \<Longrightarrow> normalize_remote u = Inr n"
  by (induction us) (auto split: if_splits)

lemma check_expected_Some:
  assumes "check_expected r (Some e) urls = Inr x" "u \<in> set urls"
  shows "matches_remote r e = Inr True \<and> normalize_remote u = normalize_remote e"
  using assms any_differs_False [of _ urls u]
  by (fastforce simp: check_expected_def split: if_splits)

lemma check_push_ok:
  assumes "check_push fs r name path branch expected = Inr urls"
  shows "urls \<noteq> []" "\<forall>u \<in> set urls. matches_remote r u = Inr True"
    "expected = Some e \<Longrightarrow> \<forall>u \<in> set urls. normalize_remote u = normalize_remote e"
  using assms all_match_True [of r urls] check_expected_Some [of r e urls]
  by (auto simp: check_push_def split: if_splits)

lemma validate_checkout_ok:
  assumes "validate_checkout fs reg name wt expected = Inr pf"
  shows "row_of or_name name reg = Some (pf_repository pf)"
    and "pf_worktree pf = fs_resolve fs (expanduser fs (path_of wt))"
    and "repo_contains fs (pf_repository pf) (pf_worktree pf)"
    and "fs_is_dir fs (pf_worktree pf)"
    and "pf_branch pf \<notin> {[], ''main'', ''master''}"
    and "matches_remote (pf_repository pf) (pf_push_remote pf) = Inr True"
    and "expected = Some e \<Longrightarrow> normalize_remote (pf_push_remote pf) = normalize_remote e"
  using assms check_push_ok [of fs "pf_repository pf" name "pf_worktree pf" "pf_branch pf" expected]
  by (auto simp: validate_checkout_def Let_def registry_get_Inr_iff split: if_splits)

end
