(* ===== verification/TaskManifest.thy ===== *)
theory TaskManifest
  imports RepositoryBoundary
begin

text \<open>
  The admission contract for coding tasks of gtx_broker/task_manifest.py: the schema check of a
  manifest, the repository boundary it names, and the theorem that an accepted manifest satisfies
  every clause of the contract and is a fixed point of the check.
\<close>

section \<open>Field checks\<close>

definition allowed_workers :: "pystr list" where
  "allowed_workers = [''p40-coding'', ''slow-coder'']"

definition merge_policy :: pystr where
  "merge_policy = ''codex-review-then-air-failover''"

definition max_context_size :: int where
  "max_context_size = 262144"

definition max_timeout_seconds :: int where
  "max_timeout_seconds = 7200"

definition is_alnum :: "char \<Rightarrow> bool" where
  "is_alnum c = (is_alpha c \<or> c \<in> set digit_chars)"

definition branch_pattern :: "pystr \<Rightarrow> bool" where
  "branch_pattern s = (case s of [] \<Rightarrow> False
     | c # cs \<Rightarrow> is_alnum c \<and> list_all (\<lambda>d. is_alnum d \<or> d \<in> set ''._/-'') cs)"

definition required_fields :: "pystr list" where
  "required_fields = [''manifest_version'', ''task_id'', ''goal_id'', ''session_id'', ''repository'',
     ''repository_remote'', ''base_ref'', ''branch'', ''worktree_path'', ''context_documents'', ''scope'',
     ''acceptance_criteria'', ''test_command'', ''worker_profile'', ''timeout_seconds'', ''context_size'',
     ''commit_required'', ''pull_request_required'', ''review_policy'', ''merge_policy'']"

definition string_fields :: "pystr list" where
  "string_fields = [''task_id'', ''goal_id'', ''session_id'', ''repository'', ''repository_remote'', ''base_ref'',
     ''branch'', ''worktree_path'', ''scope'', ''test_command'', ''worker_profile'', ''merge_policy'']"

definition require_string :: "pydict \<Rightarrow> pystr \<Rightarrow> gtx_error + pystr" where
  "require_string values name = (case dget values name of
       JStr s \<Rightarrow> if strip s = [] then Inl (ManifestError (name @ '' must be a non-empty string''))
         else if CHR 0x00 \<in> set s \<or> CHR 0x0A \<in> set s \<or> CHR 0x0D \<in> set s
         then Inl (ManifestError (name @ '' must not contain control characters''))
         else Inr (strip s)
     | _ \<Rightarrow> Inl (ManifestError (name @ '' must be a non-empty string'')))"

fun require_items :: "pystr \<Rightarrow> nat \<Rightarrow> json list \<Rightarrow> gtx_error + pystr list" where
  "require_items name i [] = Inr []"
| "require_items name i (JStr s # xs) =
     (if strip s = []
      then Inl (ManifestError (name @ ''['' @ show_nat i @ ''] must be a non-empty string''))
      else and_then (require_items name (Suc i) xs) (\<lambda>ys. Inr (strip s # ys)))"
| "require_items name i (_ # xs) =
     Inl (ManifestError (name @ ''['' @ show_nat i @ ''] must be a non-empty string''))"

definition require_string_list :: "pydict \<Rightarrow> pystr \<Rightarrow> gtx_error + pystr list" where
  "require_string_list values name = (case dget values name of
       JArr xs \<Rightarrow> if xs = [] then Inl (ManifestError (name @ '' must be a non-empty list''))
         else require_items name 0 xs
     | _ \<Rightarrow> Inl (ManifestError (name @ '' must be a non-empty list'')))"

definition relative_document :: "pystr \<Rightarrow> bool" where
  "relative_document d = (\<not> is_absolute (path_of d) \<and> ''..'' \<notin> set (p_parts (path_of d)))"

fun validate_relative_documents :: "pystr list \<Rightarrow> gtx_error + unit" where
  "validate_relative_documents [] = Inr ()"
| "validate_relative_documents (d # ds) =
     (if relative_document d then validate_relative_documents ds
      else Inl (ManifestError (''context document must be a repository-relative path: '' @ d)))"

text \<open>The loop that strips the string fields in place.\<close>

fun require_strings :: "pydict \<Rightarrow> pystr list \<Rightarrow> gtx_error + pydict" where
  "require_strings values [] = Inr values"
| "require_strings values (n # ns) = and_then (require_string values n) (\<lambda>s.
     require_strings (dput values n (JStr s)) ns)"

definition ensure :: "bool \<Rightarrow> pystr \<Rightarrow> gtx_error + unit" where
  "ensure b msg = (if b then Inr () else Inl (ManifestError msg))"

definition str_at :: "pydict \<Rightarrow> pystr \<Rightarrow> pystr" where
  "str_at values name = (case dget values name of JStr s \<Rightarrow> s | _ \<Rightarrow> '''')"

definition check_paths :: "pydict \<Rightarrow> gtx_error + unit" where
  "check_paths values =
    and_then (ensure (is_absolute (path_of (str_at values ''worktree_path''))) ''worktree_path must be absolute'') (\<lambda>_.
    and_then (ensure (str_at values ''branch'' \<noteq> ''main'' \<and> str_at values ''branch'' \<noteq> ''master'')
      ''branch must not be a default branch'') (\<lambda>_.
    and_then (ensure (branch_pattern (str_at values ''branch'')) ''branch contains unsupported characters'') (\<lambda>_.
    ensure (\<not> contains ''..'' (str_at values ''branch'') \<and> \<not> starts_with ''/'' (str_at values ''branch''))
      ''branch must not contain traversal or leading slash'')))"

section \<open>Numbers and policies\<close>

fun float_le :: "pyfloat \<Rightarrow> pyfloat \<Rightarrow> bool" where
  "float_le (Fin a) (Fin b) = (a \<le> b)"
| "float_le NaN y = False"
| "float_le x NaN = False"
| "float_le NegInf y = True"
| "float_le x PosInf = True"
| "float_le x y = False"

fun timeout_ok :: "json \<Rightarrow> bool" where
  "timeout_ok (JInt i) = (1 \<le> i \<and> i \<le> max_timeout_seconds)"
| "timeout_ok (JFloat f) = (float_le (Fin 1) f \<and> float_le f (Fin (of_int max_timeout_seconds)))"
| "timeout_ok _ = False"

fun is_number :: "json \<Rightarrow> bool" where
  "is_number (JInt i) = True"
| "is_number (JFloat f) = True"
| "is_number _ = False"

fun is_integer :: "json \<Rightarrow> bool" where
  "is_integer (JInt i) = True"
| "is_integer _ = False"

fun int_of :: "json \<Rightarrow> int" where
  "int_of (JInt i) = i"
| "int_of _ = 0"

definition check_numbers :: "pydict \<Rightarrow> int option \<Rightarrow> gtx_error + unit" where
  "check_numbers values limit =
    and_then (ensure (is_number (dget values ''timeout_seconds'')) ''timeout_seconds must be numeric'') (\<lambda>_.
    and_then (ensure (timeout_ok (dget values ''timeout_seconds''))
      (''timeout_seconds must be between 1 and '' @ show_int max_timeout_seconds)) (\<lambda>_.
    and_then (ensure (is_integer (dget values ''context_size'')) ''context_size must be an integer'') (\<lambda>_.
    let size = int_of (dget values ''context_size'') in
    and_then (ensure (1 \<le> size \<and> size \<le> max_context_size)
      (''context_size must be between 1 and '' @ show_int max_context_size)) (\<lambda>_.
    (case limit of None \<Rightarrow> Inr ()
     | Some l \<Rightarrow> ensure (size \<le> l)
        (''context_size '' @ show_int size @ '' exceeds worker limit '' @ show_int l))))))"

definition required_policy :: pydict where
  "required_policy = [(''codex_review_required'', JBool True), (''air_review_failover'', JBool True),
     (''merge_on_approval'', JBool True)]"

fun is_object :: "json \<Rightarrow> bool" where
  "is_object (JObj d) = True"
| "is_object _ = False"

definition check_policies :: "pydict \<Rightarrow> gtx_error + unit" where
  "check_policies values =
    and_then (ensure (str_at values ''worker_profile'' \<in> set allowed_workers)
      (''worker_profile must be one of ['' @ join '', '' (map py_repr (sort allowed_workers)) @ '']'')) (\<lambda>_.
    and_then (ensure (dget values ''commit_required'' = JBool True)
      ''commit_required must be true for automated coding work'') (\<lambda>_.
    and_then (ensure (dget values ''pull_request_required'' = JBool True)
      ''pull_request_required must be true for automated coding work'') (\<lambda>_.
    and_then (ensure (str_at values ''merge_policy'' = merge_policy)
      (''merge_policy must be '' @ py_repr merge_policy)) (\<lambda>_.
    and_then (ensure (is_object (dget values ''review_policy'')) ''review_policy must be an object'') (\<lambda>_.
    ensure (py_eq (dget values ''review_policy'') (JObj required_policy))
      ''review_policy must require Codex review, Air Review failover, and approval merge'')))))"

section \<open>The manifest check\<close>

record task_manifest =
  tm_values :: pydict
  tm_preflight :: preflight

definition validate_declared_boundary :: "fsys \<Rightarrow> registry \<Rightarrow> pydict \<Rightarrow> gtx_error + preflight" where
  "validate_declared_boundary fs reg values =
    and_then (registry_get reg (str_at values ''repository'')) (\<lambda>r.
    let path = fs_resolve fs (expanduser fs (path_of (str_at values ''worktree_path''))) in
    and_then (ensure (repo_contains fs r path)
      (''worktree is outside the owned roots for '' @ or_name r @ '': '' @ path_str path)) (\<lambda>_.
    and_then (matches_remote r (str_at values ''repository_remote'')) (\<lambda>ok.
    and_then (ensure ok (''manifest remote is not allowed for owned repository '' @ or_name r)) (\<lambda>_.
    Inr \<lparr>pf_repository = r, pf_worktree = path, pf_remotes = [str_at values ''repository_remote''],
         pf_branch = str_at values ''branch'', pf_push_remote = str_at values ''repository_remote''\<rparr>))))"

definition check_schema :: "pydict \<Rightarrow> int option \<Rightarrow> gtx_error + pydict" where
  "check_schema manifest limit = (let
      missing = sort (filter (\<lambda>f. f \<notin> fst ` set manifest) required_fields);
      unknown = sort (filter (\<lambda>k. k \<notin> set required_fields) (remdups (map fst manifest))) in
    and_then (ensure (missing = []) (''missing required field(s): '' @ join '', '' missing)) (\<lambda>_.
    and_then (ensure (unknown = []) (''unknown field(s): '' @ join '', '' unknown)) (\<lambda>_.
    and_then (ensure (py_eq (dget manifest ''manifest_version'') (JInt 1)) ''manifest_version must be 1'') (\<lambda>_.
    and_then (require_strings manifest string_fields) (\<lambda>v1.
    and_then (check_paths v1) (\<lambda>_.
    and_then (require_string_list v1 ''context_documents'') (\<lambda>docs.
    let v2 = dput v1 ''context_documents'' (JArr (map JStr docs)) in
    and_then (validate_relative_documents docs) (\<lambda>_.
    and_then (require_string_list v2 ''acceptance_criteria'') (\<lambda>criteria.
    let v3 = dput v2 ''acceptance_criteria'' (JArr (map JStr criteria)) in
    and_then (check_numbers v3 limit) (\<lambda>_.
    and_then (check_policies v3) (\<lambda>_. Inr v3)))))))))))"

definition manifest_boundary_error :: "gtx_error \<Rightarrow> gtx_error" where
  "manifest_boundary_error e = (case e of BoundaryError m \<Rightarrow> ManifestError m | ManifestError m \<Rightarrow> ManifestError m
     | OsError m \<Rightarrow> ManifestError m | PlainValueError m \<Rightarrow> ManifestError m)"

fun strings_of :: "json \<Rightarrow> pystr list" where
  "strings_of (JArr xs) = map (\<lambda>x. case x of JStr s \<Rightarrow> s | _ \<Rightarrow> '''') xs"
| "strings_of _ = []"

definition check_boundary :: "fsys \<Rightarrow> registry \<Rightarrow> bool \<Rightarrow> pydict \<Rightarrow> gtx_error + preflight" where
  "check_boundary fs reg check_worktree values =
    (case (if check_worktree
           then validate_checkout fs reg (str_at values ''repository'') (str_at values ''worktree_path'')
                  (Some (str_at values ''repository_remote''))
           else validate_declared_boundary fs reg values) of
       Inl e \<Rightarrow> Inl (manifest_boundary_error e)
     | Inr pf \<Rightarrow> Inr pf)"

definition check_live_worktree :: "fsys \<Rightarrow> preflight \<Rightarrow> pydict \<Rightarrow> gtx_error + unit" where
  "check_live_worktree fs pf values = (let
      docs = strings_of (dget values ''context_documents'');
      absent = filter (\<lambda>d. \<not> fs_is_file fs (path_join (pf_worktree pf) (path_of d))) docs in
    and_then (ensure (absent = []) (''required context document(s) missing: '' @ join '', '' absent)) (\<lambda>_.
    ensure (pf_branch pf = str_at values ''branch'')
      (''manifest branch '' @ py_repr (str_at values ''branch'') @
       '' does not match worktree branch '' @ py_repr (pf_branch pf))))"

definition validate_task_manifest :: "fsys \<Rightarrow> registry \<Rightarrow> bool \<Rightarrow> int option \<Rightarrow> json
    \<Rightarrow> gtx_error + task_manifest" where
  "validate_task_manifest fs reg check_worktree limit manifest = (case manifest of
      JObj m \<Rightarrow>
        and_then (check_schema m limit) (\<lambda>values.
        and_then (check_boundary fs reg check_worktree values) (\<lambda>pf.
        and_then (if check_worktree then check_live_worktree fs pf values else Inr ()) (\<lambda>_.
        Inr \<lparr>tm_values = values, tm_preflight = pf\<rparr>)))
    | _ \<Rightarrow> Inl (ManifestError ''task manifest must be an object''))"

section \<open>An accepted manifest\<close>

lemma ensure_Inr_iff [simp]: "ensure b msg = Inr u \<longleftrightarrow> b"
  by (simp add: ensure_def)

lemma and_then_unit_iff: "and_then (m :: 'e + unit) f = Inr b \<longleftrightarrow> m = Inr () \<and> f () = Inr b"
  by (cases m) auto

text \<open>\<open>uniform d k v\<close>: the document \<open>d\<close> has the key \<open>k\<close>, and its value is \<open>v\<close>.\<close>

definition uniform :: "pydict \<Rightarrow> pystr \<Rightarrow> json \<Rightarrow> bool" where
  "uniform d k v = (k \<in> fst ` set d \<and> (\<forall>p \<in> set d. fst p = k \<longrightarrow> snd p = v))"

lemma uniform_dget: "uniform d k v \<Longrightarrow> dget d k = v"
  unfolding uniform_def dget_def
  by (auto split: option.splits dest!: map_of_SomeD simp: map_of_eq_None_iff)

lemma uniform_dput_id: "uniform d k v \<Longrightarrow> dput d k v = d"
  by (auto simp: uniform_def dput_def intro!: map_idI)

lemma uniform_dput_same: "uniform (dput d k v) k v"
  by (force simp: uniform_def dput_def)

lemma uniform_dput_other: "uniform d k v \<Longrightarrow> k \<noteq> k' \<Longrightarrow> uniform (dput d k' v') k v"
proof -
  assume u: "uniform d k v" and k: "k \<noteq> k'"
  have "k \<in> fst ` set (dput d k' v')"
    using u by (force simp: uniform_def dput_def)
  moreover have "snd p = v" if "p \<in> set (dput d k' v')" "fst p = k" for p
    using that u k by (auto simp: uniform_def dput_def split: if_splits)
  ultimately show ?thesis by (simp add: uniform_def)
qed

lemma map_fst_dput: "k \<in> fst ` set d \<Longrightarrow> map fst (dput d k v) = map fst d"
  by (auto simp: dput_def)

lemma keys_dput: "fst ` set (dput d k v) = insert k (fst ` set d)"
  by (force simp: dput_def image_iff)

lemma dropWhile_hd_id: "xs = [] \<or> \<not> p (hd xs) \<Longrightarrow> dropWhile p xs = xs"
  by (cases xs) auto

lemma strip_idem: "strip (strip s) = strip s"
proof (cases "strip s = []")
  case False
  then have "lstrip (strip s) = strip s"
    using strip_space_ends [of s] by (simp add: lstrip_def dropWhile_hd_id)
  moreover have "rstrip (strip s) = strip s"
    using strip_space_ends [of s] False by (simp add: rstrip_def dropWhile_hd_id hd_rev)
  ultimately show ?thesis by (simp add: strip_def [of "strip s"])
qed simp

lemma set_strip: "set (strip s) \<subseteq> set s"
  by (auto simp: strip_def lstrip_def rstrip_def dest!: set_dropWhileD)

definition settled :: "pydict \<Rightarrow> pystr \<Rightarrow> bool" where
  "settled d n = (\<exists>s. uniform d n (JStr s) \<and> require_string d n = Inr s)"

lemma require_string_Inr:
  "require_string d n = Inr s \<longleftrightarrow> (\<exists>t. dget d n = JStr t \<and> s = strip t \<and> s \<noteq> [] \<and>
     CHR 0x00 \<notin> set t \<and> CHR 0x0A \<notin> set t \<and> CHR 0x0D \<notin> set t)"
  by (auto simp: require_string_def split: json.splits)

lemma settled_dput_self: "require_string d n = Inr s \<Longrightarrow> settled (dput d n (JStr s)) n"
  using set_strip uniform_dput_same [of d n "JStr s"]
  by (fastforce simp: settled_def require_string_Inr table_simps strip_idem)

lemma settled_dput_other: "settled d n \<Longrightarrow> n \<noteq> k \<Longrightarrow> settled (dput d k v) n"
  by (auto simp: settled_def require_string_Inr table_simps uniform_dput_other)

lemma require_strings_settled:
  "require_strings d ns = Inr w \<Longrightarrow> set ns \<subseteq> fst ` set d \<Longrightarrow>
   map fst w = map fst d \<and> (\<forall>n \<in> set ns. settled w n) \<and>
   (\<forall>k. k \<notin> set ns \<longrightarrow> dget w k = dget d k) \<and>
   (\<forall>n. settled d n \<longrightarrow> settled w n)"
proof (induction ns arbitrary: d)
  case (Cons n ns)
  then obtain s where s: "require_string d n = Inr s"
      and w: "require_strings (dput d n (JStr s)) ns = Inr w" by auto
  have keys: "map fst (dput d n (JStr s)) = map fst d"
    using Cons.prems(2) by (simp add: map_fst_dput)
  then have "fst ` set (dput d n (JStr s)) = fst ` set d" by (metis list.set_map)
  then have IH: "map fst w = map fst d" "\<forall>n \<in> set ns. settled w n"
      "\<forall>k. k \<notin> set ns \<longrightarrow> dget w k = dget (dput d n (JStr s)) k"
      "\<forall>m. settled (dput d n (JStr s)) m \<longrightarrow> settled w m"
    using Cons.IH [OF w] Cons.prems(2) keys by auto
  have "settled w m" if "settled d m \<or> m = n" for m
    using that IH(4) settled_dput_self [OF s] settled_dput_other [of d m n] by (cases "m = n") auto
  with IH show ?case by (auto simp: table_simps)
qed simp

lemma require_strings_id: "\<forall>n \<in> set ns. settled w n \<Longrightarrow> require_strings w ns = Inr w"
  by (induction ns) (auto simp: settled_def uniform_dput_id)

lemma require_items_idem:
  "require_items name i xs = Inr ys \<Longrightarrow>
   require_items name j (map JStr ys) = Inr ys \<and> length ys = length xs"
  by (induction name i xs arbitrary: j ys rule: require_items.induct)
     (fastforce simp: strip_idem split: if_splits)+

lemma require_string_list_idem:
  assumes "require_string_list d n = Inr ys"
  shows "require_string_list (dput d n (JArr (map JStr ys))) n = Inr ys"
proof -
  obtain xs where xs: "dget d n = JArr xs" "xs \<noteq> []" "require_items n 0 xs = Inr ys"
    using assms by (auto simp: require_string_list_def split: json.splits if_splits)
  then show ?thesis
    using require_items_idem [OF xs(3), of 0] by (auto simp: require_string_list_def table_simps)
qed

lemma require_string_list_cong:
  "dget d n = dget e n \<Longrightarrow> require_string_list d n = require_string_list e n"
  by (simp add: require_string_list_def)

lemma str_at_dput [table_simps]: "n \<noteq> k \<Longrightarrow> str_at (dput d k v) n = str_at d n"
  by (simp add: str_at_def table_simps)

definition lists_settled :: "pydict \<Rightarrow> bool" where
  "lists_settled v = (\<exists>docs criteria.
      uniform v ''context_documents'' (JArr (map JStr docs)) \<and>
      require_string_list v ''context_documents'' = Inr docs \<and>
      validate_relative_documents docs = Inr () \<and>
      uniform v ''acceptance_criteria'' (JArr (map JStr criteria)) \<and>
      require_string_list v ''acceptance_criteria'' = Inr criteria)"

definition manifest_contract :: "pydict \<Rightarrow> int option \<Rightarrow> bool" where
  "manifest_contract v limit \<longleftrightarrow> fst ` set v = set required_fields \<and>
     py_eq (dget v ''manifest_version'') (JInt 1) \<and>
     (\<forall>n \<in> set string_fields. settled v n) \<and> check_paths v = Inr () \<and> lists_settled v \<and>
     check_numbers v limit = Inr () \<and> check_policies v = Inr ()"

lemma sort_Nil_iff [simp]: "sort xs = [] \<longleftrightarrow> xs = []"
  by (metis set_empty set_sort)

lemma no_missing_fields: "sort (filter (\<lambda>f. f \<notin> K) fs) = [] \<Longrightarrow> set fs \<subseteq> K"
  by (auto simp: filter_empty_conv)

lemma no_unknown_fields: "sort (filter (\<lambda>k. k \<notin> K) (remdups ks)) = [] \<Longrightarrow> set ks \<subseteq> K"
  by (auto simp: filter_empty_conv)

lemma manifest_contract_fixed:
  assumes "manifest_contract v limit"
  shows "check_schema v limit = Inr v"
proof -
  obtain docs criteria where l:
      "uniform v ''context_documents'' (JArr (map JStr docs))"
      "require_string_list v ''context_documents'' = Inr docs"
      "validate_relative_documents docs = Inr ()"
      "uniform v ''acceptance_criteria'' (JArr (map JStr criteria))"
      "require_string_list v ''acceptance_criteria'' = Inr criteria"
    using assms by (auto simp: manifest_contract_def lists_settled_def)
  have "require_strings v string_fields = Inr v"
    using assms by (intro require_strings_id) (simp add: manifest_contract_def)
  moreover have "filter (\<lambda>f. f \<notin> fst ` set v) required_fields = []"
      "filter (\<lambda>k. k \<notin> set required_fields) (remdups (map fst v)) = []"
    using assms by (auto simp: filter_empty_conv manifest_contract_def)
  ultimately show ?thesis
    using assms l by (simp add: check_schema_def manifest_contract_def uniform_dput_id Let_def ensure_def)
qed

lemma check_schema_contract:
  assumes "check_schema m limit = Inr v"
  shows "manifest_contract v limit \<and> map fst v = map fst m"
proof -
  obtain v1 docs criteria where
      missing: "sort (filter (\<lambda>f. f \<notin> fst ` set m) required_fields) = []"
      and unknown: "sort (filter (\<lambda>k. k \<notin> set required_fields) (remdups (map fst m))) = []"
      and ver: "py_eq (dget m ''manifest_version'') (JInt 1)"
      and v1: "require_strings m string_fields = Inr v1"
      and paths: "check_paths v1 = Inr ()"
      and docs: "require_string_list v1 ''context_documents'' = Inr docs"
        "validate_relative_documents docs = Inr ()"
      and crit: "require_string_list (dput v1 ''context_documents'' (JArr (map JStr docs)))
        ''acceptance_criteria'' = Inr criteria"
      and v: "v = dput (dput v1 ''context_documents'' (JArr (map JStr docs)))
        ''acceptance_criteria'' (JArr (map JStr criteria))"
      and rest: "check_numbers v limit = Inr ()" "check_policies v = Inr ()"
    using assms unfolding check_schema_def Let_def and_then_unit_iff and_then_Inr_iff ensure_Inr_iff sum.inject
    by (elim exE conjE) (rule that, assumption+, erule sym, simp, simp)
  have req: "set required_fields \<subseteq> fst ` set m" "fst ` set m \<subseteq> set required_fields"
    using no_missing_fields [OF missing] no_unknown_fields [OF unknown] by simp_all
  have fields: "set string_fields \<subseteq> set required_fields" "''manifest_version'' \<notin> set string_fields"
      "''context_documents'' \<notin> set string_fields" "''acceptance_criteria'' \<notin> set string_fields"
      "''context_documents'' \<in> set required_fields" "''acceptance_criteria'' \<in> set required_fields"
    by (simp_all add: string_fields_def required_fields_def)
  have w: "map fst v1 = map fst m" "\<forall>n \<in> set string_fields. settled v1 n"
      "dget v1 ''manifest_version'' = dget m ''manifest_version''"
    using require_strings_settled [OF v1] fields req by auto
  have k1: "fst ` set v1 = fst ` set m" by (metis w(1) list.set_map)
  have a: "''context_documents'' \<in> fst ` set v1" "''acceptance_criteria'' \<in> fst ` set v1"
    unfolding k1 by (rule subsetD [OF req(1)], rule fields(5), rule subsetD [OF req(1)], rule fields(6))
  have keys: "map fst v = map fst m"
    unfolding v by (simp only: map_fst_dput a keys_dput insertI1 insertI2 w(1))
  have "fst ` set v = set required_fields"
    using keys req by (metis list.set_map subset_antisym)
  moreover have "py_eq (dget v ''manifest_version'') (JInt 1)"
    using ver w(3) by (simp add: v table_simps)
  moreover have "\<forall>n \<in> set string_fields. settled v n"
    using w(2) fields(3,4) unfolding v by (metis settled_dput_other)
  moreover have "check_paths v = Inr ()"
    using paths by (simp add: v check_paths_def table_simps)
  moreover have "lists_settled v"
    unfolding lists_settled_def
  proof (rule exI [of _ docs], rule exI [of _ criteria], intro conjI)
    show "uniform v ''context_documents'' (JArr (map JStr docs))"
      by (simp add: v uniform_dput_same uniform_dput_other)
    show "require_string_list v ''context_documents'' = Inr docs"
      using require_string_list_idem [OF docs(1)]
      by (subst require_string_list_cong [of _ _ "dput v1 ''context_documents'' (JArr (map JStr docs))"])
         (simp_all add: v table_simps)
    show "require_string_list v ''acceptance_criteria'' = Inr criteria"
      using require_string_list_idem [OF crit] by (simp add: v)
  qed (simp_all add: docs v uniform_dput_same)
  ultimately show ?thesis using rest keys by (simp add: manifest_contract_def)
qed

lemma validate_task_manifest_Inr:
  "validate_task_manifest fs reg cw limit m = Inr tm \<longleftrightarrow>
   (\<exists>d. m = JObj d \<and> check_schema d limit = Inr (tm_values tm) \<and>
        check_boundary fs reg cw (tm_values tm) = Inr (tm_preflight tm) \<and>
        (cw \<longrightarrow> check_live_worktree fs (tm_preflight tm) (tm_values tm) = Inr ()))"
  by (cases m; cases cw; cases tm) (auto simp: validate_task_manifest_def)

lemma check_live_worktree_ok:
  assumes "check_live_worktree fs pf v = Inr u"
  shows "pf_branch pf = str_at v ''branch''" and
    "\<forall>d \<in> set (strings_of (dget v ''context_documents'')).
       fs_is_file fs (path_join (pf_worktree pf) (path_of d))"
  using assms unfolding check_live_worktree_def Let_def and_then_Inr_iff ensure_Inr_iff
  by (auto simp: filter_empty_conv)

lemma manifest_contract_size:
  assumes "manifest_contract v limit"
  shows "\<exists>size. dget v ''context_size'' = JInt size \<and> 1 \<le> size \<and> size \<le> 262144 \<and>
    (\<forall>l. limit = Some l \<longrightarrow> size \<le> l)"
proof -
  have "is_integer (dget v ''context_size'')"
    using assms by (simp add: manifest_contract_def check_numbers_def Let_def)
  then obtain size where "dget v ''context_size'' = JInt size"
    by (cases "dget v ''context_size''") auto
  with assms show ?thesis
    by (auto simp: manifest_contract_def check_numbers_def max_context_size_def Let_def split: option.splits)
qed

lemma validate_relative_documents_iff:
  "validate_relative_documents ds = Inr u \<longleftrightarrow> (\<forall>d \<in> set ds. relative_document d)"
  by (induction ds) auto

lemma manifest_contract_docs:
  assumes "manifest_contract v limit"
  shows "\<forall>d \<in> set (strings_of (dget v ''context_documents'')). relative_document d"
  using assms
  by (auto simp: manifest_contract_def lists_settled_def validate_relative_documents_iff uniform_dget)

section \<open>A concrete admission\<close>

text \<open>A host with one clean checkout of gtx-broker, and a manifest for it with untrimmed fields.\<close>

definition demo_git :: "ppath \<Rightarrow> pystr list \<Rightarrow> pystr + git_result" where
  "demo_git p args = Inr (
     if args = [''rev-parse'', ''--show-toplevel''] then \<lparr>g_code = 0, g_out = ''/home/andyfied/src/worktrees/t1'' @ [CHR 0x0A], g_err = ''''\<rparr>
     else if args = [''branch'', ''--show-current''] then \<lparr>g_code = 0, g_out = ''agent/t1'' @ [CHR 0x0A], g_err = ''''\<rparr>
     else if args = [''remote'', ''-v''] then \<lparr>g_code = 0,
        g_out = ''origin git@github.com:andyfied-agent/gtx-broker.git (push)'' @ [CHR 0x0A], g_err = ''''\<rparr>
     else if args = [''config'', ''--get-all'', ''remote.origin.url''] then \<lparr>g_code = 0,
        g_out = ''git@github.com:andyfied-agent/gtx-broker.git'' @ [CHR 0x0A], g_err = ''''\<rparr>
     else if hd args = ''status'' then \<lparr>g_code = 0, g_out = '''', g_err = ''''\<rparr>
     else \<lparr>g_code = 1, g_out = '''', g_err = ''''\<rparr>)"

definition demo_fs :: fsys where
  "demo_fs = \<lparr>fs_resolve = (\<lambda>p. p), fs_expand = (\<lambda>p. p), fs_is_dir = (\<lambda>p. True),
     fs_is_file = (\<lambda>p. last (p_parts p) = ''README.md''), fs_git = demo_git\<rparr>"

definition demo_registry :: registry where
  "demo_registry = compute01_entries (path_of ''/home/andyfied/src'') (path_of ''/home/andyfied/src/worktrees'')"

definition demo_manifest :: pydict where
  "demo_manifest = [(''manifest_version'', JInt 1), (''task_id'', JStr ''t1''), (''goal_id'', JStr ''g1''),
    (''session_id'', JStr ''s1''), (''repository'', JStr ''gtx-broker''),
    (''repository_remote'', JStr ''https://github.com/andyfied-agent/gtx-broker.git''),
    (''base_ref'', JStr ''main''), (''branch'', JStr '' agent/t1''),
    (''worktree_path'', JStr ''/home/andyfied/src/worktrees/t1''),
    (''context_documents'', JArr [JStr ''README.md '']), (''scope'', JStr ''fix''),
    (''acceptance_criteria'', JArr [JStr ''tests pass'']), (''test_command'', JStr ''pytest''),
    (''worker_profile'', JStr ''slow-coder''), (''timeout_seconds'', JInt 600), (''context_size'', JInt 8192),
    (''commit_required'', JBool True), (''pull_request_required'', JBool True),
    (''review_policy'', JObj required_policy), (''merge_policy'', JStr merge_policy)]"

lemma demo_accepted:
  "\<not> isl (validate_task_manifest demo_fs demo_registry True (Some 65536) (JObj demo_manifest))"
  by code_simp

lemma demo_result:
  "\<exists>tm. validate_task_manifest demo_fs demo_registry True (Some 65536) (JObj demo_manifest) = Inr tm"
  using demo_accepted
  by (cases "validate_task_manifest demo_fs demo_registry True (Some 65536) (JObj demo_manifest)") auto

section \<open>Properties\<close>



text \<open>C29. The values that admission stores are a fixed point of the check: validating
  them again against the same host accepts them and returns the same evidence, which is what the
  revalidation before execution relies on.\<close>

theorem manifest_revalidates:
  assumes "validate_task_manifest fs reg cw limit m = Inr tm"
  shows "validate_task_manifest fs reg cw limit (JObj (tm_values tm)) = Inr tm"
proof -
  obtain d where m: "m = JObj d" and s: "check_schema d limit = Inr (tm_values tm)"
    using assms by (auto simp: validate_task_manifest_Inr)
  have "check_schema (tm_values tm) limit = Inr (tm_values tm)"
    using check_schema_contract [OF s] manifest_contract_fixed by blast
  with assms s show ?thesis by (auto simp: validate_task_manifest_Inr m)
qed

theorem manifest_revalidates_witness:
  "\<exists>tm. validate_task_manifest demo_fs demo_registry True (Some 65536) (JObj demo_manifest) = Inr tm \<and>
     validate_task_manifest demo_fs demo_registry True (Some 65536) (JObj (tm_values tm)) = Inr tm"
proof -
  obtain tm where tm:
    "validate_task_manifest demo_fs demo_registry True (Some 65536) (JObj demo_manifest) = Inr tm"
    using demo_result by blast
  show ?thesis using tm manifest_revalidates [OF tm] by blast
qed

end
