(* ===== verification/Scheduler.thy ===== *)
theory Scheduler
  imports Workers TaskManifest
begin

text \<open>
  The scheduler of gtx_broker/scheduler/scheduler.py: durable controls, admission, the claim and start
  protocol, completion, retry, cancellation and review transitions.  One definition per method, statement
  by statement.  Only \<open>claim_task\<close>, \<open>start_task\<close>, \<open>cancel_task\<close>, \<open>fail_claimed_task\<close>, \<open>set_control\<close> and
  \<open>_record_p40_ready_if_needed\<close> open a transaction; every other method writes in autocommit mode.
\<close>

section \<open>Routing\<close>

text \<open>\<open>_row_to_dict\<close> turns the stored tag into the flag \<open>review_flag\<close> and the payload text into its document.\<close>

definition review_flag :: "task \<Rightarrow> bool" where
  "review_flag t = (t_review_tag t = Some 1)"

definition payload_of :: "task \<Rightarrow> pydict" where
  "payload_of t = (case t_payload t of None \<Rightarrow> [] | Some p \<Rightarrow> p)"

definition json_starts_with :: "pystr \<Rightarrow> json \<Rightarrow> bool" where
  "json_starts_with p j = (case j of JStr s \<Rightarrow> starts_with p s | _ \<Rightarrow> False)"

text \<open>A row has no \<open>worker_profile\<close> column: the requested profile comes from the payload.\<close>

definition task_requires_p40 :: "task \<Rightarrow> bool" where
  "task_requires_p40 t = (if review_flag t \<or> has_text (t_review_worker t) then False
     else let requested = dget (payload_of t) ''worker_profile'' in
       if truthy requested then json_starts_with ''p40'' requested
       else if t_kind t = ''vision'' \<or> t_mode t = ''vision'' then True
       else if t_kind t = ''coding''
         then \<not> (t_schedule t = Some ''nightly'' \<or> t_mode t \<in> {''batch'', ''maintenance''})
       else False)"

text \<open>The join of running tasks, their attempts and the attempts' workers.\<close>

definition resource_join :: "pystr \<Rightarrow> db \<Rightarrow> (task \<times> attempt \<times> worker) list" where
  "resource_join r d = [(t, a, w). t \<leftarrow> d_tasks d, a \<leftarrow> d_attempts d, w \<leftarrow> d_workers d,
     a_task a = t_id t, a_worker a = Some (w_profile w), t_state t = Running, w_resource w = Some r]"

definition resource_conflicts :: "pystr \<Rightarrow> db \<Rightarrow> nat" where
  "resource_conflicts r d = length (resource_join r d)"

definition p40_running :: "db \<Rightarrow> bool" where
  "p40_running d = list_ex (\<lambda>(t, a, w). a_end a = None) (resource_join ''p40'' d)"

definition p40_claimed :: "db \<Rightarrow> bool" where
  "p40_claimed d = list_ex (\<lambda>t. t_state t = Claimed \<and> task_requires_p40 t) (d_tasks d)"

definition p40_busy_cursor :: "bool session" where
  "p40_busy_cursor = sbind (query p40_running) (\<lambda>b. if b then ret True else query p40_claimed)"

section \<open>Controls\<close>

record controls =
  ctl_schedule :: pystr
  ctl_planning :: pystr
  ctl_mode :: pystr

definition control_value :: "pystr \<Rightarrow> pystr \<Rightarrow> db \<Rightarrow> pystr" where
  "control_value dflt name d = (case row_of c_name name (d_controls d) of
     Some c \<Rightarrow> c_value c | None \<Rightarrow> dflt)"

definition control_default :: "pystr \<Rightarrow> pystr" where
  "control_default name = (if name = ''schedule'' then ''on'' else if name = ''planning'' then ''off'' else ''day'')"

definition control_values :: "pystr \<Rightarrow> pystr list" where
  "control_values name = (if name = ''mode'' then [''day'', ''night''] else [''on'', ''off''])"

definition controls_of :: "db \<Rightarrow> controls" where
  "controls_of d = \<lparr>ctl_schedule = control_value (control_default ''schedule'') ''schedule'' d,
     ctl_planning = control_value (control_default ''planning'') ''planning'' d,
     ctl_mode = control_value (control_default ''mode'') ''mode'' d\<rparr>"

definition read_controls :: "controls session" where
  "read_controls = query controls_of"

record control_state = controls +
  cs_p40 :: pystr

definition control_state_from_cursor :: "control_state session" where
  "control_state_from_cursor = sbind read_controls (\<lambda>c. sbind p40_busy_cursor (\<lambda>busy.
     ret \<lparr>ctl_schedule = ctl_schedule c, ctl_planning = ctl_planning c, ctl_mode = ctl_mode c,
          cs_p40 = (if ctl_planning c = ''on'' then if busy then ''draining'' else ''ready''
                    else if busy then ''busy'' else ''available'')\<rparr>))"

definition get_control_state :: "control_state session" where
  "get_control_state = scoped (try_except (sthen connect control_state_from_cursor) is_sqlite
     (\<lambda>_. ret \<lparr>ctl_schedule = ''on'', ctl_planning = ''off'', ctl_mode = ''day'', cs_p40 = ''available''\<rparr>))"

definition get_control_events :: "int \<Rightarrow> control_event list session" where
  "get_control_events limit = (if limit < 1 then ret [] else
     scoped (try_except (sthen connect (query (\<lambda>d. take (nat limit) (rev (d_ctl_events d)))))
       is_sqlite (\<lambda>_. ret [])))"

definition last_control_event :: "(control_event \<Rightarrow> bool) \<Rightarrow> db \<Rightarrow> control_event option" where
  "last_control_event p d = find p (rev (d_ctl_events d))"

definition exec_ok :: "(db \<Rightarrow> db) \<Rightarrow> unit session" where
  "exec_ok f = sbind (exec (\<lambda>d. Inr (f d, 1))) (\<lambda>_. ret ())"

definition ready_needed :: "control_event option \<Rightarrow> control_event option \<Rightarrow> bool" where
  "ready_needed planning_session last_ready = (case last_ready of None \<Rightarrow> True
     | Some r \<Rightarrow> (case planning_session of None \<Rightarrow> True | Some p \<Rightarrow> ce_id r < ce_id p))"

definition record_p40_ready_if_needed :: "unit session" where
  "record_p40_ready_if_needed = scoped (try_except
     (sthen connect (sthen begin_immediate
       (sbind read_controls (\<lambda>c.
        sbind (if ctl_planning c = ''on'' then p40_busy_cursor else ret True) (\<lambda>busy.
        sthen (if busy then ret () else
          sbind (query (last_control_event (\<lambda>e. ce_control e = ''planning'' \<and> ce_new e = ''on''))) (\<lambda>p.
          sbind (query (last_control_event (\<lambda>e. ce_control e = ''p40_ready''))) (\<lambda>r.
          if ready_needed p r then sbind now_utc (\<lambda>t. exec_ok (insert_control_event ''p40_ready''
              (Some ''draining'') ''ready'' ''scheduler''
              (Some ''P40 is free while planning mode is enabled'') t))
          else ret ())))
        commit)))))
     is_sqlite (\<lambda>_. rollback))"

text \<open>A control value as the caller passes it: a bool, or anything else by its \<open>str()\<close>.\<close>

datatype control_arg = CBool bool | CText pystr

definition control_text :: "pystr \<Rightarrow> control_arg \<Rightarrow> pystr" where
  "control_text name v = (case v of
       CBool b \<Rightarrow> if name \<in> {''schedule'', ''planning''} then if b then ''on'' else ''off''
                  else if b then ''true'' else ''false''
     | CText s \<Rightarrow> lower s)"

definition upsert_control :: "pystr \<Rightarrow> pystr \<Rightarrow> int \<Rightarrow> pystr \<Rightarrow> db \<Rightarrow> db" where
  "upsert_control name v now actor d = (if row_of c_name name (d_controls d) = None
     then d\<lparr>d_controls := d_controls d @ [\<lparr>c_name = name, c_value = v, c_updated = now, c_by = actor\<rparr>]\<rparr>
     else d\<lparr>d_controls := update_where (\<lambda>c. c_name c = name)
              (\<lambda>c. c\<lparr>c_value := v, c_updated := now, c_by := actor\<rparr>) (d_controls d)\<rparr>)"

definition set_control_txn :: "pystr \<Rightarrow> pystr \<Rightarrow> pystr \<Rightarrow> pystr option \<Rightarrow> control_state session" where
  "set_control_txn name v actor reason =
     sthen begin_immediate
     (sbind (query (control_value (control_default name) name)) (\<lambda>old.
      sbind now_utc (\<lambda>t.
      sthen (exec_ok (upsert_control name v t actor))
      (sthen (if old \<noteq> v then exec_ok (insert_control_event name (Some old) v actor reason t) else ret ())
      (sbind control_state_from_cursor (\<lambda>st.
       sthen (if name = ''planning'' \<and> old \<noteq> v \<and> v = ''on'' \<and> cs_p40 st = ''ready''
              then exec_ok (insert_control_event ''p40_ready'' (Some ''draining'') ''ready'' ''scheduler''
                (Some ''P40 is free when planning mode was enabled'') t) else ret ())
       (sthen commit (ret st))))))))"

definition set_control :: "pystr \<Rightarrow> control_arg \<Rightarrow> pystr option \<Rightarrow> pystr option \<Rightarrow> control_state session" where
  "set_control name value actor reason =
     (if name \<notin> {''schedule'', ''planning'', ''mode''} then throw (ValueErr (''unsupported control: '' @ name))
      else let v = control_text name value in
        if v \<notin> set (control_values name)
        then throw (ValueErr (''unsupported value for '' @ name @ '': '' @ v))
        else scoped (sthen connect (try_except
          (set_control_txn name v (take 128 (if has_text actor then the actor else ''operator''))
             (map_option (take 512) reason))
          (\<lambda>_. True) (\<lambda>e. sthen rollback (throw e)))))"

section \<open>Events\<close>

text \<open>
  \<open>_emit_event\<close> writes on a connection of its own and swallows operational errors;
  \<open>_emit_event_in_transaction\<close> writes on the caller's connection and swallows every database error.
\<close>

definition emit_event :: "pystr \<Rightarrow> pystr \<Rightarrow> task_state option \<Rightarrow> task_state option \<Rightarrow> pystr option
    \<Rightarrow> unit session" where
  "emit_event i ty fr to det = try_except
     (sthen connect (sbind now_utc (\<lambda>t.
      sbind (exec_other (\<lambda>d. Inr (insert_event i ty fr to det t d, 1))) (\<lambda>_. ret ()))))
     is_operational (\<lambda>_. ret ())"

definition emit_event_in_transaction :: "pystr \<Rightarrow> pystr \<Rightarrow> task_state option \<Rightarrow> task_state option
    \<Rightarrow> pystr option \<Rightarrow> unit session" where
  "emit_event_in_transaction i ty fr to det = try_except
     (sbind now_utc (\<lambda>t. exec_ok (insert_event i ty fr to det t)))
     is_sqlite (\<lambda>_. ret ())"

section \<open>Admission\<close>

definition default_mode :: "pystr \<Rightarrow> pystr option \<Rightarrow> pystr" where
  "default_mode kind mode = (if has_text mode then the mode
     else if kind = ''vision'' then ''vision'' else ''immediate'')"

definition default_schedule :: "pystr \<Rightarrow> pystr \<Rightarrow> pystr option \<Rightarrow> pystr" where
  "default_schedule kind mode schedule = (case schedule of Some s \<Rightarrow> s
     | None \<Rightarrow> if kind = ''vision'' \<or> mode = ''vision'' then ''nightly''
               else if mode = ''batch'' then ''batch'' else ''immediate'')"

record task_request =
  rq_id :: pystr
  rq_kind :: pystr
  rq_payload :: pydict
  rq_mode :: "pystr option"
  rq_priority :: int
  rq_idem :: "pystr option"
  rq_schedule :: "pystr option"
  rq_review_tag :: bool
  rq_review_worker :: "pystr option"
  rq_epoch :: "pystr option"
  rq_input :: "pystr option"
  rq_output :: "pystr option"

text \<open>The row INSERTed for a request; \<open>id\<close> is the primary key and \<open>idempotency_key\<close> is UNIQUE.\<close>

definition request_row :: "task_request \<Rightarrow> pystr \<Rightarrow> pystr \<Rightarrow> int \<Rightarrow> int \<Rightarrow> task" where
  "request_row q mode schedule created updated =
     \<lparr>t_id = rq_id q, t_kind = rq_kind q, t_state = Queued, t_priority = rq_priority q, t_mode = mode,
      t_payload = Some (rq_payload q), t_input = rq_input q, t_output = rq_output q, t_idem = rq_idem q,
      t_retry_at = None, t_error = None, t_review_tag = Some (if rq_review_tag q then 1 else 0),
      t_schedule = Some schedule,
      t_review_worker = (if rq_review_tag q \<and> rq_review_worker q = None then Some ''codex-review''
                         else rq_review_worker q),
      t_epoch = rq_epoch q, t_created = created, t_updated = updated\<rparr>"

definition key_taken :: "pystr option \<Rightarrow> db \<Rightarrow> bool" where
  "key_taken key d = (key \<noteq> None \<and> key \<in> t_idem ` set (d_tasks d))"

definition insert_task :: "task \<Rightarrow> db \<Rightarrow> exn + db \<times> nat" where
  "insert_task t d = (if task_of d (t_id t) \<noteq> None \<or> key_taken (t_idem t) d then Inl Integrity
     else Inr (d\<lparr>d_tasks := d_tasks d @ [t]\<rparr>, 1))"

definition added_details :: "task_request \<Rightarrow> pystr \<Rightarrow> pystr \<Rightarrow> pystr" where
  "added_details q mode schedule = ''kind='' @ rq_kind q @ '', mode='' @ mode @ '', schedule='' @ schedule @
     '', priority='' @ show_int (rq_priority q) @ '', review_tag='' @ (if rq_review_tag q then ''1'' else ''0'')"

definition insert_request :: "task_request \<Rightarrow> pystr \<Rightarrow> pystr \<Rightarrow> bool session" where
  "insert_request q mode schedule = try_except
     (sbind now_utc (\<lambda>t1. sbind now_utc (\<lambda>t2.
      sthen (exec (insert_task (request_row q mode schedule t1 t2)))
      (sthen (emit_event (rq_id q) ''task_added'' None (Some Queued) (Some (added_details q mode schedule)))
      (sthen commit (ret True))))))
     ((=) Integrity) (\<lambda>_. ret False)"

definition add_task :: "task_request \<Rightarrow> bool session" where
  "add_task q = (let mode = default_mode (rq_kind q) (rq_mode q);
      schedule = default_schedule (rq_kind q) mode (rq_schedule q) in
    if mode \<notin> {''immediate'', ''batch'', ''vision'', ''maintenance''}
    then throw (ValueErr (''unsupported task mode: '' @ mode))
    else if schedule \<notin> {''immediate'', ''batch'', ''nightly''}
    then throw (ValueErr (''unsupported schedule type: '' @ schedule))
    else scoped (try_except
      (sthen connect
        (sbind (if has_text (rq_idem q) then query (key_taken (rq_idem q)) else ret False) (\<lambda>dup.
         if dup then ret False else insert_request q mode schedule)))
      is_operational (\<lambda>_. ret False)))"

section \<open>Manifest tasks\<close>

record broker_config =
  cf_fs :: fsys
  cf_registry :: registry

fun error_text :: "gtx_error \<Rightarrow> pystr" where
  "error_text (BoundaryError m) = m"
| "error_text (ManifestError m) = m"
| "error_text (OsError m) = m"
| "error_text (PlainValueError m) = m"

text \<open>
  A worker looked up under a JSON value: SQLite compares the TEXT column with the value's text and
  refuses to bind a list or a dict.  No profile is named like a float.
\<close>

fun lookup_worker :: "json \<Rightarrow> worker option session" where
  "lookup_worker (JStr s) = get_worker s"
| "lookup_worker (JInt i) = get_worker (show_int i)"
| "lookup_worker (JBool b) = get_worker (if b then ''1'' else ''0'')"
| "lookup_worker (JArr xs) = throw Programming"
| "lookup_worker (JObj d) = throw Programming"
| "lookup_worker _ = ret None"

definition manifest_worker :: "pydict \<Rightarrow> worker option session" where
  "manifest_worker m = (let p = dget m ''worker_profile'' in if truthy p then lookup_worker p else ret None)"

definition check_manifest :: "broker_config \<Rightarrow> pydict \<Rightarrow> int option \<Rightarrow> task_manifest session" where
  "check_manifest cf m limit = (case validate_task_manifest (cf_fs cf) (cf_registry cf) True limit (JObj m) of
     Inl e \<Rightarrow> throw (ValueErr (error_text e)) | Inr tm \<Rightarrow> ret tm)"

definition manifest_payload :: "task_manifest \<Rightarrow> pydict" where
  "manifest_payload tm = (let v = tm_values tm; wt = JStr (path_str (pf_worktree (tm_preflight tm))) in
     [(''manifest'', JObj v), (''instruction'', dget v ''scope''), (''worktree_path'', wt),
      (''repository_path'', wt), (''worker_profile'', dget v ''worker_profile''),
      (''timeout'', dget v ''timeout_seconds''), (''test_command'', dget v ''test_command''),
      (''context_size'', dget v ''context_size'')])"

definition manifest_request :: "task_manifest \<Rightarrow> int \<Rightarrow> task_request" where
  "manifest_request tm priority = (let v = tm_values tm; slow = str_at v ''worker_profile'' = ''slow-coder'' in
     \<lparr>rq_id = str_at v ''task_id'', rq_kind = ''coding'', rq_payload = manifest_payload tm,
      rq_mode = Some (if slow then ''batch'' else ''immediate''), rq_priority = priority,
      rq_idem = Some (str_at v ''task_id''), rq_schedule = Some (if slow then ''nightly'' else ''immediate''),
      rq_review_tag = False, rq_review_worker = None, rq_epoch = None, rq_input = None, rq_output = None\<rparr>)"

definition add_manifest_task :: "broker_config \<Rightarrow> pydict \<Rightarrow> int \<Rightarrow> bool session" where
  "add_manifest_task cf m priority =
     sbind (manifest_worker m) (\<lambda>w.
     sbind (check_manifest cf m (case w of None \<Rightarrow> None | Some w \<Rightarrow> w_context_limit w)) (\<lambda>tm.
     add_task (manifest_request tm priority)))"

definition validate_manifest_task :: "broker_config \<Rightarrow> task \<Rightarrow> unit session" where
  "validate_manifest_task cf t = (case dget (payload_of t) ''manifest'' of
      JNull \<Rightarrow> ret ()
    | JObj m \<Rightarrow> sbind (manifest_worker m) (\<lambda>w. case w of
          None \<Rightarrow> throw (ValueErr (''manifest worker is unavailable: '' @
                    (case dget m ''worker_profile'' of JStr s \<Rightarrow> s | JNull \<Rightarrow> ''None'' | _ \<Rightarrow> '''')))
        | Some w \<Rightarrow> sthen (check_manifest cf m (w_context_limit w)) (ret ()))
    | _ \<Rightarrow> throw AttributeErr)"

section \<open>Claiming\<close>

definition set_state :: "task_state \<Rightarrow> int \<Rightarrow> task \<Rightarrow> task" where
  "set_state st now t = t\<lparr>t_state := st, t_updated := now\<rparr>"

text \<open>An UPDATE of the task with the given id, with and without a guard on its state.\<close>

definition update_task :: "pystr \<Rightarrow> (task \<Rightarrow> task) \<Rightarrow> db \<Rightarrow> exn + db \<times> nat" where
  "update_task i f d = Inr (update_tasks (\<lambda>t. t_id t = i) f d, count_where (\<lambda>t. t_id t = i) (d_tasks d))"

definition update_task_in :: "task_state \<Rightarrow> pystr \<Rightarrow> (task \<Rightarrow> task) \<Rightarrow> db \<Rightarrow> exn + db \<times> nat" where
  "update_task_in st i f d = Inr (update_tasks (\<lambda>t. t_id t = i \<and> t_state t = st) f d,
     count_where (\<lambda>t. t_id t = i \<and> t_state t = st) (d_tasks d))"

definition claim_allowed :: "controls \<Rightarrow> task \<Rightarrow> bool" where
  "claim_allowed c t = (t_state t = Queued \<and> ctl_schedule c = ''on'' \<and>
     \<not> (ctl_planning c = ''on'' \<and> task_requires_p40 t) \<and> validate_transition (t_state t) Claimed)"

definition claim_task :: "pystr \<Rightarrow> task option session" where
  "claim_task i = scoped (try_except
     (sthen connect (sthen begin_immediate
      (sbind (query (\<lambda>d. task_of d i)) (\<lambda>row. case row of
          None \<Rightarrow> sthen rollback (ret None)
        | Some t \<Rightarrow> if t_state t \<noteq> Queued then sthen rollback (ret None) else
            sbind read_controls (\<lambda>c.
            if \<not> claim_allowed c t then sthen rollback (ret None) else
            sbind now_utc (\<lambda>now.
            sbind (exec (update_task_in Queued i (set_state Claimed now))) (\<lambda>n.
            if n = 0 then sthen rollback (ret None) else
            sbind (query (\<lambda>d. task_of d i)) (\<lambda>claimed.
            sthen commit
            (sthen (emit_event i ''task_claimed'' (Some Queued) (Some Claimed) None)
            (ret claimed))))))))))
     is_operational (\<lambda>_. ret None))"

section \<open>Starting\<close>

definition close_attempts :: "pystr \<Rightarrow> int \<Rightarrow> db \<Rightarrow> db" where
  "close_attempts i now = update_attempts (\<lambda>a. a_task a = i \<and> a_end a = None) (\<lambda>a. a\<lparr>a_end := Some now\<rparr>)"

definition annotate_attempts :: "pystr \<Rightarrow> int \<Rightarrow> json option \<Rightarrow> pystr option \<Rightarrow> db \<Rightarrow> db" where
  "annotate_attempts i now res fc = update_attempts (\<lambda>a. a_task a = i \<and> a_end a = None)
     (\<lambda>a. a\<lparr>a_end := Some now, a_result := res, a_failure := fc\<rparr>)"

definition insert_attempt :: "pystr \<Rightarrow> pystr \<Rightarrow> pystr option \<Rightarrow> int \<Rightarrow> int \<Rightarrow> db \<Rightarrow> db" where
  "insert_attempt i w m start created d = d\<lparr>d_attempts := d_attempts d @
     [\<lparr>a_id = length (d_attempts d) + 1, a_task = i, a_worker = Some w, a_model = m, a_start = Some start,
       a_end = None, a_result = None, a_failure = None, a_created = created\<rparr>]\<rparr>"

definition capability_matches :: "pystr \<Rightarrow> pystr \<Rightarrow> bool" where
  "capability_matches capability kind =
     list_ex (\<lambda>cap. contains cap (lower kind) \<or> contains (lower kind) cap)
       (map (\<lambda>c. lower (strip c)) (split_on CHR '','' capability))"

definition manifest_mismatch :: "task \<Rightarrow> pystr \<Rightarrow> bool" where
  "manifest_mismatch t prof = (case dget (payload_of t) ''manifest'' of
     JObj m \<Rightarrow> dget m ''worker_profile'' \<noteq> JStr prof | _ \<Rightarrow> False)"

definition refuse :: "pystr \<Rightarrow> pystr \<Rightarrow> bool session" where
  "refuse i details = sthen (emit_event_in_transaction i ''worker_failed'' None None (Some details)) (ret False)"

definition check_resource :: "pystr \<Rightarrow> task \<Rightarrow> worker \<Rightarrow> bool session" where
  "check_resource i t w =
     sbind (case w_resource w of None \<Rightarrow> ret 0
              | Some r \<Rightarrow> if r = [] then ret 0 else query (resource_conflicts r)) (\<lambda>conflicts.
     if conflicts > 0
     then refuse i (''exclusive_resource='' @ show_opt (w_resource w) @ '' already in_use'')
     else if w_capability w \<noteq> [] \<and> \<not> capability_matches (w_capability w) (t_kind t)
     then refuse i (''capability='' @ w_capability w @ '' doesn't match task_kind='' @ t_kind t)
     else ret True)"

definition start_checks :: "broker_config \<Rightarrow> pystr \<Rightarrow> task \<Rightarrow> pystr \<Rightarrow> bool session" where
  "start_checks cf i t prof = sbind (get_worker prof) (\<lambda>wo. case wo of
      None \<Rightarrow> ret False
    | Some w \<Rightarrow>
        if manifest_mismatch t prof then ret False else
        sbind (try_except (sthen (validate_manifest_task cf t) (ret True)) is_value_error (\<lambda>_. ret False)) (\<lambda>valid.
        if \<not> valid then ret False else
        sbind read_controls (\<lambda>c.
        if ctl_planning c = ''on'' \<and> w_resource w = Some ''p40'' then ret False else
        if w_status w \<noteq> Available
        then refuse i (''worker='' @ prof @ '' status='' @ status_value (w_status w))
        else check_resource i t w)))"

definition start_transition :: "pystr \<Rightarrow> pystr \<Rightarrow> pystr option \<Rightarrow> bool session" where
  "start_transition i prof model =
     sbind now_utc (\<lambda>t1.
     sthen (exec_ok (close_attempts i t1))
     (sbind now_utc (\<lambda>t2.
      sbind (exec (update_task_in Claimed i (set_state Running t2))) (\<lambda>n.
      if n = 0 then sthen rollback (ret False) else
      sbind now_utc (\<lambda>t3. sbind now_utc (\<lambda>t4.
      sthen (exec_ok (insert_attempt i prof model t3 t4))
      (sthen (emit_event_in_transaction i ''task_started'' (Some Claimed) (Some Running)
                (Some (''worker='' @ prof @ '', model='' @ show_opt model)))
      (sthen commit (ret True)))))))))"

definition start_body :: "broker_config \<Rightarrow> pystr \<Rightarrow> pystr \<Rightarrow> pystr option \<Rightarrow> bool session" where
  "start_body cf i prof model = sbind (query (\<lambda>d. task_of d i)) (\<lambda>row. case row of
      None \<Rightarrow> sthen rollback (ret False)
    | Some t \<Rightarrow> if t_state t \<noteq> Claimed then sthen rollback (ret False) else
        sbind (if prof \<noteq> [] then start_checks cf i t prof else ret True) (\<lambda>ok.
        if \<not> ok then sthen rollback (ret False) else start_transition i prof model))"

text \<open>
  The first failure to connect leaves the local \<open>conn\<close> unbound, which the handler then uses.
\<close>

definition connect_bound :: "bool \<Rightarrow> unit session" where
  "connect_bound bound = try_except connect is_operational
     (\<lambda>e. if bound then throw e else throw UnboundLocal)"

fun start_loop :: "broker_config \<Rightarrow> pystr \<Rightarrow> pystr \<Rightarrow> pystr option \<Rightarrow> bool \<Rightarrow> nat \<Rightarrow> bool session" where
  "start_loop cf i prof model bound 0 = ret False"
| "start_loop cf i prof model bound (Suc n) = try_except
     (sthen (connect_bound bound) (sthen begin_immediate
       (try_except (start_body cf i prof model) is_sqlite (\<lambda>_. sthen rollback (ret False)))))
     is_operational
     (\<lambda>e. sthen rollback (if e = Locked \<and> n > 0 then start_loop cf i prof model True n else ret False))"

definition start_task :: "broker_config \<Rightarrow> pystr \<Rightarrow> pystr \<Rightarrow> pystr option \<Rightarrow> bool session" where
  "start_task cf i prof model = scoped (start_loop cf i prof model False 3)"

section \<open>Completion and retry\<close>

definition set_final :: "task_state \<Rightarrow> pystr option \<Rightarrow> int \<Rightarrow> task \<Rightarrow> task" where
  "set_final st err now t = t\<lparr>t_state := st, t_error := err, t_updated := now\<rparr>"

definition complete_body :: "pystr \<Rightarrow> json option \<Rightarrow> pystr option \<Rightarrow> pystr option \<Rightarrow> bool session" where
  "complete_body i result err fc = (let to = (if err = None then Succeeded else FailedTerminal) in
     sbind now_utc (\<lambda>t1.
     sthen (exec (update_task i (set_final to err t1)))
     (sbind now_utc (\<lambda>t2.
      sthen (exec_ok (annotate_attempts i t2
               (case result of None \<Rightarrow> None | Some r \<Rightarrow> if truthy r then Some r else None) fc))
      (sthen (emit_event i ''task_completed'' (Some Running) (Some to)
               (Some (''result='' @ (if err = None then ''success'' else ''failure''))))
      (sthen commit (sthen record_p40_ready_if_needed (ret True))))))))"

definition complete_task :: "pystr \<Rightarrow> json option \<Rightarrow> pystr option \<Rightarrow> pystr option \<Rightarrow> bool session" where
  "complete_task i result err fc = scoped (try_except
     (sthen connect (sbind (query (\<lambda>d. state_of d i)) (\<lambda>st.
      if st \<noteq> Some Running then ret False
      else try_except (complete_body i result err fc) is_sqlite (\<lambda>_. ret False))))
     is_operational (\<lambda>_. ret False))"

definition set_retry :: "task_state \<Rightarrow> int option \<Rightarrow> int \<Rightarrow> task \<Rightarrow> task" where
  "set_retry st due now t = t\<lparr>t_state := st, t_retry_at := due, t_updated := now\<rparr>"

definition close_current_attempt :: "pystr \<Rightarrow> bool session" where
  "close_current_attempt i = try_except
     (sthen connect (sbind now_utc (\<lambda>t.
      sbind (exec_other (\<lambda>d. Inr (close_attempts i t d,
               count_where (\<lambda>a. a_task a = i \<and> a_end a = None) (d_attempts d)))) (\<lambda>n. ret (n > 0)))))
     is_operational (\<lambda>_. ret False)"

text \<open>
  The common shape of the autocommit transitions: read the state, refuse unless it is \<open>st\<close> (and the
  row's retry time allows), then run the body.
\<close>

definition checked :: "pystr \<Rightarrow> task_state \<Rightarrow> (task \<Rightarrow> bool session) \<Rightarrow> bool session" where
  "checked i st body = scoped (try_except
     (sthen connect (sbind (query (\<lambda>d. task_of d i)) (\<lambda>row. case row of
         None \<Rightarrow> ret False
       | Some t \<Rightarrow> if t_state t \<noteq> st then ret False else body t)))
     is_operational (\<lambda>_. ret False))"

text \<open>The unguarded UPDATE of these methods, its event and its commit when a row was hit.\<close>

definition write_and_emit :: "pystr \<Rightarrow> (task \<Rightarrow> task) \<Rightarrow> unit session \<Rightarrow> unit session" where
  "write_and_emit i f event = sbind (exec (update_task i f)) (\<lambda>n.
     if n > 0 then sthen event commit else ret ())"

definition retry_task :: "pystr \<Rightarrow> int \<Rightarrow> bool session" where
  "retry_task i delay = checked i Running (\<lambda>t.
     if \<not> validate_transition (t_state t) RetryWait then ret False else
     sthen (close_current_attempt i)
     (sbind now_utc (\<lambda>t1. let retry_at = t1 + delay * 1000000 in
      sbind now_utc (\<lambda>t2.
      sthen (write_and_emit i (set_retry RetryWait (Some retry_at) t2)
        (emit_event i ''retry_scheduled'' (Some Running) (Some RetryWait)
          (Some (''delay='' @ show_int delay @ ''s, retry_at='' @ iso_utc retry_at))))
      (sthen record_p40_ready_if_needed (ret True))))))"

definition cancel_task :: "pystr \<Rightarrow> bool session" where
  "cancel_task i = scoped (try_except
     (sthen connect (sthen begin_immediate
      (sbind (query (\<lambda>d. state_of d i)) (\<lambda>st. case st of
          None \<Rightarrow> sthen rollback (ret False)
        | Some from \<Rightarrow> if \<not> validate_transition from Cancelled then sthen rollback (ret False) else
            sbind now_utc (\<lambda>now.
            sbind (exec (update_task_in from i (set_state Cancelled now))) (\<lambda>n.
            if n \<noteq> 1 then sthen rollback (ret False) else
            sthen (emit_event_in_transaction i ''task_cancelled'' (Some from) (Some Cancelled) None)
            (sthen commit (ret True))))))))
     is_sqlite (\<lambda>_. sthen rollback (ret False)))"

definition fail_claimed_task :: "pystr \<Rightarrow> pystr \<Rightarrow> bool session" where
  "fail_claimed_task i err = scoped (try_except
     (sthen connect (sthen begin_immediate
      (sbind (query (\<lambda>d. state_of d i)) (\<lambda>st.
       if st \<noteq> Some Claimed then sthen rollback (ret False) else
       sbind now_utc (\<lambda>now.
       sbind (exec (update_task_in Claimed i (set_final FailedTerminal (Some err) now))) (\<lambda>n.
       if n \<noteq> 1 then sthen rollback (ret False) else
       sthen (emit_event_in_transaction i ''task_rejected'' (Some Claimed) (Some FailedTerminal) (Some err))
       (sthen commit (ret True))))))))
     is_sqlite (\<lambda>_. sthen rollback (ret False)))"

section \<open>Requeueing and review\<close>

definition requeue_claimed_to_retry_wait :: "pystr \<Rightarrow> bool session" where
  "requeue_claimed_to_retry_wait i = checked i Claimed (\<lambda>t.
     sbind now_utc (\<lambda>t1. sbind now_utc (\<lambda>t2.
     sthen (write_and_emit i (set_retry RetryWait (Some t1) t2)
       (emit_event i ''task_retry_wait'' (Some Claimed) (Some RetryWait) None))
     (sthen record_p40_ready_if_needed (ret True)))))"

definition requeue_retry_wait :: "pystr \<Rightarrow> bool session" where
  "requeue_retry_wait i = checked i RetryWait (\<lambda>t.
     sbind now_utc (\<lambda>t1.
     if (case t_retry_at t of None \<Rightarrow> False | Some due \<Rightarrow> t1 < due) then ret False else
     sbind now_utc (\<lambda>t2.
     sthen (write_and_emit i (set_retry Queued None t2)
       (emit_event i ''task_requeued'' (Some RetryWait) (Some Queued) None))
     (ret True))))"

definition requeue_awaiting_review :: "pystr \<Rightarrow> bool session" where
  "requeue_awaiting_review i = checked i AwaitingReview (\<lambda>t.
     sbind now_utc (\<lambda>t1.
     sthen (write_and_emit i (set_state Queued t1)
       (emit_event i ''task_requeued'' (Some AwaitingReview) (Some Queued) None))
     (ret True)))"

definition approve_awaiting_review :: "pystr \<Rightarrow> bool session" where
  "approve_awaiting_review i = checked i AwaitingReview (\<lambda>t.
     if truthy (dget (payload_of t) ''manifest'') then ret False else
     sbind now_utc (\<lambda>t1.
     sbind (exec (update_task_in AwaitingReview i (set_state Succeeded t1))) (\<lambda>n.
     if n \<noteq> 1 then sthen rollback (ret False) else
     sthen (emit_event i ''task_completed'' (Some AwaitingReview) (Some Succeeded)
              (Some ''result=review_approved''))
     (sthen commit (ret True)))))"

definition transition_awaiting_review_to_failed :: "pystr \<Rightarrow> pystr option \<Rightarrow> bool session" where
  "transition_awaiting_review_to_failed i err = checked i AwaitingReview (\<lambda>t.
     sbind now_utc (\<lambda>t1.
     sthen (write_and_emit i (set_final FailedTerminal err t1)
       (emit_event i ''task_completed'' (Some AwaitingReview) (Some FailedTerminal) (Some ''result=failure'')))
     (ret True)))"

definition transition_running_to_retry_wait :: "pystr \<Rightarrow> json option \<Rightarrow> pystr option \<Rightarrow> bool session" where
  "transition_running_to_retry_wait i result fc = checked i Running (\<lambda>t.
     sbind now_utc (\<lambda>t1.
     sthen (exec_ok (annotate_attempts i t1 result fc))
     (sbind now_utc (\<lambda>t2. sbind now_utc (\<lambda>t3.
     sthen (write_and_emit i (set_retry RetryWait (Some t2) t3)
       (emit_event i ''task_retry_wait'' (Some Running) (Some RetryWait) None))
     (ret True))))))"

definition transition_running_to_awaiting_review :: "pystr \<Rightarrow> bool session" where
  "transition_running_to_awaiting_review i = checked i Running (\<lambda>t.
     sthen (close_current_attempt i)
     (sbind now_utc (\<lambda>t1.
     sthen (write_and_emit i (set_state AwaitingReview t1)
       (emit_event i ''task_awaiting_review'' (Some Running) (Some AwaitingReview) None))
     (ret True))))"

section \<open>Queries\<close>

definition get_task :: "pystr \<Rightarrow> task option session" where
  "get_task i = scoped (try_except (sthen connect (query (\<lambda>d. task_of d i))) is_operational (\<lambda>_. ret None))"

definition get_tasks_by_state :: "pystr \<Rightarrow> int option \<Rightarrow> task list session" where
  "get_tasks_by_state st limit = (if st = [] \<or> (case limit of None \<Rightarrow> False | Some n \<Rightarrow> n < 1) then ret [] else
     scoped (try_except (sthen connect (query (\<lambda>d.
       let rows = sort_key (\<lambda>t. (t_updated t, t_id t)) (filter (\<lambda>t. state_name (t_state t) = st) (d_tasks d)) in
       (case limit of None \<Rightarrow> rows | Some n \<Rightarrow> take (nat n) rows))))
     is_operational (\<lambda>_. ret [])))"

definition get_task_events :: "pystr \<Rightarrow> int \<Rightarrow> task_event list session" where
  "get_task_events i limit = scoped (try_except (sthen connect (query (\<lambda>d.
       let rows = sort_key (\<lambda>e. - ev_created e) (filter (\<lambda>e. ev_task e = i) (d_events d)) in
       if limit < 0 then rows else take (nat limit) rows)))
     is_operational (\<lambda>_. ret []))"

definition queue_depths :: "db \<Rightarrow> (pystr \<times> nat) list" where
  "queue_depths d = map (\<lambda>st. (state_name st, count_where (\<lambda>t. t_state t = st) (d_tasks d)))
     (remdups (map t_state (d_tasks d)))"

definition get_queue_depths :: "(pystr \<times> nat) list session" where
  "get_queue_depths = scoped (try_except (sthen connect (query queue_depths)) is_operational (\<lambda>_. ret []))"

definition get_resource_conflicts :: "pystr \<Rightarrow> nat session" where
  "get_resource_conflicts r = scoped (try_except
     (sthen connect (sbind (get_worker_by_resource r) (\<lambda>w. if w = None then ret 0 else
       query (\<lambda>d. length (remdups (map (\<lambda>(t, a, w). t_id t) (resource_join r d)))))))
     is_operational (\<lambda>_. ret 0))"

text \<open>
  The earliest retry whose delay has passed, compared to the second.  SQLite's \<open>'utc'\<close> modifier shifts
  \<open>'now'\<close> by the host's UTC offset unless the library knows that \<open>'now'\<close> is UTC already; \<open>shift\<close> is the
  number of seconds it subtracts.
\<close>

record task_summary =
  ts_id :: pystr
  ts_kind :: pystr
  ts_mode :: pystr
  ts_priority :: int

definition retry_due :: "int \<Rightarrow> task \<Rightarrow> bool" where
  "retry_due now_s t = (t_state t = RetryWait \<and>
     (case t_retry_at t of None \<Rightarrow> True | Some due \<Rightarrow> due div 1000000 \<le> now_s))"

definition next_retry :: "int \<Rightarrow> db \<Rightarrow> task_summary option" where
  "next_retry now_s d =
     (case sort_key (\<lambda>t. (- t_priority t, t_id t)) (filter (retry_due now_s) (d_tasks d)) of
        [] \<Rightarrow> None
      | t # _ \<Rightarrow> Some \<lparr>ts_id = t_id t, ts_kind = t_kind t, ts_mode = t_mode t, ts_priority = t_priority t\<rparr>)"

text \<open>\<open>Inl False\<close> is the \<open>False\<close> the method returns on a database error.\<close>

definition get_retry_wait_task :: "int \<Rightarrow> (bool + task_summary option) session" where
  "get_retry_wait_task shift = scoped (try_except
     (sthen connect (sbind now_utc (\<lambda>t.
      sbind (query (next_retry (t div 1000000 - shift))) (\<lambda>r. ret (Inr r)))))
     is_sqlite (\<lambda>_. ret (Inl False)))"

section \<open>Worker selection\<close>

definition worker_available :: "worker option \<Rightarrow> bool" where
  "worker_available w = (case w of None \<Rightarrow> False | Some w \<Rightarrow> w_status w = Available)"

fun first_available :: "pystr list \<Rightarrow> pystr option session" where
  "first_available [] = ret None"
| "first_available (p # ps) = sbind (get_worker p) (\<lambda>w.
     if worker_available w then ret (map_option w_profile w) else first_available ps)"

definition review_profiles :: "task \<Rightarrow> pystr list" where
  "review_profiles t = (let preferred = (if has_text (t_review_worker t) then the (t_review_worker t) else ''codex-review'') in
     if preferred = ''codex-review'' then [preferred, ''air-review''] else [preferred])"

definition default_profile :: "task \<Rightarrow> pystr option" where
  "default_profile t = (if t_kind t = ''vision'' then Some ''p40-vision''
     else if t_kind t = ''coding''
       then Some (if t_schedule t = Some ''nightly'' \<or> t_mode t \<in> {''batch'', ''maintenance''}
                  then ''slow-coder'' else ''p40-coding'')
     else if t_kind t \<in> {''query'', ''conversation'', ''general''} then Some ''gtx-chat'' else None)"

definition select_worker_for_task :: "task \<Rightarrow> pystr option session" where
  "select_worker_for_task t = (if review_flag t \<or> has_text (t_review_worker t)
     then first_available (review_profiles t)
     else let requested = dget (payload_of t) ''worker_profile'' in
       if truthy requested
       then sbind (lookup_worker requested) (\<lambda>w.
              ret (if worker_available w then map_option w_profile w else None))
       else case default_profile t of None \<Rightarrow> ret None
         | Some p \<Rightarrow> first_available [p])"

end
