(* ===== verification/Protocol.thy ===== *)
theory Protocol
  imports Scheduler
begin

text \<open>
  The statement-level protocol of the broker's database.  \<open>db_step\<close> lists the atomic effects the
  scheduler's methods have on the committed database: the guarded transactions with their guards, the
  unguarded autocommit UPDATEs, attempts being closed, and the audit and registry tables.  Every method
  is shown to be a chain of such steps whatever fails and whatever other clients following the protocol
  do between its statements; the invariants of the database are then proved once, on the steps.
\<close>

section \<open>Steps\<close>

definition start_permitted :: "db \<Rightarrow> pystr \<Rightarrow> bool" where
  "start_permitted d prof = (prof = [] \<or> (case worker_of d prof of None \<Rightarrow> False
     | Some w \<Rightarrow> w_status w = Available \<and>
         \<not> (ctl_planning (controls_of d) = ''on'' \<and> w_resource w = Some ''p40'') \<and>
         (case w_resource w of None \<Rightarrow> True | Some r \<Rightarrow> r = [] \<or> resource_conflicts r d = 0)))"

definition start_effect :: "pystr \<Rightarrow> pystr \<Rightarrow> pystr option \<Rightarrow> int \<Rightarrow> int \<Rightarrow> int \<Rightarrow> int \<Rightarrow> db \<Rightarrow> db" where
  "start_effect i prof m t1 t2 t3 t4 d = insert_attempt i prof m t3 t4
     (update_tasks (\<lambda>t. t_id t = i \<and> t_state t = Claimed) (set_state Running t2) (close_attempts i t1 d))"

text \<open>Row updates that touch neither the keys nor, beyond the given state, the state.\<close>

definition moves_to :: "task_state \<Rightarrow> (task \<Rightarrow> task) \<Rightarrow> bool" where
  "moves_to st f = (\<forall>t. t_state (f t) = st \<and> t_id (f t) = t_id t \<and> t_idem (f t) = t_idem t)"

definition keeps_state :: "(task \<Rightarrow> task) \<Rightarrow> bool" where
  "keeps_state f = (\<forall>t. t_state (f t) = t_state t \<and> t_id (f t) = t_id t \<and> t_idem (f t) = t_idem t)"

definition closes :: "(attempt \<Rightarrow> attempt) \<Rightarrow> bool" where
  "closes g = (\<forall>a. a_id (g a) = a_id a \<and> a_task (g a) = a_task a \<and> a_worker (g a) = a_worker a \<and>
     a_end (g a) \<noteq> None)"

inductive db_step :: "db \<Rightarrow> db \<Rightarrow> bool" where
  step_add: "t_state t = Queued \<Longrightarrow> insert_task t d = Inr (d', n) \<Longrightarrow> db_step d d'"
| step_claim: "task_of d i = Some t \<Longrightarrow> claim_allowed (controls_of d) t \<Longrightarrow>
    db_step d (update_tasks (\<lambda>t. t_id t = i \<and> t_state t = Queued) (set_state Claimed now) d)"
| step_start: "state_of d i = Some Claimed \<Longrightarrow> start_permitted d prof \<Longrightarrow>
    db_step d (start_effect i prof m t1 t2 t3 t4 d)"
| step_guarded: "validate_transition st st' \<Longrightarrow> st' \<notin> {Running, Claimed} \<Longrightarrow> moves_to st' f \<Longrightarrow>
    db_step d (update_tasks (\<lambda>t. t_id t = i \<and> t_state t = st) f d)"
| step_unguarded: "st' \<in> {Queued, RetryWait, AwaitingReview, Succeeded, FailedTerminal} \<Longrightarrow> moves_to st' f \<Longrightarrow>
    db_step d (update_tasks (\<lambda>t. t_id t = i) f d)"
| step_attach: "keeps_state f \<Longrightarrow> db_step d (update_tasks p f d)"
| step_close: "closes g \<Longrightarrow> db_step d (update_attempts (\<lambda>a. q a \<and> a_end a = None) g d)"
| step_event: "db_step d (insert_event i ty fr to det now d)"
| step_control: "db_step d (upsert_control name v now actor d)"
| step_control_event: "db_step d (insert_control_event c old new actor reason now d)"
| step_worker: "w_profile w \<noteq> [] \<Longrightarrow> insert_worker_row w d = Inr (d', n) \<Longrightarrow> db_step d d'"
| step_status: "set_worker_status p st now d = Inr (d', n) \<Longrightarrow> db_step d d'"
| step_epoch: "db_step d (d\<lparr>d_epochs := e\<rparr>)"

abbreviation db_steps :: "db \<Rightarrow> db \<Rightarrow> bool" where
  "db_steps \<equiv> db_step\<^sup>*\<^sup>*"

interpretation protocol: guarantee db_steps
  by unfold_locales (auto intro: rtranclp_trans)

lemma db_step_chain: "db_step d d' \<Longrightarrow> db_steps d d'"
  by (rule r_into_rtranclp)

lemma moves_to_setters [simp]:
  "moves_to st (set_state st' now) \<longleftrightarrow> st' = st"
  "moves_to st (set_final st' err now) \<longleftrightarrow> st' = st"
  "moves_to st (set_retry st' due now) \<longleftrightarrow> st' = st"
  by (auto simp: moves_to_def set_state_def set_final_def set_retry_def)

lemma exec_ok_obeys [obeys_intros]: "(\<And>d. db_steps d (f d)) \<Longrightarrow> obeys db_steps (exec_ok f)"
  unfolding exec_ok_def by (auto intro!: obeys_intros)

lemma close_attempts_steps: "db_steps d (close_attempts i now d)"
  unfolding close_attempts_def by (rule db_step_chain, rule step_close) (simp add: closes_def)

lemma annotate_attempts_steps: "db_steps d (annotate_attempts i now res fc d)"
  unfolding annotate_attempts_def by (rule db_step_chain, rule step_close) (simp add: closes_def)

lemmas audit_steps = step_event [THEN db_step_chain] step_control_event [THEN db_step_chain]
  step_control [THEN db_step_chain] close_attempts_steps annotate_attempts_steps

lemma update_task_steps:
  assumes "update_task i f d = Inr (d', n)" "moves_to st f"
    "st \<in> {Queued, RetryWait, AwaitingReview, Succeeded, FailedTerminal}"
  shows "db_steps d d'"
  using assms step_unguarded [of st f d i] by (auto simp: update_task_def intro: db_step_chain)

lemma update_task_in_steps:
  assumes "update_task_in st i f d = Inr (d', n)" "moves_to st' f" "validate_transition st st'"
    "st' \<notin> {Running, Claimed}"
  shows "db_steps d d'"
  using assms step_guarded [of st st' f d i] by (auto simp: update_task_in_def intro: db_step_chain)

section \<open>The autocommit methods\<close>

lemma emit_event_obeys [obeys_intros]: "obeys db_steps (emit_event i ty fr to det)"
  unfolding emit_event_def by (auto intro!: obeys_intros intro: audit_steps)

lemma close_current_attempt_obeys [obeys_intros]: "obeys db_steps (close_current_attempt i)"
  unfolding close_current_attempt_def by (auto intro!: obeys_intros intro: audit_steps)

lemma checked_obeys [obeys_intros]:
  "(\<And>t. t_state t = st \<Longrightarrow> obeys db_steps (body t)) \<Longrightarrow> obeys db_steps (checked i st body)"
  unfolding checked_def by (auto intro!: obeys_intros)

lemma write_and_emit_obeys [obeys_intros]:
  assumes "moves_to st f" "st \<in> {Queued, RetryWait, AwaitingReview, Succeeded, FailedTerminal}"
    "obeys db_steps ev"
  shows "obeys db_steps (write_and_emit i f ev)"
  unfolding write_and_emit_def
  by (intro obeys_intros assms(3)) (rule update_task_steps [OF _ assms(1,2)])

section \<open>The transactions\<close>

text \<open>
  Inside a transaction the committed database is frozen at \<open>d\<close> and the working copy \<open>x\<close> evolves; an
  audit statement only appends to it.
\<close>

lemma wp_exec_ok_txn [wp_intros]:
  "Q () d (Some (f x)) \<Longrightarrow> (\<And>e. E e d (Some x)) \<Longrightarrow> wp R (exec_ok f) Q E d (Some x)"
  unfolding exec_ok_def by (auto intro!: wp_intros)

lemma wp_emit_in_txn [wp_intros]:
  assumes "\<And>t. Q () d (Some (insert_event i ty fr to det t x))" "Q () d (Some x)" "\<And>e. E e d (Some x)"
  shows "wp R (emit_event_in_transaction i ty fr to det) Q E d (Some x)"
  unfolding emit_event_in_transaction_def by (auto intro!: wp_intros assms)

lemma wp_read_controls_txn [wp_intros]:
  "Q (controls_of x) d (Some x) \<Longrightarrow> (\<And>e. E e d (Some x)) \<Longrightarrow> wp R read_controls Q E d (Some x)"
  unfolding read_controls_def by (auto intro!: wp_intros)

lemma wp_p40_busy_txn [wp_intros]:
  "Q (p40_running x \<or> p40_claimed x) d (Some x) \<Longrightarrow> (\<And>e. E e d (Some x)) \<Longrightarrow>
   wp R p40_busy_cursor Q E d (Some x)"
  unfolding p40_busy_cursor_def by (auto intro!: wp_intros)

definition control_state_of :: "db \<Rightarrow> control_state" where
  "control_state_of d = (let c = controls_of d; busy = p40_running d \<or> p40_claimed d in
     \<lparr>ctl_schedule = ctl_schedule c, ctl_planning = ctl_planning c, ctl_mode = ctl_mode c,
      cs_p40 = (if ctl_planning c = ''on'' then if busy then ''draining'' else ''ready''
                else if busy then ''busy'' else ''available'')\<rparr>)"

lemma wp_control_state_txn [wp_intros]:
  "Q (control_state_of x) d (Some x) \<Longrightarrow> (\<And>e. E e d (Some x)) \<Longrightarrow>
   wp R control_state_from_cursor Q E d (Some x)"
  unfolding control_state_from_cursor_def
  by (intro wp_intros) (auto simp: control_state_of_def Let_def)

lemma record_p40_ready_obeys [obeys_intros]: "obeys db_steps record_p40_ready_if_needed"
  unfolding record_p40_ready_if_needed_def obeys_def
  by (intro allI wp_intros) (auto intro!: wp_intros intro: rtranclp_trans audit_steps)

lemma complete_task_obeys: "obeys db_steps (complete_task i result err fc)"
  unfolding complete_task_def complete_body_def Let_def
  by (intro obeys_intros) (auto intro: audit_steps elim!: update_task_steps split: if_splits)

lemma retry_task_obeys: "obeys db_steps (retry_task i delay)"
  unfolding retry_task_def by (intro obeys_intros) auto

lemma requeue_claimed_obeys: "obeys db_steps (requeue_claimed_to_retry_wait i)"
  unfolding requeue_claimed_to_retry_wait_def by (intro obeys_intros) auto

lemma requeue_retry_wait_obeys: "obeys db_steps (requeue_retry_wait i)"
  unfolding requeue_retry_wait_def by (intro obeys_intros) auto

lemma requeue_awaiting_review_obeys: "obeys db_steps (requeue_awaiting_review i)"
  unfolding requeue_awaiting_review_def by (intro obeys_intros) auto

lemma approve_awaiting_review_obeys: "obeys db_steps (approve_awaiting_review i)"
  unfolding approve_awaiting_review_def
  by (intro obeys_intros) (auto elim!: update_task_in_steps simp: validate_transition_def)

lemma awaiting_review_to_failed_obeys: "obeys db_steps (transition_awaiting_review_to_failed i err)"
  unfolding transition_awaiting_review_to_failed_def by (intro obeys_intros) auto

lemma running_to_retry_wait_obeys: "obeys db_steps (transition_running_to_retry_wait i result fc)"
  unfolding transition_running_to_retry_wait_def by (intro obeys_intros) (auto intro: audit_steps)

lemma running_to_awaiting_review_obeys: "obeys db_steps (transition_running_to_awaiting_review i)"
  unfolding transition_running_to_awaiting_review_def by (intro obeys_intros) auto

text \<open>Extending a chain at its end, by the effect the goal shows.\<close>

lemma then_event [db_step_intros]: "db_steps d d' \<Longrightarrow> db_steps d (insert_event i ty fr to det now d')"
  by (erule rtranclp.rtrancl_into_rtrancl) (rule step_event)

lemma then_control_event [db_step_intros]:
  "db_steps d d' \<Longrightarrow> db_steps d (insert_control_event c old new actor reason now d')"
  by (erule rtranclp.rtrancl_into_rtrancl) (rule step_control_event)

lemma then_upsert [db_step_intros]: "db_steps d d' \<Longrightarrow> db_steps d (upsert_control name v now actor d')"
  by (erule rtranclp.rtrancl_into_rtrancl) (rule step_control)

lemma then_guarded:
  "db_steps d d' \<Longrightarrow> validate_transition st st' \<Longrightarrow> st' \<notin> {Running, Claimed} \<Longrightarrow> moves_to st' f \<Longrightarrow>
   db_steps d (update_tasks (\<lambda>t. t_id t = i \<and> t_state t = st) f d')"
  by (erule rtranclp.rtrancl_into_rtrancl) (rule step_guarded)

lemma then_reject [db_step_intros]:
  "db_steps d d' \<Longrightarrow> db_steps d (update_tasks (\<lambda>t. t_id t = i \<and> t_state t = Claimed)
     (set_final FailedTerminal err now) d')"
  by (erule then_guarded) (simp_all add: validate_transition_def)

lemma then_cancel [db_step_intros]:
  "db_steps d d' \<Longrightarrow> validate_transition st Cancelled \<Longrightarrow>
   db_steps d (update_tasks (\<lambda>t. t_id t = i \<and> t_state t = st) (set_state Cancelled now) d')"
  by (erule then_guarded) simp_all

lemma then_claim:
  "db_steps d d' \<Longrightarrow> task_of d' i = Some t \<Longrightarrow> claim_allowed (controls_of d') t \<Longrightarrow>
   db_steps d (update_tasks (\<lambda>t. t_id t = i \<and> t_state t = Queued) (set_state Claimed now) d')"
  by (erule rtranclp.rtrancl_into_rtrancl) (rule step_claim)

lemma then_start:
  "db_steps d d' \<Longrightarrow> state_of d' i = Some Claimed \<Longrightarrow> start_permitted d' prof \<Longrightarrow>
   db_steps d (start_effect i prof m t1 t2 t3 t4 d')"
  by (erule rtranclp.rtrancl_into_rtrancl) (rule step_start)

lemma two_steps: "db_steps d d' \<Longrightarrow> db_steps d' d'' \<Longrightarrow> db_steps d d''"
  by (rule rtranclp_trans)

lemma three_steps: "db_steps d d' \<Longrightarrow> db_steps d' d'' \<Longrightarrow> db_steps d'' e \<Longrightarrow> db_steps d e"
  by (blast intro: rtranclp_trans)

lemma cancel_task_obeys: "obeys db_steps (cancel_task i)"
  unfolding cancel_task_def obeys_def
  by (intro allI wp_intros)
     (auto simp: update_task_in_def split: if_splits intro!: wp_intros db_step_intros
        intro: two_steps three_steps)

lemma fail_claimed_task_obeys: "obeys db_steps (fail_claimed_task i err)"
  unfolding fail_claimed_task_def obeys_def
  by (intro allI wp_intros)
     (auto simp: update_task_in_def split: if_splits
        intro!: wp_intros db_step_intros intro: two_steps three_steps)

lemma set_control_obeys: "obeys db_steps (set_control name v actor reason)"
  unfolding set_control_def set_control_txn_def obeys_def Let_def
  by (intro allI wp_intros) (auto intro!: wp_intros db_step_intros intro: two_steps three_steps)

lemma wp_emit_event [wp_intros]:
  "(\<And>a d'. db_steps d d' \<Longrightarrow> Q a d' None) \<Longrightarrow> (\<And>e d'. db_steps d d' \<Longrightarrow> E e d' None) \<Longrightarrow>
   wp db_steps (emit_event i ty fr to det) Q E d None"
  by (rule protocol.obeys_use [OF emit_event_obeys, of d]) auto

lemma claim_task_obeys: "obeys db_steps (claim_task i)"
proof -
  have claim: "db_steps d d''"
    if "db_steps (update_tasks (\<lambda>t. t_id t = i \<and> t_state t = Queued) (set_state Claimed now) d') d''"
      "db_steps d d0" "db_steps d0 d'" "task_of d' i = Some t" "claim_allowed (controls_of d') t"
    for d d0 d' d'' t now
    using that by (blast intro: then_claim rtranclp_trans)
  show ?thesis
    unfolding claim_task_def obeys_def
    by (intro allI wp_intros)
       (auto simp: update_task_in_def split: if_splits option.splits
          intro!: wp_intros intro: claim two_steps)
qed

section \<open>Starting a task\<close>

text \<open>
  Before the transition nothing of the transaction's working copy but the audit table has changed; in
  this span \<open>x\<close> agrees with the committed \<open>d\<close> on all that the checks read.
\<close>

lemma wp_get_worker_txn [wp_intros]:
  "Q (worker_of d p) d (Some x) \<Longrightarrow> (\<And>e. E e d (Some x)) \<Longrightarrow> wp R (get_worker p) Q E d (Some x)"
  unfolding get_worker_def by (auto intro!: wp_intros)

lemma wp_lookup_worker_txn:
  assumes "\<And>w. Q w d (Some x)" "\<And>e. E e d (Some x)"
  shows "wp R (lookup_worker j) Q E d (Some x)"
  using assms by (cases j) (auto intro!: wp_intros)

lemma wp_validate_manifest_txn [wp_intros]:
  assumes "Q () d (Some x)" "\<And>e. E e d (Some x)"
  shows "wp R (validate_manifest_task cf t) Q E d (Some x)"
  unfolding validate_manifest_task_def manifest_worker_def check_manifest_def Let_def
  by (auto split: json.splits intro!: wp_intros wp_lookup_worker_txn assms)

lemma wp_refuse [wp_intros]:
  assumes "\<And>w. Q False d w" "\<And>e w. E e d w"
  shows "wp R (refuse i details) Q E d (Some x)"
  unfolding refuse_def by (auto intro!: wp_intros assms)

lemma wp_check_resource:
  assumes "(case w_resource w of None \<Rightarrow> True | Some r \<Rightarrow> r = [] \<or> resource_conflicts r x = 0) \<Longrightarrow> Q True d (Some x)"
    "\<And>w. Q False d w" "\<And>e w. E e d w"
  shows "wp R (check_resource i t w) Q E d (Some x)"
  unfolding check_resource_def
  by (intro wp_intros) (auto intro!: wp_intros assms split: option.splits if_splits)

lemma wp_start_checks:
  assumes "start_permitted x prof \<Longrightarrow> Q True x (Some x)" "\<And>w. Q False x w" "\<And>e w. E e x w" "prof \<noteq> []"
  shows "wp R (start_checks cf i t prof) Q E x (Some x)"
  unfolding start_checks_def
  by (intro wp_intros wp_check_resource)
     (auto intro!: wp_intros wp_check_resource assms simp: start_permitted_def split: if_splits)

lemma wp_start_transition:
  assumes "\<And>t1 t2 t3 t4. Q True (start_effect i prof m t1 t2 t3 t4 x) None"
    "\<And>t1 t2 t3 t4 det t. Q True (insert_event i ''task_started'' (Some Claimed) (Some Running) det t
        (start_effect i prof m t1 t2 t3 t4 x)) None"
    "Q False x None" "\<And>e w. E e x w"
  shows "wp R (start_transition i prof m) Q E x (Some x)"
  unfolding start_transition_def
  by (intro wp_intros)
     (auto simp: update_task_in_def split: if_splits
        intro!: wp_intros assms(3,4) assms(1,2) [unfolded start_effect_def])

lemma wp_start_body:
  assumes "\<And>t1 t2 t3 t4 det t. state_of x i = Some Claimed \<Longrightarrow> start_permitted x prof \<Longrightarrow>
      Q True (start_effect i prof m t1 t2 t3 t4 x) None \<and>
      Q True (insert_event i ''task_started'' (Some Claimed) (Some Running) det t
        (start_effect i prof m t1 t2 t3 t4 x)) None"
    "Q False x None" "\<And>e w. E e x w"
  shows "wp R (start_body cf i prof m) Q E x (Some x)"
proof -
  have free: "start_permitted x []" by (simp add: start_permitted_def)
  show ?thesis
    unfolding start_body_def using assms
    by (intro wp_intros) (auto intro!: wp_intros wp_start_checks wp_start_transition simp: state_of_def free)
qed

text \<open>
  The retry loop, for any assertion \<open>P\<close> on its answer and the committed database that the body of one
  attempt establishes: the other clients preserve \<open>P False\<close>, and a permitted start establishes \<open>P True\<close>.
\<close>

lemma wp_start_loop:
  assumes R: "\<And>a. R a a" "\<And>a b c. R a b \<Longrightarrow> R b c \<Longrightarrow> R a c"
    and same: "\<And>x. R d0 x \<Longrightarrow> P False x"
    and body: "\<And>x. R d0 x \<Longrightarrow> wp R (start_body cf i prof m) (\<lambda>r d' w. w = None \<and> P r d')
      (\<lambda>_ d' w. d' = x) x (Some x)"
  shows "R d0 d \<Longrightarrow> wp R (start_loop cf i prof m bound n) (\<lambda>r d' w. w = None \<and> P r d') (\<lambda>_ d' w. P False d') d None"
proof (induction n arbitrary: d bound)
  case 0
  then show ?case by (simp add: wp_ret same)
next
  case (Suc n)
  have chain: "R d0 x" if "R d d'" "R d' x" for d' x
    using that Suc.prems R(2) by blast
  have here: "R d0 d'" if "R d d'" for d'
    using that Suc.prems R(2) by blast
  show ?case
    unfolding start_loop.simps connect_bound_def
    by (intro wp_intros)
       (auto intro!: wp_intros wp_mono [OF body [OF chain]] Suc.IH intro: chain here same [OF chain] same [OF here])
qed

lemma wp_start_task_body:
  assumes R: "\<And>a. R a a" "\<And>a b c. R a b \<Longrightarrow> R b c \<Longrightarrow> R a c"
    and same: "\<And>x. R d x \<Longrightarrow> P False x"
    and body: "\<And>x. R d x \<Longrightarrow> wp R (start_body cf i prof m) (\<lambda>r d' w. w = None \<and> P r d')
      (\<lambda>_ d' w. d' = x) x (Some x)"
  shows "wp R (start_task cf i prof m) (\<lambda>r d' w. w = None \<and> P r d') (\<lambda>_ d' w. w = None \<and> P False d') d None"
  unfolding start_task_def
proof (rule wp_scoped)
  show "wp R (start_loop cf i prof m False 3) (\<lambda>r d' w. None = None \<and> P r d') (\<lambda>_ d' w. None = None \<and> P False d') d None"
    by (rule wp_mono [OF wp_start_loop [where d0 = d and P = P, OF R same body R(1)]]) simp_all
qed

lemma wp_start_task:
  assumes R: "\<And>a. R a a" "\<And>a b c. R a b \<Longrightarrow> R b c \<Longrightarrow> R a c"
    and same: "\<And>x. R d x \<Longrightarrow> P False x"
    and start: "\<And>x t1 t2 t3 t4 det t. R d x \<Longrightarrow> state_of x i = Some Claimed \<Longrightarrow> start_permitted x prof \<Longrightarrow>
      P True (start_effect i prof m t1 t2 t3 t4 x) \<and>
      P True (insert_event i ''task_started'' (Some Claimed) (Some Running) det t (start_effect i prof m t1 t2 t3 t4 x))"
  shows "wp R (start_task cf i prof m) (\<lambda>r d' w. w = None \<and> P r d') (\<lambda>_ d' w. w = None \<and> P False d') d None"
proof (rule wp_start_task_body [where P = P])
  fix x assume "R d x"
  then show "wp R (start_body cf i prof m) (\<lambda>r d' w. w = None \<and> P r d') (\<lambda>_ d' w. d' = x) x (Some x)"
    by (intro wp_start_body) (simp_all add: same start)
qed (rule R(1) | rule same, assumption | erule (1) R(2))+

lemma start_task_obeys: "obeys db_steps (start_task cf i prof m)"
  unfolding obeys_def
proof
  fix d show "wp db_steps (start_task cf i prof m) (\<lambda>_ d' w. w = None \<and> db_steps d d')
      (\<lambda>_ d' w. w = None \<and> db_steps d d') d None"
    by (rule wp_start_task [where P = "\<lambda>_. db_steps d"]) (simp_all add: then_start then_event)
qed

section \<open>Admission and the registry\<close>

lemma insert_request_step: "insert_task (request_row q mode schedule t1 t2) d = Inr (d', n) \<Longrightarrow> db_steps d d'"
  by (rule db_step_chain, rule step_add) (simp_all add: request_row_def)

lemma add_task_obeys [obeys_intros]: "obeys db_steps (add_task q)"
  unfolding add_task_def insert_request_def Let_def
  by (intro obeys_intros) (auto elim: insert_request_step)

lemma lookup_worker_obeys: "obeys db_steps (lookup_worker j)"
  by (cases j) (auto simp: get_worker_def intro!: obeys_intros)

lemma add_manifest_task_obeys: "obeys db_steps (add_manifest_task cf m priority)"
  unfolding add_manifest_task_def manifest_worker_def check_manifest_def Let_def
  by (intro obeys_intros lookup_worker_obeys)

lemma update_status_obeys [obeys_intros]: "obeys db_steps (update_status p st)"
  unfolding update_status_def by (intro obeys_intros) (auto intro: db_step_chain step_status)

lemma insert_worker_obeys [obeys_intros]: "w_profile w \<noteq> [] \<Longrightarrow> obeys db_steps (insert_worker w)"
  unfolding insert_worker_def by (intro obeys_intros) (auto intro: db_step_chain step_worker)

lemma insert_workers_obeys: "\<forall>w \<in> set ws. w_profile w \<noteq> [] \<Longrightarrow> obeys db_steps (insert_workers ws)"
  by (induction ws) (auto intro!: obeys_intros)

lemma sync_reviewers_obeys: "obeys db_steps (sync_reviewers ps)"
proof (induction ps)
  case (Cons p ps)
  then show ?case by (cases p) (auto simp: get_worker_def intro!: obeys_intros)
qed (auto intro: obeys_intros)

lemma initialize_workers_obeys: "obeys db_steps (initialize_workers now e)"
  unfolding initialize_workers_def
  by (intro obeys_intros insert_workers_obeys sync_reviewers_obeys)
     (simp add: default_workers_def worker_profile_def)

section \<open>Clients\<close>

text \<open>A client is any sequence of calls of the methods that change the database.\<close>

datatype sched_op =
    OpAdd task_request
  | OpAddManifest pydict int
  | OpClaim pystr
  | OpStart pystr pystr "pystr option"
  | OpComplete pystr "json option" "pystr option" "pystr option"
  | OpRetry pystr int
  | OpCancel pystr
  | OpFailClaimed pystr pystr
  | OpRequeueClaimed pystr
  | OpRequeueRetry pystr
  | OpRequeueReview pystr
  | OpApprove pystr
  | OpRejectReview pystr "pystr option"
  | OpRunningRetry pystr "json option" "pystr option"
  | OpRunningReview pystr
  | OpSetControl pystr control_arg "pystr option" "pystr option"
  | OpRecordReady
  | OpWorkerStatus pystr worker_status
  | OpInitWorkers int review_env

fun run_op :: "broker_config \<Rightarrow> sched_op \<Rightarrow> unit session" where
  "run_op cf (OpAdd q) = sthen (add_task q) (ret ())"
| "run_op cf (OpAddManifest m p) = sthen (add_manifest_task cf m p) (ret ())"
| "run_op cf (OpClaim i) = sthen (claim_task i) (ret ())"
| "run_op cf (OpStart i prof m) = sthen (start_task cf i prof m) (ret ())"
| "run_op cf (OpComplete i res err fc) = sthen (complete_task i res err fc) (ret ())"
| "run_op cf (OpRetry i delay) = sthen (retry_task i delay) (ret ())"
| "run_op cf (OpCancel i) = sthen (cancel_task i) (ret ())"
| "run_op cf (OpFailClaimed i err) = sthen (fail_claimed_task i err) (ret ())"
| "run_op cf (OpRequeueClaimed i) = sthen (requeue_claimed_to_retry_wait i) (ret ())"
| "run_op cf (OpRequeueRetry i) = sthen (requeue_retry_wait i) (ret ())"
| "run_op cf (OpRequeueReview i) = sthen (requeue_awaiting_review i) (ret ())"
| "run_op cf (OpApprove i) = sthen (approve_awaiting_review i) (ret ())"
| "run_op cf (OpRejectReview i err) = sthen (transition_awaiting_review_to_failed i err) (ret ())"
| "run_op cf (OpRunningRetry i res fc) = sthen (transition_running_to_retry_wait i res fc) (ret ())"
| "run_op cf (OpRunningReview i) = sthen (transition_running_to_awaiting_review i) (ret ())"
| "run_op cf (OpSetControl n v a r) = sthen (set_control n v a r) (ret ())"
| "run_op cf OpRecordReady = record_p40_ready_if_needed"
| "run_op cf (OpWorkerStatus p st) = sthen (update_status p st) (ret ())"
| "run_op cf (OpInitWorkers now e) = initialize_workers now e"

fun run_ops :: "broker_config \<Rightarrow> sched_op list \<Rightarrow> env \<Rightarrow> sess \<Rightarrow> sess" where
  "run_ops cf [] env s = s"
| "run_ops cf (op # ops) env s = run_ops cf ops env (snd (run_op cf op env s))"

lemmas method_guarantees = claim_task_obeys start_task_obeys complete_task_obeys retry_task_obeys
  cancel_task_obeys fail_claimed_task_obeys requeue_claimed_obeys requeue_retry_wait_obeys
  requeue_awaiting_review_obeys approve_awaiting_review_obeys awaiting_review_to_failed_obeys
  running_to_retry_wait_obeys running_to_awaiting_review_obeys set_control_obeys
  add_task_obeys add_manifest_task_obeys initialize_workers_obeys update_status_obeys record_p40_ready_obeys

lemma run_op_obeys: "obeys db_steps (run_op cf op)"
  by (cases op) (simp_all add: protocol.obeys_sthen protocol.obeys_ret method_guarantees)

lemma run_op_steps:
  assumes "others_within db_steps env" "s_txn s = None"
  shows "s_txn (snd (run_op cf op env s)) = None \<and> db_steps (s_db s) (s_db (snd (run_op cf op env s)))"
  using protocol.obeys_run [OF run_op_obeys assms] by (metis prod.collapse)

lemma run_ops_steps:
  "others_within db_steps env \<Longrightarrow> s_txn s = None \<Longrightarrow>
   s_txn (run_ops cf ops env s) = None \<and> db_steps (s_db s) (s_db (run_ops cf ops env s))"
proof (induction ops arbitrary: s)
  case (Cons op ops)
  note step = run_op_steps [OF Cons.prems, of cf op]
  then show ?case
    using Cons.IH [OF Cons.prems(1) step [THEN conjunct1]] two_steps by (simp, blast)
qed simp

section \<open>Invariants of the database\<close>

text \<open>
  \<open>holds d i r\<close>: the running task \<open>i\<close> has an open attempt by a worker whose exclusive resource is \<open>r\<close>.
\<close>

definition holds :: "db \<Rightarrow> pystr \<Rightarrow> pystr \<Rightarrow> bool" where
  "holds d i r = (state_of d i = Some Running \<and> (\<exists>a \<in> set (d_attempts d). a_task a = i \<and> a_end a = None \<and>
     (\<exists>p w. a_worker a = Some p \<and> worker_of d p = Some w \<and> w_resource w = Some r)))"

definition open_tasks :: "db \<Rightarrow> pystr list" where
  "open_tasks d = map a_task (filter (\<lambda>a. a_end a = None) (d_attempts d))"

definition db_inv :: "db \<Rightarrow> bool" where
  "db_inv d \<longleftrightarrow>
     distinct (map t_id (d_tasks d)) \<and>
     distinct (filter (\<lambda>k. k \<noteq> None) (map t_idem (d_tasks d))) \<and>
     distinct (map w_profile (d_workers d)) \<and>
     distinct (open_tasks d) \<and> worker_of d [] = None \<and>
     (\<forall>a \<in> set (d_attempts d). \<forall>p. a_worker a = Some p \<longrightarrow> p = [] \<or> worker_of d p \<noteq> None) \<and>
     (\<forall>r i j. r \<noteq> [] \<longrightarrow> holds d i r \<longrightarrow> holds d j r \<longrightarrow> i = j)"

lemma state_of_update_tasks [table_simps]:
  assumes "\<And>t. p t \<Longrightarrow> t_id (f t) = t_id t"
  shows "state_of (update_tasks p f d) i =
    map_option (\<lambda>t. if p t then t_state (f t) else t_state t) (task_of d i)"
  using assms by (simp add: state_of_def task_of_update_tasks option.map_comp o_def if_distrib)

text \<open>An update that leaves running tasks running only if they were, and attempts open only if they were,
  cannot create a holder.\<close>

lemma holds_mono:
  assumes "holds d' i r" "\<And>j. state_of d' j = Some Running \<Longrightarrow> state_of d j = Some Running"
    and "\<And>a'. a' \<in> set (d_attempts d') \<Longrightarrow> a_end a' = None \<Longrightarrow> a' \<in> set (d_attempts d)"
    and "\<And>p w'. worker_of d' p = Some w' \<Longrightarrow>
      (\<exists>a \<in> set (d_attempts d). a_worker a = Some p) \<Longrightarrow>
      \<exists>w. worker_of d p = Some w \<and> w_resource w = w_resource w'"
  shows "holds d i r"
  using assms unfolding holds_def by metis

lemma inv_update_tasks:
  assumes inv: "db_inv d" and keys: "\<And>t. p t \<Longrightarrow> t_id (f t) = t_id t \<and> t_idem (f t) = t_idem t"
    and run: "\<And>t. p t \<Longrightarrow> t_state (f t) = Running \<Longrightarrow> t_state t = Running"
  shows "db_inv (update_tasks p f d)"
proof -
  have "map t_id (update_where p f (d_tasks d)) = map t_id (d_tasks d)"
      "map t_idem (update_where p f (d_tasks d)) = map t_idem (d_tasks d)"
    using keys by (simp_all add: map_update_where_same)
  moreover have "holds d i r" if "holds (update_tasks p f d) i r" for i r
    using that
  proof (rule holds_mono)
    fix j assume "state_of (update_tasks p f d) j = Some Running"
    then show "state_of d j = Some Running"
      using keys run by (auto simp: table_simps state_of_def split: if_splits)
  qed (simp_all add: table_simps)
  ultimately show ?thesis
    using inv by (auto simp: db_inv_def open_tasks_def table_simps)
qed

lemma closes_sel:
  assumes "closes g"
  shows "a_task (g a) = a_task a" "a_worker (g a) = a_worker a" "a_end (g a) \<noteq> None"
  using assms by (auto simp: closes_def)

lemma filter_open_closed:
  "closes g \<Longrightarrow> filter (\<lambda>a. a_end a = None) (update_where (\<lambda>a. q a \<and> a_end a = None) g xs) =
     filter (\<lambda>a. a_end a = None \<and> \<not> q a) xs"
  by (induction xs) (auto simp: update_where_def closes_def)

lemma open_tasks_close:
  assumes "closes g"
  shows "open_tasks (update_attempts (\<lambda>a. q a \<and> a_end a = None) g d) =
    map a_task (filter (\<lambda>a. a_end a = None \<and> \<not> q a) (d_attempts d))"
  using filter_open_closed [OF assms] by (simp add: open_tasks_def table_simps)

lemma attempts_after_close:
  assumes "closes g" "a \<in> set (update_where (\<lambda>a. q a \<and> a_end a = None) g xs)"
  shows "(\<exists>b \<in> set xs. a_worker a = a_worker b \<and> a_task a = a_task b) \<and>
    (a_end a = None \<longrightarrow> a \<in> set xs \<and> \<not> q a)"
  using assms(2) by (auto simp: set_update_where closes_sel [OF assms(1)])

lemma distinct_map_filter_sub:
  "distinct (map f (filter p xs)) \<Longrightarrow> distinct (map f (filter (\<lambda>x. p x \<and> q x) xs))"
  by (induction xs) (auto split: if_splits)

lemma inv_close:
  assumes inv: "db_inv d" and g: "closes g"
  shows "db_inv (update_attempts (\<lambda>a. q a \<and> a_end a = None) g d)"
proof -
  let ?d = "update_attempts (\<lambda>a. q a \<and> a_end a = None) g d"
  have "holds d i r" if "holds ?d i r" for i r
    using that by (rule holds_mono)
      (auto simp: table_simps state_of_def dest: attempts_after_close [OF g])
  moreover have "distinct (open_tasks ?d)"
  proof -
    have "distinct (map a_task (filter (\<lambda>a. a_end a = None) (d_attempts d)))"
      using inv by (simp add: db_inv_def open_tasks_def)
    then show ?thesis unfolding open_tasks_close [OF g] by (rule distinct_map_filter_sub)
  qed
  moreover have "\<forall>a \<in> set (d_attempts ?d). \<forall>p. a_worker a = Some p \<longrightarrow> p = [] \<or> worker_of ?d p \<noteq> None"
  proof (intro ballI allI impI)
    fix a p assume a: "a \<in> set (d_attempts ?d)" "a_worker a = Some p"
    then obtain b where "b \<in> set (d_attempts d)" "a_worker b = Some p"
      using attempts_after_close [OF g, of a q] by (force simp: table_simps)
    then show "p = [] \<or> worker_of ?d p \<noteq> None"
      using inv by (auto simp: db_inv_def table_simps)
  qed
  ultimately show ?thesis
    using inv by (auto simp: db_inv_def table_simps)
qed

lemma holds_conflict:
  assumes "holds d i r"
  shows "0 < resource_conflicts r d"
proof -
  obtain t a p w where h: "task_of d i = Some t" "t_state t = Running" "a \<in> set (d_attempts d)" "a_task a = i"
      "a_worker a = Some p" "worker_of d p = Some w" "w_resource w = Some r"
    using assms by (auto simp: holds_def state_of_def)
  have "(t, a, w) \<in> set (resource_join r d)"
    using h task_of_id [OF h(1)] worker_of_profile [OF h(6)] by (auto simp: resource_join_def)
  then show ?thesis by (auto simp: resource_conflicts_def intro: length_pos_if_in_set)
qed

lemma start_effect_sel:
  "d_tasks (start_effect i prof m t1 t2 t3 t4 d) =
     update_where (\<lambda>t. t_id t = i \<and> t_state t = Claimed) (set_state Running t2) (d_tasks d)"
  "d_attempts (start_effect i prof m t1 t2 t3 t4 d) = d_attempts (close_attempts i t1 d) @
     [\<lparr>a_id = length (d_attempts d) + 1, a_task = i, a_worker = Some prof, a_model = m, a_start = Some t3,
       a_end = None, a_result = None, a_failure = None, a_created = t4\<rparr>]"
  "worker_of (start_effect i prof m t1 t2 t3 t4 d) p = worker_of d p"
  "d_workers (start_effect i prof m t1 t2 t3 t4 d) = d_workers d"
  by (simp_all add: start_effect_def insert_attempt_def close_attempts_def table_simps worker_of_def)

lemma start_effect_state:
  "state_of (start_effect i prof m t1 t2 t3 t4 d) j =
     (if j = i \<and> state_of d i = Some Claimed then Some Running else state_of d j)"
proof -
  have "t_id t = j" if "row_of t_id j (d_tasks d) = Some t" for t
    using that by (blast dest: row_of_Some_in)
  then show ?thesis
    by (cases "row_of t_id j (d_tasks d)")
       (auto simp: state_of_def task_of_def start_effect_sel row_of_update_where set_state_def)
qed

lemma closes_end [simp]: "closes (\<lambda>a. a\<lparr>a_end := Some now\<rparr>)"
  by (simp add: closes_def)

lemma holds_start:
  assumes "start_permitted d prof" "worker_of d [] = None" "holds (start_effect i prof m t1 t2 t3 t4 d) j r"
  shows "holds d j r \<and> j \<noteq> i \<or>
    j = i \<and> (\<exists>w. worker_of d prof = Some w \<and> w_resource w = Some r)"
proof -
  let ?d = "start_effect i prof m t1 t2 t3 t4 d"
  have st: "state_of ?d j = Some Running"
    using assms(3) by (simp add: holds_def)
  obtain a p w where h: "a \<in> set (d_attempts ?d)" "a_task a = j" "a_end a = None" "a_worker a = Some p"
      "worker_of d p = Some w" "w_resource w = Some r"
    using assms(3) unfolding holds_def start_effect_sel(3) by blast
  consider (old) "a \<in> set (d_attempts d)" "a_task a \<noteq> i" | (new) "j = i" "p = prof"
    using h(1-4) attempts_after_close [OF closes_end, of a "\<lambda>a. a_task a = i" t1]
    by (auto simp: start_effect_sel close_attempts_def table_simps)
  then show ?thesis
  proof cases
    case old
    then have "holds d j r"
      using h st by (auto simp: holds_def start_effect_state split: if_splits)
    with old h show ?thesis by auto
  next
    case new
    with h show ?thesis by blast
  qed
qed

lemma start_permitted_free:
  assumes "start_permitted d prof" "worker_of d [] = None" "worker_of d prof = Some w" "w_resource w = Some r"
    "r \<noteq> []"
  shows "\<not> holds d j r"
  using assms holds_conflict [of d j r] by (auto simp: start_permitted_def split: option.splits)

lemma inv_start:
  assumes inv: "db_inv d" and ok: "start_permitted d prof" and prof: "prof = [] \<or> worker_of d prof \<noteq> None"
  shows "db_inv (start_effect i prof m t1 t2 t3 t4 d)"
proof -
  let ?d = "start_effect i prof m t1 t2 t3 t4 d"
  have none: "worker_of d [] = None" using inv by (simp add: db_inv_def)
  have keys: "map t_id (d_tasks ?d) = map t_id (d_tasks d)" "map t_idem (d_tasks ?d) = map t_idem (d_tasks d)"
    by (simp_all add: start_effect_sel map_update_where_same set_state_def)
  have closed: "db_inv (close_attempts i t1 d)"
    unfolding close_attempts_def using inv by (rule inv_close) simp
  have "i \<notin> set (open_tasks (close_attempts i t1 d))"
    unfolding close_attempts_def by (auto simp: open_tasks_close)
  moreover have "open_tasks ?d = open_tasks (close_attempts i t1 d) @ [i]"
    by (simp add: open_tasks_def start_effect_sel)
  ultimately have opens: "distinct (open_tasks ?d)"
    using closed by (simp add: db_inv_def)
  have "\<forall>a \<in> set (d_attempts ?d). \<forall>p. a_worker a = Some p \<longrightarrow> p = [] \<or> worker_of ?d p \<noteq> None"
    using closed prof by (auto simp: db_inv_def start_effect_sel close_attempts_def table_simps)
  moreover have "j = k" if r: "r \<noteq> []" and jk: "holds ?d j r" "holds ?d k r" for r j k
    using holds_start [OF ok none jk(1)] holds_start [OF ok none jk(2)] start_permitted_free [OF ok none _ _ r]
      inv r unfolding db_inv_def by blast
  ultimately show ?thesis
    using inv opens none unfolding db_inv_def keys start_effect_sel(3,4) by blast
qed

lemma task_of_None: "task_of d i = None \<longleftrightarrow> i \<notin> t_id ` set (d_tasks d)"
  by (simp add: task_of_def row_of_None_iff)

lemma inv_add:
  assumes inv: "db_inv d" and t: "t_state t = Queued" and ins: "insert_task t d = Inr (d', n)"
  shows "db_inv d'"
proof -
  have fresh: "task_of d (t_id t) = None" "\<not> key_taken (t_idem t) d"
      and d': "d' = d\<lparr>d_tasks := d_tasks d @ [t]\<rparr>"
    using ins by (auto simp: insert_task_def split: if_splits)
  have w: "worker_of d' p = worker_of d p" for p by (simp add: d' worker_of_def)
  have "holds d i r" if "holds d' i r" for i r
    using that
  proof (rule holds_mono)
    fix j assume "state_of d' j = Some Running"
    then show "state_of d j = Some Running"
      using t by (auto simp: d' state_of_def task_of_def row_of_append split: option.splits if_splits)
  qed (simp_all add: d' w worker_of_def)
  moreover have "distinct (map t_id (d_tasks d'))"
    using inv fresh(1) by (auto simp: db_inv_def d' task_of_None)
  moreover have "distinct (filter (\<lambda>k. k \<noteq> None) (map t_idem (d_tasks d')))"
    using inv fresh(2) by (auto simp: db_inv_def d' key_taken_def)
  moreover have "d_workers d' = d_workers d" "d_attempts d' = d_attempts d" "open_tasks d' = open_tasks d"
    by (simp_all add: d' open_tasks_def)
  ultimately show ?thesis
    using inv unfolding db_inv_def w by simp
qed

lemma worker_of_None: "worker_of d p = None \<longleftrightarrow> p \<notin> w_profile ` set (d_workers d)"
  by (simp add: worker_of_def row_of_None_iff)

lemma inv_workers:
  assumes inv: "db_inv d" and same: "d_tasks d' = d_tasks d" "d_attempts d' = d_attempts d"
    and keys: "distinct (map w_profile (d_workers d'))" "worker_of d' [] = None"
    and old: "\<And>p. worker_of d p \<noteq> None \<Longrightarrow>
      map_option w_resource (worker_of d' p) = map_option w_resource (worker_of d p)"
  shows "db_inv d'"
proof -
  have st: "state_of d' i = state_of d i" for i by (simp add: state_of_def task_of_def same)
  have known: "\<forall>a \<in> set (d_attempts d). \<forall>p. a_worker a = Some p \<longrightarrow> p = [] \<or> worker_of d p \<noteq> None"
    using inv by (simp add: db_inv_def)
  have "holds d i r" if "holds d' i r" for i r
    using that
  proof (rule holds_mono)
    fix p w' assume w': "worker_of d' p = Some w'" and "\<exists>a \<in> set (d_attempts d). a_worker a = Some p"
    then have "worker_of d p \<noteq> None" using known keys(2) by fastforce
    then show "\<exists>w. worker_of d p = Some w \<and> w_resource w = w_resource w'"
      using old [of p] w' by auto
  qed (simp_all add: same st)
  moreover have "\<forall>a \<in> set (d_attempts d'). \<forall>p. a_worker a = Some p \<longrightarrow> p = [] \<or> worker_of d' p \<noteq> None"
    using known old by (fastforce simp: same)
  moreover have "open_tasks d' = open_tasks d" by (simp add: open_tasks_def same)
  ultimately show ?thesis
    using inv keys unfolding db_inv_def same by simp
qed

lemma inv_insert_worker:
  assumes "db_inv d" "w_profile w \<noteq> []" "insert_worker_row w d = Inr (d', n)"
  shows "db_inv d'"
proof (cases "worker_of d (w_profile w)")
  case None
  then have d': "d' = d\<lparr>d_workers := d_workers d @ [w]\<rparr>"
    using assms(3) by (simp add: insert_worker_row_def)
  show ?thesis
  proof (rule inv_workers [OF assms(1)])
    show "distinct (map w_profile (d_workers d'))"
      using assms(1) None by (auto simp: d' db_inv_def worker_of_None)
    show "worker_of d' [] = None"
      using assms(1,2) by (auto simp: d' db_inv_def worker_of_None)
  qed (auto simp: d' worker_of_def row_of_append split: option.splits)
next
  case (Some v)
  with assms show ?thesis by (simp add: insert_worker_row_def)
qed

lemma inv_set_status:
  assumes "db_inv d" "set_worker_status p st now d = Inr (d', n)"
  shows "db_inv d'"
proof -
  have d': "d' = d\<lparr>d_workers := update_where (\<lambda>w. w_profile w = p)
      (\<lambda>w. w\<lparr>w_status := st, w_updated := now\<rparr>) (d_workers d)\<rparr>"
    using assms(2) by (simp add: set_worker_status_def)
  have look: "worker_of d' q = map_option (\<lambda>w. if w_profile w = p then w\<lparr>w_status := st, w_updated := now\<rparr> else w)
      (worker_of d q)" for q
    by (simp add: d' worker_of_def row_of_update_where)
  show ?thesis
  proof (rule inv_workers [OF assms(1)])
    show "distinct (map w_profile (d_workers d'))"
      using assms(1) by (simp add: d' db_inv_def map_update_where_same)
    show "worker_of d' [] = None" using assms(1) by (simp add: look db_inv_def)
  next
    fix q assume "worker_of d q \<noteq> None"
    show "map_option w_resource (worker_of d' q) = map_option w_resource (worker_of d q)"
      by (cases "worker_of d q") (simp_all add: look)
  qed (simp_all add: d')
qed

lemma inv_frame:
  assumes "db_inv d" "d_tasks d' = d_tasks d" "d_attempts d' = d_attempts d" "d_workers d' = d_workers d"
  shows "db_inv d'"
  using assms by (intro inv_workers [OF assms(1)]) (simp_all add: db_inv_def worker_of_def)

lemma upsert_control_sel [table_simps]:
  "d_tasks (upsert_control name v now actor d) = d_tasks d"
  "d_attempts (upsert_control name v now actor d) = d_attempts d"
  "d_workers (upsert_control name v now actor d) = d_workers d"
  by (simp_all add: upsert_control_def)

lemma inv_step: "db_step d d' \<Longrightarrow> db_inv d \<Longrightarrow> db_inv d'"
proof (induction rule: db_step.induct)
  case (step_start d i prof m t1 t2 t3 t4)
  then show ?case
    by (intro inv_start) (auto simp: start_permitted_def split: option.splits)
next
  case (step_close g q d)
  then show ?case by (simp add: inv_close)
next
  case (step_claim d i t now)
  then show ?case by (auto intro!: inv_update_tasks simp: set_state_def)
next
  case (step_guarded st st' f d i)
  then show ?case by (auto intro!: inv_update_tasks simp: moves_to_def)
next
  case (step_unguarded st' f d i)
  then show ?case by (auto intro!: inv_update_tasks simp: moves_to_def)
next
  case (step_attach f p d)
  then show ?case by (auto intro!: inv_update_tasks simp: keeps_state_def)
next
  case (step_add t d d' n)
  then show ?case by (blast intro: inv_add)
next
  case (step_worker w d d' n)
  then show ?case by (blast intro: inv_insert_worker)
next
  case (step_status p st now d d' n)
  then show ?case by (blast intro: inv_set_status)
qed (auto intro: inv_frame simp: table_simps)

lemma inv_steps: "db_steps d d' \<Longrightarrow> db_inv d \<Longrightarrow> db_inv d'"
  by (induction rule: rtranclp_induct) (auto intro: inv_step)
end
