(* ===== verification/Transitions.thy ===== *)
theory Transitions
  imports Protocol
begin

text \<open>
  The state machine of a task.  As long as no other client writes the tasks table, every method moves
  every task at most one edge along \<open>STATE_TRANSITIONS\<close>, whatever statement fails.  With other clients
  the unguarded autocommit methods do not have this property: a concrete interleaving shows it.
\<close>

section \<open>Legal moves\<close>

definition same_tasks :: "db \<Rightarrow> db \<Rightarrow> bool" where
  "same_tasks d d' = (d_tasks d' = d_tasks d)"

interpretation tasks_frame: guarantee same_tasks
  by unfold_locales (simp_all add: same_tasks_def)

fun legal_pair :: "task_state option \<Rightarrow> task_state option \<Rightarrow> bool" where
  "legal_pair None b = (b = None \<or> b = Some Queued)"
| "legal_pair (Some a) b = (\<exists>c. b = Some c \<and> (c = a \<or> validate_transition a c))"

definition legal_move :: "db \<Rightarrow> db \<Rightarrow> bool" where
  "legal_move d d' = (\<forall>i. legal_pair (state_of d i) (state_of d' i))"

lemma legal_pair_refl [simp]: "legal_pair a a"
  by (cases a) auto

lemma state_of_same: "same_tasks d d' \<Longrightarrow> state_of d' i = state_of d i"
  by (simp add: same_tasks_def state_of_def task_of_def)

lemma legal_same [legal_intros]: "same_tasks d d' \<Longrightarrow> legal_move d d'"
  by (simp add: legal_move_def state_of_same)

lemma same_tasks_sel [simp]:
  "same_tasks d (insert_event i ty fr to det now d') = same_tasks d d'"
  "same_tasks d (insert_control_event c old new actor reason now d') = same_tasks d d'"
  "same_tasks d (upsert_control name v now actor d') = same_tasks d d'"
  "same_tasks d (update_attempts p g d') = same_tasks d d'"
  "same_tasks d (close_attempts i now d') = same_tasks d d'"
  "same_tasks d (annotate_attempts i now res fc d') = same_tasks d d'"
  "same_tasks d (insert_attempt i prof m t1 t2 d') = same_tasks d d'"
  by (simp_all add: same_tasks_def table_simps close_attempts_def annotate_attempts_def insert_attempt_def)

text \<open>The effect of one UPDATE of the row \<open>i\<close>, from a database with the tasks of \<open>d\<close>.\<close>

definition moved :: "db \<Rightarrow> pystr \<Rightarrow> (task \<Rightarrow> bool) \<Rightarrow> (task \<Rightarrow> task) \<Rightarrow> db \<Rightarrow> bool" where
  "moved d i p f d' = (d_tasks d' = update_where (\<lambda>t. t_id t = i \<and> p t) f (d_tasks d))"

lemma legal_moved:
  assumes "moved d i p f d'" "moves_to st' f" "state_of d i = Some st" "validate_transition st st'"
  shows "legal_move d d'"
  unfolding legal_move_def
proof
  fix j
  have "row_of t_id j (update_where (\<lambda>t. t_id t = i \<and> p t) f (d_tasks d)) =
      map_option (\<lambda>t. if t_id t = i \<and> p t then f t else t) (row_of t_id j (d_tasks d))"
    using assms(2) by (intro row_of_update_where) (simp add: moves_to_def)
  then have "state_of d' j = map_option (\<lambda>t. if t_id t = i \<and> p t then st' else t_state t) (task_of d j)"
    using assms(1,2)
    by (simp add: moved_def state_of_def task_of_def moves_to_def option.map_comp o_def if_distrib
        cong: if_cong)
  then show "legal_pair (state_of d j) (state_of d' j)"
    using assms(3,4) task_of_id [of d j] by (cases "task_of d j") (auto simp: state_of_def)
qed

lemma moved_frame [simp]:
  "moved d i p f (insert_event j ty fr to det now d') = moved d i p f d'"
  "moved d i p f (insert_control_event c old new actor reason now d') = moved d i p f d'"
  "moved d i p f (update_attempts q g d') = moved d i p f d'"
  "moved d i p f (close_attempts j now d') = moved d i p f d'"
  "moved d i p f (annotate_attempts j now res fc d') = moved d i p f d'"
  "moved d i p f (insert_attempt j prof m t1 t2 d') = moved d i p f d'"
  by (simp_all add: moved_def table_simps close_attempts_def annotate_attempts_def insert_attempt_def)

lemma moved_same: "moved d i p f d' \<Longrightarrow> same_tasks d' d'' \<Longrightarrow> moved d i p f d''"
  by (simp add: moved_def same_tasks_def)

lemma moved_update:
  "same_tasks d d' \<Longrightarrow> moved d i (\<lambda>t. True) f (update_tasks (\<lambda>t. t_id t = i) f d')"
  "same_tasks d d' \<Longrightarrow> moved d i p f (update_tasks (\<lambda>t. t_id t = i \<and> p t) f d')"
  by (simp_all add: moved_def same_tasks_def table_simps)

section \<open>Frames of the helpers\<close>

lemma exec_ok_frame [obeys_intros]: "(\<And>d. same_tasks d (f d)) \<Longrightarrow> obeys same_tasks (exec_ok f)"
  unfolding exec_ok_def by (auto intro!: tasks_frame.obeys_sbind tasks_frame.obeys_exec tasks_frame.obeys_ret)

lemma emit_event_frame: "obeys same_tasks (emit_event i ty fr to det)"
  unfolding emit_event_def by (auto intro!: obeys_intros simp: tasks_frame.G_refl)

lemma close_current_attempt_frame: "obeys same_tasks (close_current_attempt i)"
  unfolding close_current_attempt_def by (auto intro!: obeys_intros simp: tasks_frame.G_refl)

lemma record_p40_ready_frame: "obeys same_tasks record_p40_ready_if_needed"
  unfolding record_p40_ready_if_needed_def obeys_def
  by (intro allI wp_intros) (auto intro!: wp_intros intro: tasks_frame.G_trans)

lemma wp_frame_use:
  assumes "obeys same_tasks m" "\<And>a d'. same_tasks d d' \<Longrightarrow> Q a d' None" "\<And>e d'. same_tasks d d' \<Longrightarrow> E e d' None"
  shows "wp same_tasks m Q E d None"
  by (rule tasks_frame.obeys_use [OF assms(1) tasks_frame.G_refl]) (rule assms(2,3), assumption)+

lemmas wp_frames [wp_intros] = wp_frame_use [OF emit_event_frame] wp_frame_use [OF record_p40_ready_frame]
  wp_frame_use [OF close_current_attempt_frame]

lemma wp_write_and_emit [wp_intros]:
  assumes "\<And>d'. d_tasks d' = update_where (\<lambda>t. t_id t = i) f (d_tasks d) \<Longrightarrow> Q () d' None"
    "\<And>e d'. same_tasks d d' \<or> d_tasks d' = update_where (\<lambda>t. t_id t = i) f (d_tasks d) \<Longrightarrow> E e d' None"
  shows "wp same_tasks (write_and_emit i f (emit_event i ty fr to det)) Q E d None"
  unfolding write_and_emit_def
  by (intro wp_intros)
     (auto intro!: wp_intros assms simp: update_task_def same_tasks_def table_simps update_where_none)

section \<open>Every method makes legal moves\<close>

definition legal :: "'a session \<Rightarrow> bool" where
  "legal m = (\<forall>d. wp same_tasks m (\<lambda>_ d' w. w = None \<and> legal_move d d') (\<lambda>_ d' w. w = None \<and> legal_move d d') d None)"

lemma legal_frame: "obeys same_tasks m \<Longrightarrow> legal m"
  unfolding legal_def by (auto intro!: wp_frame_use legal_same)

lemma legal_checked:
  assumes "\<And>d d1 t. same_tasks d d1 \<Longrightarrow> state_of d i = Some st \<Longrightarrow>
    wp same_tasks (body t) (\<lambda>_ d' w. legal_move d d') (\<lambda>_ d' w. legal_move d d') d1 None"
  shows "legal (checked i st body)"
  unfolding legal_def checked_def
  by (intro allI wp_intros)
     (auto intro!: wp_intros wp_mono [OF assms] intro: legal_same simp: same_tasks_def state_of_def task_of_def)

lemma legal_write:
  assumes "d_tasks d' = update_where (\<lambda>t. t_id t = i) f (d_tasks d1)" "same_tasks d d1"
    "state_of d i = Some st" "moves_to st' f" "validate_transition st st'"
  shows "legal_move d d'"
  using legal_moved [of d i "\<lambda>_. True" f d'] assms by (simp add: moved_def same_tasks_def)

lemma legal_write_chain:
  assumes "d_tasks d' = update_where (\<lambda>t. t_id t = i) f (d_tasks d1)" "same_tasks d' d''" "same_tasks d d1"
    "state_of d i = Some st" "moves_to st' f" "validate_transition st st'"
  shows "legal_move d d''"
  using legal_write [of d'' i f d1 d st st'] assms by (simp add: same_tasks_def)

lemma legal_same_chain:
  "same_tasks d d1 \<Longrightarrow> same_tasks d1 d' \<Longrightarrow> legal_move d d'"
  "same_tasks d d1 \<Longrightarrow> same_tasks d1 d2 \<Longrightarrow> same_tasks d2 d' \<Longrightarrow> legal_move d d'"
  by (simp_all add: legal_same same_tasks_def)

lemma table_edges [simp]:
  "validate_transition Running Succeeded" "validate_transition Running FailedTerminal"
  "validate_transition Running RetryWait" "validate_transition Running AwaitingReview"
  "validate_transition Claimed RetryWait" "validate_transition Claimed FailedTerminal"
  "validate_transition Claimed Running" "validate_transition Queued Claimed"
  "validate_transition RetryWait Queued" "validate_transition AwaitingReview Queued"
  "validate_transition AwaitingReview Succeeded" "validate_transition AwaitingReview FailedTerminal"
  by (simp_all add: validate_transition_def)

lemma legal_requeue_retry_wait: "legal (requeue_retry_wait i)"
  unfolding requeue_retry_wait_def
  by (intro legal_checked wp_intros)
     (auto intro!: wp_intros intro: legal_same legal_same_chain elim: legal_write legal_write_chain)

lemma legal_requeue_claimed: "legal (requeue_claimed_to_retry_wait i)"
  unfolding requeue_claimed_to_retry_wait_def
  by (intro legal_checked wp_intros)
     (auto intro!: wp_intros intro: legal_same legal_same_chain elim: legal_write legal_write_chain)

lemma legal_requeue_awaiting_review: "legal (requeue_awaiting_review i)"
  unfolding requeue_awaiting_review_def
  by (intro legal_checked wp_intros)
     (auto intro!: wp_intros intro: legal_same legal_same_chain elim: legal_write legal_write_chain)

lemma legal_awaiting_review_to_failed: "legal (transition_awaiting_review_to_failed i err)"
  unfolding transition_awaiting_review_to_failed_def
  by (intro legal_checked wp_intros)
     (auto intro!: wp_intros intro: legal_same legal_same_chain elim: legal_write legal_write_chain)

lemma same_tasks_trans3:
  "same_tasks a b \<Longrightarrow> same_tasks b c \<Longrightarrow> same_tasks a c"
  "same_tasks a b \<Longrightarrow> same_tasks b c \<Longrightarrow> same_tasks c e \<Longrightarrow> same_tasks a e"
  by (simp_all add: same_tasks_def)

lemma wp_exec_ok_frame [wp_intros]:
  "(\<And>d. same_tasks d (f d)) \<Longrightarrow> (\<And>a d'. same_tasks d d' \<Longrightarrow> Q a d' None) \<Longrightarrow>
   (\<And>e d'. same_tasks d d' \<Longrightarrow> E e d' None) \<Longrightarrow> wp same_tasks (exec_ok f) Q E d None"
  by (rule wp_frame_use [OF exec_ok_frame])

lemma legal_running_to_retry_wait: "legal (transition_running_to_retry_wait i result fc)"
  unfolding transition_running_to_retry_wait_def
  by (intro legal_checked wp_intros)
     (auto intro!: wp_intros intro: legal_same legal_same_chain same_tasks_trans3 simp: tasks_frame.G_refl
        elim: legal_write [OF _ same_tasks_trans3(1)] legal_write_chain [OF _ _ same_tasks_trans3(1)])

lemma legal_running_to_awaiting_review: "legal (transition_running_to_awaiting_review i)"
  unfolding transition_running_to_awaiting_review_def
  by (intro legal_checked wp_intros)
     (auto intro!: wp_intros intro: legal_same legal_same_chain
        elim: legal_write [OF _ same_tasks_trans3(1)] legal_write_chain [OF _ _ same_tasks_trans3(1)])

lemma legal_retry_task: "legal (retry_task i delay)"
  unfolding retry_task_def Let_def
  by (intro legal_checked wp_intros)
     (auto intro!: wp_intros intro: legal_same legal_same_chain
        elim: legal_write [OF _ same_tasks_trans3(1)] legal_write_chain [OF _ _ same_tasks_trans3(1)])

text \<open>With the frames unfolded to equations the tasks of the final database are computed by rewriting.\<close>

lemma legal_eq: "d_tasks d' = d_tasks d \<Longrightarrow> legal_move d d'"
  by (simp add: legal_same same_tasks_def)

lemma legal_from: "same_tasks d d' \<Longrightarrow> legal_move d' e \<Longrightarrow> legal_move d e"
  by (simp add: legal_move_def state_of_same)

lemma legal_write_eq:
  assumes "d_tasks d' = update_where (\<lambda>t. t_id t = i \<and> p t) f (d_tasks d)" "state_of d i = Some st"
    "moves_to st' f" "validate_transition st st'"
  shows "legal_move d d'"
  using assms legal_moved [of d i p f d'] by (simp add: moved_def)

lemmas legal_write_all = legal_write_eq [where p = "\<lambda>t. True", simplified]

lemma legal_complete_task: "legal (complete_task i result err fc)"
proof -
  have body: "wp same_tasks (complete_body i result err fc) (\<lambda>_ d' w. w = None \<and> legal_move d d')
      (\<lambda>_ d' w. w = None \<and> legal_move d d') d1 None"
    if "same_tasks d d1" "state_of d i = Some Running" for d d1
  proof -
    have "validate_transition Running (if err = None then Succeeded else FailedTerminal)" by simp
    note upd = legal_write_all [OF _ that(2) _ this]
    show ?thesis
      unfolding complete_body_def Let_def using that(1)
      by (intro wp_intros)
         (auto intro!: wp_intros intro: legal_eq upd
            simp: same_tasks_def update_task_def table_simps annotate_attempts_def)
  qed
  show ?thesis
    unfolding legal_def complete_task_def
    by (intro allI wp_intros)
       (auto intro!: wp_intros wp_mono [OF body] intro: legal_same legal_same_chain same_tasks_trans3 legal_from
          simp: state_of_same)
qed

lemma legal_approve: "legal (approve_awaiting_review i)"
proof -
  have upd: "legal_move d d'"
    if "d_tasks d' = update_where (\<lambda>t. t_id t = i \<and> t_state t = AwaitingReview) (set_state Succeeded now) (d_tasks d)"
      "state_of d i = Some AwaitingReview" for d d' now
    using legal_write_eq [OF that] by simp
  show ?thesis
    unfolding approve_awaiting_review_def
    by (intro legal_checked wp_intros)
       (auto intro!: wp_intros intro: legal_eq upd
          simp: same_tasks_def update_task_in_def table_simps)
qed

lemma legal_cancel_task: "legal (cancel_task i)"
proof -
  have upd: "legal_move d d'"
    if "d_tasks d' = update_where (\<lambda>t. t_id t = i \<and> t_state t = st) (set_state Cancelled now) (d_tasks d)"
      "state_of d i = Some st" "validate_transition st Cancelled" for d d' st now
    using legal_write_eq [OF that(1,2)] that(3) by simp
  show ?thesis
    unfolding legal_def cancel_task_def
    by (intro allI wp_intros)
       (auto intro!: wp_intros intro: legal_eq upd split: option.splits if_splits
          simp: same_tasks_def update_task_in_def table_simps state_of_def task_of_def)
qed

lemma legal_fail_claimed_task: "legal (fail_claimed_task i err)"
proof -
  have upd: "legal_move d d'"
    if "d_tasks d' = update_where (\<lambda>t. t_id t = i \<and> t_state t = Claimed) (set_final FailedTerminal e now) (d_tasks d)"
      "state_of d i = Some Claimed" for d d' e now
    using legal_write_eq [OF that] by simp
  show ?thesis
    unfolding legal_def fail_claimed_task_def
    by (intro allI wp_intros)
       (auto intro!: wp_intros intro: legal_eq upd split: option.splits if_splits
          simp: same_tasks_def update_task_in_def table_simps state_of_def task_of_def)
qed

lemma wp_emit_event_db [wp_intros]:
  "(\<And>a d'. d_tasks d' = d_tasks d \<Longrightarrow> Q a d' None) \<Longrightarrow> (\<And>e d'. d_tasks d' = d_tasks d \<Longrightarrow> E e d' None) \<Longrightarrow>
   wp same_tasks (emit_event i ty fr to det) Q E d None"
  by (rule wp_frame_use [OF emit_event_frame]) (simp_all add: same_tasks_def)

lemma legal_claim_task: "legal (claim_task i)"
proof -
  have upd: "legal_move d d'"
    if "d_tasks d' = update_where (\<lambda>t. t_id t = i \<and> t_state t = Queued) (set_state Claimed now) (d_tasks d)"
      "row_of t_id i (d_tasks d) = Some t" "t_state t = Queued" for d d' t now
    using legal_write_eq [OF that(1), of Queued Claimed] that(2,3) by (simp add: state_of_def task_of_def)
  show ?thesis
    unfolding legal_def claim_task_def
    by (intro allI wp_intros)
       (auto intro!: wp_intros intro: legal_eq upd split: option.splits if_splits
          simp: same_tasks_def update_task_in_def table_simps task_of_def)
qed

lemma legal_start_effect:
  assumes "state_of d i = Some Claimed" "same_tasks d0 d"
  shows "legal_move d0 (start_effect i prof m t1 t2 t3 t4 d)"
  using assms legal_write_eq [of "start_effect i prof m t1 t2 t3 t4 d" i "\<lambda>t. t_state t = Claimed"
      "set_state Running t2" d0 Claimed Running]
  by (simp add: start_effect_sel same_tasks_def state_of_def task_of_def)

lemma legal_move_event [simp]:
  "legal_move d (insert_event i ty fr to det now d') = legal_move d d'"
  by (simp add: legal_move_def state_of_def table_simps)

lemma legal_start_task: "legal (start_task cf i prof m)"
  unfolding legal_def
proof
  fix d show "wp same_tasks (start_task cf i prof m) (\<lambda>_ d' w. w = None \<and> legal_move d d')
      (\<lambda>_ d' w. w = None \<and> legal_move d d') d None"
    by (rule wp_start_task [where P = "\<lambda>_. legal_move d"])
       (auto intro: legal_same legal_start_effect simp: same_tasks_def)
qed

lemma legal_insert:
  assumes "insert_task t d1 = Inr (d', n)" "t_state t = Queued" "d_tasks d1 = d_tasks d" "d_tasks d'' = d_tasks d'"
  shows "legal_move d d''"
proof -
  have "d_tasks d'' = d_tasks d @ [t]"
    using assms by (auto simp: insert_task_def split: if_splits)
  then show ?thesis
    using assms(2) by (auto simp: legal_move_def state_of_def task_of_def row_of_append split: option.splits)
qed

lemma legal_add_task: "legal (add_task q)"
proof -
  have row: "t_state (request_row q mode schedule t1 t2) = Queued" for mode schedule t1 t2
    by (simp add: request_row_def)
  show ?thesis
    unfolding legal_def add_task_def insert_request_def Let_def
    by (intro allI wp_intros)
       (auto intro!: wp_intros intro: legal_eq legal_insert [OF _ row] simp: same_tasks_def)
qed

lemma legal_then: "obeys same_tasks m \<Longrightarrow> (\<And>a. legal (f a)) \<Longrightarrow> legal (sbind m f)"
  unfolding legal_def
  by (blast intro: wp_sbind wp_frame_use wp_mono legal_same legal_from)

lemma lookup_worker_frame: "obeys same_tasks (lookup_worker j)"
  by (cases j) (auto simp: get_worker_def intro!: obeys_intros)

lemma legal_add_manifest_task: "legal (add_manifest_task cf m priority)"
  unfolding add_manifest_task_def manifest_worker_def check_manifest_def Let_def
  by (intro legal_then legal_add_task obeys_intros lookup_worker_frame)

lemma set_control_frame: "obeys same_tasks (set_control name v actor reason)"
  unfolding set_control_def set_control_txn_def obeys_def Let_def
  by (intro allI wp_intros) (auto intro!: wp_intros intro: tasks_frame.G_trans same_tasks_trans3 tasks_frame.G_refl)

lemma update_status_frame [obeys_intros]: "obeys same_tasks (update_status p st)"
  unfolding update_status_def by (intro obeys_intros) (auto simp: set_worker_status_def same_tasks_def)

lemma insert_worker_frame [obeys_intros]: "obeys same_tasks (insert_worker w)"
  unfolding insert_worker_def
  by (intro obeys_intros) (auto simp: insert_worker_row_def same_tasks_def split: if_splits)

lemma insert_workers_frame: "obeys same_tasks (insert_workers ws)"
  by (induction ws) (simp_all add: tasks_frame.obeys_ret tasks_frame.obeys_sthen insert_worker_frame)

lemma sync_reviewers_frame: "obeys same_tasks (sync_reviewers ps)"
proof (induction ps)
  case (Cons p ps)
  then show ?case by (cases p) (auto simp: get_worker_def intro!: obeys_intros)
qed (simp add: tasks_frame.obeys_ret)

lemma initialize_workers_frame: "obeys same_tasks (initialize_workers now e)"
  unfolding initialize_workers_def
  by (intro obeys_intros insert_workers_frame sync_reviewers_frame)

lemma legal_unit: "legal m \<Longrightarrow> legal (sthen m (ret ()))"
  unfolding legal_def sthen_def by (auto intro!: wp_sbind wp_ret elim!: wp_mono)

lemmas legal_methods = legal_add_task legal_add_manifest_task legal_claim_task legal_start_task
  legal_complete_task legal_retry_task legal_cancel_task legal_fail_claimed_task legal_requeue_claimed
  legal_requeue_retry_wait legal_requeue_awaiting_review legal_approve legal_awaiting_review_to_failed
  legal_running_to_retry_wait legal_running_to_awaiting_review
  legal_frame [OF set_control_frame] legal_frame [OF update_status_frame]
  legal_frame [OF record_p40_ready_frame] legal_frame [OF initialize_workers_frame]

lemma legal_run_op: "legal (run_op cf op)"
  by (cases op) (simp_all add: legal_unit legal_methods)

lemma legal_run:
  assumes "legal m" "others_within same_tasks env" "s_txn s = None"
  shows "legal_move (s_db s) (s_db (snd (m env s)))"
proof (cases "m env s")
  case (Pair r s')
  then show ?thesis
    using wpD [OF spec [of _ "s_db s", OF assms(1) [unfolded legal_def]] assms(2) refl assms(3) Pair]
    by (cases r) simp_all
qed

end
