(* ===== verification/Queue.thy ===== *)
theory Queue
  imports Scheduler
begin

text \<open>
  Which queued task is dispatched next: the daily dispatch policy of policies.py and
  \<open>get_pending_tasks\<close>/\<open>get_next_task\<close> of scheduler.py.  Local time is a parameter (the code reads
  Europe/London through zoneinfo); only its hour and, for the waiting-time estimate, the seconds since
  the last midnight matter.
\<close>

section \<open>Dispatch policy\<close>

datatype task_mode = Immediate | Batch | Vision | MaintenanceMode

datatype schedule_window = ImmediateWindow | ImageWindow | BatchWindow | Restricted

record dispatch_policy =
  pol_image_start :: int
  pol_image_end :: int
  pol_batch_after_images :: bool
  pol_immediate_priority :: int
  pol_batch_priority :: int
  pol_vision_priority :: int
  pol_maintenance_priority :: int

definition default_policy :: dispatch_policy where
  "default_policy = \<lparr>pol_image_start = 0, pol_image_end = 6, pol_batch_after_images = True,
     pol_immediate_priority = 100, pol_batch_priority = 10, pol_vision_priority = 50,
     pol_maintenance_priority = 1\<rparr>"

definition get_current_window :: "dispatch_policy \<Rightarrow> int \<Rightarrow> int \<Rightarrow> schedule_window" where
  "get_current_window p hour pending_vision =
     (if hour \<ge> pol_image_end p \<and> hour < 24 then Restricted
      else if pending_vision = 0 \<and> hour \<ge> pol_image_start p then BatchWindow
      else if hour \<ge> pol_image_start p then ImageWindow
      else Restricted)"

definition should_queue_immediately :: "dispatch_policy \<Rightarrow> int \<Rightarrow> task_mode \<Rightarrow> int \<Rightarrow> bool" where
  "should_queue_immediately p hour mode pending_vision = (case mode of
       Immediate \<Rightarrow> True
     | Vision \<Rightarrow> False
     | Batch \<Rightarrow> \<not> (get_current_window p hour pending_vision = ImageWindow \<and> pending_vision > 0)
     | MaintenanceMode \<Rightarrow> False)"

definition calculate_priority :: "dispatch_policy \<Rightarrow> task_mode \<Rightarrow> pystr \<Rightarrow> int" where
  "calculate_priority p mode urgency =
     (case mode of Immediate \<Rightarrow> pol_immediate_priority p | Vision \<Rightarrow> pol_vision_priority p
        | Batch \<Rightarrow> pol_batch_priority p | MaintenanceMode \<Rightarrow> 0) +
     (if urgency = ''urgent'' then 50 else if urgency = ''high'' then 25
      else if urgency = ''low'' then - 10 else 0)"

definition can_admit_batch_task :: "dispatch_policy \<Rightarrow> int \<Rightarrow> int \<Rightarrow> bool" where
  "can_admit_batch_task p hour pending_vision = (let window = get_current_window p hour pending_vision in
     window \<noteq> Restricted \<and> \<not> (window = ImageWindow \<and> pending_vision > 0))"

definition get_waiting_reason :: "dispatch_policy \<Rightarrow> int \<Rightarrow> task_mode \<Rightarrow> int \<Rightarrow> pystr option" where
  "get_waiting_reason p hour mode pending_vision = (case mode of
       Vision \<Rightarrow> Some (''Waiting for image window (starts at '' @ pad_left 2 (pol_image_start p) @ '':00)'')
     | Batch \<Rightarrow> (let window = get_current_window p hour pending_vision in
         if window = Restricted
         then Some (''No new batch tasks admitted after '' @ pad_left 2 (pol_image_end p) @ '':00'')
         else if window = ImageWindow \<and> pending_vision > 0
         then Some (''Waiting for '' @ show_int pending_vision @ '' pending vision tasks to complete'')
         else None)
     | _ \<Rightarrow> None)"

text \<open>
  Microseconds to wait; \<open>tod\<close> is the local time of day in microseconds (wall-clock arithmetic, as
  \<open>datetime.replace\<close> and \<open>timedelta(days=1)\<close> do it on instants of one zone).
\<close>

definition until_hour :: "int \<Rightarrow> int \<Rightarrow> int" where
  "until_hour start tod = (let next = start * 3600000000 in
     if next \<le> tod then next + 86400000000 - tod else next - tod)"

definition estimate_wait_time :: "dispatch_policy \<Rightarrow> int \<Rightarrow> task_mode \<Rightarrow> int \<Rightarrow> int option" where
  "estimate_wait_time p tod mode position = (case mode of
       Immediate \<Rightarrow> None
     | Vision \<Rightarrow> Some (until_hour (pol_image_start p) tod)
     | Batch \<Rightarrow> (case get_current_window p (tod div 3600000000) 0 of
          Restricted \<Rightarrow> Some (until_hour (pol_image_start p) tod)
        | ImageWindow \<Rightarrow> Some (position * 10000000)
        | _ \<Rightarrow> None)
     | MaintenanceMode \<Rightarrow> None)"

section \<open>Pending tasks\<close>

definition is_vision_work :: "task \<Rightarrow> bool" where
  "is_vision_work t = (t_mode t = ''vision'' \<or> t_kind t = ''vision'')"

definition pending_vision :: "db \<Rightarrow> nat" where
  "pending_vision d = count_where (\<lambda>t. t_state t \<in> {Queued, Claimed, Running} \<and> is_vision_work t) (d_tasks d)"

definition eligible :: "schedule_window \<Rightarrow> task \<Rightarrow> bool" where
  "eligible window t = (t_state t = Queued \<and> (case window of
       ImageWindow \<Rightarrow> t_mode t \<in> {''vision'', ''immediate''} \<or> t_schedule t = Some ''immediate''
     | BatchWindow \<Rightarrow> t_mode t \<in> {''batch'', ''immediate''} \<or> t_schedule t \<in> {Some ''batch'', Some ''immediate''}
     | _ \<Rightarrow> t_mode t = ''immediate'' \<or> t_schedule t = Some ''immediate''))"

definition immediate_rank :: "task \<Rightarrow> int" where
  "immediate_rank t = (if t_mode t = ''immediate'' then 0 else 1)"

definition p40_rank :: "task \<Rightarrow> int" where
  "p40_rank t = (if t_kind t \<in> {''coding'', ''vision''} \<and>
     (case t_review_tag t of None \<Rightarrow> 0 | Some r \<Rightarrow> r) = 0 then 0 else 1)"

definition dispatch_key :: "schedule_window \<Rightarrow> task \<Rightarrow> int \<times> int \<times> int \<times> int" where
  "dispatch_key window t = (case window of
       ImageWindow \<Rightarrow> (immediate_rank t, p40_rank t, - t_priority t, t_created t)
     | BatchWindow \<Rightarrow> (p40_rank t, immediate_rank t, - t_priority t, t_created t)
     | _ \<Rightarrow> (0, p40_rank t, - t_priority t, t_created t))"

definition current_window :: "controls \<Rightarrow> int \<Rightarrow> nat \<Rightarrow> schedule_window" where
  "current_window c hour pending = (let pending = (if ctl_planning c = ''on'' then 0 else int pending) in
     if ctl_mode c = ''night'' then (if pending > 0 then ImageWindow else BatchWindow)
     else get_current_window default_policy hour pending)"

definition dispatch_order :: "schedule_window \<Rightarrow> db \<Rightarrow> task list" where
  "dispatch_order window d = sort_key (dispatch_key window) (filter (eligible window) (d_tasks d))"

definition planned :: "controls \<Rightarrow> task list \<Rightarrow> task list" where
  "planned c ts = (if ctl_planning c = ''on'' then filter (\<lambda>t. \<not> task_requires_p40 t) ts else ts)"

definition is_operational_or_programming :: "exn \<Rightarrow> bool" where
  "is_operational_or_programming e = (is_operational e \<or> e = Programming)"

definition get_pending_tasks :: "int \<Rightarrow> int option \<Rightarrow> task list session" where
  "get_pending_tasks hour limit = (if (case limit of None \<Rightarrow> False | Some n \<Rightarrow> n < 1) then ret [] else
     scoped (try_except
       (sthen connect (sbind control_state_from_cursor (\<lambda>cs.
        if ctl_schedule cs \<noteq> ''on'' then ret [] else
        sbind (query pending_vision) (\<lambda>pending.
        let window = current_window (controls.truncate cs) hour pending in
        sbind (query (dispatch_order window)) (\<lambda>rows.
        let tasks = planned (controls.truncate cs) rows in
        ret (case limit of None \<Rightarrow> tasks | Some n \<Rightarrow> take (nat n) tasks))))))
       is_operational_or_programming (\<lambda>_. ret [])))"

definition get_next_task :: "int \<Rightarrow> task option session" where
  "get_next_task hour = sbind (get_pending_tasks hour (Some 1)) (\<lambda>ts.
     ret (case ts of [] \<Rightarrow> None | t # _ \<Rightarrow> Some t))"

text \<open>What a quiet, fault-free call returns.\<close>

definition pending_of :: "int \<Rightarrow> db \<Rightarrow> task list" where
  "pending_of hour d = (let c = controls_of d in
     if ctl_schedule c \<noteq> ''on'' then []
     else planned c (dispatch_order (current_window c hour (pending_vision d)) d))"

section \<open>Lemmas\<close>

lemma set_dispatch_order: "set (dispatch_order window d) = {t \<in> set (d_tasks d). eligible window t}"
  by (auto simp: dispatch_order_def)

lemma sorted_dispatch_order: "sorted (map (dispatch_key window) (dispatch_order window d))"
  by (simp add: dispatch_order_def)

lemma in_pending_of:
  "t \<in> set (pending_of hour d) \<longleftrightarrow> t \<in> set (d_tasks d) \<and> ctl_schedule (controls_of d) = ''on'' \<and>
     eligible (current_window (controls_of d) hour (pending_vision d)) t \<and>
     (ctl_planning (controls_of d) = ''on'' \<longrightarrow> \<not> task_requires_p40 t)"
  by (auto simp: pending_of_def planned_def set_dispatch_order Let_def)

lemma eligible_queued: "eligible window t \<Longrightarrow> t_state t = Queued"
  by (simp add: eligible_def)

lemma sorted_pending_of:
  "sorted (map (dispatch_key (current_window (controls_of d) hour (pending_vision d))) (pending_of hour d))"
proof -
  have filt: "sorted (map f xs) \<Longrightarrow> sorted (map f (filter p xs))" for f :: "task \<Rightarrow> int \<times> int \<times> int \<times> int" and p xs
    by (rule sorted_filter)
  show ?thesis
    by (auto simp: pending_of_def planned_def Let_def intro!: filt sorted_dispatch_order)
qed

lemma vision_pending:
  assumes "t \<in> set (d_tasks d)" "t_state t = Queued" "is_vision_work t"
  shows "pending_vision d > 0"
  using assms by (auto simp: pending_vision_def count_where_pos_iff)

lemma image_window_iff:
  "current_window c hour pending = ImageWindow \<longleftrightarrow>
     ctl_planning c \<noteq> ''on'' \<and> pending > 0 \<and> (ctl_mode c = ''night'' \<or> (0 \<le> hour \<and> (hour < 6 \<or> 24 \<le> hour)))"
  by (auto simp: current_window_def get_current_window_def default_policy_def Let_def)

lemma batch_window_blocked:
  assumes "current_window c hour pending = BatchWindow"
  shows "ctl_planning c = ''on'' \<or> pending = 0"
  using assms
  by (auto simp: current_window_def get_current_window_def default_policy_def Let_def split: if_splits)

lemma pending_tasks_result:
  "wp (\<lambda>d d'. d' = d) (get_pending_tasks hour limit)
     (\<lambda>ts d' w. d' = d \<and> w = None \<and> (ts = [] \<or>
        ts = (case limit of None \<Rightarrow> pending_of hour d | Some n \<Rightarrow> take (nat n) (pending_of hour d))))
     (\<lambda>e d' w. d' = d \<and> w = None) d None"
  unfolding get_pending_tasks_def control_state_from_cursor_def read_controls_def p40_busy_cursor_def Let_def
  by (intro wp_intros)
     (auto intro!: wp_intros simp: pending_of_def planned_def current_window_def Let_def controls.truncate_def split: option.splits)

end
