(* ===== verification/Epochs.thy ===== *)
theory Epochs
  imports Protocol
begin

text \<open>
  Batch epochs behind a review barrier (scheduler/epoch_manager.py).  The manager uses the scheduler's autocommit connections, so its
  statements are separate transactions.
\<close>

section \<open>Epochs\<close>

definition terminal_states :: "task_state list" where
  "terminal_states = [Succeeded, FailedTerminal, AwaitingReview, Cancelled]"

definition epoch_of :: "db \<Rightarrow> pystr \<Rightarrow> epoch option" where
  "epoch_of d e = row_of ep_id e (d_epochs d)"

definition insert_epoch :: "epoch \<Rightarrow> db \<Rightarrow> exn + db \<times> nat" where
  "insert_epoch e d = (if epoch_of d (ep_id e) \<noteq> None then Inl Integrity
     else Inr (d\<lparr>d_epochs := d_epochs d @ [e]\<rparr>, 1))"

definition attach_row :: "pystr \<Rightarrow> int \<Rightarrow> task \<Rightarrow> task" where
  "attach_row e now t = t\<lparr>t_epoch := Some e, t_schedule := Some ''batch'', t_updated := now\<rparr>"

definition attach_in_connection :: "pystr \<Rightarrow> pystr \<Rightarrow> bool session" where
  "attach_in_connection i e =
     sbind (query (\<lambda>d. epoch_of d e)) (\<lambda>epoch.
     sbind (query (\<lambda>d. state_of d i)) (\<lambda>st.
     if epoch = None \<or> st \<notin> {Some Accepted, Some Queued} then ret False else
     sbind now_utc (\<lambda>t.
     sthen (exec (update_task i (attach_row e t))) (ret True))))"

fun attach_all :: "pystr list \<Rightarrow> pystr \<Rightarrow> bool session" where
  "attach_all [] e = ret True"
| "attach_all (i # is) e = sbind (attach_in_connection i e) (\<lambda>ok.
     if \<not> ok then sthen rollback (ret False) else attach_all is e)"

text \<open>The start time defaults to now and the end time to six hours later.\<close>

definition create_epoch :: "pystr \<Rightarrow> pystr \<Rightarrow> pystr list \<Rightarrow> int option \<Rightarrow> int option \<Rightarrow> bool session" where
  "create_epoch e name ids start_time end_time =
     sbind now_utc (\<lambda>t0. let st = (case start_time of None \<Rightarrow> t0 | Some t \<Rightarrow> t);
         en = (case end_time of None \<Rightarrow> st + 6 * 3600 * 1000000 | Some t \<Rightarrow> t) in
     scoped (sthen connect (try_except
       (sbind now_utc (\<lambda>t1.
        sthen (exec (insert_epoch \<lparr>ep_id = e, ep_name = name, ep_start = st, ep_end = en, ep_triggered = 0,
                 ep_barrier = None, ep_result = None, ep_updated = t1\<rparr>))
        (sbind (attach_all ids e) (\<lambda>ok. if \<not> ok then ret False else sthen commit (ret True)))))
       (\<lambda>_. True) (\<lambda>_. sthen rollback (ret False)))))"

definition add_task_to_epoch :: "pystr \<Rightarrow> pystr \<Rightarrow> bool session" where
  "add_task_to_epoch i e = scoped (sthen connect (sbind (attach_in_connection i e) (\<lambda>ok.
     if ok then sthen commit (ret True) else ret False)))"

definition get_epoch :: "pystr \<Rightarrow> epoch option session" where
  "get_epoch e = scoped (sthen connect (query (\<lambda>d. epoch_of d e)))"

definition epoch_tasks :: "pystr \<Rightarrow> db \<Rightarrow> task list" where
  "epoch_tasks e d = sort_key (\<lambda>t. (t_created t, t_id t)) (filter (\<lambda>t. t_epoch t = Some e) (d_tasks d))"

definition get_epoch_tasks :: "pystr \<Rightarrow> task list session" where
  "get_epoch_tasks e = scoped (sthen connect (query (epoch_tasks e)))"

definition barrier_reached :: "pystr \<Rightarrow> bool session" where
  "barrier_reached e = sbind (get_epoch_tasks e) (\<lambda>ts.
     ret (ts \<noteq> [] \<and> list_all (\<lambda>t. t_state t \<in> set terminal_states) ts))"

definition update_epochs :: "(epoch \<Rightarrow> bool) \<Rightarrow> (epoch \<Rightarrow> epoch) \<Rightarrow> db \<Rightarrow> exn + db \<times> nat" where
  "update_epochs p f d = Inr (d\<lparr>d_epochs := update_where p f (d_epochs d)\<rparr>, count_where p (d_epochs d))"

definition trigger_review :: "pystr \<Rightarrow> bool session" where
  "trigger_review e = sbind (barrier_reached e) (\<lambda>ok. if \<not> ok then ret False else
     scoped (sthen connect (sbind now_utc (\<lambda>t1. sbind now_utc (\<lambda>t2.
       sbind (exec (update_epochs (\<lambda>ep. ep_id ep = e \<and> ep_triggered ep = 0)
                (\<lambda>ep. ep\<lparr>ep_triggered := 1, ep_barrier := Some t1, ep_updated := t2\<rparr>))) (\<lambda>n.
       sthen commit (ret (n = 1))))))))"

definition record_review_result :: "pystr \<Rightarrow> json \<Rightarrow> bool session" where
  "record_review_result e result =
     scoped (sthen connect (sbind now_utc (\<lambda>t.
       sbind (exec (update_epochs (\<lambda>ep. ep_id ep = e \<and> ep_triggered ep = 1)
                (\<lambda>ep. ep\<lparr>ep_result := Some result, ep_updated := t\<rparr>))) (\<lambda>n.
       sthen commit (ret (n = 1))))))"

section \<open>Lemmas\<close>

lemma attach_row_keeps: "keeps_state (attach_row e now)"
  by (simp add: keeps_state_def attach_row_def)

lemma update_epochs_steps: "update_epochs p f d = Inr (d', n) \<Longrightarrow> db_steps d d'"
  by (auto simp: update_epochs_def intro: db_step_chain step_epoch)

lemma attach_steps: "update_task i (attach_row e now) d = Inr (d', n) \<Longrightarrow> db_steps d d'"
  using step_attach [OF attach_row_keeps, of d "\<lambda>t. t_id t = i" e now]
  by (auto simp: update_task_def intro: db_step_chain)

lemma insert_epoch_steps: "insert_epoch ep d = Inr (d', n) \<Longrightarrow> db_steps d d'"
  by (auto simp: insert_epoch_def intro: db_step_chain step_epoch split: if_splits)

lemma attach_obeys [obeys_intros]: "obeys db_steps (attach_in_connection i e)"
  unfolding attach_in_connection_def by (intro obeys_intros) (rule attach_steps)

lemma attach_all_obeys [obeys_intros]: "obeys db_steps (attach_all ids e)"
  by (induction ids) (auto intro!: obeys_intros)

lemma epoch_methods_obey:
  "obeys db_steps (create_epoch e name ids t0 t1)"
  "obeys db_steps (add_task_to_epoch i e)"
  "obeys db_steps (trigger_review e)"
  "obeys db_steps (record_review_result e result)"
  unfolding create_epoch_def add_task_to_epoch_def trigger_review_def record_review_result_def
    barrier_reached_def get_epoch_tasks_def Let_def
  by (intro obeys_intros; erule insert_epoch_steps update_epochs_steps)+

end
