(* ===== verification/SchedulerDemo.thy ===== *)
theory SchedulerDemo
  imports Transitions Queue Epochs
begin

text \<open>
  Concrete databases and environments for the witnesses: \<open>plain_env\<close> is undisturbed and fault-free,
  \<open>fault_at k\<close> makes the statement number \<open>k\<close> fail, and the demo database holds the default workers.
\<close>

section \<open>Demo databases\<close>

definition plain_env :: env where
  "plain_env = \<lparr>e_fault = (\<lambda>t. None), e_others = (\<lambda>t d. d), e_clock = (\<lambda>t. 1000000 * int t)\<rparr>"

definition demo_task :: "pystr \<Rightarrow> pystr \<Rightarrow> task_state \<Rightarrow> task" where
  "demo_task i kind st = \<lparr>t_id = i, t_kind = kind, t_state = st, t_priority = 0, t_mode = ''immediate'',
     t_payload = Some [], t_input = None, t_output = None, t_idem = None, t_retry_at = None, t_error = None,
     t_review_tag = Some 0, t_schedule = Some ''immediate'', t_review_worker = None, t_epoch = None,
     t_created = 0, t_updated = 0\<rparr>"

definition demo_db :: "task list \<Rightarrow> db" where
  "demo_db ts = \<lparr>d_tasks = ts, d_attempts = [], d_events = [], d_workers = default_workers 0,
     d_controls = [], d_ctl_events = [], d_epochs = []\<rparr>"

definition demo_sess :: "task list \<Rightarrow> sess" where
  "demo_sess ts = \<lparr>s_db = demo_db ts, s_txn = None, s_tick = 0\<rparr>"

lemma plain_env_within: "(\<And>d. R d d) \<Longrightarrow> others_within R plain_env"
  by (simp add: others_within_def plain_env_def)

definition states_of :: "sess \<Rightarrow> (pystr \<times> task_state) list" where
  "states_of s = map (\<lambda>t. (t_id t, t_state t)) (d_tasks (s_db s))"

lemma demo_inv:
  assumes "distinct (map t_id ts)" "list_all (\<lambda>t. t_idem t = None) ts"
  shows "db_inv (demo_db ts)"
proof -
  have "filter (\<lambda>k. k \<noteq> None) (map t_idem ts) = []"
    using assms(2) by (auto simp: filter_empty_conv list_all_iff)
  moreover have "distinct (map w_profile (default_workers 0))" "worker_of (demo_db ts) [] = None"
    by (simp_all add: default_workers_def worker_profile_def worker_of_def demo_db_def)
  ultimately show ?thesis
    using assms(1) by (simp add: db_inv_def demo_db_def open_tasks_def holds_def)
qed

definition demo_config :: broker_config where
  "demo_config = \<lparr>cf_fs = demo_fs, cf_registry = demo_registry\<rparr>"

definition two_coders :: "task list" where
  "two_coders = [demo_task ''a'' ''coding'' Claimed, demo_task ''b'' ''coding'' Claimed]"

lemma plain_quiet: "quiet plain_env"
  by (simp add: quiet_def plain_env_def)

lemma demo_sess_sel [simp]: "s_txn (demo_sess ts) = None" "s_db (demo_sess ts) = demo_db ts"
  by (simp_all add: demo_sess_def)

text \<open>From a weakest precondition to a run.\<close>

lemma wp_run:
  assumes "wp R m Q E (s_db s) None" "others_within R env" "s_txn s = None" "m env s = (Inr a, s')"
  shows "Q a (s_db s') (s_txn s')"
  using wpD [OF assms(1,2) refl assms(3,4)] by simp

definition busy_demo :: sess where
  "busy_demo = (run_ops demo_config [OpStart ''a'' ''p40-coding'' None] plain_env (demo_sess two_coders))\<lparr>s_tick := 0\<rparr>"

definition fault_at :: "nat \<Rightarrow> env" where
  "fault_at k = plain_env\<lparr>e_fault := (\<lambda>t. if t = k then Some Operational else None)\<rparr>"

end
