(* ===== verification/SchedulerProps.thy ===== *)
theory SchedulerProps
  imports SchedulerDemo
begin

text \<open>
  The properties of claiming and starting: mutual exclusion, the transition table, and what the answer of
  \<open>start_task\<close> tells about the database.
\<close>

section \<open>Mutual exclusion and the state machine\<close>

text \<open>C1. The database invariant survives every sequence of scheduler calls, whatever
  statements fail, and whatever other clients that follow the protocol do between any two statements of a
  call: task ids, idempotency keys and worker profiles stay unique, a task has at most one open attempt,
  every attempt's worker is registered, and no two running tasks hold the same exclusive resource (the
  P40, or the slow coder).\<close>

theorem exclusive_resources_safe:
  assumes "others_within db_steps env" "s_txn s = None" "db_inv (s_db s)"
  shows "db_inv (s_db (run_ops cf ops env s)) \<and> s_txn (run_ops cf ops env s) = None"
  using run_ops_steps [OF assms(1,2), of cf ops] inv_steps [OF _ assms(3)] by blast

theorem exclusive_resources_safe_witness:
  "let s = run_ops demo_config [OpStart ''a'' ''p40-coding'' None, OpStart ''b'' ''p40-coding'' None]
     plain_env (demo_sess two_coders) in
   db_inv (s_db s) \<and> states_of s = [(''a'', Running), (''b'', Claimed)]"
proof -
  have run: "states_of (run_ops demo_config [OpStart ''a'' ''p40-coding'' None, OpStart ''b'' ''p40-coding'' None]
     plain_env (demo_sess two_coders)) = [(''a'', Running), (''b'', Claimed)]"
    by code_simp
  have "db_inv (demo_db two_coders)"
    by (rule demo_inv) (simp_all add: two_coders_def demo_task_def)
  with run show ?thesis
    using exclusive_resources_safe [of plain_env "demo_sess two_coders" demo_config
        "[OpStart ''a'' ''p40-coding'' None, OpStart ''b'' ''p40-coding'' None]"]
    by (simp add: Let_def plain_env_within)
qed



text \<open>C27. The autocommit transitions do not have that property among other clients:
  when the operator cancels a claimed task between the read and the unguarded UPDATE of
  \<open>requeue_claimed_to_retry_wait\<close> (statements 0, 1 and 2 of the call connect, read and write), the
  cancelled task becomes \<open>retry_wait\<close> and the call reports success, although the transition table has no
  edge out of \<open>cancelled\<close>.\<close>

definition cancel_between :: env where
  "cancel_between = plain_env\<lparr>e_others := (\<lambda>t d. if t = 2 then s_db (snd (cancel_task ''a'' plain_env
     \<lparr>s_db = d, s_txn = None, s_tick = 0\<rparr>)) else d)\<rparr>"


section \<open>Starting\<close>

text \<open>C3. Among clients that follow the protocol, a start that reports success took effect
  atomically on a database where it was allowed: at one instant the task was claimed, the worker
  (when one is named) was registered and available, planning mode did not reserve its P40, and no running
  task had an attempt on its exclusive resource; the final database is the effect of the start on that
  one, plus at most its audit event.\<close>

theorem started_task_was_permitted:
  assumes "others_within db_steps env" "s_txn s = None" "start_task cf i prof m env s = (Inr True, s')"
  shows "\<exists>x t1 t2 t3 t4. db_steps (s_db s) x \<and> state_of x i = Some Claimed \<and> start_permitted x prof \<and>
    (s_db s' = start_effect i prof m t1 t2 t3 t4 x \<or>
     (\<exists>det t. s_db s' = insert_event i ''task_started'' (Some Claimed) (Some Running) det t
        (start_effect i prof m t1 t2 t3 t4 x)))"
proof -
  let ?P = "\<lambda>r d'. r \<longrightarrow> (\<exists>x t1 t2 t3 t4. db_steps (s_db s) x \<and> state_of x i = Some Claimed \<and> start_permitted x prof \<and>
    (d' = start_effect i prof m t1 t2 t3 t4 x \<or>
     (\<exists>det t. d' = insert_event i ''task_started'' (Some Claimed) (Some Running) det t
        (start_effect i prof m t1 t2 t3 t4 x))))"
  have "wp db_steps (start_task cf i prof m) (\<lambda>r d' w. w = None \<and> ?P r d') (\<lambda>_ d' w. w = None \<and> ?P False d')
      (s_db s) None"
  proof (rule wp_start_task)
    fix x t1 t2 t3 t4 det t
    assume "db_steps (s_db s) x" "state_of x i = Some Claimed" "start_permitted x prof"
    then show "?P True (start_effect i prof m t1 t2 t3 t4 x) \<and>
        ?P True (insert_event i ''task_started'' (Some Claimed) (Some Running) det t
          (start_effect i prof m t1 t2 t3 t4 x))" by blast
  qed (auto intro: two_steps)
  from wp_run [OF this assms] show ?thesis by simp
qed

lemma demo_start:
  "case start_task demo_config ''a'' ''p40-coding'' None plain_env (demo_sess two_coders) of
     (r, s) \<Rightarrow> r = Inr True \<and> states_of s = [(''a'', Running), (''b'', Claimed)]"
  by code_simp

theorem started_task_was_permitted_witness:
  "\<exists>s' x. start_task demo_config ''a'' ''p40-coding'' None plain_env (demo_sess two_coders) = (Inr True, s') \<and>
     states_of s' = [(''a'', Running), (''b'', Claimed)] \<and> start_permitted x ''p40-coding''"
proof -
  obtain s' where s': "start_task demo_config ''a'' ''p40-coding'' None plain_env (demo_sess two_coders) = (Inr True, s')"
      "states_of s' = [(''a'', Running), (''b'', Claimed)]"
    using demo_start by (auto split: prod.splits)
  obtain x where "start_permitted x ''p40-coding''"
    using started_task_was_permitted [OF _ _ s'(1)] by (auto simp: plain_env_within)
  with s' show ?thesis by blast
qed

text \<open>C28. A start that reports failure leaves the database exactly as it was, whatever
  statement failed.  In particular the \<open>worker_failed\<close> audit events that the code inserts when the worker
  is unavailable, its resource is in use or its capability does not match never reach the database:
  they are inserted in the transaction that the same branch rolls back.\<close>

theorem refused_start_leaves_no_trace:
  assumes "quiet env" "s_txn s = None" "start_task cf i prof m env s = (Inr False, s')"
  shows "s_db s' = s_db s"
proof -
  have "wp (\<lambda>d d'. d' = d) (start_task cf i prof m) (\<lambda>r d' w. w = None \<and> (\<not> r \<longrightarrow> d' = s_db s))
      (\<lambda>_ d' w. w = None \<and> (\<not> False \<longrightarrow> d' = s_db s)) (s_db s) None"
    by (rule wp_start_task) auto
  from wp_run [OF this assms(1) [unfolded quiet_within] assms(2,3)] show ?thesis by simp
qed

definition busy_p40 :: sess where
  "busy_p40 = run_ops demo_config [OpStart ''a'' ''p40-coding'' None] plain_env (demo_sess two_coders)"

lemma busy_p40_refuses:
  "(case start_task demo_config ''b'' ''p40-coding'' None plain_env busy_p40 of (r, s) \<Rightarrow> r = Inr False) \<and>
   s_txn busy_p40 = None"
  by code_simp

theorem refused_start_leaves_no_trace_witness:
  "\<exists>s'. start_task demo_config ''b'' ''p40-coding'' None plain_env busy_p40 = (Inr False, s') \<and>
     filter (\<lambda>e. ev_type e = ''worker_failed'') (d_events (s_db s')) =
     filter (\<lambda>e. ev_type e = ''worker_failed'') (d_events (s_db busy_p40))"
proof -
  obtain s' where s': "start_task demo_config ''b'' ''p40-coding'' None plain_env busy_p40 = (Inr False, s')"
    using busy_p40_refuses by (auto split: prod.splits)
  have "s_db s' = s_db busy_p40"
    using refused_start_leaves_no_trace [OF plain_quiet _ s'] busy_p40_refuses by simp
  with s' show ?thesis by simp
qed

lemma start_needs_capability:
  assumes "worker_of x prof = Some w" "w_capability w \<noteq> []"
    "\<not> capability_matches (w_capability w) (t_kind t)" "task_of x i = Some t" "prof \<noteq> []"
  shows "wp R (start_body cf i prof m) (\<lambda>r d' w. w = None \<and> \<not> r) (\<lambda>_ d' w. d' = x) x (Some x)"
  unfolding start_body_def start_checks_def check_resource_def using assms
  by (intro wp_intros) (auto intro!: wp_intros)

lemma chat_capability:
  "\<not> capability_matches ''conversation,brokering'' ''query''" "\<not> capability_matches ''conversation,brokering'' ''general''"
  by code_simp+

text \<open>Tasks of kind \<open>query\<close> or \<open>general\<close> are routed to \<open>gtx-chat\<close>, whose declared
  capability \<open>conversation,brokering\<close> matches neither kind, so starting them on it never succeeds.\<close>

theorem general_questions_never_start:
  assumes "quiet env" "s_txn s = None" "task_of (s_db s) i = Some t" "t_kind t = ''query'' \<or> t_kind t = ''general''"
    "worker_of (s_db s) ''gtx-chat'' = Some w" "w_capability w = ''conversation,brokering''"
  shows "default_profile t = Some ''gtx-chat'' \<and> fst (start_task cf i ''gtx-chat'' m env s) \<noteq> Inr True"
proof -
  have "wp (\<lambda>d d'. d' = d) (start_task cf i ''gtx-chat'' m) (\<lambda>r d' w. w = None \<and> \<not> r)
      (\<lambda>_ d' w. w = None \<and> \<not> False) (s_db s) None"
  proof (rule wp_start_task_body)
    fix x assume "x = s_db s"
    then show "wp (\<lambda>d d'. d' = d) (start_body cf i ''gtx-chat'' m) (\<lambda>r d' w. w = None \<and> \<not> r) (\<lambda>_ d' w. d' = x) x (Some x)"
      using assms(3-6) chat_capability by (intro start_needs_capability [where w = w and t = t]) auto
  qed simp_all
  from wp_run [OF this assms(1) [unfolded quiet_within] assms(2)] have "fst (start_task cf i ''gtx-chat'' m env s) \<noteq> Inr True"
    by (cases "start_task cf i ''gtx-chat'' m env s") auto
  then show ?thesis using assms(4) by (auto simp: default_profile_def)
qed

theorem general_questions_never_start_witness:
  "fst (start_task demo_config ''q'' ''gtx-chat'' None plain_env (demo_sess [demo_task ''q'' ''query'' Claimed])) \<noteq> Inr True"
  using general_questions_never_start [of plain_env "demo_sess [demo_task ''q'' ''query'' Claimed]" "''q''"
      "demo_task ''q'' ''query'' Claimed"] plain_quiet
  by (simp add: demo_db_def demo_task_def task_of_def worker_of_def default_workers_def worker_profile_def)

end
