(* ===== verification/LifecycleProps.thy ===== *)
theory LifecycleProps
  imports SchedulerDemo
begin

text \<open>
  The properties of the rest of a task's life: claiming under the operator's controls, completion,
  retry delays and review approval.
\<close>

section \<open>Claiming\<close>

definition claimed_from :: "db \<Rightarrow> pystr \<Rightarrow> task \<Rightarrow> bool" where
  "claimed_from d i t' = (\<exists>x t now. db_steps d x \<and> task_of x i = Some t \<and>
     claim_allowed (controls_of x) t \<and> t' = set_state Claimed now t)"

lemma claimed_fromI:
  assumes "db_steps d d'" "db_steps d' x" "task_of x i = Some t" "t_state t = Queued"
    "claim_allowed (controls_of x) t"
    "task_of (update_tasks (\<lambda>t. t_id t = i \<and> t_state t = Queued) (set_state Claimed now) x) i = Some t'"
  shows "claimed_from d i t'"
proof -
  have "t' = set_state Claimed now t"
    using assms(3,4,6) task_of_id [OF assms(3)] by (simp add: task_of_update_tasks set_state_def)
  moreover have "db_steps d x" using assms(1,2) by (rule two_steps)
  ultimately show ?thesis unfolding claimed_from_def using assms(3,5) by blast
qed


lemma demo_claim:
  "case claim_task ''a'' plain_env (demo_sess [demo_task ''a'' ''coding'' Queued]) of
     (r, s) \<Rightarrow> (case r of Inr (Some t) \<Rightarrow> True | _ \<Rightarrow> False)"
  by code_simp


section \<open>Completion\<close>

text \<open>\<open>complete_task\<close> runs its two UPDATEs in autocommit mode.  When the second one
  fails (statement 3), the call reports failure although the task is already \<open>succeeded\<close>, its attempt is
  left open, no completion event exists and calling it again is refused.\<close>

theorem completion_can_be_torn:
  "let s0 = busy_demo; (r, s) = complete_task ''a'' None None None (fault_at 3) s0 in
   r = Inr False \<and> state_of (s_db s0) ''a'' = Some Running \<and> state_of (s_db s) ''a'' = Some Succeeded \<and>
   open_tasks (s_db s) = [''a''] \<and>
   list_all (\<lambda>e. ev_type e \<noteq> ''task_completed'') (d_events (s_db s)) \<and>
   fst (complete_task ''a'' None None None plain_env s) = Inr False"
  by code_simp

section \<open>Retry\<close>

text \<open>As long as the clock is before the task's retry time and no other client
  intervenes, \<open>requeue_retry_wait\<close> refuses and changes nothing.\<close>

theorem retry_waits_for_its_delay:
  assumes "quiet env" "s_txn s = None" "task_of (s_db s) i = Some t" "t_retry_at t = Some due"
    "\<forall>k. e_clock env k < due" "requeue_retry_wait i env s = (r, s')"
  shows "r \<noteq> Inr True \<and> s_db s' = s_db s"
proof -
  have q: "s_db (interfere env u) = s_db u" "s_txn (interfere env u) = s_txn u" for u
    using assms(1) by (simp_all add: interfere_def quiet_def)
  show ?thesis
    using assms(2-6)
    by (auto simp: requeue_retry_wait_def checked_def scoped_def try_except_def sthen_def sbind_def connect_def
          query_def stmt_def ret_def now_utc_def visible_def q
        split: option.splits if_splits prod.splits sum.splits)
qed

theorem retry_waits_for_its_delay_witness:
  "let t = (demo_task ''a'' ''coding'' RetryWait)\<lparr>t_retry_at := Some 5000000\<rparr> in
   fst (requeue_retry_wait ''a'' (plain_env\<lparr>e_clock := \<lambda>_. 4000000\<rparr>) (demo_sess [t])) \<noteq> Inr True \<and>
   fst (requeue_retry_wait ''a'' (plain_env\<lparr>e_clock := \<lambda>_. 5000000\<rparr>) (demo_sess [t])) = Inr True"
proof -
  let ?t = "(demo_task ''a'' ''coding'' RetryWait)\<lparr>t_retry_at := Some 5000000\<rparr>"
  let ?e = "plain_env\<lparr>e_clock := \<lambda>_. 4000000\<rparr>"
  have "fst (requeue_retry_wait ''a'' ?e (demo_sess [?t])) \<noteq> Inr True"
    using retry_waits_for_its_delay [of ?e "demo_sess [?t]" "''a''" ?t 5000000 "fst (requeue_retry_wait ''a'' ?e (demo_sess [?t]))"]
    by (simp add: prod_eq_iff task_of_def demo_db_def demo_task_def quiet_def plain_env_def)
  moreover have "fst (requeue_retry_wait ''a'' (plain_env\<lparr>e_clock := \<lambda>_. 5000000\<rparr>) (demo_sess
     [(demo_task ''a'' ''coding'' RetryWait)\<lparr>t_retry_at := Some 5000000\<rparr>])) = Inr True"
    by code_simp
  ultimately show ?thesis by simp
qed

section \<open>Review approval\<close>

lemma wp_event_tasks [wp_intros]:
  "(\<And>a d'. d_tasks d' = d_tasks d \<Longrightarrow> Q a d' None) \<Longrightarrow> (\<And>e d'. d_tasks d' = d_tasks d \<Longrightarrow> E e d' None) \<Longrightarrow>
   wp same_tasks (emit_event i ty fr to det) Q E d None"
  by (rule wp_emit_event_db)

text \<open>C30. While no other client writes the tasks table, a successful approval found the
  task awaiting review with no manifest in its payload, and made it succeeded: the operator's review
  endpoint cannot finish a manifest task.\<close>

theorem manifest_review_not_bypassed:
  assumes "others_within same_tasks env" "s_txn s = None" "approve_awaiting_review i env s = (Inr True, s')"
  shows "\<exists>t. task_of (s_db s) i = Some t \<and> t_state t = AwaitingReview \<and>
    \<not> truthy (dget (payload_of t) ''manifest'') \<and> state_of (s_db s') i = Some Succeeded"
proof -
  let ?P = "\<lambda>d'. \<exists>t. task_of (s_db s) i = Some t \<and> t_state t = AwaitingReview \<and>
    \<not> truthy (dget (payload_of t) ''manifest'') \<and> state_of d' i = Some Succeeded"
  have upd: "state_of d' i = Some Succeeded"
    if "row_of t_id i (d_tasks (s_db s)) = Some t" "t_state t = AwaitingReview"
      "d_tasks d' = update_where (\<lambda>t. t_id t = i \<and> t_state t = AwaitingReview) (set_state Succeeded now) (d_tasks (s_db s))"
    for d' t now
    using that row_of_Some_in [OF that(1)]
    by (auto simp: state_of_def task_of_def row_of_update_where set_state_def)
  have "wp same_tasks (approve_awaiting_review i) (\<lambda>r d' w. r \<longrightarrow> ?P d') (\<lambda>_ _ _. True) (s_db s) None"
    unfolding approve_awaiting_review_def checked_def
    by (intro wp_intros)
       (auto intro!: wp_intros intro: upd simp: update_task_in_def same_tasks_def task_of_def table_simps)
  from wp_run [OF this assms] show ?thesis by simp
qed

lemma demo_approve:
  "fst (approve_awaiting_review ''a'' plain_env (demo_sess [demo_task ''a'' ''vision'' AwaitingReview])) = Inr True"
  by code_simp

theorem manifest_review_not_bypassed_witness:
  "\<exists>s'. approve_awaiting_review ''a'' plain_env (demo_sess [demo_task ''a'' ''vision'' AwaitingReview]) = (Inr True, s') \<and>
     state_of (s_db s') ''a'' = Some Succeeded"
proof -
  obtain s' where a: "approve_awaiting_review ''a'' plain_env (demo_sess [demo_task ''a'' ''vision'' AwaitingReview]) = (Inr True, s')"
    using demo_approve by (metis prod.collapse)
  from manifest_review_not_bypassed [OF _ _ this] have "state_of (s_db s') ''a'' = Some Succeeded"
    by (auto simp: plain_env_within same_tasks_def)
  with a show ?thesis by blast
qed

end
