(* ===== verification/QueueProps.thy ===== *)
theory QueueProps
  imports SchedulerDemo
begin

text \<open>
  The properties of the dispatch queue, of worker selection, of the operator's controls and of epochs.
\<close>

section \<open>The queue\<close>

text \<open>C25. What \<open>get_pending_tasks\<close> returns, with no other client at work and whatever fails, is
  within the limit and in the order of the dispatch key, and holds queued tasks only, each allowed by the
  current window, none while scheduling is off, none that needs the P40 while planning.\<close>

theorem pending_tasks_sound:
  assumes "quiet env" "s_txn s = None" "get_pending_tasks hour limit env s = (Inr ts, s')"
  shows "(\<forall>t \<in> set ts. t \<in> set (d_tasks (s_db s)) \<and> t_state t = Queued \<and>
      ctl_schedule (controls_of (s_db s)) = ''on'' \<and>
      eligible (current_window (controls_of (s_db s)) hour (pending_vision (s_db s))) t \<and>
      (ctl_planning (controls_of (s_db s)) = ''on'' \<longrightarrow> \<not> task_requires_p40 t)) \<and>
    sorted (map (dispatch_key (current_window (controls_of (s_db s)) hour (pending_vision (s_db s)))) ts) \<and>
    (\<forall>n. limit = Some n \<longrightarrow> length ts \<le> nat n)"
proof -
  have "ts = [] \<or> ts = (case limit of None \<Rightarrow> pending_of hour (s_db s) | Some n \<Rightarrow> take (nat n) (pending_of hour (s_db s)))"
    using wp_run [OF pending_tasks_result assms(1) [unfolded quiet_within] assms(2,3)] by blast
  then obtain k where ts: "ts = take k (pending_of hour (s_db s))" "\<forall>n. limit = Some n \<longrightarrow> k \<le> nat n"
    by (cases limit) (auto intro: that [of 0] that [of "length (pending_of hour (s_db s))"])
  have "t \<in> set (pending_of hour (s_db s))" if "t \<in> set ts" for t
    using that by (auto simp: ts(1) dest: in_set_takeD)
  moreover have "sorted (map (dispatch_key (current_window (controls_of (s_db s)) hour (pending_vision (s_db s)))) ts)"
    unfolding ts(1) by (simp add: take_map [symmetric] sorted_wrt_take sorted_pending_of)
  moreover have "\<forall>n. limit = Some n \<longrightarrow> length ts \<le> nat n"
    using ts by auto
  ultimately show ?thesis
    using eligible_queued unfolding in_pending_of by blast
qed

lemma demo_pending:
  "fst (get_pending_tasks 3 (Some 1) plain_env (demo_sess [demo_task ''a'' ''coding'' Queued])) =
     Inr [demo_task ''a'' ''coding'' Queued]"
  by code_simp

theorem pending_tasks_sound_witness:
  "\<exists>s'. get_pending_tasks 3 (Some 1) plain_env (demo_sess [demo_task ''a'' ''coding'' Queued]) =
      (Inr [demo_task ''a'' ''coding'' Queued], s') \<and>
     eligible (current_window (controls_of (demo_db [demo_task ''a'' ''coding'' Queued])) 3
       (pending_vision (demo_db [demo_task ''a'' ''coding'' Queued]))) (demo_task ''a'' ''coding'' Queued)"
proof -
  obtain s' where p: "get_pending_tasks 3 (Some 1) plain_env (demo_sess [demo_task ''a'' ''coding'' Queued]) =
      (Inr [demo_task ''a'' ''coding'' Queued], s')"
    using demo_pending by (metis prod.collapse)
  from pending_tasks_sound [OF plain_quiet _ p] p show ?thesis by simp
qed

lemma batch_vision_blocks:
  assumes "t \<in> set (d_tasks d)" "t_state t = Queued" "t_kind t = ''vision''" "t_mode t = ''batch''"
    "t_schedule t = Some ''nightly''" "\<not> review_flag t" "\<not> has_text (t_review_worker t)"
    "\<not> truthy (dget (payload_of t) ''worker_profile'')" "u \<in> set (pending_of hour d)"
  shows "u \<noteq> t \<and> (ctl_planning (controls_of d) = ''on'' \<or> t_mode u = ''immediate'' \<or> t_mode u = ''vision'' \<or>
    t_schedule u = Some ''immediate'')"
proof -
  have v: "is_vision_work t" and p40: "task_requires_p40 t"
    using assms(3-8) by (simp_all add: is_vision_work_def task_requires_p40_def)
  have pos: "pending_vision d > 0" using vision_pending [OF assms(1,2) v] .
  let ?w = "current_window (controls_of d) hour (pending_vision d)"
  have u: "eligible ?w u" "ctl_planning (controls_of d) = ''on'' \<longrightarrow> \<not> task_requires_p40 u"
    using assms(9) by (simp_all add: in_pending_of)
  have notbatch: "?w \<noteq> BatchWindow" if "ctl_planning (controls_of d) \<noteq> ''on''"
    using batch_window_blocked [of "controls_of d" hour "pending_vision d"] that pos by auto
  have "\<not> eligible ?w t" if "ctl_planning (controls_of d) \<noteq> ''on''"
    using notbatch [OF that] assms(3-5) by (cases ?w) (simp_all add: eligible_def)
  with u p40 have "u \<noteq> t" by auto
  moreover have "t_mode u = ''immediate'' \<or> t_mode u = ''vision'' \<or> t_schedule u = Some ''immediate''"
    if "ctl_planning (controls_of d) \<noteq> ''on''"
    using notbatch [OF that] u(1) by (cases ?w) (auto simp: eligible_def)
  ultimately show ?thesis by blast
qed

definition batch_vision :: task where
  "batch_vision = (demo_task ''v'' ''vision'' Queued)\<lparr>t_mode := ''batch'', t_schedule := Some ''nightly''\<rparr>"

definition batch_query :: task where
  "batch_query = (demo_task ''q'' ''conversation'' Queued)\<lparr>t_mode := ''batch'', t_schedule := Some ''batch''\<rparr>"

text \<open>A queued task of kind \<open>vision\<close> in mode \<open>batch\<close> with the default nightly
  schedule (\<open>add_task\<close> accepts it), with no review tag, reviewer or requested worker, is never offered, at
  any hour and under any control setting; and while it is queued and planning is off, no batch work is
  offered either, because it counts as pending vision work and so keeps the batch window closed.\<close>

theorem batch_vision_starves_batch_work:
  assumes "quiet env" "s_txn s = None" "get_pending_tasks hour limit env s = (Inr ts, s')"
    "t \<in> set (d_tasks (s_db s))" "t_state t = Queued" "t_kind t = ''vision''" "t_mode t = ''batch''"
    "t_schedule t = Some ''nightly''" "\<not> review_flag t" "\<not> has_text (t_review_worker t)"
    "\<not> truthy (dget (payload_of t) ''worker_profile'')"
  shows "t \<notin> set ts \<and> (ctl_planning (controls_of (s_db s)) \<noteq> ''on'' \<longrightarrow> (\<forall>u \<in> set ts.
    t_mode u = ''immediate'' \<or> t_mode u = ''vision'' \<or> t_schedule u = Some ''immediate''))"
proof -
  have "u \<in> set (pending_of hour (s_db s))" if "u \<in> set ts" for u
    using wp_run [OF pending_tasks_result assms(1) [unfolded quiet_within] assms(2,3)] that
    by (auto split: option.splits dest: in_set_takeD)
  then show ?thesis
    using batch_vision_blocks [OF assms(4-11)] by blast
qed

definition starved_queue :: sess where
  "starved_queue = run_ops demo_config
     [OpAdd \<lparr>rq_id = ''v'', rq_kind = ''vision'', rq_payload = [], rq_mode = Some ''batch'', rq_priority = 0,
        rq_idem = None, rq_schedule = None, rq_review_tag = False, rq_review_worker = None, rq_epoch = None,
        rq_input = None, rq_output = None\<rparr>] plain_env (demo_sess [batch_query])"

lemma starved_queue_run:
  "s_txn starved_queue = None \<and> map t_id (d_tasks (s_db starved_queue)) = [''q'', ''v''] \<and>
   (let t = d_tasks (s_db starved_queue) ! 1 in
      t_state t = Queued \<and> t_kind t = ''vision'' \<and> t_mode t = ''batch'' \<and> t_schedule t = Some ''nightly'' \<and>
      \<not> review_flag t \<and> \<not> has_text (t_review_worker t) \<and> \<not> truthy (dget (payload_of t) ''worker_profile'')) \<and>
   fst (get_pending_tasks 2 None plain_env starved_queue) = Inr [] \<and>
   fst (get_pending_tasks 2 None plain_env (demo_sess [batch_query])) = Inr [batch_query]"
  by code_simp

theorem batch_vision_starves_batch_work_witness:
  "d_tasks (s_db starved_queue) ! 1 \<notin> set (sum.projr (fst (get_pending_tasks 2 None plain_env starved_queue))) \<and>
   fst (get_pending_tasks 2 None plain_env starved_queue) = Inr [] \<and>
   fst (get_pending_tasks 2 None plain_env (demo_sess [batch_query])) = Inr [batch_query]"
proof -
  let ?t = "d_tasks (s_db starved_queue) ! 1"
  have two: "length (d_tasks (s_db starved_queue)) = 2"
    using starved_queue_run by (metis length_map list.size(3,4) One_nat_def Suc_1 add.commute plus_1_eq_Suc)
  then have "?t \<in> set (d_tasks (s_db starved_queue))" by simp
  moreover have "get_pending_tasks 2 None plain_env starved_queue =
      (Inr [], snd (get_pending_tasks 2 None plain_env starved_queue))"
    using starved_queue_run by (metis prod.collapse)
  ultimately have "?t \<notin> set []"
    using batch_vision_starves_batch_work [OF plain_quiet, of starved_queue 2 None "[]" _ ?t] starved_queue_run
    by (simp add: Let_def)
  then show ?thesis using starved_queue_run by simp
qed

text \<open>The policy says that immediate work outranks all scheduled work; in the batch window
  it does not: batch coding is offered before an immediate conversation, whatever their priorities.\<close>

theorem batch_window_prefers_p40_work:
  "let coder = (demo_task ''c'' ''coding'' Queued)\<lparr>t_mode := ''batch'', t_schedule := Some ''batch''\<rparr>;
       chat = (demo_task ''i'' ''conversation'' Queued)\<lparr>t_priority := 100\<rparr> in
   fst (get_pending_tasks 2 None plain_env (demo_sess [chat, coder])) = Inr [coder, chat]"
  by code_simp

section \<open>Worker selection\<close>

lemma wp_first_available:
  assumes "\<And>p w. p \<in> set ps \<Longrightarrow> worker_of d p = Some w \<Longrightarrow> w_status w = Available \<Longrightarrow> Q (Some p) d None"
    "Q None d None" "\<And>e. E e d None"
  shows "wp (\<lambda>d d'. d' = d) (first_available ps) Q E d None"
  using assms
proof (induction ps)
  case (Cons p ps)
  have here: "Q (map_option w_profile (worker_of d p)) d None" if "worker_available (worker_of d p)"
    using that Cons.prems(1) [of p] worker_of_profile [of d p]
    by (auto simp: worker_available_def split: option.splits)
  show ?case
    unfolding first_available.simps get_worker_def
    by (intro wp_intros) (auto intro!: wp_intros Cons here)
qed (auto intro!: wp_intros)


lemma demo_select:
  "fst (select_worker_for_task (demo_task ''a'' ''vision'' Queued) plain_env (demo_sess [])) = Inr (Some ''p40-vision'')"
  by code_simp


section \<open>Controls\<close>

lemma control_value_upsert:
  "control_value dflt n (upsert_control name v now actor d) = (if n = name then v else control_value dflt n d)"
proof (cases "row_of c_name name (d_controls d)")
  case None
  then show ?thesis
    by (auto simp: control_value_def upsert_control_def row_of_append split: option.splits)
next
  case (Some c)
  have c: "c_name c = name" using row_of_Some_in [OF Some] by simp
  show ?thesis
    using Some c row_of_Some_in [of c_name n "d_controls d"]
    by (cases "row_of c_name n (d_controls d)")
       (auto simp: control_value_def upsert_control_def row_of_update_where)
qed

lemma control_state_frame [simp]:
  "control_state_of (insert_control_event c old new actor reason now d) = control_state_of d"
  "control_value dflt n (insert_control_event c old new actor reason now d) = control_value dflt n d"
  by (simp_all add: control_state_of_def controls_of_def control_value_def p40_running_def p40_claimed_def
      resource_join_def table_simps)

lemma ctl_events_upsert [simp]: "d_ctl_events (upsert_control name v now actor d) = d_ctl_events d"
  by (simp add: upsert_control_def)

lemma ctl_events_insert [simp]:
  "map ce_new (d_ctl_events (insert_control_event c old new actor reason now d)) = map ce_new (d_ctl_events d) @ [new]"
  by (simp add: insert_control_event_def)

text \<open>C31. When \<open>set_control\<close> returns, with no other client at work, the stored value of
  the control is the requested one and every other control is unchanged; the audit table grew by exactly
  the change event when the value changed, followed by a \<open>p40_ready\<close> event when planning was switched on
  while the P40 was free; the returned state is the state of the new database.\<close>

theorem control_change_is_stored_and_audited:
  assumes "quiet env" "s_txn s = None" "set_control name arg actor reason env s = (Inr st, s')"
  shows "let v = control_text name arg; old = control_value (control_default name) name (s_db s) in
    control_value (control_default name) name (s_db s') = v \<and>
    (\<forall>n dflt. n \<noteq> name \<longrightarrow> control_value dflt n (s_db s') = control_value dflt n (s_db s)) \<and>
    st = control_state_of (s_db s') \<and>
    map ce_new (d_ctl_events (s_db s')) = map ce_new (d_ctl_events (s_db s)) @ (if old = v then [] else [v]) @
      (if name = ''planning'' \<and> old \<noteq> v \<and> v = ''on'' \<and> cs_p40 st = ''ready'' then [''ready''] else [])"
proof -
  let ?v = "control_text name arg" and ?old = "control_value (control_default name) name (s_db s)"
  let ?P = "\<lambda>st d'. control_value (control_default name) name d' = ?v \<and>
    (\<forall>n dflt. n \<noteq> name \<longrightarrow> control_value dflt n d' = control_value dflt n (s_db s)) \<and>
    st = control_state_of d' \<and>
    map ce_new (d_ctl_events d') = map ce_new (d_ctl_events (s_db s)) @ (if ?old = ?v then [] else [?v]) @
      (if name = ''planning'' \<and> ?old \<noteq> ?v \<and> ?v = ''on'' \<and> cs_p40 st = ''ready'' then [''ready''] else [])"
  have "wp (\<lambda>d d'. d' = d) (set_control name arg actor reason) (\<lambda>st d' w. ?P st d') (\<lambda>_ _ _. True) (s_db s) None"
    unfolding set_control_def set_control_txn_def Let_def
    by (intro wp_intros) (auto intro!: wp_intros simp: control_value_upsert)
  from wp_run [OF this assms(1) [unfolded quiet_within] assms(2,3)] show ?thesis by (simp add: Let_def)
qed

lemma demo_control:
  "case fst (set_control ''planning'' (CBool True) None None plain_env (demo_sess [])) of
     Inr st \<Rightarrow> cs_p40 st = ''ready'' | _ \<Rightarrow> False"
  by code_simp

theorem control_change_is_stored_and_audited_witness:
  "\<exists>st s'. set_control ''planning'' (CBool True) None None plain_env (demo_sess []) = (Inr st, s') \<and>
     control_value ''off'' ''planning'' (s_db s') = ''on'' \<and> map ce_new (d_ctl_events (s_db s')) = [''on'', ''ready'']"
proof -
  obtain st where st: "fst (set_control ''planning'' (CBool True) None None plain_env (demo_sess [])) = Inr st"
      "cs_p40 st = ''ready''"
    using demo_control by (auto split: sum.splits)
  then obtain s' where p: "set_control ''planning'' (CBool True) None None plain_env (demo_sess []) = (Inr st, s')"
    by (metis prod.collapse)
  from control_change_is_stored_and_audited [OF plain_quiet _ p] p st(2) show ?thesis
    by (auto simp: Let_def control_text_def control_default_def control_value_def demo_db_def)
qed

section \<open>Epochs\<close>

text \<open>\<open>create_epoch\<close> rolls back when a task cannot be attached, but its connection is in autocommit
  mode: the call answers False while the epoch exists and the tasks attached before the failure stay
  attached and rescheduled as batch work; the same call can never succeed afterwards.\<close>

theorem failed_epoch_remains:
  "let s0 = demo_sess [demo_task ''a'' ''coding'' Queued];
       (r, s) = create_epoch ''e'' ''night'' [''a'', ''missing''] None None plain_env s0 in
   r = Inr False \<and> map ep_id (d_epochs (s_db s)) = [''e''] \<and>
   map t_epoch (d_tasks (s_db s)) = [Some ''e''] \<and> map t_schedule (d_tasks (s_db s)) = [Some ''batch''] \<and>
   fst (create_epoch ''e'' ''night'' [''a''] None None plain_env s) = Inr False"
  by code_simp


definition epoch_demo :: sess where
  "epoch_demo = (snd (create_epoch ''e'' ''night'' [''a''] None None plain_env
     (demo_sess [demo_task ''a'' ''coding'' Queued])))"

definition epoch_done :: sess where
  "epoch_done = snd (cancel_task ''a'' plain_env epoch_demo)"

lemma epoch_done_run:
  "fst (trigger_review ''e'' plain_env epoch_demo) = Inr False \<and> s_txn epoch_done = None \<and>
   fst (trigger_review ''e'' plain_env epoch_done) = Inr True \<and> map ep_id (d_epochs (s_db epoch_done)) = [''e'']"
  by code_simp


end
