(* ===== verification/Effects.thy ===== *)
theory Effects
  imports SqlSession
begin

text \<open>
  Programs that read an environment, change a state, and return, raise, or are killed.  The file store
  and the daemon are written in them.  A killed program runs no handler.
\<close>

datatype 'a outcome = Ok 'a | Raised exn | Died

text \<open>What becomes of a step that touches a disk: it works, raises OSError, or is the last of a killed process.\<close>

datatype fault = Fine | Fails bool | Dies bool

type_synonym ('e, 's, 'a) prog = "'e \<Rightarrow> 's \<Rightarrow> 'a outcome \<times> 's"

definition io_ret :: "'a \<Rightarrow> ('e, 's, 'a) prog" where
  "io_ret a env s = (Ok a, s)"

definition io_raise :: "exn \<Rightarrow> ('e, 's, 'a) prog" where
  "io_raise e env s = (Raised e, s)"

definition io_bind :: "('e, 's, 'a) prog \<Rightarrow> ('a \<Rightarrow> ('e, 's, 'b) prog) \<Rightarrow> ('e, 's, 'b) prog" where
  "io_bind m f env s = (case m env s of
     (Ok a, s') \<Rightarrow> f a env s' | (Raised e, s') \<Rightarrow> (Raised e, s') | (Died, s') \<Rightarrow> (Died, s'))"

definition io_then :: "('e, 's, 'a) prog \<Rightarrow> ('e, 's, 'b) prog \<Rightarrow> ('e, 's, 'b) prog" where
  "io_then m n = io_bind m (\<lambda>_. n)"

definition io_try :: "('e, 's, 'a) prog \<Rightarrow> (exn \<Rightarrow> bool) \<Rightarrow> (exn \<Rightarrow> ('e, 's, 'a) prog) \<Rightarrow> ('e, 's, 'a) prog" where
  "io_try m p h env s = (case m env s of
     (Raised e, s') \<Rightarrow> if p e then h e env s' else (Raised e, s') | (Ok a, s') \<Rightarrow> (Ok a, s') | (Died, s') \<Rightarrow> (Died, s'))"

definition io_look :: "('s \<Rightarrow> 'a) \<Rightarrow> ('e, 's, 'a) prog" where
  "io_look f env s = (Ok (f s), s)"

section \<open>A contract for programs\<close>

text \<open>
  \<open>io_obeys F G m\<close>: in every environment of \<open>F\<close>, \<open>m\<close> changes the state only as \<open>G\<close> allows, however it ends.
  For a reflexive and transitive \<open>G\<close> the contract is closed under sequencing and handlers, so a program
  keeps to it when each of its steps does.
\<close>

definition io_obeys :: "('e \<Rightarrow> bool) \<Rightarrow> ('s \<Rightarrow> 's \<Rightarrow> bool) \<Rightarrow> ('e, 's, 'a) prog \<Rightarrow> bool" where
  "io_obeys F G m = (\<forall>env s. F env \<longrightarrow> G s (snd (m env s)))"

named_theorems io_intros \<open>one rule per construct for the contract of a program\<close>

lemma io_obeysD: "io_obeys F G m \<Longrightarrow> F env \<Longrightarrow> m env s = (r, s') \<Longrightarrow> G s s'"
  unfolding io_obeys_def by (metis snd_conv)

locale effect_law =
  fixes F :: "'e \<Rightarrow> bool" and G :: "'s \<Rightarrow> 's \<Rightarrow> bool"
  assumes G_refl: "G s s"
    and G_trans: "G a b \<Longrightarrow> G b c \<Longrightarrow> G a c"
begin

lemma io_obeys_ret [io_intros]: "io_obeys F G (io_ret a)"
  by (simp add: io_obeys_def io_ret_def G_refl)

lemma io_obeys_raise [io_intros]: "io_obeys F G (io_raise e)"
  by (simp add: io_obeys_def io_raise_def G_refl)

lemma io_obeys_look [io_intros]: "io_obeys F G (io_look f)"
  by (simp add: io_obeys_def io_look_def G_refl)

lemma io_obeys_bind [io_intros]:
  assumes "io_obeys F G m" "\<And>a. io_obeys F G (f a)"
  shows "io_obeys F G (io_bind m f)"
  unfolding io_obeys_def
proof (intro allI impI)
  fix env s assume F: "F env"
  obtain r s' where m: "m env s = (r, s')" by (cases "m env s")
  have "G s s'" by (rule io_obeysD [OF assms(1) F m])
  moreover have "G s' (snd (f a env s'))" for a using assms(2) F by (simp add: io_obeys_def)
  ultimately show "G s (snd (io_bind m f env s))"
    using m G_trans by (cases r) (auto simp: io_bind_def)
qed

lemma io_obeys_then [io_intros]: "io_obeys F G m \<Longrightarrow> io_obeys F G n \<Longrightarrow> io_obeys F G (io_then m n)"
  by (simp add: io_then_def io_obeys_bind)

lemma io_obeys_try [io_intros]:
  assumes "io_obeys F G m" "\<And>e. io_obeys F G (h e)"
  shows "io_obeys F G (io_try m p h)"
  unfolding io_obeys_def
proof (intro allI impI)
  fix env s assume F: "F env"
  obtain r s' where m: "m env s = (r, s')" by (cases "m env s")
  have "G s s'" by (rule io_obeysD [OF assms(1) F m])
  moreover have "G s' (snd (h e env s'))" for e using assms(2) F by (simp add: io_obeys_def)
  ultimately show "G s (snd (io_try m p h env s))"
    using m G_trans by (cases r) (auto simp: io_try_def)
qed

lemma io_obeys_if [io_intros]:
  "(b \<Longrightarrow> io_obeys F G m) \<Longrightarrow> (\<not> b \<Longrightarrow> io_obeys F G n) \<Longrightarrow> io_obeys F G (if b then m else n)"
  by simp

lemma io_obeys_option [io_intros]:
  "io_obeys F G m \<Longrightarrow> (\<And>a. x = Some a \<Longrightarrow> io_obeys F G (f a)) \<Longrightarrow> io_obeys F G (case x of None \<Rightarrow> m | Some a \<Rightarrow> f a)"
  by (cases x) simp_all

lemma io_obeys_sum [io_intros]:
  "(\<And>a. io_obeys F G (f a)) \<Longrightarrow> (\<And>a. io_obeys F G (g a)) \<Longrightarrow> io_obeys F G (case x of Inl a \<Rightarrow> f a | Inr a \<Rightarrow> g a)"
  by (cases x) simp_all

lemma io_obeys_prod [io_intros]: "(\<And>a b. io_obeys F G (f a b)) \<Longrightarrow> io_obeys F G (case x of (a, b) \<Rightarrow> f a b)"
  by (cases x) simp

lemma io_obeys_let [io_intros]: "io_obeys F G (f x) \<Longrightarrow> io_obeys F G (let y = x in f y)"
  by simp

end

section \<open>Runs\<close>

text \<open>
  \<open>io_wp F m Q E D s\<close>: from state \<open>s\<close>, in every environment of \<open>F\<close>, \<open>m\<close> ends in \<open>Q\<close> when it returns, in \<open>E\<close>
  when it raises and in \<open>D\<close> when the process is killed.
\<close>

definition io_wp :: "('e \<Rightarrow> bool) \<Rightarrow> ('e, 's, 'a) prog \<Rightarrow> ('a \<Rightarrow> 's \<Rightarrow> bool) \<Rightarrow> (exn \<Rightarrow> 's \<Rightarrow> bool)
    \<Rightarrow> ('s \<Rightarrow> bool) \<Rightarrow> 's \<Rightarrow> bool" where
  "io_wp F m Q E D s = (\<forall>env. F env \<longrightarrow> (case m env s of
     (Ok a, s') \<Rightarrow> Q a s' | (Raised e, s') \<Rightarrow> E e s' | (Died, s') \<Rightarrow> D s'))"

named_theorems io_wp_intros \<open>one rule per construct for the run of a program\<close>

lemma io_wp_run:
  assumes "io_wp F m Q E D s" "F env" "m env s = (r, s')"
  shows "case r of Ok a \<Rightarrow> Q a s' | Raised e \<Rightarrow> E e s' | Died \<Rightarrow> D s'"
  using assms unfolding io_wp_def by (fastforce split: outcome.splits)

lemma io_wp_ret [io_wp_intros]: "Q a s \<Longrightarrow> io_wp F (io_ret a) Q E D s"
  by (simp add: io_wp_def io_ret_def)

lemma io_wp_raise [io_wp_intros]: "E e s \<Longrightarrow> io_wp F (io_raise e) Q E D s"
  by (simp add: io_wp_def io_raise_def)

lemma io_wp_look [io_wp_intros]: "Q (f s) s \<Longrightarrow> io_wp F (io_look f) Q E D s"
  by (simp add: io_wp_def io_look_def)

lemma io_wp_bind [io_wp_intros]: "io_wp F m (\<lambda>a. io_wp F (f a) Q E D) E D s \<Longrightarrow> io_wp F (io_bind m f) Q E D s"
  by (fastforce simp: io_wp_def io_bind_def split: prod.splits outcome.splits)

lemma io_wp_then [io_wp_intros]: "io_wp F m (\<lambda>a. io_wp F n Q E D) E D s \<Longrightarrow> io_wp F (io_then m n) Q E D s"
  by (simp add: io_then_def io_wp_bind)

lemma io_wp_try [io_wp_intros]:
  "io_wp F m Q (\<lambda>e s'. if p e then io_wp F (h e) Q E D s' else E e s') D s \<Longrightarrow> io_wp F (io_try m p h) Q E D s"
  by (fastforce simp: io_wp_def io_try_def split: prod.splits outcome.splits if_splits)

lemma io_wp_if [io_wp_intros]:
  "(b \<Longrightarrow> io_wp F m Q E D s) \<Longrightarrow> (\<not> b \<Longrightarrow> io_wp F n Q E D s) \<Longrightarrow> io_wp F (if b then m else n) Q E D s"
  by simp

lemma io_wp_option [io_wp_intros]:
  "(x = None \<Longrightarrow> io_wp F m Q E D s) \<Longrightarrow> (\<And>a. x = Some a \<Longrightarrow> io_wp F (f a) Q E D s) \<Longrightarrow>
   io_wp F (case x of None \<Rightarrow> m | Some a \<Rightarrow> f a) Q E D s"
  by (cases x) simp_all

lemma io_wp_let [io_wp_intros]: "io_wp F (f x) Q E D s \<Longrightarrow> io_wp F (let y = x in f y) Q E D s"
  by simp

lemma io_wp_mono:
  assumes "io_wp F m Q E D s" "\<And>a s'. Q a s' \<Longrightarrow> Q' a s'" "\<And>e s'. E e s' \<Longrightarrow> E' e s'" "\<And>s'. D s' \<Longrightarrow> D' s'"
  shows "io_wp F m Q' E' D' s"
  using assms by (fastforce simp: io_wp_def split: prod.splits outcome.splits)

lemma io_obeys_wp: "(\<And>s. io_wp F m (\<lambda>_. G s) (\<lambda>_. G s) (G s) s) \<Longrightarrow> io_obeys F G m"
  unfolding io_obeys_def
proof (intro allI impI)
  fix env s assume wp: "\<And>s. io_wp F m (\<lambda>_. G s) (\<lambda>_. G s) (G s) s" and F: "F env"
  obtain r s' where "m env s = (r, s')" by (cases "m env s")
  then show "G s (snd (m env s))" using io_wp_run [OF wp F, of s r s'] by (cases r) simp_all
qed

end
