(* ===== verification/Storage.thy ===== *)
theory Storage
  imports Effects "HOL-Library.AList"
begin

text \<open>
  The file store of task inputs (gtx_broker/scheduler/storage.py).  A task is a directory
  \<open>task-<id>\<close> that moves between the lifecycle roots incoming, processing and processed; its
  \<open>metadata.json\<close> is rewritten on the way.  A disk is the list of these directories.  Every file system
  call that writes or parses is one step; the environment says which steps raise OSError, before
  or (a torn write, a partial removal) after part of the effect, and at which step the process is killed.
  A killed process runs no handler.  Moves and renames are atomic: the roots are on one file system.
  Key order of a stored document is not modelled (\<open>sort_keys\<close>).
\<close>

section \<open>Disks\<close>

datatype doc = Garbled | Doc json

datatype task_dir = TDir (td_meta: "doc option") (td_temp: "doc option") (td_files: "(pystr \<times> pystr) list")
  (td_inner: "(pystr \<times> task_dir) list")

datatype root = Incoming | Processing | Processed | Tmp

text \<open>The roots in the order a task goes through them.\<close>

definition root_rank :: "root \<Rightarrow> nat" where
  "root_rank r = (case r of Tmp \<Rightarrow> 0 | Incoming \<Rightarrow> 1 | Processing \<Rightarrow> 2 | Processed \<Rightarrow> 3)"

instantiation root :: linorder
begin

definition less_eq_root :: "root \<Rightarrow> root \<Rightarrow> bool" where
  "less_eq_root r r' = (root_rank r \<le> root_rank r')"

definition less_root :: "root \<Rightarrow> root \<Rightarrow> bool" where
  "less_root r r' = (root_rank r < root_rank r')"

instance
  by standard (auto simp: less_eq_root_def less_root_def root_rank_def split: root.splits)

end

type_synonym disk = "((root \<times> pystr) \<times> task_dir) list"

definition dir_of :: "root \<Rightarrow> pystr \<Rightarrow> disk \<Rightarrow> task_dir option" where
  "dir_of r i d = map_of d (r, i)"

definition put_dir :: "root \<Rightarrow> pystr \<Rightarrow> task_dir \<Rightarrow> disk \<Rightarrow> disk" where
  "put_dir r i t d = AList.update (r, i) t d"

definition drop_dir :: "root \<Rightarrow> pystr \<Rightarrow> disk \<Rightarrow> disk" where
  "drop_dir r i d = AList.delete (r, i) d"

definition meta_of :: "root \<Rightarrow> pystr \<Rightarrow> disk \<Rightarrow> doc option" where
  "meta_of r i d = (case dir_of r i d of None \<Rightarrow> None | Some t \<Rightarrow> td_meta t)"

fun set_meta :: "doc option \<Rightarrow> task_dir \<Rightarrow> task_dir" where
  "set_meta m (TDir _ tmp fs inner) = TDir m tmp fs inner"

fun set_temp :: "doc option \<Rightarrow> task_dir \<Rightarrow> task_dir" where
  "set_temp m (TDir meta _ fs inner) = TDir meta m fs inner"

fun set_file :: "pystr \<Rightarrow> pystr \<Rightarrow> task_dir \<Rightarrow> task_dir" where
  "set_file n b (TDir meta tmp fs inner) = TDir meta tmp (AList.update n b fs) inner"

fun add_inner :: "pystr \<Rightarrow> task_dir \<Rightarrow> task_dir \<Rightarrow> task_dir" where
  "add_inner n t (TDir meta tmp fs inner) = TDir meta tmp fs ((n, t) # inner)"

text \<open>The regular files of a directory besides \<open>metadata.json\<close>.\<close>

definition data_files :: "task_dir \<Rightarrow> pystr list" where
  "data_files t = (if td_temp t = None then [] else [''metadata.json.tmp'']) @ map fst (td_files t)"

definition entries :: "task_dir \<Rightarrow> pystr list" where
  "entries t = (if td_meta t = None then [] else [''metadata.json'']) @ data_files t @ map fst (td_inner t)"

lemma dir_of_put [simp, table_simps]:
  "dir_of r i (put_dir r' i' t d) = (if r = r' \<and> i = i' then Some t else dir_of r i d)"
  by (auto simp: dir_of_def put_dir_def update_conv)

lemma dir_of_drop [simp, table_simps]:
  "dir_of r i (drop_dir r' i' d) = (if r = r' \<and> i = i' then None else dir_of r i d)"
  by (auto simp: dir_of_def drop_dir_def delete_conv)

lemma set_meta_sel [simp]:
  "td_meta (set_meta m t) = m" "td_temp (set_meta m t) = td_temp t"
  "td_files (set_meta m t) = td_files t" "td_inner (set_meta m t) = td_inner t"
  by (cases t; simp)+

lemma set_temp_sel [simp]:
  "td_meta (set_temp m t) = td_meta t" "td_temp (set_temp m t) = m"
  "td_files (set_temp m t) = td_files t" "td_inner (set_temp m t) = td_inner t"
  by (cases t; simp)+

section \<open>Steps\<close>

record fenv =
  f_fault :: "nat \<Rightarrow> fault"
  f_clock :: "nat \<Rightarrow> int"
  f_mtime :: "nat \<Rightarrow> pystr \<Rightarrow> int"

record fsess =
  f_disk :: disk
  f_tick :: nat

type_synonym 'a io = "(fenv, fsess, 'a) prog"

definition io_now :: "int io" where
  "io_now env s = (Ok (f_clock env (f_tick s)), s)"

definition look_disk :: "(disk \<Rightarrow> 'a) \<Rightarrow> 'a io" where
  "look_disk f = io_look (\<lambda>s. f (f_disk s))"

text \<open>A step computes its answer and the new disk; \<open>torn\<close> is the disk a step leaves that was cut short.\<close>

definition io_step :: "(disk \<Rightarrow> disk) \<Rightarrow> (disk \<Rightarrow> exn + 'a \<times> disk) \<Rightarrow> 'a io" where
  "io_step torn f env s = (let t = f_tick s + 1 in case f_fault env (f_tick s) of
      Fine \<Rightarrow> (case f (f_disk s) of Inl e \<Rightarrow> (Raised e, \<lparr>f_disk = f_disk s, f_tick = t\<rparr>)
                | Inr (a, d) \<Rightarrow> (Ok a, \<lparr>f_disk = d, f_tick = t\<rparr>))
    | Fails b \<Rightarrow> (Raised OsErr, \<lparr>f_disk = (if b then torn (f_disk s) else f_disk s), f_tick = t\<rparr>)
    | Dies b \<Rightarrow> (Died, \<lparr>f_disk = (if b then torn (f_disk s) else f_disk s), f_tick = t\<rparr>))"

definition change_dir :: "root \<Rightarrow> pystr \<Rightarrow> (task_dir \<Rightarrow> task_dir) \<Rightarrow> disk \<Rightarrow> disk" where
  "change_dir r i f d = (case dir_of r i d of None \<Rightarrow> d | Some t \<Rightarrow> put_dir r i (f t) d)"

definition in_dir :: "root \<Rightarrow> pystr \<Rightarrow> (task_dir \<Rightarrow> task_dir) \<Rightarrow> (task_dir \<Rightarrow> task_dir) \<Rightarrow> unit io" where
  "in_dir r i torn f = io_step (change_dir r i torn)
     (\<lambda>d. if dir_of r i d = None then Inl OsErr else Inr ((), change_dir r i f d))"

text \<open>\<open>json.load(open(metadata_file))\<close>\<close>

definition read_doc :: "root \<Rightarrow> pystr \<Rightarrow> json io" where
  "read_doc r i = io_step (\<lambda>d. d) (\<lambda>d. case meta_of r i d of
      None \<Rightarrow> Inl OsErr | Some Garbled \<Rightarrow> Inl JsonErr | Some (Doc j) \<Rightarrow> Inr (j, d))"

text \<open>\<open>open(metadata_file, "w")\<close> and \<open>json.dump\<close>: the file is truncated before it is written.\<close>

definition write_doc :: "root \<Rightarrow> pystr \<Rightarrow> json \<Rightarrow> unit io" where
  "write_doc r i j = in_dir r i (set_meta (Some Garbled)) (set_meta (Some (Doc j)))"

text \<open>The same through a temporary file and \<open>os.replace\<close>.\<close>

definition replace_doc :: "root \<Rightarrow> pystr \<Rightarrow> json \<Rightarrow> unit io" where
  "replace_doc r i j = io_then (in_dir r i (set_temp (Some Garbled)) (set_temp (Some (Doc j))))
     (in_dir r i id (\<lambda>t. set_temp None (set_meta (td_temp t) t)))"

definition copy_file :: "root \<Rightarrow> pystr \<Rightarrow> pystr \<Rightarrow> pystr \<Rightarrow> unit io" where
  "copy_file r i n b = in_dir r i (set_file n (take (length b div 2) b)) (set_file n b)"

text \<open>\<open>shutil.move\<close> of a directory: into the destination when that exists.\<close>

definition moved_to :: "root \<Rightarrow> root \<Rightarrow> pystr \<Rightarrow> disk \<Rightarrow> disk option" where
  "moved_to src dst i d = (case dir_of src i d of None \<Rightarrow> None
     | Some t \<Rightarrow> (case dir_of dst i d of None \<Rightarrow> Some (put_dir dst i t (drop_dir src i d))
         | Some u \<Rightarrow> if i \<in> set (entries u) then None
                     else Some (put_dir dst i (add_inner i t u) (drop_dir src i d))))"

definition move_dir :: "root \<Rightarrow> root \<Rightarrow> pystr \<Rightarrow> unit io" where
  "move_dir src dst i = io_step (\<lambda>d. d)
     (\<lambda>d. case moved_to src dst i d of None \<Rightarrow> Inl OsErr | Some d' \<Rightarrow> Inr ((), d'))"

definition remove_tree :: "root \<Rightarrow> pystr \<Rightarrow> unit io" where
  "remove_tree r i = io_step (change_dir r i (\<lambda>_. TDir None None [] []))
     (\<lambda>d. if dir_of r i d = None then Inl OsErr else Inr ((), drop_dir r i d))"

definition make_dir :: "root \<Rightarrow> pystr \<Rightarrow> unit io" where
  "make_dir r i = io_step (\<lambda>d. d) (\<lambda>d. Inr ((),
     if dir_of r i d = None then put_dir r i (TDir None None [] []) d else d))"

text \<open>A loop that adds up what its body returns.\<close>

fun sum_io :: "('a \<Rightarrow> nat io) \<Rightarrow> 'a list \<Rightarrow> nat io" where
  "sum_io f [] = io_ret 0"
| "sum_io f (x # xs) = io_bind (f x) (\<lambda>n. io_bind (sum_io f xs) (\<lambda>m. io_ret (n + m)))"

section \<open>Reading\<close>

text \<open>\<open>_task_dir\<close> refuses every id that is not a plain file name.\<close>

definition valid_task_id :: "pystr \<Rightarrow> bool" where
  "valid_task_id i = (i \<noteq> [] \<and> CHR ''/'' \<notin> set i \<and> i \<noteq> ''.'' \<and> i \<noteq> ''..'')"

definition with_valid_id :: "pystr \<Rightarrow> 'a io \<Rightarrow> 'a io" where
  "with_valid_id i m = (if valid_task_id i then m else io_raise (ValueErr ''invalid task id''))"

definition lifecycle :: "root list" where
  "lifecycle = [Incoming, Processing, Processed]"

text \<open>\<open>metadata.get\<close> of a document that is not an object raises.\<close>

definition as_object :: "exn \<Rightarrow> json \<Rightarrow> pydict io" where
  "as_object e j = (case j of JObj d \<Rightarrow> io_ret d | _ \<Rightarrow> io_raise e)"

fun first_doc :: "root list \<Rightarrow> pystr \<Rightarrow> json option io" where
  "first_doc [] i = io_ret None"
| "first_doc (r # rs) i = io_bind (look_disk (meta_of r i)) (\<lambda>m.
     if m = None then first_doc rs i else io_bind (read_doc r i) (\<lambda>j. io_ret (Some j)))"

definition stored_task :: "pystr \<Rightarrow> json option io" where
  "stored_task i = with_valid_id i (first_doc lifecycle i)"

fun first_file :: "root list \<Rightarrow> pystr \<Rightarrow> disk \<Rightarrow> (root \<times> pystr) option" where
  "first_file [] i d = None"
| "first_file (r # rs) i d = (case dir_of r i d of None \<Rightarrow> first_file rs i d
     | Some t \<Rightarrow> (case sort (data_files t) of [] \<Rightarrow> first_file rs i d | n # _ \<Rightarrow> Some (r, n)))"

definition input_path :: "pystr \<Rightarrow> (root \<times> pystr) option io" where
  "input_path i = with_valid_id i (look_disk (first_file lifecycle i))"

definition ids_in :: "root \<Rightarrow> disk \<Rightarrow> pystr list" where
  "ids_in r d = map (\<lambda>((_, i), _). i) (filter (\<lambda>((r', _), _). r' = r) d)"

definition with_meta :: "root \<Rightarrow> disk \<Rightarrow> pystr list" where
  "with_meta r d = filter (\<lambda>i. meta_of r i d \<noteq> None) (ids_in r d)"

definition stored_ids :: "disk \<Rightarrow> pystr list" where
  "stored_ids d = sort (remdups (concat (map (\<lambda>r. with_meta r d) lifecycle)))"

definition task_ids :: "pystr list io" where
  "task_ids = look_disk stored_ids"

definition processing_task_ids :: "pystr list io" where
  "processing_task_ids = look_disk (\<lambda>d. sort (with_meta Processing d))"

section \<open>Transitions\<close>

text \<open>\<open>dict.update\<close>\<close>

definition dupdate :: "pydict \<Rightarrow> pydict \<Rightarrow> pydict" where
  "dupdate d ups = fold (\<lambda>(k, v) d. dput d k v) ups d"

definition dpop :: "pydict \<Rightarrow> pystr \<Rightarrow> pydict" where
  "dpop d k = filter (\<lambda>(k', v). k' \<noteq> k) d"

definition is_store_error :: "exn \<Rightarrow> bool" where
  "is_store_error e = (e = OsErr \<or> e = JsonErr)"

definition stamp :: "int \<Rightarrow> json" where
  "stamp t = JStr (iso_utc t)"

fun update_first :: "root list \<Rightarrow> pystr \<Rightarrow> pydict \<Rightarrow> bool io" where
  "update_first [] i ups = io_ret False"
| "update_first (r # rs) i ups = io_bind (look_disk (meta_of r i)) (\<lambda>m.
     if m = None then update_first rs i ups else
     io_try (io_bind (read_doc r i) (\<lambda>j. io_bind (as_object AttributeErr j) (\<lambda>d.
             io_bind io_now (\<lambda>now.
             io_then (replace_doc r i (JObj (dput (dupdate d ups) ''updated_at'' (stamp now)))) (io_ret True)))))
       is_store_error (\<lambda>_. io_ret False))"

definition update_metadata :: "pystr \<Rightarrow> pydict \<Rightarrow> bool io" where
  "update_metadata i ups = with_valid_id i (update_first lifecycle i ups)"

definition reject_task :: "pystr \<Rightarrow> pystr \<Rightarrow> bool io" where
  "reject_task i reason = update_metadata i [(''status'', JStr ''rejected''), (''rejection_reason'', JStr reason)]"

text \<open>\<open>except Exception as e: raise ValueError(...)\<close>\<close>

definition reraise :: "pystr \<Rightarrow> 'a io \<Rightarrow> 'a io" where
  "reraise msg m = io_try m (\<lambda>_. True) (\<lambda>_. io_raise (ValueErr msg))"

definition claim_for_processing :: "pystr \<Rightarrow> pydict option io" where
  "claim_for_processing i = with_valid_id i (io_bind (look_disk (dir_of Incoming i)) (\<lambda>t.
     if t = None then io_ret None else
     reraise ''Claim failed''
       (io_bind (read_doc Incoming i) (\<lambda>j. io_bind (as_object AttributeErr j) (\<lambda>d.
        if dget d ''status'' \<noteq> JStr ''accepted'' then io_ret None else
        io_then (move_dir Incoming Processing i)
        (io_bind io_now (\<lambda>now.
         let d' = dput (dput d ''status'' (JStr ''processing'')) ''claimed_at'' (stamp now) in
         io_then (write_doc Processing i (JObj d')) (io_ret (Some d')))))))))"

definition with_outcome :: "pydict option \<Rightarrow> pystr option \<Rightarrow> pydict \<Rightarrow> pydict" where
  "with_outcome result oc d = (let
     d1 = (case oc of None \<Rightarrow> d | Some s \<Rightarrow> if s = [] then d else dput d ''scheduler_outcome'' (JStr s));
     d2 = (case result of None \<Rightarrow> d1 | Some r \<Rightarrow> if r = [] then d1 else dput d1 ''result'' (JObj r))
     in dput d2 ''completion_pending'' (JBool True))"

text \<open>The repeated call: the directory is already processed, at most its status is still to be written.\<close>

definition repair_processed :: "pystr \<Rightarrow> bool io" where
  "repair_processed i = io_bind (look_disk (dir_of Processed i)) (\<lambda>u.
     if u = None then io_ret False else
     io_try (io_bind (read_doc Processed i) (\<lambda>j. io_bind (as_object AttributeErr j) (\<lambda>d.
       if dget d ''status'' = JStr ''processed'' then io_ret True else
       io_bind io_now (\<lambda>now.
       let d1 = dput d ''status'' (JStr ''processed'');
           d2 = dput d1 ''completed_at'' (case map_of d1 ''completed_at'' of None \<Rightarrow> stamp now | Some v \<Rightarrow> v)
       in io_then (write_doc Processed i (JObj d2)) (io_ret True)))))
     is_store_error (\<lambda>_. io_ret False))"

definition finish_processing :: "pystr \<Rightarrow> (pystr \<times> pystr) option \<Rightarrow> pydict option \<Rightarrow> pystr option \<Rightarrow> bool io" where
  "finish_processing i output result oc = reraise ''Task completion failed''
     (io_bind (read_doc Processing i) (\<lambda>j. io_bind (as_object TypeErr j) (\<lambda>d.
      let d1 = with_outcome result oc d in
      io_then (write_doc Processing i (JObj d1))
      (io_then (move_dir Processing Processed i)
      (io_then (case output of None \<Rightarrow> io_ret () | Some (n, b) \<Rightarrow> copy_file Processed i n b)
      (io_bind io_now (\<lambda>now.
       let d2 = dpop (dput (dput d1 ''status'' (JStr ''processed'')) ''completed_at'' (stamp now)) ''completion_pending'' in
       io_then (write_doc Processed i (JObj d2)) (io_ret True))))))))"

definition complete_staged :: "pystr \<Rightarrow> (pystr \<times> pystr) option \<Rightarrow> pydict option \<Rightarrow> pystr option \<Rightarrow> bool io" where
  "complete_staged i output result oc = with_valid_id i (io_bind (look_disk (dir_of Processing i)) (\<lambda>t.
     if t = None then repair_processed i else finish_processing i output result oc))"

definition requeue_updates :: "int \<Rightarrow> pystr \<Rightarrow> pydict" where
  "requeue_updates now oc = [(''retry_at'', stamp now), (''scheduler_outcome'', JStr oc)]"

definition requeue_for_retry :: "pystr \<Rightarrow> pystr \<Rightarrow> bool io" where
  "requeue_for_retry i oc = with_valid_id i (io_bind io_now (\<lambda>now.
     io_bind (look_disk (dir_of Incoming i)) (\<lambda>inc. io_bind (look_disk (dir_of Processing i)) (\<lambda>pro.
     let ups = (''status'', JStr ''accepted'') # requeue_updates now oc in
     if inc \<noteq> None \<and> pro = None then update_metadata i ups
     else if pro = None \<or> inc \<noteq> None then io_ret False
     else io_try (io_bind (read_doc Processing i) (\<lambda>j. io_bind (as_object AttributeErr j) (\<lambda>d.
            io_then (replace_doc Processing i (JObj (dupdate d (requeue_updates now oc))))
            (io_then (move_dir Processing Incoming i) (update_metadata i ups)))))
          is_store_error (\<lambda>_. io_ret False)))))"

section \<open>A contract for store operations\<close>

text \<open>\<open>disk_obeys G m\<close>: whatever fails and wherever the process is killed, \<open>m\<close> changes the disk only as \<open>G\<close> allows.\<close>

abbreviation disk_obeys :: "(disk \<Rightarrow> disk \<Rightarrow> bool) \<Rightarrow> 'a io \<Rightarrow> bool" where
  "disk_obeys G m \<equiv> io_obeys (\<lambda>_. True) (\<lambda>s s'. G (f_disk s) (f_disk s')) m"

locale disk_guarantee =
  fixes G :: "disk \<Rightarrow> disk \<Rightarrow> bool"
  assumes D_refl: "G d d"
    and D_trans: "G a b \<Longrightarrow> G b c \<Longrightarrow> G a c"

sublocale disk_guarantee \<subseteq> effect_law "\<lambda>_::fenv. True" "\<lambda>s s'. G (f_disk s) (f_disk s')"
  by unfold_locales (auto intro: D_refl D_trans)

context disk_guarantee
begin

lemma io_obeys_now [io_intros]: "disk_obeys G io_now"
  by (simp add: io_obeys_def io_now_def D_refl)

lemma io_obeys_look_disk [io_intros]: "disk_obeys G (look_disk f)"
  by (simp add: look_disk_def io_obeys_look)

lemma io_obeys_step [io_intros]:
  "(\<And>d. G d (torn d)) \<Longrightarrow> (\<And>d a d'. f d = Inr (a, d') \<Longrightarrow> G d d') \<Longrightarrow> disk_obeys G (io_step torn f)"
  by (auto simp: io_obeys_def io_step_def Let_def D_refl split: fault.splits sum.splits prod.splits)

lemma io_obeys_object [io_intros]: "disk_obeys G (as_object e j)"
  by (cases j) (simp_all add: as_object_def io_obeys_ret io_obeys_raise)

lemma io_obeys_valid [io_intros]: "disk_obeys G m \<Longrightarrow> disk_obeys G (with_valid_id i m)"
  by (simp add: with_valid_id_def io_obeys_raise)

lemma io_obeys_read [io_intros]: "disk_obeys G (read_doc r i)"
  unfolding read_doc_def by (rule io_obeys_step) (auto simp: D_refl split: option.splits doc.splits)

lemma io_obeys_reraise [io_intros]: "disk_obeys G m \<Longrightarrow> disk_obeys G (reraise msg m)"
  by (simp add: reraise_def io_obeys_try io_obeys_raise)

lemma io_obeys_in_dir:
  "(\<And>d. G d (change_dir r i torn d)) \<Longrightarrow> (\<And>d. G d (change_dir r i f d)) \<Longrightarrow> disk_obeys G (in_dir r i torn f)"
  unfolding in_dir_def by (rule io_obeys_step) (auto split: if_splits)

lemma io_obeys_move:
  "(\<And>d d'. moved_to src dst i d = Some d' \<Longrightarrow> G d d') \<Longrightarrow> disk_obeys G (move_dir src dst i)"
  unfolding move_dir_def by (rule io_obeys_step) (auto simp: D_refl split: option.splits)

lemma io_obeys_sum_io: "(\<And>x. disk_obeys G (f x)) \<Longrightarrow> disk_obeys G (sum_io f xs)"
  by (induction xs) (auto intro!: io_intros)

end

text \<open>
  A store law: \<open>G\<close> allows every rewriting of the documents inside a directory, and the two moves of a
  task between processing and its neighbours.  Every operation of the store but staging and cleanup then
  obeys \<open>G\<close>.
\<close>

locale store_law = disk_guarantee +
  assumes G_meta: "G d (change_dir r i (set_meta m) d)"
    and G_temp: "G d (change_dir r i (set_temp m) d)"
    and G_swap: "G d (change_dir r i (\<lambda>t. set_temp None (set_meta (td_temp t) t)) d)"
    and G_claim: "moved_to Incoming Processing i d = Some d' \<Longrightarrow> G d d'"
    and G_finish: "moved_to Processing Processed i d = Some d' \<Longrightarrow> G d d'"
    and G_requeue: "moved_to Processing Incoming i d = Some d' \<Longrightarrow> G d d'"
begin

lemma change_id: "G d (change_dir r i id d)"
  by (simp add: change_dir_def D_refl put_dir_def dir_of_def update_triv split: option.splits)

lemma io_obeys_write [io_intros]: "disk_obeys G (write_doc r i j)"
  unfolding write_doc_def by (rule io_obeys_in_dir) (rule G_meta)+

lemma io_obeys_replace [io_intros]: "disk_obeys G (replace_doc r i j)"
  unfolding replace_doc_def by (intro io_obeys_then io_obeys_in_dir G_temp G_swap change_id)

lemma io_obeys_update_first: "disk_obeys G (update_first rs i ups)"
  by (induction rs) (auto intro!: io_intros)

lemma io_obeys_update [io_intros]: "disk_obeys G (update_metadata i ups)"
  unfolding update_metadata_def by (intro io_intros io_obeys_update_first)

lemma io_obeys_claim: "disk_obeys G (claim_for_processing i)"
  unfolding claim_for_processing_def Let_def by (intro io_intros io_obeys_move G_claim)

lemma io_obeys_complete: "disk_obeys G (complete_staged i None result oc)"
  unfolding complete_staged_def repair_processed_def finish_processing_def Let_def option.case
  by (intro io_intros io_obeys_move G_finish)

lemma io_obeys_requeue: "disk_obeys G (requeue_for_retry i oc)"
  unfolding requeue_for_retry_def Let_def by (intro io_intros io_obeys_move G_requeue)

lemmas io_obeys_methods = io_obeys_update io_obeys_claim io_obeys_complete io_obeys_requeue

end

end
