(* ===== verification/PyLibrary.thy ===== *)
theory PyLibrary
  imports Effects
begin

text \<open>
  What the adapters and handlers use of Python's library: results that are an exception or a value, ends of texts,
  command lines, paths, and indexing into decoded JSON with the exceptions it raises.
\<close>

definition sum_bind :: "exn + 'a \<Rightarrow> ('a \<Rightarrow> exn + 'b) \<Rightarrow> exn + 'b" where
  "sum_bind x f = (case x of Inl e \<Rightarrow> Inl e | Inr a \<Rightarrow> f a)"

definition tail_text :: "nat \<Rightarrow> pystr \<Rightarrow> pystr" where
  "tail_text n s = drop (length s - n) s"

definition or_text :: "pystr option \<Rightarrow> pystr option \<Rightarrow> pystr option" where
  "or_text x y = (if has_text x then x else y)"

text \<open>How a process ended: its exit code and what it wrote.\<close>

datatype process_end = Exited int pystr pystr

section \<open>Command lines\<close>

text \<open>\<open>shlex.split\<close>, POSIX rules: between words, in a word, in quotes, after a backslash (in double quotes or not).\<close>

datatype lexer = Gap | InWord | InQuotes char | Escape bool

definition shell_space :: "char \<Rightarrow> bool" where
  "shell_space c = (c \<in> {CHR 0x20, CHR 0x09, CHR 0x0D, CHR 0x0A})"

definition quote_char :: "char \<Rightarrow> bool" where
  "quote_char c = (c = CHR 0x22 \<or> c = CHR 0x27)"

fun shlex_scan :: "lexer \<Rightarrow> pystr \<Rightarrow> pystr \<Rightarrow> exn + pystr list" where
  "shlex_scan Gap tok [] = Inr []"
| "shlex_scan InWord tok [] = Inr [tok]"
| "shlex_scan (InQuotes q) tok [] = Inl (ValueErr ''No closing quotation'')"
| "shlex_scan (Escape d) tok [] = Inl (ValueErr ''No escaped character'')"
| "shlex_scan Gap tok (c # cs) = (if shell_space c then shlex_scan Gap [] cs
     else if c = CHR 0x5C then shlex_scan (Escape False) [] cs
     else if quote_char c then shlex_scan (InQuotes c) [] cs
     else shlex_scan InWord [c] cs)"
| "shlex_scan InWord tok (c # cs) = (if shell_space c then sum_bind (shlex_scan Gap [] cs) (\<lambda>ws. Inr (tok # ws))
     else if c = CHR 0x5C then shlex_scan (Escape False) tok cs
     else if quote_char c then shlex_scan (InQuotes c) tok cs
     else shlex_scan InWord (tok @ [c]) cs)"
| "shlex_scan (InQuotes q) tok (c # cs) = (if c = q then shlex_scan InWord tok cs
     else if c = CHR 0x5C \<and> q = CHR 0x22 then shlex_scan (Escape True) tok cs
     else shlex_scan (InQuotes q) (tok @ [c]) cs)"
| "shlex_scan (Escape d) tok (c # cs) = (if d
     then shlex_scan (InQuotes CHR 0x22) (tok @ (if c = CHR 0x5C \<or> c = CHR 0x22 then [c] else [CHR 0x5C, c])) cs
     else shlex_scan InWord (tok @ [c]) cs)"

definition shlex_split :: "pystr \<Rightarrow> exn + pystr list" where
  "shlex_split s = shlex_scan Gap [] s"

section \<open>Paths and decoded documents\<close>

text \<open>\<open>Path(s).name\<close>\<close>

definition path_name :: "pystr \<Rightarrow> pystr" where
  "path_name s = (let parts = filter (\<lambda>p. p \<noteq> [] \<and> p \<noteq> ''.'') (split_on CHR ''/'' s) in if parts = [] then [] else last parts)"

text \<open>\<open>Path(name).suffix\<close>\<close>

definition path_suffix :: "pystr \<Rightarrow> pystr" where
  "path_suffix n = (let s = takeWhile (\<lambda>c. c \<noteq> CHR ''.'') (rev n) in
     if s \<noteq> [] \<and> length s + 1 < length n then CHR ''.'' # rev s else [])"

text \<open>\<open>d.get(k, default)\<close>, \<open>j[k]\<close>, \<open>j[0]\<close>, \<open>list(j)\<close> and \<open>x or y\<close>.\<close>

definition dget_or :: "pydict \<Rightarrow> pystr \<Rightarrow> json \<Rightarrow> json" where
  "dget_or d k dflt = (case map_of d k of None \<Rightarrow> dflt | Some v \<Rightarrow> v)"

definition at_key :: "json \<Rightarrow> pystr \<Rightarrow> exn + json" where
  "at_key j k = (case j of JObj d \<Rightarrow> (case map_of d k of None \<Rightarrow> Inl KeyErr | Some v \<Rightarrow> Inr v) | _ \<Rightarrow> Inl TypeErr)"

definition at_zero :: "json \<Rightarrow> exn + json" where
  "at_zero j = (case j of JArr js \<Rightarrow> (case js of [] \<Rightarrow> Inl IndexErr | x # _ \<Rightarrow> Inr x)
     | JStr s \<Rightarrow> (case s of [] \<Rightarrow> Inl IndexErr | c # _ \<Rightarrow> Inr (JStr [c]))
     | JObj _ \<Rightarrow> Inl KeyErr | _ \<Rightarrow> Inl TypeErr)"

definition listed :: "json \<Rightarrow> exn + json list" where
  "listed j = (case j of JArr js \<Rightarrow> Inr js | JStr s \<Rightarrow> Inr (map (\<lambda>c. JStr [c]) s) | JObj d \<Rightarrow> Inr (map (JStr \<circ> fst) d)
     | _ \<Rightarrow> Inl TypeErr)"

definition py_or :: "json \<Rightarrow> json \<Rightarrow> json" where
  "py_or x y = (if truthy x then x else y)"

definition text_json :: "pystr option \<Rightarrow> json" where
  "text_json s = (case s of None \<Rightarrow> JNull | Some t \<Rightarrow> JStr t)"

text \<open>\<open>repr\<close> of a list of texts.\<close>

definition list_repr :: "pystr list \<Rightarrow> pystr" where
  "list_repr xs = ''['' @ join '', '' (map py_repr xs) @ '']''"

text \<open>\<open>finally\<close>; a program that is killed does not run it.\<close>

definition finally_do :: "('e, 's, 'a) prog \<Rightarrow> ('e, 's, unit) prog \<Rightarrow> ('e, 's, 'a) prog" where
  "finally_do m f = io_bind (io_try (io_bind m (\<lambda>a. io_ret (Inr a))) (\<lambda>_. True) (\<lambda>e. io_ret (Inl e))) (\<lambda>r.
     io_then f (case r of Inl e \<Rightarrow> io_raise e | Inr a \<Rightarrow> io_ret a))"

text \<open>What the environment answers at once, and a result that is an exception or a value.\<close>

definition ask_env :: "('e \<Rightarrow> 'a) \<Rightarrow> ('e, 's, 'a) prog" where
  "ask_env f env s = (Ok (f env), s)"

definition checked_sum :: "('e \<Rightarrow> exn + 'a) \<Rightarrow> ('e, 's, 'a) prog" where
  "checked_sum f env s = (case f env of Inl e \<Rightarrow> (Raised e, s) | Inr a \<Rightarrow> (Ok a, s))"

section \<open>Programs that return\<close>

lemma bind_Ok: "io_bind m f env s = (Ok b, s') \<longleftrightarrow> (\<exists>a s1. m env s = (Ok a, s1) \<and> f a env s1 = (Ok b, s'))"
  by (auto simp: io_bind_def split: prod.splits outcome.splits)

lemma then_Ok: "io_then m n env s = (Ok b, s') \<longleftrightarrow> (\<exists>a s1. m env s = (Ok a, s1) \<and> n env s1 = (Ok b, s'))"
  by (simp add: io_then_def bind_Ok)

lemma ret_Ok: "io_ret a env s = (Ok b, s') \<longleftrightarrow> b = a \<and> s' = s"
  by (auto simp: io_ret_def)

lemma raise_Ok: "io_raise e env s = (Ok b, s') \<longleftrightarrow> False"
  by (simp add: io_raise_def)

lemma try_Ok: "io_try m p h env s = (Ok b, s') \<longleftrightarrow>
    m env s = (Ok b, s') \<or> (\<exists>e s1. m env s = (Raised e, s1) \<and> p e \<and> h e env s1 = (Ok b, s'))"
  by (auto simp: io_try_def split: prod.splits outcome.splits)

lemma end_Ok: "(case e of Exited rc out err \<Rightarrow> f rc out err) env s = (Ok b, s') \<longleftrightarrow>
    (\<exists>rc out err. e = Exited rc out err \<and> f rc out err env s = (Ok b, s'))"
  by (cases e) simp

lemma option_Ok: "(case x of None \<Rightarrow> m | Some y \<Rightarrow> f y) env s = (Ok b, s') \<longleftrightarrow>
    x = None \<and> m env s = (Ok b, s') \<or> (\<exists>y. x = Some y \<and> f y env s = (Ok b, s'))"
  by (cases x) simp_all

lemma sum_case_Ok: "(case x of Inl y \<Rightarrow> g y | Inr y \<Rightarrow> f y) env s = (Ok b, s') \<longleftrightarrow>
    (\<exists>y. x = Inl y \<and> g y env s = (Ok b, s')) \<or> (\<exists>y. x = Inr y \<and> f y env s = (Ok b, s'))"
  by (cases x) simp_all

lemma if_Ok: "(if c then m else n) env s = (Ok b, s') \<longleftrightarrow> c \<and> m env s = (Ok b, s') \<or> \<not> c \<and> n env s = (Ok b, s')"
  by simp

lemma finally_Ok: "finally_do m f env s = (Ok a, s') \<longleftrightarrow> (\<exists>s1. m env s = (Ok a, s1) \<and> f env s1 = (Ok (), s'))"
  by (auto simp: finally_do_def io_bind_def io_then_def io_try_def io_ret_def io_raise_def split: prod.splits outcome.splits sum.splits)

lemma ask_env_Ok: "ask_env f env s = (Ok a, s') \<longleftrightarrow> a = f env \<and> s' = s"
  by (auto simp: ask_env_def)

lemma checked_Ok: "checked_sum f env s = (Ok a, s') \<longleftrightarrow> f env = Inr a \<and> s' = s"
  by (auto simp: checked_sum_def split: sum.splits)

lemma look_Ok: "io_look f env s = (Ok a, s') \<longleftrightarrow> a = f s \<and> s' = s"
  by (auto simp: io_look_def)

lemmas returns = bind_Ok then_Ok ret_Ok raise_Ok try_Ok end_Ok

lemma sum_bind_simps [simp]: "sum_bind (Inl e) f = Inl e" "sum_bind (Inr a) f = f a"
  by (simp_all add: sum_bind_def)

lemma sum_bind_Inr: "sum_bind x f = Inr b \<longleftrightarrow> (\<exists>a. x = Inr a \<and> f a = Inr b)"
  by (auto simp: sum_bind_def split: sum.splits)

end
