(* ===== verification/Staging.thy ===== *)
theory Staging
  imports Storage PyLibrary
begin

text \<open>
  Publishing an image into the store (storage.py \<open>validate_input\<close>, \<open>stage_input\<close>, \<open>cleanup_old_tasks\<close>;
  telegram_staging.py).  The MIME library and the SHA-256 digest are parameters; a source file is what the
  calls on its path report.
\<close>

section \<open>Validation\<close>

record source_file =
  sf_name :: pystr
  sf_exists :: bool
  sf_regular :: bool
  sf_link :: bool
  sf_size :: "int option"
  sf_bytes :: "pystr option"

record image_lib =
  lib_mime :: "pystr option \<Rightarrow> pystr option"
  lib_sha256 :: "pystr \<Rightarrow> pystr"

record file_info =
  fi_name :: pystr
  fi_ext :: pystr
  fi_mime :: pystr
  fi_size :: int
  fi_hash :: pystr

definition max_file_size :: int where
  "max_file_size = 25 * 1024 * 1024"

definition supported_formats :: "(pystr \<times> pystr list) list" where
  "supported_formats = [(''image/jpeg'', [''jpg'', ''jpeg'']), (''image/png'', [''png'']),
     (''image/webp'', [''webp'']), (''image/gif'', [''gif'']), (''image/bmp'', [''bmp''])]"

definition supported_extensions :: "pystr list" where
  "supported_extensions = concat (map snd supported_formats)"

definition file_extension :: "pystr \<Rightarrow> pystr" where
  "file_extension n = lstrip_char CHR ''.'' (lower (path_suffix n))"

text \<open>The error texts name the values; \<open>Cannot read file\<close> stands for the OSError texts.\<close>

definition validate_input :: "image_lib \<Rightarrow> source_file \<Rightarrow> pystr + file_info" where
  "validate_input lib f = (
     if \<not> sf_exists f then Inl ''File does not exist''
     else if sf_link f then Inl ''Symlinks are not allowed''
     else case sf_size f of None \<Rightarrow> Inl ''Cannot read file''
     | Some n \<Rightarrow> if max_file_size < n then Inl (''File size '' @ show_int n @ '' exceeds limit '' @ show_int max_file_size)
     else let ext = file_extension (sf_name f) in
       if ext \<notin> set supported_extensions then Inl (''Unsupported format: .'' @ ext)
     else case lib_mime lib (sf_bytes f) of None \<Rightarrow> Inl ''MIME detection failed''
     | Some mime \<Rightarrow> (case map_of supported_formats mime of
         None \<Rightarrow> Inl (''Unsupported MIME type: '' @ mime)
       | Some exts \<Rightarrow> if ext \<notin> set exts
           then Inl (''MIME type '' @ mime @ '' mismatch with extension .'' @ ext)
         else case sf_bytes f of None \<Rightarrow> Inl ''Cannot read file for hash''
         | Some b \<Rightarrow> Inr \<lparr>fi_name = sf_name f, fi_ext = ext, fi_mime = mime, fi_size = n, fi_hash = lib_sha256 lib b\<rparr>))"

section \<open>Staging\<close>

definition generate_task_id :: "pystr option \<Rightarrow> int \<Rightarrow> pystr \<Rightarrow> pystr" where
  "generate_task_id key now unique = (case key of
     Some k \<Rightarrow> if k \<noteq> [] then ''task-'' @ take 8 k
        else ''task-'' @ filter (\<lambda>c. c \<in> set digit_chars) (take 19 (iso_utc now)) @ ''-'' @ unique
   | None \<Rightarrow> ''task-'' @ filter (\<lambda>c. c \<in> set digit_chars) (take 19 (iso_utc now)) @ ''-'' @ unique)"

definition generate_idempotency_key :: "image_lib \<Rightarrow> pystr \<Rightarrow> pystr \<Rightarrow> pystr \<Rightarrow> pystr" where
  "generate_idempotency_key lib chat msg hash = lib_sha256 lib (chat @ '':'' @ msg @ '':'' @ hash)"

definition json_opt :: "pystr option \<Rightarrow> json" where
  "json_opt s = (case s of None \<Rightarrow> JNull | Some t \<Rightarrow> JStr t)"

definition staged_doc :: "pystr \<Rightarrow> pystr option \<Rightarrow> pystr option \<Rightarrow> pystr option \<Rightarrow> file_info \<Rightarrow> int \<Rightarrow> pydict" where
  "staged_doc i chat msg key info now =
     [(''task_id'', JStr i), (''source_chat'', json_opt chat), (''source_message_id'', json_opt msg),
      (''idempotency_key'', json_opt key), (''content_hash'', JStr (fi_hash info)),
      (''mime_type'', JStr (fi_mime info)), (''file_size'', JInt (fi_size info)),
      (''status'', JStr ''accepted''), (''created_at'', stamp now), (''updated_at'', stamp now)]"

text \<open>\<open>os.rename\<close> of the assembled directory; a directory that is not empty is not replaced.\<close>

definition published :: "pystr \<Rightarrow> disk \<Rightarrow> disk option" where
  "published i d = (case dir_of Tmp (i @ ''.tmp'') d of None \<Rightarrow> None
     | Some t \<Rightarrow> (case dir_of Incoming i d of
           None \<Rightarrow> Some (put_dir Incoming i t (drop_dir Tmp (i @ ''.tmp'') d))
         | Some u \<Rightarrow> if entries u = [] then Some (put_dir Incoming i t (drop_dir Tmp (i @ ''.tmp'') d)) else None))"

definition publish :: "pystr \<Rightarrow> unit io" where
  "publish i = io_try (io_step (\<lambda>d. d) (\<lambda>d. case published i d of None \<Rightarrow> Inl OsErr | Some d' \<Rightarrow> Inr ((), d')))
     (\<lambda>_. True)
     (\<lambda>_. io_bind (look_disk (dir_of Tmp (i @ ''.tmp''))) (\<lambda>t.
        io_then (if t = None then io_ret () else remove_tree Tmp (i @ ''.tmp''))
        (io_raise (ValueErr ''Atomic staging failed''))))"

definition stage_input :: "image_lib \<Rightarrow> pystr \<Rightarrow> source_file \<Rightarrow> pystr option \<Rightarrow> pystr option \<Rightarrow> pystr option
    \<Rightarrow> (pystr \<times> pydict) io" where
  "stage_input lib unique f chat msg key = (case validate_input lib f of
     Inl err \<Rightarrow> io_raise (ValueErr (''Input validation failed: '' @ err))
   | Inr info \<Rightarrow> io_bind io_now (\<lambda>now. let i = generate_task_id key now unique; tmp = i @ ''.tmp'' in
       io_then (make_dir Tmp tmp)
       (io_then (copy_file Tmp tmp (''image.'' @ fi_ext info) (the (sf_bytes f)))
       (io_bind io_now (\<lambda>t. let doc = staged_doc i chat msg key info t in
        io_then (write_doc Tmp tmp (JObj doc)) (io_then (publish i) (io_ret (i, doc))))))))"

section \<open>Retention\<close>

definition digits_value :: "pystr \<Rightarrow> int option" where
  "digits_value s = (if s \<noteq> [] \<and> list_all (\<lambda>c. c \<in> set digit_chars) s
     then Some (foldl (\<lambda>n c. 10 * n + (of_char c - 48)) 0 s) else None)"

definition days_in_month :: "int \<Rightarrow> int \<Rightarrow> int" where
  "days_in_month y m = (if m = 2 then (if y mod 4 = 0 \<and> (y mod 100 \<noteq> 0 \<or> y mod 400 = 0) then 29 else 28)
     else if m \<in> {4, 6, 9, 11} then 30 else 31)"

definition days_of_civil :: "int \<Rightarrow> int \<Rightarrow> int \<Rightarrow> int" where
  "days_of_civil y m d = (let y' = (if m \<le> 2 then y - 1 else y); era = y' div 400; yoe = y' mod 400;
      doy = (153 * ((m + 9) mod 12) + 2) div 5 + d - 1;
      doe = yoe * 365 + yoe div 4 - yoe div 100 + doy
    in era * 146097 + doe - 719468)"

definition field :: "nat \<Rightarrow> nat \<Rightarrow> pystr \<Rightarrow> int option" where
  "field k n s = (let w = take n (drop k s) in if length w = n then digits_value w else None)"

definition parse_offset :: "pystr \<Rightarrow> int option" where
  "parse_offset s = (if length s = 6 \<and> s ! 0 \<in> {CHR ''+'', CHR ''-''} \<and> s ! 3 = CHR '':'' then
      (case (field 1 2 s, field 4 2 s) of
         (Some h, Some m) \<Rightarrow> if h < 24 \<and> m < 60 then Some ((if s ! 0 = CHR ''-'' then - 1 else 1) * (h * 3600 + m * 60)) else None
       | _ \<Rightarrow> None) else None)"

text \<open>
  \<open>datetime.fromisoformat\<close> on the texts \<open>isoformat\<close> writes for aware instants,
  \<open>YYYY-MM-DDTHH:MM:SS[.ffffff]+HH:MM\<close>.  Other texts give \<open>None\<close>: the code skips what does not parse and
  what, having no offset, cannot be compared.
\<close>

definition parse_iso :: "pystr \<Rightarrow> int option" where
  "parse_iso s = (if length s < 19 \<or> s ! 4 \<noteq> CHR ''-'' \<or> s ! 7 \<noteq> CHR ''-'' \<or> s ! 10 \<noteq> CHR ''T'' \<or>
        s ! 13 \<noteq> CHR '':'' \<or> s ! 16 \<noteq> CHR '':'' then None
     else case (field 0 4 s, field 5 2 s, field 8 2 s, field 11 2 s, field 14 2 s, field 17 2 s) of
       (Some y, Some mo, Some d, Some h, Some mi, Some sec) \<Rightarrow>
         if y < 1 \<or> mo < 1 \<or> 12 < mo \<or> d < 1 \<or> days_in_month y mo < d \<or> 23 < h \<or> 59 < mi \<or> 59 < sec then None
         else let frac = (19 < length s \<and> s ! 19 = CHR ''.'') in
           (case (if frac then field 20 6 s else Some 0, parse_offset (drop (if frac then 26 else 19) s)) of
              (Some us, Some off) \<Rightarrow>
                Some ((((days_of_civil y mo d * 24 + h) * 60 + mi) * 60 + sec - off) * 1000000 + us)
            | _ \<Rightarrow> None)
     | _ \<Rightarrow> None)"

text \<open>When a stored task became terminal; \<open>None\<close> when it is not, or its document is malformed.\<close>

definition terminal_at :: "json \<Rightarrow> int option" where
  "terminal_at j = (case j of JObj d \<Rightarrow>
       let timestamp = (if dget d ''status'' = JStr ''processed'' then dget d ''completed_at''
                        else if dget d ''status'' = JStr ''rejected'' then dget d ''updated_at'' else JNull) in
       (case timestamp of JStr s \<Rightarrow> parse_iso s | _ \<Rightarrow> None)
     | _ \<Rightarrow> None)"

definition cleanup_dir :: "int \<Rightarrow> root \<Rightarrow> pystr \<Rightarrow> nat io" where
  "cleanup_dir cutoff r i = io_bind (look_disk (meta_of r i)) (\<lambda>m. if m = None then io_ret 0 else
     io_try (io_bind (read_doc r i) (\<lambda>j. case terminal_at j of
         Some t \<Rightarrow> if t < cutoff then io_then (remove_tree r i) (io_ret 1) else io_ret 0
       | None \<Rightarrow> io_ret 0))
     (\<lambda>_. True) (\<lambda>_. io_ret 0))"

definition modified_at :: "pystr \<Rightarrow> int io" where
  "modified_at i env s = (Ok (f_mtime env (f_tick s) i), s)"

definition cleanup_tmp :: "int \<Rightarrow> pystr \<Rightarrow> nat io" where
  "cleanup_tmp cutoff i = io_try (io_bind (modified_at i) (\<lambda>t.
       if t < cutoff then io_then (remove_tree Tmp i) (io_ret 1) else io_ret 0))
     (\<lambda>e. e = OsErr) (\<lambda>_. io_ret 0)"

definition cleanup_before :: "int \<Rightarrow> nat io" where
  "cleanup_before cutoff =
     io_bind (look_disk (ids_in Processed)) (\<lambda>ps. io_bind (sum_io (cleanup_dir cutoff Processed) ps) (\<lambda>n.
     io_bind (look_disk (ids_in Incoming)) (\<lambda>is. io_bind (sum_io (cleanup_dir cutoff Incoming) is) (\<lambda>m.
     io_bind (look_disk (\<lambda>d. filter (ends_with ''.tmp'') (ids_in Tmp d))) (\<lambda>ts. io_bind (sum_io (cleanup_tmp cutoff) ts) (\<lambda>k.
     io_ret (n + m + k)))))))"

definition cleanup_old_tasks :: "int \<Rightarrow> nat io" where
  "cleanup_old_tasks days = (if days < 0 then io_raise (ValueErr ''retention days must be non-negative'') else
     io_bind io_now (\<lambda>now. cleanup_before (now - days * 86400 * 1000000)))"

section \<open>Telegram staging\<close>

record staging_result =
  sr_accepted :: bool
  sr_status :: pystr
  sr_task :: "pystr option"
  sr_path :: "(root \<times> pystr) option"
  sr_error :: "pystr option"
  sr_replay :: bool

definition rejected :: "pystr \<Rightarrow> staging_result" where
  "rejected err = \<lparr>sr_accepted = False, sr_status = ''rejected'', sr_task = None, sr_path = None,
     sr_error = Some err, sr_replay = False\<rparr>"

definition saved :: "pystr \<Rightarrow> root \<times> pystr \<Rightarrow> bool \<Rightarrow> staging_result" where
  "saved i p replay = \<lparr>sr_accepted = True, sr_status = ''saved'', sr_task = Some i, sr_path = Some p,
     sr_error = None, sr_replay = replay\<rparr>"

definition remove_incomplete :: "pystr \<Rightarrow> unit io" where
  "remove_incomplete i = io_bind (look_disk (dir_of Incoming i)) (\<lambda>t.
     if t = None then io_ret () else remove_tree Incoming i)"

definition doc_status :: "json option \<Rightarrow> json io" where
  "doc_status j = (case j of None \<Rightarrow> io_ret JNull | Some j \<Rightarrow>
     io_bind (as_object AttributeErr j) (\<lambda>d. io_ret (dget d ''status'')))"

definition existing_result :: "pystr \<Rightarrow> staging_result option io" where
  "existing_result i = io_bind (stored_task i) (\<lambda>meta. io_bind (input_path i) (\<lambda>path.
     case (meta, path) of
       (Some j, Some p) \<Rightarrow> io_bind (doc_status (Some j)) (\<lambda>st.
         if st = JStr ''accepted'' then
           io_bind (update_metadata i [(''status'', JStr ''saved''), (''ingress_mode'', JStr ''telegram-stage-only'')]) (\<lambda>ok.
           io_bind (stored_task i) (\<lambda>meta'. io_bind (if ok then doc_status meta' else io_ret JNull) (\<lambda>st'.
           if st' \<noteq> JStr ''saved'' then io_then (remove_incomplete i)
             (io_ret (Some (rejected ''existing staging record is incomplete'')))
           else io_ret (Some (saved i p True)))))
         else if st \<noteq> JStr ''saved'' then io_ret (Some (rejected ''existing staging record has unexpected status''))
         else io_ret (Some (saved i p True)))
     | _ \<Rightarrow> io_ret None))"

text \<open>\<open>str\<close> of the JSON values that identify a chat or a message (texts, integers, booleans).\<close>

definition json_text :: "json \<Rightarrow> pystr" where
  "json_text j = (case j of JStr s \<Rightarrow> s | JInt n \<Rightarrow> show_int n | JBool b \<Rightarrow> if b then ''True'' else ''False''
     | _ \<Rightarrow> ''None'')"

definition text_or_none :: "json \<Rightarrow> pystr option" where
  "text_or_none j = (if j = JNull then None else Some (json_text j))"

definition is_ingress_error :: "exn \<Rightarrow> bool" where
  "is_ingress_error e = (e = OsErr \<or> is_value_error e \<or> e = TypeErr)"

definition publish_event :: "image_lib \<Rightarrow> (nat \<Rightarrow> pystr) \<Rightarrow> source_file \<Rightarrow> pydict \<Rightarrow> file_info \<Rightarrow> staging_result io" where
  "publish_event lib unique f ev info = (let chat = text_or_none (dget ev ''chat_id'');
       msg = text_or_none (dget ev ''message_id'');
       key = (case (chat, msg) of (Some c, Some m) \<Rightarrow> Some (generate_idempotency_key lib c m (fi_hash info)) | _ \<Rightarrow> None) in
     io_bind io_now (\<lambda>now. let i = generate_task_id key now (unique 0) in
     io_bind (existing_result i) (\<lambda>old. case old of Some res \<Rightarrow> io_ret res | None \<Rightarrow>
     io_bind (stage_input lib (unique 1) f chat msg key) (\<lambda>(i, _).
     io_bind (update_metadata i [(''status'', JStr ''saved''), (''caption'', dget ev ''caption''),
         (''media_group_id'', dget ev ''media_group_id''), (''source_kind'', dget ev ''kind''),
         (''ingress_mode'', JStr ''telegram-stage-only'')]) (\<lambda>ok.
     if \<not> ok then io_then (remove_incomplete i) (io_ret (rejected ''could not persist staging metadata'')) else
     io_bind (input_path i) (\<lambda>p. case p of
         None \<Rightarrow> io_then (remove_incomplete i) (io_ret (rejected ''staged image path is missing''))
       | Some p \<Rightarrow> io_ret (saved i p False)))))))"

definition stage_event :: "image_lib \<Rightarrow> (nat \<Rightarrow> pystr) \<Rightarrow> (pystr \<Rightarrow> source_file) \<Rightarrow> json \<Rightarrow> staging_result io" where
  "stage_event lib unique files event = (case event of JObj ev \<Rightarrow>
     (case dget ev ''source_path'' of JStr p \<Rightarrow>
        if strip p = [] then io_ret (rejected ''source_path is required'') else
        let f = files p in
        if \<not> sf_regular f \<or> sf_link f then io_ret (rejected ''source_path must be an existing regular, non-symlink file'')
        else io_try (case validate_input lib f of Inl err \<Rightarrow> io_ret (rejected err)
              | Inr info \<Rightarrow> publish_event lib unique f ev info)
           is_ingress_error (\<lambda>_. io_ret (rejected ''staging failed''))
      | _ \<Rightarrow> io_ret (rejected ''source_path is required''))
   | _ \<Rightarrow> io_ret (rejected ''event must be a JSON object''))"

end
