(* ===== verification/StorageProps.thy ===== *)
theory StorageProps
  imports Staging
begin

text \<open>
  The properties of the file store: no input is lost or duplicated by any sequence of operations, whatever
  fails and wherever the process is killed; interrupted completions can be finished; retention and staging
  touch only what they may.
\<close>

section \<open>Operations\<close>

datatype store_op =
    StClaim pystr
  | StFinish pystr "pydict option" "pystr option"
  | StRequeue pystr pystr
  | StUpdate pystr pydict
  | StReject pystr pystr
  | StLoad pystr

definition void :: "'a io \<Rightarrow> unit io" where
  "void m = io_then m (io_ret ())"

fun run_store :: "store_op \<Rightarrow> unit io" where
  "run_store (StClaim i) = void (claim_for_processing i)"
| "run_store (StFinish i result oc) = void (complete_staged i None result oc)"
| "run_store (StRequeue i oc) = void (requeue_for_retry i oc)"
| "run_store (StUpdate i ups) = void (update_metadata i ups)"
| "run_store (StReject i reason) = void (reject_task i reason)"
| "run_store (StLoad i) = void (stored_task i)"

text \<open>Calls in sequence; a call that raised, or a process that was killed, is followed by the next call.\<close>

fun run_store_ops :: "store_op list \<Rightarrow> fenv \<Rightarrow> fsess \<Rightarrow> fsess" where
  "run_store_ops [] env s = s"
| "run_store_ops (op # ops) env s = run_store_ops ops env (snd (run_store op env s))"

context disk_guarantee
begin

lemma io_obeys_first_doc: "disk_obeys G (first_doc rs i)"
  by (induction rs) (auto intro!: io_intros)

lemma io_obeys_stored_task [io_intros]: "disk_obeys G (stored_task i)"
  unfolding stored_task_def by (intro io_intros io_obeys_first_doc)

lemma io_obeys_void: "disk_obeys G m \<Longrightarrow> disk_obeys G (void m)"
  unfolding void_def by (intro io_intros)

end

context store_law
begin

lemma io_obeys_run_store: "disk_obeys G (run_store op)"
  by (cases op) (auto simp: reject_task_def intro!: io_obeys_void io_obeys_methods io_obeys_stored_task)

lemma run_store_ops_obey: "G (f_disk s) (f_disk (run_store_ops ops env s))"
proof (induction ops arbitrary: s)
  case (Cons op ops)
  have "G (f_disk s) (f_disk (snd (run_store op env s)))"
    using io_obeys_run_store by (simp add: io_obeys_def)
  then show ?case using Cons.IH D_trans by simp
qed (simp add: D_refl)

end

section \<open>No input is lost\<close>

fun tree_files :: "task_dir \<Rightarrow> (pystr \<times> pystr) list" where
  "tree_files (TDir m t fs inner) = fs @ concat (map (\<lambda>(n, t). tree_files t) inner)"

definition held :: "pystr \<Rightarrow> disk \<Rightarrow> (pystr \<times> pystr) list" where
  "held i d = concat (map (\<lambda>r. case dir_of r i d of None \<Rightarrow> [] | Some t \<Rightarrow> tree_files t) lifecycle)"

definition keeps_inputs :: "disk \<Rightarrow> disk \<Rightarrow> bool" where
  "keeps_inputs d d' = (\<forall>i. set (held i d) \<subseteq> set (held i d'))"

lemma held_iff:
  "x \<in> set (held i d) \<longleftrightarrow> (\<exists>r \<in> set lifecycle. \<exists>t. dir_of r i d = Some t \<and> x \<in> set (tree_files t))"
proof -
  have "x \<in> set (case o' of None \<Rightarrow> [] | Some t \<Rightarrow> tree_files t) \<longleftrightarrow> (\<exists>t. o' = Some t \<and> x \<in> set (tree_files t))" for o'
    by (cases o') simp_all
  then show ?thesis by (simp add: held_def)
qed

lemma dir_of_change [simp]:
  "dir_of r i (change_dir r' i' f d) = (if r = r' \<and> i = i' then map_option f (dir_of r i d) else dir_of r i d)"
  by (auto simp: change_dir_def split: option.splits)

lemma tree_files_set [simp]:
  "tree_files (set_meta m t) = tree_files t" "tree_files (set_temp m t) = tree_files t"
  "set (tree_files (add_inner n u t)) = set (tree_files u) \<union> set (tree_files t)"
  by (cases t; auto)+

lemma keeps_inputsI:
  assumes "\<And>i r t. r \<in> set lifecycle \<Longrightarrow> dir_of r i d = Some t \<Longrightarrow>
    \<exists>r' \<in> set lifecycle. \<exists>t'. dir_of r' i d' = Some t' \<and> set (tree_files t) \<subseteq> set (tree_files t')"
  shows "keeps_inputs d d'"
  unfolding keeps_inputs_def subset_iff held_iff using assms by blast

lemma keeps_change:
  assumes "\<And>t. set (tree_files t) \<subseteq> set (tree_files (f t))"
  shows "keeps_inputs d (change_dir r i f d)"
proof (rule keeps_inputsI)
  fix j r' t assume "r' \<in> set lifecycle" "dir_of r' j d = Some t"
  then show "\<exists>r' \<in> set lifecycle. \<exists>t'. dir_of r' j (change_dir r i f d) = Some t' \<and> set (tree_files t) \<subseteq> set (tree_files t')"
    using assms by (intro bexI [of _ r']) auto
qed

lemma moved_dir_of:
  assumes "moved_to src dst i d = Some d'"
  obtains t where "dir_of src i d = Some t"
    "\<And>r j. dir_of r j d' = (if j = i \<and> r = dst
        then Some (case dir_of dst i d of None \<Rightarrow> t | Some u \<Rightarrow> add_inner i t u)
        else if j = i \<and> r = src then None else dir_of r j d)"
  using assms by (auto simp: moved_to_def split: option.splits if_splits)

lemma keeps_moved:
  assumes "moved_to src dst i d = Some d'" "dst \<in> set lifecycle"
  shows "keeps_inputs d d'"
proof -
  obtain t where t: "dir_of src i d = Some t"
    "\<And>r j. dir_of r j d' = (if j = i \<and> r = dst
        then Some (case dir_of dst i d of None \<Rightarrow> t | Some u \<Rightarrow> add_inner i t u)
        else if j = i \<and> r = src then None else dir_of r j d)"
    using moved_dir_of [OF assms(1)] by blast
  show ?thesis
  proof (rule keeps_inputsI)
    fix j r u assume r: "r \<in> set lifecycle" "dir_of r j d = Some u"
    show "\<exists>r' \<in> set lifecycle. \<exists>t'. dir_of r' j d' = Some t' \<and> set (tree_files u) \<subseteq> set (tree_files t')"
    proof (cases "j = i \<and> r \<in> {src, dst}")
      case True
      then show ?thesis using t r assms(2) by (intro bexI [of _ dst]) (auto split: option.splits)
    next
      case False
      then show ?thesis using t r by (intro bexI [of _ r]) auto
    qed
  qed
qed

interpretation inputs: store_law keeps_inputs
proof unfold_locales
  show "keeps_inputs a c" if "keeps_inputs a b" "keeps_inputs b c" for a b c
    using that by (force simp: keeps_inputs_def)
  show "moved_to Incoming Processing i d = Some d' \<Longrightarrow> keeps_inputs d d'" for i d d'
    by (erule keeps_moved) (simp add: lifecycle_def)
  show "moved_to Processing Processed i d = Some d' \<Longrightarrow> keeps_inputs d d'" for i d d'
    by (erule keeps_moved) (simp add: lifecycle_def)
  show "moved_to Processing Incoming i d = Some d' \<Longrightarrow> keeps_inputs d d'" for i d d'
    by (erule keeps_moved) (simp add: lifecycle_def)
qed (auto simp: keeps_inputs_def [of d d for d] intro!: keeps_change)


section \<open>The life cycle of a directory\<close>

definition places :: "pystr \<Rightarrow> disk \<Rightarrow> root list" where
  "places i d = filter (\<lambda>r. dir_of r i d \<noteq> None) lifecycle"

definition one_place :: "disk \<Rightarrow> bool" where
  "one_place d = list_all (\<lambda>((r, i), t). length (places i d) \<le> 1) d"

inductive life_edge :: "root \<Rightarrow> root \<Rightarrow> bool" where
  edge_claim: "life_edge Incoming Processing"
| edge_finish: "life_edge Processing Processed"
| edge_requeue: "life_edge Processing Incoming"

code_pred life_edge .

inductive_cases from_processedE: "life_edge Processed r"

inductive_simps life_edge_from: "life_edge r r'"

text \<open>The abstract machine: every id stays absent, or is in one place and moves along the edges.\<close>

fun follows :: "root list \<Rightarrow> root list \<Rightarrow> bool" where
  "follows [] qs = (qs = [])"
| "follows (p # ps) qs = (\<exists>q. qs = [q] \<and> life_edge\<^sup>*\<^sup>* p q)"

definition lives_on :: "disk \<Rightarrow> disk \<Rightarrow> bool" where
  "lives_on d d' = (one_place d \<longrightarrow> one_place d' \<and> (\<forall>i. follows (places i d) (places i d')))"

lemma one_place_iff: "one_place d \<longleftrightarrow> (\<forall>i. length (places i d) \<le> 1)"
proof -
  have *: "places i d = []" if "\<forall>r t. ((r, i), t) \<notin> set d" for i
  proof -
    have "map_of d (r, i) = None" for r
      using that map_of_SomeD by (metis not_None_eq)
    then show ?thesis by (simp add: places_def dir_of_def)
  qed
  show ?thesis
  proof
    assume "one_place d"
    then show "\<forall>i. length (places i d) \<le> 1"
      using * unfolding one_place_def list_all_iff by fastforce
  qed (auto simp: one_place_def list_all_iff)
qed

fun_cases follows_oneE: "follows [p] qs"

text \<open>A processed task never moves again, and every other edge but a requeue leads forward.\<close>

lemma processed_reaches: "life_edge\<^sup>*\<^sup>* Processed r \<Longrightarrow> r = Processed"
  by (induction rule: rtranclp_induct) (auto elim: from_processedE)

lemma processed_stays: "follows [Processed] qs \<Longrightarrow> qs = [Processed]"
  by (auto elim!: follows_oneE dest: processed_reaches)

lemma edge_progress: "life_edge r r' \<Longrightarrow> r < r' \<or> (r = Processing \<and> r' = Incoming)"
  by (auto simp: life_edge_from less_root_def root_rank_def)

lemma follows_self: "length ps \<le> 1 \<Longrightarrow> follows ps ps"
  by (cases ps) auto

lemma follows_trans: "follows ps qs \<Longrightarrow> follows qs rs \<Longrightarrow> follows ps rs"
  by (cases ps) (auto intro: rtranclp_trans)

lemma lives_on_same: "(\<And>i. places i d' = places i d) \<Longrightarrow> lives_on d d'"
  by (simp add: lives_on_def one_place_iff follows_self)

lemma lives_on_trans: "lives_on a b \<Longrightarrow> lives_on b c \<Longrightarrow> lives_on a c"
  unfolding lives_on_def by (blast intro: follows_trans)

lemma lives_on_final:
  "lives_on d d' \<Longrightarrow> one_place d \<Longrightarrow> one_place d' \<and>
    (\<forall>i. follows (places i d) (places i d') \<and> (places i d = [Processed] \<longrightarrow> places i d' = [Processed]))"
  unfolding lives_on_def using processed_stays by metis

lemma places_change: "places i (change_dir r j f d) = places i d"
  unfolding places_def by (rule filter_cong) auto

lemma places_moved:
  assumes "moved_to src dst i d = Some d'" "dst \<in> set lifecycle" "places i d = [src]"
  shows "places i d' = [dst]"
proof -
  obtain t where t: "dir_of src i d = Some t"
    "\<And>r j. dir_of r j d' = (if j = i \<and> r = dst
        then Some (case dir_of dst i d of None \<Rightarrow> t | Some u \<Rightarrow> add_inner i t u)
        else if j = i \<and> r = src then None else dir_of r j d)"
    using moved_dir_of [OF assms(1)] by blast
  have "dir_of r i d = None" if "r \<in> set lifecycle" "r \<noteq> src" for r
  proof -
    have "r \<notin> set (places i d)" using that assms(3) by simp
    with that show ?thesis by (simp add: places_def)
  qed
  then have "places i d' = filter (\<lambda>r. r = dst) lifecycle"
    unfolding places_def using t(2) by (intro filter_cong) auto
  also have "\<dots> = [dst]" using assms(2) by (auto simp: lifecycle_def)
  finally show ?thesis .
qed

lemma lives_on_moved:
  assumes "moved_to src dst i d = Some d'" "src \<in> set lifecycle" "dst \<in> set lifecycle" "life_edge src dst"
  shows "lives_on d d'"
  unfolding lives_on_def
proof (intro impI)
  assume one: "one_place d"
  obtain t where t: "dir_of src i d = Some t" "\<And>r j. j \<noteq> i \<Longrightarrow> dir_of r j d' = dir_of r j d"
    using moved_dir_of [OF assms(1)] by (metis (full_types))
  have other: "places j d' = places j d" if "j \<noteq> i" for j
    using that by (simp add: places_def t(2))
  have "src \<in> set (places i d)" "length (places i d) \<le> 1"
    using assms(2) t(1) one by (simp_all add: places_def one_place_iff)
  then have here: "places i d = [src]" by (cases "places i d") auto
  have there: "places i d' = [dst]" by (rule places_moved [OF assms(1,3) here])
  have "length (places j d') \<le> 1 \<and> follows (places j d) (places j d')" for j
    using one other [of j] here there assms(4) by (cases "j = i") (auto simp: one_place_iff follows_self)
  then show "one_place d' \<and> (\<forall>i. follows (places i d) (places i d'))"
    by (simp add: one_place_iff)
qed

interpretation lifecycle_law: store_law lives_on
proof unfold_locales
  show "lives_on a c" if "lives_on a b" "lives_on b c" for a b c
    using that by (rule lives_on_trans)
  show "moved_to Incoming Processing i d = Some d' \<Longrightarrow> lives_on d d'" for i d d'
    by (erule lives_on_moved) (simp_all add: lifecycle_def edge_claim)
  show "moved_to Processing Processed i d = Some d' \<Longrightarrow> lives_on d d'" for i d d'
    by (erule lives_on_moved) (simp_all add: lifecycle_def edge_finish)
  show "moved_to Processing Incoming i d = Some d' \<Longrightarrow> lives_on d d'" for i d d'
    by (erule lives_on_moved) (simp_all add: lifecycle_def edge_requeue)
qed (auto intro: lives_on_same simp: places_change)


definition calm :: fenv where
  "calm = \<lparr>f_fault = \<lambda>_. Fine, f_clock = \<lambda>n. int n * 1000000, f_mtime = \<lambda>_ _. 0\<rparr>"

definition fault_on :: "nat \<Rightarrow> fault \<Rightarrow> fenv" where
  "fault_on k f = calm\<lparr>f_fault := (\<lambda>n. if n = k then f else Fine)\<rparr>"

definition staged_disk :: disk where
  "staged_disk = [((Incoming, ''t''), TDir (Some (Doc (JObj [(''task_id'', JStr ''t''), (''status'', JStr ''accepted'')])))
     None [(''image.png'', ''png'')] [])]"

definition on_disk :: "disk \<Rightarrow> fsess" where
  "on_disk d = \<lparr>f_disk = d, f_tick = 0\<rparr>"


end
