(* ===== verification/StoreRecovery.thy ===== *)
theory StoreRecovery
  imports StorageProps
begin

text \<open>
  Runs of a store operation to the end: what holds when it returns, raises, or is killed.  With these rules
  the recovery of interrupted completions, the round trip of a claim and its requeue, and the limits of
  retention and staging.
\<close>

section \<open>Rules\<close>

text \<open>
  \<open>disk_wp F m Q E D d\<close>: from disk \<open>d\<close>, in every environment of \<open>F\<close>, \<open>m\<close> ends in \<open>Q\<close> when it returns, in \<open>E\<close>
  when it raises and in \<open>D\<close> when the process is killed.
\<close>

definition disk_wp :: "(fenv \<Rightarrow> bool) \<Rightarrow> 'a io \<Rightarrow> ('a \<Rightarrow> disk \<Rightarrow> bool) \<Rightarrow> (exn \<Rightarrow> disk \<Rightarrow> bool) \<Rightarrow> (disk \<Rightarrow> bool)
    \<Rightarrow> disk \<Rightarrow> bool" where
  "disk_wp F m Q E D d = (\<forall>env s. F env \<and> f_disk s = d \<longrightarrow> (case m env s of
     (Ok a, s') \<Rightarrow> Q a (f_disk s') | (Raised e, s') \<Rightarrow> E e (f_disk s') | (Died, s') \<Rightarrow> D (f_disk s')))"

named_theorems disk_wp_intros \<open>one rule per construct\<close>

lemma disk_wp_run:
  assumes "disk_wp F m Q E D (f_disk s)" "F env" "m env s = (r, s')"
  shows "case r of Ok a \<Rightarrow> Q a (f_disk s') | Raised e \<Rightarrow> E e (f_disk s') | Died \<Rightarrow> D (f_disk s')"
  using assms unfolding disk_wp_def by (fastforce split: outcome.splits)

lemma disk_wp_ret [disk_wp_intros]: "Q a d \<Longrightarrow> disk_wp F (io_ret a) Q E D d"
  by (simp add: disk_wp_def io_ret_def)

lemma disk_wp_raise [disk_wp_intros]: "E e d \<Longrightarrow> disk_wp F (io_raise e) Q E D d"
  by (simp add: disk_wp_def io_raise_def)

lemma disk_wp_now [disk_wp_intros]: "(\<And>t. Q t d) \<Longrightarrow> disk_wp F io_now Q E D d"
  by (simp add: disk_wp_def io_now_def)

lemma disk_wp_look [disk_wp_intros]: "Q (f d) d \<Longrightarrow> disk_wp F (look_disk f) Q E D d"
  by (simp add: disk_wp_def look_disk_def io_look_def)

lemma disk_wp_bind [disk_wp_intros]: "disk_wp F m (\<lambda>a. disk_wp F (f a) Q E D) E D d \<Longrightarrow> disk_wp F (io_bind m f) Q E D d"
  by (fastforce simp: disk_wp_def io_bind_def split: prod.splits outcome.splits)

lemma disk_wp_then [disk_wp_intros]: "disk_wp F m (\<lambda>a. disk_wp F n Q E D) E D d \<Longrightarrow> disk_wp F (io_then m n) Q E D d"
  by (simp add: io_then_def disk_wp_bind)

lemma disk_wp_try [disk_wp_intros]:
  "disk_wp F m Q (\<lambda>e d'. if p e then disk_wp F (h e) Q E D d' else E e d') D d \<Longrightarrow> disk_wp F (io_try m p h) Q E D d"
  by (fastforce simp: disk_wp_def io_try_def split: prod.splits outcome.splits if_splits)

lemma disk_wp_if [disk_wp_intros]:
  "(b \<Longrightarrow> disk_wp F m Q E D d) \<Longrightarrow> (\<not> b \<Longrightarrow> disk_wp F n Q E D d) \<Longrightarrow> disk_wp F (if b then m else n) Q E D d"
  by simp

lemma disk_wp_option [disk_wp_intros]:
  "(x = None \<Longrightarrow> disk_wp F m Q E D d) \<Longrightarrow> (\<And>a. x = Some a \<Longrightarrow> disk_wp F (f a) Q E D d) \<Longrightarrow>
   disk_wp F (case x of None \<Rightarrow> m | Some a \<Rightarrow> f a) Q E D d"
  by (cases x) simp_all

lemma disk_wp_let [disk_wp_intros]: "disk_wp F (f x) Q E D d \<Longrightarrow> disk_wp F (let y = x in f y) Q E D d"
  by simp

lemma disk_wp_valid [disk_wp_intros]:
  "(valid_task_id i \<Longrightarrow> disk_wp F m Q E D d) \<Longrightarrow> (\<not> valid_task_id i \<Longrightarrow> E (ValueErr ''invalid task id'') d) \<Longrightarrow>
   disk_wp F (with_valid_id i m) Q E D d"
  by (simp add: with_valid_id_def disk_wp_raise)

lemma disk_wp_reraise [disk_wp_intros]:
  "disk_wp F m Q (\<lambda>e d'. E (ValueErr msg) d') D d \<Longrightarrow> disk_wp F (reraise msg m) Q E D d"
  by (fastforce simp: disk_wp_def reraise_def io_try_def io_raise_def split: prod.splits outcome.splits)

lemma disk_wp_object [disk_wp_intros]:
  "case j of JObj m \<Rightarrow> Q m d | _ \<Rightarrow> E e d \<Longrightarrow> disk_wp F (as_object e j) Q E D d"
  by (cases j) (simp_all add: as_object_def disk_wp_ret disk_wp_raise)

text \<open>Steps that fail or are killed before they have any effect.\<close>

definition untorn :: "fenv \<Rightarrow> bool" where
  "untorn env = (\<forall>t. f_fault env t \<noteq> Fails True \<and> f_fault env t \<noteq> Dies True)"

definition calm_env :: "fenv \<Rightarrow> bool" where
  "calm_env env = (\<forall>t. f_fault env t = Fine)"

lemma disk_wp_step_untorn:
  assumes "\<And>a d'. f d = Inr (a, d') \<Longrightarrow> Q a d'" "\<And>e. E e d" "D d"
  shows "disk_wp untorn (io_step torn f) Q E D d"
  unfolding disk_wp_def
proof (intro allI impI, elim conjE)
  fix env :: fenv and s :: fsess assume u: "untorn env" and d: "f_disk s = d"
  from u have n: "f_fault env (f_tick s) \<noteq> Fails True" "f_fault env (f_tick s) \<noteq> Dies True"
    by (simp_all add: untorn_def)
  show "case io_step torn f env s of (Ok a, s') \<Rightarrow> Q a (f_disk s') | (Raised e, s') \<Rightarrow> E e (f_disk s') | (Died, s') \<Rightarrow> D (f_disk s')"
    using assms n d by (cases "f_fault env (f_tick s)") (auto simp: io_step_def Let_def split: sum.splits)
qed

lemma disk_wp_step_calm:
  assumes "case f d of Inl e \<Rightarrow> E e d | Inr (a, d') \<Rightarrow> Q a d'"
  shows "disk_wp calm_env (io_step torn f) Q E D d"
  using assms by (auto simp: disk_wp_def io_step_def calm_env_def Let_def split: sum.splits prod.splits)

lemma untorn_steps [disk_wp_intros]:
  "(\<And>j. meta_of r i d = Some (Doc j) \<Longrightarrow> Q j d) \<Longrightarrow> (\<And>e. E e d) \<Longrightarrow> D d \<Longrightarrow> disk_wp untorn (read_doc r i) Q E D d"
  "(dir_of r i d \<noteq> None \<Longrightarrow> P () (change_dir r i f d)) \<Longrightarrow> (\<And>e. E e d) \<Longrightarrow> D d \<Longrightarrow> disk_wp untorn (in_dir r i torn f) P E D d"
  "(\<And>d'. moved_to src dst i d = Some d' \<Longrightarrow> P () d') \<Longrightarrow> (\<And>e. E e d) \<Longrightarrow> D d \<Longrightarrow> disk_wp untorn (move_dir src dst i) P E D d"
  unfolding read_doc_def in_dir_def move_dir_def
  by (auto intro!: disk_wp_step_untorn split: option.splits doc.splits if_splits)

lemma calm_steps [disk_wp_intros]:
  "case meta_of r i d of Some (Doc j) \<Rightarrow> Q j d | _ \<Rightarrow> False \<Longrightarrow> disk_wp calm_env (read_doc r i) Q E D d"
  "dir_of r i d \<noteq> None \<Longrightarrow> P () (change_dir r i f d) \<Longrightarrow> disk_wp calm_env (in_dir r i torn f) P E D d"
  "case moved_to src dst i d of Some d' \<Rightarrow> P () d' | None \<Rightarrow> False \<Longrightarrow> disk_wp calm_env (move_dir src dst i) P E D d"
  unfolding read_doc_def in_dir_def move_dir_def
  by (auto intro!: disk_wp_step_calm split: option.splits doc.splits)

lemma dget_dpop [simp]: "dget (dpop d k) k' = (if k' = k then JNull else dget d k')"
  by (induction d) (auto simp: dget_def dpop_def)

lemma meta_of_change [simp]:
  "meta_of r i (change_dir r' j f d) =
    (if r = r' \<and> i = j then (case dir_of r i d of None \<Rightarrow> None | Some t \<Rightarrow> td_meta (f t)) else meta_of r i d)"
  by (auto simp: meta_of_def split: option.splits)

section \<open>Interrupted completions\<close>

definition document_at :: "root \<Rightarrow> pystr \<Rightarrow> disk \<Rightarrow> bool" where
  "document_at r i d = (\<exists>m. meta_of r i d = Some (Doc (JObj m)))"

definition only_at :: "root \<Rightarrow> root \<Rightarrow> pystr \<Rightarrow> disk \<Rightarrow> bool" where
  "only_at r q i d = (document_at r i d \<and> dir_of q i d = None)"

lemma only_at_moved:
  assumes "moved_to p q i d = Some d'" "only_at p q i d" "p \<noteq> q"
  shows "only_at q p i d'"
  using assms by (auto simp: moved_to_def only_at_def document_at_def meta_of_def split: option.splits)

lemma only_at_write:
  "only_at r q i d \<Longrightarrow> only_at r q i (change_dir r i (set_meta (Some (Doc (JObj m)))) d)"
  by (auto simp: only_at_def document_at_def meta_of_def split: option.splits)

lemma document_dir: "document_at r i d \<Longrightarrow> dir_of r i d \<noteq> None"
  by (auto simp: document_at_def meta_of_def split: option.splits)

lemma interrupted_completion:
  assumes "only_at Processing Processed i d"
  shows "disk_wp untorn (complete_staged i None result oc)
    (\<lambda>_ d. only_at Processing Processed i d \<or> only_at Processed Processing i d)
    (\<lambda>_ d. only_at Processing Processed i d \<or> only_at Processed Processing i d)
    (\<lambda>d. only_at Processing Processed i d \<or> only_at Processed Processing i d) d"
  unfolding complete_staged_def finish_processing_def write_doc_def option.case
  using assms document_dir [of Processing i d]
  by (intro disk_wp_intros) (auto simp: only_at_def [of _ _ _ d] intro!: disk_wp_intros only_at_write dest: only_at_moved split: json.splits)

lemma completion_resumes:
  assumes "only_at Processing Processed i d \<or> only_at Processed Processing i d" "valid_task_id i"
  shows "disk_wp calm_env (complete_staged i None None None)
    (\<lambda>ok d. ok \<and> dir_of Processing i d = None \<and>
       (\<exists>m. meta_of Processed i d = Some (Doc (JObj m)) \<and> dget m ''status'' = JStr ''processed''))
    (\<lambda>_ _. False) (\<lambda>_. False) d"
  using assms(1)
proof
  assume *: "only_at Processing Processed i d"
  then obtain m t where "meta_of Processing i d = Some (Doc (JObj m))" "dir_of Processing i d = Some t" "dir_of Processed i d = None"
    by (auto simp: only_at_def document_at_def meta_of_def split: option.splits)
  then show ?thesis
    using assms(2) unfolding complete_staged_def finish_processing_def write_doc_def option.case
    by (auto simp: moved_to_def meta_of_def dget_dput split: option.splits intro!: disk_wp_intros)
next
  assume "only_at Processed Processing i d"
  then obtain m t where "meta_of Processed i d = Some (Doc (JObj m))" "dir_of Processed i d = Some t" "dir_of Processing i d = None"
    by (auto simp: only_at_def document_at_def meta_of_def split: option.splits)
  then show ?thesis
    using assms(2) unfolding complete_staged_def repair_processed_def write_doc_def option.case
    by (auto simp: meta_of_def dget_dput split: option.splits intro!: disk_wp_intros)
qed


definition claimed_disk :: disk where
  "claimed_disk = f_disk (snd (claim_for_processing ''t'' calm (on_disk staged_disk)))"

lemma killed_completion_run:
  "fst (complete_staged ''t'' None (Some [(''ok'', JBool True)]) (Some ''succeeded'') (fault_on 3 (Dies False))
      (on_disk claimed_disk)) = Died \<and> only_at Processing Processed ''t'' claimed_disk \<and> valid_task_id ''t''"
proof -
  have "case meta_of Processing ''t'' claimed_disk of Some (Doc (JObj m)) \<Rightarrow> True | _ \<Rightarrow> False"
    "dir_of Processed ''t'' claimed_disk = None"
    by code_simp+
  then have "only_at Processing Processed ''t'' claimed_disk"
    by (auto simp: only_at_def document_at_def split: option.splits doc.splits json.splits)
  moreover have "fst (complete_staged ''t'' None (Some [(''ok'', JBool True)]) (Some ''succeeded'') (fault_on 3 (Dies False))
      (on_disk claimed_disk)) = Died \<and> valid_task_id ''t''" by code_simp
  ultimately show ?thesis by simp
qed


section \<open>Claim and requeue\<close>

definition rewritten :: "root \<Rightarrow> pystr \<Rightarrow> pydict \<Rightarrow> disk \<Rightarrow> disk" where
  "rewritten r i m d = change_dir r i (\<lambda>t. set_temp None (set_meta (td_temp t) t))
     (change_dir r i (set_temp (Some (Doc (JObj m)))) d)"

lemma dir_of_rewritten [simp]:
  "dir_of r i (rewritten r' j m d) = (if r = r' \<and> i = j
     then map_option (\<lambda>t. set_temp None (set_meta (Some (Doc (JObj m))) t)) (dir_of r i d) else dir_of r i d)"
proof -
  have "set_temp None (set_meta x (set_temp y t)) = set_temp None (set_meta x t)" for x y t by (cases t) simp
  then show ?thesis by (auto simp: rewritten_def option.map_comp comp_def)
qed

lemma replace_calm [disk_wp_intros]:
  "dir_of r i d \<noteq> None \<Longrightarrow> Q () (rewritten r i m d) \<Longrightarrow> disk_wp calm_env (replace_doc r i (JObj m)) Q E D d"
  unfolding replace_doc_def rewritten_def by (auto intro!: disk_wp_intros)

lemma update_calm:
  assumes "valid_task_id i" "case meta_of Incoming i d of
      Some (Doc (JObj m)) \<Rightarrow> \<forall>now. Q True (rewritten Incoming i (dput (dupdate m ups) ''updated_at'' (stamp now)) d)
    | _ \<Rightarrow> False"
  shows "disk_wp calm_env (update_metadata i ups) Q E D d"
  using assms unfolding update_metadata_def lifecycle_def
  by (auto simp: meta_of_def split: option.splits doc.splits json.splits intro!: disk_wp_intros)

lemma requeue_gives_back:
  assumes "dir_of Processing i d = Some (set_meta (Some (Doc (JObj m'))) t)" "dir_of Incoming i d = None" "valid_task_id i"
  shows "disk_wp calm_env (requeue_for_retry i oc)
    (\<lambda>a d. a \<and> dir_of Processing i d = None \<and>
      (\<exists>t' m''. dir_of Incoming i d = Some t' \<and> td_files t' = td_files t \<and> td_inner t' = td_inner t \<and>
       td_meta t' = Some (Doc (JObj m'')) \<and> dget m'' ''status'' = JStr ''accepted'' \<and>
       dget m'' ''scheduler_outcome'' = JStr oc \<and>
       (\<forall>k. k \<notin> {''status'', ''retry_at'', ''scheduler_outcome'', ''updated_at''} \<longrightarrow> dget m'' k = dget m' k)))
    (\<lambda>_ _. False) (\<lambda>_. False) d"
  using assms unfolding requeue_for_retry_def
  by (auto simp: moved_to_def meta_of_def requeue_updates_def dupdate_def dget_dput intro!: disk_wp_intros update_calm)

text \<open>Undisturbed, a claim hands out an accepted task and a requeue gives it back: the
  directory is in incoming again with the same input files, its status is accepted and what else was
  recorded is kept, with the claim time, the retry time and the outcome added.\<close>

theorem claim_then_requeue:
  assumes "calm_env env" "valid_task_id i" "dir_of Incoming i (f_disk s) = Some t" "dir_of Processing i (f_disk s) = None"
    "td_meta t = Some (Doc (JObj m))" "dget m ''status'' = JStr ''accepted''"
    "claim_for_processing i env s = (r, s')" "requeue_for_retry i oc env s' = (r', s'')"
  shows "(\<exists>m'. r = Ok (Some m') \<and> dget m' ''status'' = JStr ''processing'') \<and> dir_of Incoming i (f_disk s') = None \<and>
    r' = Ok True \<and> dir_of Processing i (f_disk s'') = None \<and>
    (\<exists>t' m'. dir_of Incoming i (f_disk s'') = Some t' \<and> td_files t' = td_files t \<and> td_inner t' = td_inner t \<and>
       td_meta t' = Some (Doc (JObj m')) \<and> dget m' ''status'' = JStr ''accepted'' \<and>
       dget m' ''scheduler_outcome'' = JStr oc \<and>
       (\<forall>k. k \<notin> {''status'', ''claimed_at'', ''retry_at'', ''scheduler_outcome'', ''updated_at''} \<longrightarrow> dget m' k = dget m k))"
proof -
  let ?d = "f_disk s"
  let ?held = "\<lambda>m'. dget m' ''status'' = JStr ''processing'' \<and>
    (\<forall>k. k \<notin> {''status'', ''claimed_at''} \<longrightarrow> dget m' k = dget m k)"
  have "disk_wp calm_env (claim_for_processing i)
    (\<lambda>a d. case a of None \<Rightarrow> False | Some m' \<Rightarrow> ?held m' \<and>
       dir_of Processing i d = Some (set_meta (Some (Doc (JObj m'))) t) \<and> dir_of Incoming i d = None)
    (\<lambda>_ _. False) (\<lambda>_. False) ?d"
    using assms(2-6) unfolding claim_for_processing_def write_doc_def
    by (auto simp: moved_to_def meta_of_def dget_dput intro!: disk_wp_intros)
  from disk_wp_run [OF this assms(1,7)] obtain m' where c: "r = Ok (Some m')" "?held m'"
    "dir_of Processing i (f_disk s') = Some (set_meta (Some (Doc (JObj m'))) t)" "dir_of Incoming i (f_disk s') = None"
    by (cases r) (auto split: option.splits)
  from disk_wp_run [OF requeue_gives_back [OF c(3,4) assms(2)] assms(1,8)]
  obtain t' m'' where "r' = Ok True" "dir_of Processing i (f_disk s'') = None" "dir_of Incoming i (f_disk s'') = Some t'"
    "td_files t' = td_files t" "td_inner t' = td_inner t" "td_meta t' = Some (Doc (JObj m''))"
    "dget m'' ''status'' = JStr ''accepted''" "dget m'' ''scheduler_outcome'' = JStr oc"
    and keep: "\<forall>k. k \<notin> {''status'', ''retry_at'', ''scheduler_outcome'', ''updated_at''} \<longrightarrow> dget m'' k = dget m' k"
    by (cases r') auto
  moreover have "dget m'' k = dget m k" if "k \<notin> {''status'', ''claimed_at'', ''retry_at'', ''scheduler_outcome'', ''updated_at''}" for k
    using that keep c(2) by simp
  ultimately show ?thesis using c by blast
qed

theorem claim_then_requeue_witness:
  "let (r, s1) = claim_for_processing ''t'' calm (on_disk staged_disk);
       (r', s2) = requeue_for_retry ''t'' ''retry_wait'' calm s1 in
   r' = Ok True \<and> map_option td_files (dir_of Incoming ''t'' (f_disk s2)) = Some [(''image.png'', ''png'')]"
proof -
  obtain r s1 r' s2 where run: "claim_for_processing ''t'' calm (on_disk staged_disk) = (r, s1)"
    "requeue_for_retry ''t'' ''retry_wait'' calm s1 = (r', s2)"
    by (metis surj_pair)
  let ?m = "[(''task_id'', JStr ''t''), (''status'', JStr ''accepted'')]"
  have c: "calm_env calm" "valid_task_id ''t''" "dir_of Incoming ''t'' (f_disk (on_disk staged_disk)) = Some (snd (hd staged_disk))"
    "dir_of Processing ''t'' (f_disk (on_disk staged_disk)) = None" "td_meta (snd (hd staged_disk)) = Some (Doc (JObj ?m))"
    "dget ?m ''status'' = JStr ''accepted''"
    by (simp_all add: calm_env_def calm_def valid_task_id_def on_disk_def staged_disk_def dir_of_def dget_def)
  from claim_then_requeue [OF c run] obtain t' where "r' = Ok True" "dir_of Incoming ''t'' (f_disk s2) = Some t'"
    "td_files t' = td_files (snd (hd staged_disk))"
    by (elim conjE exE)
  with run show ?thesis by (simp add: staged_disk_def)
qed

section \<open>Retention\<close>

lemma disk_obeys_wp:
  assumes "\<And>d. disk_wp (\<lambda>_. True) m (\<lambda>_. G d) (\<lambda>_. G d) (G d) d"
  shows "disk_obeys G m"
  unfolding io_obeys_def
proof (intro allI impI)
  fix env s
  obtain r s' where "m env s = (r, s')" by (cases "m env s")
  then show "G (f_disk s) (f_disk (snd (m env s)))"
    using disk_wp_run [OF assms, of env s r s'] by (cases r) simp_all
qed

lemma disk_wp_step_any:
  assumes "\<And>a d'. f d = Inr (a, d') \<Longrightarrow> Q a d'" "\<And>e. E e d" "D d" "\<And>e. E e (torn d)" "D (torn d)"
  shows "disk_wp (\<lambda>_. True) (io_step torn f) Q E D d"
  using assms by (auto simp: disk_wp_def io_step_def Let_def split: fault.splits sum.splits prod.splits)

definition spares :: "int \<Rightarrow> disk \<Rightarrow> disk \<Rightarrow> bool" where
  "spares cutoff d d' = (\<forall>r i. r \<in> set lifecycle \<longrightarrow> dir_of r i d' = dir_of r i d \<or>
     (r \<noteq> Processing \<and> (\<exists>j t. meta_of r i d = Some (Doc j) \<and> terminal_at j = Some t \<and> t < cutoff)))"

interpretation retention: disk_guarantee "spares cutoff" for cutoff
proof unfold_locales
  show "spares cutoff a c" if "spares cutoff a b" "spares cutoff b c" for a b c
    using that unfolding spares_def meta_of_def by metis
qed (simp add: spares_def)

lemma spares_removed:
  assumes "meta_of r i d = Some (Doc j)" "terminal_at j = Some t" "t < cutoff" "r \<noteq> Processing"
  shows "spares cutoff d (drop_dir r i d)" "spares cutoff d (change_dir r i f d)"
  using assms unfolding spares_def by auto

lemma spares_tmp: "(\<And>q k. q \<noteq> Tmp \<Longrightarrow> dir_of q k d' = dir_of q k d) \<Longrightarrow> spares cutoff d d'"
  by (auto simp: spares_def lifecycle_def)

lemma disk_wp_remove:
  assumes "P () (drop_dir r i d)" "\<And>e. E e d" "\<And>e. E e (change_dir r i (\<lambda>_. TDir None None [] []) d)"
    "D d" "D (change_dir r i (\<lambda>_. TDir None None [] []) d)"
  shows "disk_wp (\<lambda>_. True) (remove_tree r i) P E D d"
  unfolding remove_tree_def by (rule disk_wp_step_any) (use assms in \<open>auto split: if_splits\<close>)

lemma cleanup_dir_spares:
  assumes "r \<noteq> Processing"
  shows "disk_obeys (spares cutoff) (cleanup_dir cutoff r i)"
proof (rule disk_obeys_wp)
  fix d
  show "disk_wp (\<lambda>_. True) (cleanup_dir cutoff r i) (\<lambda>_. spares cutoff d) (\<lambda>_. spares cutoff d) (spares cutoff d) d"
    unfolding cleanup_dir_def read_doc_def
    by (auto intro!: disk_wp_intros disk_wp_step_any disk_wp_remove retention.D_refl split: option.splits doc.splits)
       (assumption | erule (2) spares_removed [OF _ _ _ assms])+
qed

lemma cleanup_tmp_spares: "disk_obeys (spares cutoff) (cleanup_tmp cutoff i)"
proof -
  have "disk_obeys (spares cutoff) (remove_tree Tmp i)"
    by (rule disk_obeys_wp, rule disk_wp_remove) (auto intro: spares_tmp)
  moreover have "disk_obeys (spares cutoff) (modified_at i)"
    by (simp add: io_obeys_def modified_at_def retention.D_refl)
  ultimately show ?thesis unfolding cleanup_tmp_def by (intro io_intros)
qed

text \<open>C26. Retention never touches a task in processing, and whatever fails or is killed, it
  changes the directory of a task in incoming or processed only when the task's document says that it was
  processed or rejected before the cutoff, \<open>days\<close> before the clock at the start.\<close>

theorem retention_spares_live_work:
  assumes "cleanup_old_tasks days env s = (r, s')" "q \<in> set lifecycle" "dir_of q i (f_disk s') \<noteq> dir_of q i (f_disk s)"
  shows "q \<noteq> Processing \<and> (\<exists>j t. meta_of q i (f_disk s) = Some (Doc j) \<and> terminal_at j = Some t \<and>
    t < f_clock env (f_tick s) - days * 86400 * 1000000)"
proof -
  have "disk_obeys (spares cutoff) (cleanup_before cutoff)" for cutoff
    unfolding cleanup_before_def
    by (intro io_intros retention.io_obeys_sum_io cleanup_dir_spares cleanup_tmp_spares) simp_all
  then have "spares (f_clock env (f_tick s) - days * 86400 * 1000000) (f_disk s) (f_disk s')"
    using assms(1) retention.D_refl
    by (auto simp: io_obeys_def cleanup_old_tasks_def io_bind_def io_now_def io_raise_def split: if_splits)
       (metis snd_conv)
  with assms(2,3) show ?thesis by (auto simp: spares_def)
qed

definition retained_disk :: disk where
  "retained_disk = [((Processed, ''old''), TDir (Some (Doc (JObj [(''status'', JStr ''processed''),
       (''completed_at'', JStr ''1970-01-01T00:00:10+00:00'')]))) None [(''image.png'', ''a'')] []),
     ((Processing, ''busy''), TDir (Some (Doc (JObj [(''status'', JStr ''processed''),
       (''completed_at'', JStr ''1970-01-01T00:00:10+00:00'')]))) None [(''image.png'', ''b'')] []),
     ((Processed, ''new''), TDir (Some (Doc (JObj [(''status'', JStr ''processed''),
       (''completed_at'', JStr ''1970-02-01T00:00:00.000001+00:00'')]))) None [(''image.png'', ''c'')] [])]"

lemma retention_run:
  "let (r, s) = cleanup_old_tasks 30 (calm\<lparr>f_clock := \<lambda>_. 31 * 86400 * 1000000\<rparr>) (on_disk retained_disk) in
   r = Ok 1 \<and> map fst (f_disk s) = [(Processing, ''busy''), (Processed, ''new'')]"
  by code_simp

theorem retention_spares_live_work_witness:
  "let s = snd (cleanup_old_tasks 30 (calm\<lparr>f_clock := \<lambda>_. 31 * 86400 * 1000000\<rparr>) (on_disk retained_disk)) in
   dir_of Processed ''old'' (f_disk s) = None \<and>
   (\<exists>j t. meta_of Processed ''old'' retained_disk = Some (Doc j) \<and> terminal_at j = Some t \<and> t < 86400 * 1000000)"
proof -
  let ?env = "calm\<lparr>f_clock := \<lambda>_. 31 * 86400 * 1000000\<rparr>"
  obtain r s where run: "cleanup_old_tasks 30 ?env (on_disk retained_disk) = (r, s)" by (metis surj_pair)
  then have keys: "map fst (f_disk s) = [(Processing, ''busy''), (Processed, ''new'')]"
    using retention_run by simp
  have "(Processed, ''old'') \<notin> fst ` set (f_disk s)"
    by (simp add: set_map [symmetric] keys del: set_map)
  then have gone: "dir_of Processed ''old'' (f_disk s) = None"
    by (simp add: dir_of_def map_of_eq_None_iff)
  have "dir_of Processed ''old'' retained_disk \<noteq> None" by (simp add: dir_of_def retained_disk_def)
  with gone have "dir_of Processed ''old'' (f_disk s) \<noteq> dir_of Processed ''old'' (f_disk (on_disk retained_disk))"
    by (auto simp: on_disk_def)
  from retention_spares_live_work [OF run _ this] gone run show ?thesis
    by (simp add: lifecycle_def on_disk_def)
qed

section \<open>Staging\<close>

lemma published_dir:
  assumes "published i d = Some d'" "dir_of Tmp (i @ ''.tmp'') d = Some t"
  shows "dir_of Incoming i d' = Some t"
  using assms by (auto simp: published_def split: option.splits if_splits)

lemma validate_input_sound:
  assumes "validate_input lib f = Inr info"
  shows "sf_exists f \<and> \<not> sf_link f \<and> sf_size f = Some (fi_size info) \<and> fi_size info \<le> max_file_size \<and>
    lib_mime lib (sf_bytes f) = Some (fi_mime info) \<and>
    (\<exists>exts. (fi_mime info, exts) \<in> set supported_formats \<and> fi_ext info \<in> set exts) \<and>
    fi_ext info = file_extension (sf_name f) \<and> (\<exists>b. sf_bytes f = Some b \<and> fi_hash info = lib_sha256 lib b)"
  using assms by (auto simp: validate_input_def Let_def split: if_splits option.splits)
     (metis map_of_SomeD)

lemma stage_input_publishes:
  assumes "validate_input lib f = Inr info"
  shows "disk_wp (\<lambda>_. True) (stage_input lib unique f chat msg key)
    (\<lambda>(i, doc) d. \<exists>now t. dir_of Incoming i d = Some t \<and> doc = staged_doc i chat msg key info now \<and>
       td_meta t = Some (Doc (JObj doc)) \<and> map_of (td_files t) (''image.'' @ fi_ext info) = Some (the (sf_bytes f)))
    (\<lambda>_ _. True) (\<lambda>_. True) d"
proof -
  have files: "map_of (td_files (set_file n b t)) n = Some b" "td_files (set_meta m t) = td_files t" for n b m t
    by (cases t; simp add: update_conv)+
  show ?thesis
    unfolding stage_input_def publish_def make_dir_def copy_file_def write_doc_def in_dir_def remove_tree_def assms sum.case Let_def
    by (intro disk_wp_intros disk_wp_step_any)
       (auto simp: files intro!: disk_wp_intros disk_wp_step_any dest!: published_dir split: if_splits option.splits)
qed

text \<open>C35. Whatever fails, an image that \<open>stage_input\<close> reports as staged is at most 25 MiB, no link,
  of a supported MIME type that fits its extension, and its bytes and its document, with status accepted,
  are in the incoming directory of the reported id.\<close>

theorem staged_image_is_valid:
  assumes "stage_input lib unique f chat msg key env s = (Ok (i, doc), s')"
  shows "sf_exists f \<and> \<not> sf_link f \<and> (\<exists>n mime exts b t. sf_size f = Some n \<and> n \<le> 26214400 \<and>
    lib_mime lib (sf_bytes f) = Some mime \<and> (mime, exts) \<in> set supported_formats \<and>
    file_extension (sf_name f) \<in> set exts \<and> sf_bytes f = Some b \<and>
    dir_of Incoming i (f_disk s') = Some t \<and> td_meta t = Some (Doc (JObj doc)) \<and>
    map_of (td_files t) (''image.'' @ file_extension (sf_name f)) = Some b \<and>
    dget doc ''status'' = JStr ''accepted'' \<and> dget doc ''content_hash'' = JStr (lib_sha256 lib b))"
proof -
  obtain info where info: "validate_input lib f = Inr info"
    using assms by (auto simp: stage_input_def io_raise_def split: sum.splits)
  from disk_wp_run [OF stage_input_publishes [OF info] TrueI assms] validate_input_sound [OF info]
  show ?thesis by (fastforce simp: max_file_size_def staged_doc_def dget_def)
qed

definition demo_lib :: image_lib where
  "demo_lib = \<lparr>lib_mime = (\<lambda>b. if b = None then None else Some ''image/png''), lib_sha256 = (\<lambda>b. ''deadbeef'' @ b)\<rparr>"

definition demo_image :: source_file where
  "demo_image = \<lparr>sf_name = ''photo.PNG'', sf_exists = True, sf_regular = True, sf_link = False,
     sf_size = Some 3, sf_bytes = Some ''png''\<rparr>"

lemma demo_staging:
  "case stage_input demo_lib ''0'' demo_image None None (Some ''0123456789'') calm (on_disk []) of
     (Ok (i, _), _) \<Rightarrow> i = ''task-01234567'' | _ \<Rightarrow> False"
  by code_simp

theorem staged_image_is_valid_witness:
  "\<exists>doc s'. stage_input demo_lib ''0'' demo_image None None (Some ''0123456789'') calm (on_disk []) =
      (Ok (''task-01234567'', doc), s') \<and> dir_of Incoming ''task-01234567'' (f_disk s') \<noteq> None"
proof -
  obtain doc s' where "stage_input demo_lib ''0'' demo_image None None (Some ''0123456789'') calm (on_disk []) =
      (Ok (''task-01234567'', doc), s')"
    using demo_staging by (auto split: prod.splits outcome.splits)
  with staged_image_is_valid [OF this] show ?thesis by blast
qed

text \<open>\<open>_existing_result\<close> repairs an accepted record that was staged before; when writing the
  metadata fails once, it removes the task's directory from incoming: a transient disk error during a
  replay destroys the image that was durable before the call.\<close>

definition telegram_event :: json where
  "telegram_event = JObj [(''source_path'', JStr ''/tmp/photo.PNG''), (''chat_id'', JInt 1), (''message_id'', JInt 2)]"

definition accepted_disk :: disk where
  "accepted_disk = f_disk (snd (stage_input demo_lib ''0'' demo_image (Some ''1'') (Some ''2'')
     (Some (generate_idempotency_key demo_lib ''1'' ''2'' ''deadbeefpng'')) calm (on_disk [])))"

theorem replay_can_delete_image:
  "places ''task-deadbeef'' accepted_disk = [Incoming] \<and>
   (case stage_event demo_lib (\<lambda>_. ''0'') (\<lambda>_. demo_image) telegram_event (fault_on 2 (Fails False)) (on_disk accepted_disk) of
      (r, s) \<Rightarrow> (case r of Ok res \<Rightarrow> \<not> sr_accepted res | _ \<Rightarrow> False) \<and> f_disk s = [])"
  by code_simp

end
