(* ===== verification/Daemon.thy ===== *)
theory Daemon
  imports Queue Staging
begin

text \<open>
  The daemon of gtx_broker/daemon.py: one dispatch from claim to final state, the reconciliation after a
  restart, retention and one turn of the polling loop.  A program of the daemon works on the database
  session and the file store together; the handlers (HTTP calls, subprocesses) and the switching of the
  P40's model profile are what the environment says they do.  Logging is left out.
\<close>

section \<open>Programs of the daemon\<close>

datatype run_result = Success | Failure | Retry | WorkerGone | NeedsReview | UnknownResult pystr

text \<open>
  What one attempt to run a handler under its model profile does, with the \<open>last_result\<close> the handler
  object holds afterwards.
\<close>

datatype execution =
    Finished run_result "json option"
  | ProfileError "json option"
  | Crashed pystr

record denv =
  dn_sql :: env
  dn_io :: fenv
  dn_config :: broker_config
  dn_base :: pystr
  dn_under :: "pystr \<Rightarrow> bool"
  dn_execute :: "nat \<Rightarrow> task \<Rightarrow> pystr \<Rightarrow> pystr option \<Rightarrow> execution"
  dn_ensure :: "nat \<Rightarrow> bool"

record host =
  h_sess :: sess
  h_store :: fsess
  h_runs :: "(pystr \<times> pystr) list"

type_synonym 'a broker = "(denv, host, 'a) prog"

definition sql :: "'a session \<Rightarrow> 'a broker" where
  "sql m env h = (case m (dn_sql env) (h_sess h) of
     (Inl e, s) \<Rightarrow> (Raised e, h\<lparr>h_sess := s\<rparr>) | (Inr a, s) \<Rightarrow> (Ok a, h\<lparr>h_sess := s\<rparr>))"

definition disk_io :: "'a io \<Rightarrow> 'a broker" where
  "disk_io m env h = (case m (dn_io env) (h_store h) of (r, s) \<Rightarrow> (r, h\<lparr>h_store := s\<rparr>))"

definition ask :: "(denv \<Rightarrow> 'a) \<Rightarrow> 'a broker" where
  "ask f env h = (Ok (f env), h)"

definition execute :: "task \<Rightarrow> pystr \<Rightarrow> pystr option \<Rightarrow> execution broker" where
  "execute t w model env h = (case dn_execute env (length (h_runs h)) t w model of
     Crashed msg \<Rightarrow> (Raised (ValueErr msg), h\<lparr>h_runs := h_runs h @ [(t_id t, w)]\<rparr>)
   | x \<Rightarrow> (Ok x, h\<lparr>h_runs := h_runs h @ [(t_id t, w)]\<rparr>))"

definition profile_applied :: "bool broker" where
  "profile_applied env h = (Ok (dn_ensure env (length (h_runs h))), h)"

text \<open>\<open>str(exc)\<close>; the texts of database and operating system errors are not modelled.\<close>

definition exn_text :: "exn \<Rightarrow> pystr" where
  "exn_text e = (case e of ValueErr m \<Rightarrow> m | _ \<Rightarrow> ''error'')"

definition is_os_or_value :: "exn \<Rightarrow> bool" where
  "is_os_or_value e = (e = OsErr \<or> is_value_error e)"

section \<open>The stored input\<close>

fun root_name :: "root \<Rightarrow> pystr" where
  "root_name Incoming = ''incoming''"
| "root_name Processing = ''processing''"
| "root_name Processed = ''processed''"
| "root_name Tmp = ''tmp''"

definition path_text :: "pystr \<Rightarrow> pystr \<Rightarrow> root \<times> pystr \<Rightarrow> pystr" where
  "path_text base i p = join ''/'' [base, root_name (fst p), i, snd p]"

text \<open>The answer and the task as the method leaves it.\<close>

definition claim_staged_input :: "task \<Rightarrow> (bool \<times> task) broker" where
  "claim_staged_input t = (if \<not> has_text (t_input t) then io_ret (False, t) else
     io_bind (ask dn_under) (\<lambda>under. if \<not> under (the (t_input t)) then io_ret (False, t) else
     io_bind (disk_io (claim_for_processing (t_id t))) (\<lambda>meta. if meta = None then io_ret (False, t) else
     io_bind (disk_io (input_path (t_id t))) (\<lambda>p. case p of None \<Rightarrow> io_ret (False, t)
     | Some p \<Rightarrow> io_bind (ask dn_base) (\<lambda>base. let path = path_text base (t_id t) p in
         io_ret (True, t\<lparr>t_input := Some path, t_payload := Some (dput (payload_of t) ''image_path'' (JStr path))\<rparr>))))))"

definition requeue_staged_input :: "pystr \<Rightarrow> bool broker" where
  "requeue_staged_input i = io_try (disk_io (requeue_for_retry i ''retry_wait'')) is_os_or_value (\<lambda>_. io_ret False)"

definition complete_staged_input :: "pystr \<Rightarrow> pydict option \<Rightarrow> pystr \<Rightarrow> bool broker" where
  "complete_staged_input i result oc =
     io_try (disk_io (complete_staged i None result (Some oc))) is_os_or_value (\<lambda>_. io_ret False)"

text \<open>\<open>not storage_claimed or self.\<dots>(task_id)\<close>\<close>

definition store_ready :: "bool \<Rightarrow> ('e, 's, bool) prog \<Rightarrow> ('e, 's, bool) prog" where
  "store_ready claimed m = (if claimed then m else io_ret True)"

definition ready_then :: "('e, 's, bool) prog \<Rightarrow> ('e, 's, bool) prog \<Rightarrow> ('e, 's, bool) prog" where
  "ready_then m n = io_bind m (\<lambda>ok. if ok then n else io_ret False)"

section \<open>One dispatch\<close>

definition handler_types :: "pystr list" where
  "handler_types = [''vision'', ''coding'', ''review'']"

definition handler_for :: "task \<Rightarrow> pystr option" where
  "handler_for t = (if review_flag t \<or> has_text (t_review_worker t) then Some ''review''
     else find (\<lambda>h. h = t_kind t) handler_types)"

definition as_dict :: "json option \<Rightarrow> pydict option" where
  "as_dict j = (case j of Some (JObj d) \<Rightarrow> Some d | _ \<Rightarrow> None)"

definition dict_json :: "pydict option \<Rightarrow> json option" where
  "dict_json d = map_option JObj d"

definition failure_kind :: "pydict option \<Rightarrow> pystr option" where
  "failure_kind d = (case d of None \<Rightarrow> None
     | Some d \<Rightarrow> if d = [] then None else (case dget d ''failure_kind'' of JStr s \<Rightarrow> Some s | _ \<Rightarrow> None))"

definition review_document :: "task \<Rightarrow> json option \<Rightarrow> pydict" where
  "review_document t got = (let r = (case as_dict got of None \<Rightarrow> JNull | Some d \<Rightarrow> JObj d);
     base = [(''status'', JStr ''awaiting_review''), (''handler_result'', r), (''vision_result'', r)] in
     (case dget (payload_of t) ''manifest'' of
        JObj m \<Rightarrow> base @ [(''review_policy'', dget m ''review_policy'')] | _ \<Rightarrow> base))"

text \<open>Step 4: from the handler's result to the final state, the store first and the database second.\<close>

definition settle :: "task \<Rightarrow> bool \<Rightarrow> run_result \<Rightarrow> json option \<Rightarrow> bool broker" where
  "settle t claimed res got = (let i = t_id t; payload = as_dict got in case res of
     Success \<Rightarrow> ready_then (store_ready claimed (complete_staged_input i payload ''succeeded''))
       (sql (complete_task i (dict_json payload) None None))
   | Failure \<Rightarrow> (let p = (case payload of Some d \<Rightarrow> d | None \<Rightarrow> [(''error'', JStr ''handler execution failed'')]);
         no = (dget p ''status'' = JStr ''rejected'') in
       ready_then (store_ready claimed (complete_staged_input i (Some p) ''failed''))
       (sql (complete_task i (Some (JObj p)) (Some (if no then ''Review rejected'' else ''Handler execution failed''))
          (if no then Some ''review_rejected'' else None))))
   | Retry \<Rightarrow> ready_then (store_ready claimed (requeue_staged_input i))
       (sql (transition_running_to_retry_wait i (dict_json payload) (failure_kind payload)))
   | WorkerGone \<Rightarrow> ready_then (store_ready claimed (requeue_staged_input i))
       (sql (transition_running_to_retry_wait i (dict_json payload) (failure_kind payload)))
   | NeedsReview \<Rightarrow> ready_then (store_ready claimed (complete_staged_input i (Some (review_document t got)) ''awaiting_review''))
       (sql (transition_running_to_awaiting_review i))
   | UnknownResult r \<Rightarrow> (let err = ''Unknown handler result: '' @ r in
       ready_then (store_ready claimed (complete_staged_input i (Some [(''error'', JStr err)]) ''failed''))
       (sql (complete_task i None (Some err) None))))"

text \<open>The handler under its profile, with one more attempt after the profile could be applied.\<close>

definition run_handler :: "task \<Rightarrow> pystr \<Rightarrow> pystr option \<Rightarrow> (run_result \<times> json option) broker" where
  "run_handler t w model = io_bind (execute t w model) (\<lambda>x. case x of
      ProfileError got \<Rightarrow> io_bind profile_applied (\<lambda>ok. if \<not> ok then io_ret (Retry, got) else
        io_bind (execute t w model) (\<lambda>y. case y of
            Finished r got' \<Rightarrow> io_ret (if r = Failure then Retry else r, got')
          | ProfileError got' \<Rightarrow> io_ret (Retry, got')
          | Crashed msg \<Rightarrow> io_raise (ValueErr msg)))
    | Finished r got \<Rightarrow> io_ret (r, got)
    | Crashed msg \<Rightarrow> io_raise (ValueErr msg))"

definition handle_task :: "task \<Rightarrow> bool \<Rightarrow> pystr \<Rightarrow> bool broker" where
  "handle_task t claimed w = (case handler_for t of
     None \<Rightarrow> ready_then (store_ready claimed (complete_staged_input (t_id t) (Some [(''error'', JStr ''no handler'')]) ''failed''))
       (sql (complete_task (t_id t) None (Some ''No handler found for task kind'') None))
   | Some h \<Rightarrow> io_bind (sql (get_worker w)) (\<lambda>row.
       let model = (case row of None \<Rightarrow> None | Some v \<Rightarrow> if w_resource v = Some ''p40'' then w_model v else None) in
       io_bind (run_handler t w model) (\<lambda>(res, got). settle t claimed res got)))"

text \<open>\<open>except Exception\<close> around the run: the task is failed.\<close>

definition run_started :: "task \<Rightarrow> bool \<Rightarrow> pystr \<Rightarrow> bool broker" where
  "run_started t claimed w = io_try (handle_task t claimed w) (\<lambda>_. True) (\<lambda>e.
     io_bind (store_ready claimed (complete_staged_input (t_id t) (Some [(''error'', JStr (exn_text e))]) ''failed'')) (\<lambda>ok.
     io_then (if ok then sql (complete_task (t_id t) None (Some (exn_text e)) None) else io_ret False) (io_ret False)))"

text \<open>A task that cannot be run gives its input and its claim back.\<close>

definition give_back :: "task \<Rightarrow> bool \<Rightarrow> bool broker" where
  "give_back t claimed = ready_then (store_ready claimed (requeue_staged_input (t_id t)))
     (io_then (sql (requeue_claimed_to_retry_wait (t_id t))) (io_ret False))"

definition run_claimed :: "task \<Rightarrow> bool \<Rightarrow> bool broker" where
  "run_claimed t claimed = io_bind (sql (select_worker_for_task t)) (\<lambda>w. case w of
      None \<Rightarrow> give_back t claimed
    | Some w \<Rightarrow> if w = [] then give_back t claimed else
        io_bind (ask dn_config) (\<lambda>cf. io_bind (sql (start_task cf (t_id t) w None)) (\<lambda>ok.
        if \<not> ok then give_back t claimed else run_started t claimed w)))"

definition dispatch_task :: "task \<Rightarrow> bool broker" where
  "dispatch_task t = io_bind (sql (claim_task (t_id t))) (\<lambda>c. case c of None \<Rightarrow> io_ret False
     | Some claimed \<Rightarrow> io_bind (ask dn_config) (\<lambda>cf.
         io_bind (io_try (io_then (sql (validate_manifest_task cf claimed)) (io_ret None)) is_value_error
                   (\<lambda>e. io_ret (Some (exn_text e)))) (\<lambda>bad. case bad of
           Some err \<Rightarrow> io_then (sql (fail_claimed_task (t_id t) err)) (io_ret False)
         | None \<Rightarrow> io_bind (claim_staged_input t) (\<lambda>(ok, t').
             io_bind (ask dn_under) (\<lambda>under.
             if has_text (t_input t') \<and> \<not> ok \<and> under (the (t_input t'))
             then io_then (sql (requeue_claimed_to_retry_wait (t_id t))) (io_ret False)
             else run_claimed t' ok)))))"

section \<open>Recovery\<close>

definition transition_to_retry :: "pystr \<Rightarrow> task_state \<Rightarrow> bool broker" where
  "transition_to_retry i st = (if st = Running then sql (transition_running_to_retry_wait i None None)
     else if st = Claimed then sql (requeue_claimed_to_retry_wait i) else io_ret (st = RetryWait))"

definition finish_recovered :: "pystr \<Rightarrow> task_state \<Rightarrow> pystr \<Rightarrow> pydict \<Rightarrow> bool broker" where
  "finish_recovered i st oc meta = (if st \<noteq> Running then io_ret False
     else if oc = ''succeeded''
       then sql (complete_task i (if dget meta ''result'' = JNull then None else Some (dget meta ''result'')) None None)
     else if oc = ''failed'' then sql (complete_task i None (Some ''Handler execution failed'') None)
     else if oc = ''awaiting_review'' then sql (transition_running_to_awaiting_review i)
     else io_ret False)"

definition known_outcomes :: "pystr list" where
  "known_outcomes = [''succeeded'', ''failed'', ''awaiting_review'', ''retry_wait'']"

text \<open>A task with a recorded outcome: finish what the daemon was about to do.\<close>

definition reconcile_outcome :: "pystr \<Rightarrow> task_state \<Rightarrow> pystr \<Rightarrow> pydict \<Rightarrow> bool broker" where
  "reconcile_outcome i st oc meta = (let status = dget meta ''status'' in
     if oc = ''retry_wait'' then
       ready_then (if status = JStr ''accepted'' then io_ret True else disk_io (requeue_for_retry i ''retry_wait''))
         (transition_to_retry i st)
     else if status \<noteq> JStr ''processed'' then
       ready_then (disk_io (complete_staged i None
           (case dget meta ''result'' of JObj r \<Rightarrow> Some r | _ \<Rightarrow> None) (Some oc)))
         (finish_recovered i st oc meta)
     else finish_recovered i st oc meta)"

definition reconcile_interrupted :: "pystr \<Rightarrow> task_state \<Rightarrow> pydict \<Rightarrow> bool broker" where
  "reconcile_interrupted i st meta =
     io_bind (transition_to_retry i st) (\<lambda>ok.
     io_bind (if ok \<and> dget meta ''status'' \<noteq> JStr ''accepted'' then disk_io (requeue_for_retry i ''retry_wait'') else io_ret ok) (\<lambda>ok.
     if ok then disk_io (update_metadata i [(''recovered_after_restart'', JBool True), (''recovery_state'', JStr (state_name st))])
     else io_ret False))"

definition recover_state :: "pystr \<Rightarrow> task_state \<Rightarrow> pydict \<Rightarrow> bool broker" where
  "recover_state i st meta = (if st \<in> {Running, Claimed} then
       (case dget meta ''scheduler_outcome'' of
          JStr oc \<Rightarrow> if oc \<in> set known_outcomes then reconcile_outcome i st oc meta else reconcile_interrupted i st meta
        | JArr _ \<Rightarrow> io_raise TypeErr
        | JObj _ \<Rightarrow> io_raise TypeErr
        | _ \<Rightarrow> reconcile_interrupted i st meta)
     else if st = RetryWait \<and> dget meta ''status'' = JStr ''processing'' then disk_io (requeue_for_retry i ''retry_wait'')
     else if st \<in> {Succeeded, FailedTerminal, AwaitingReview, Cancelled} \<and> dget meta ''status'' = JStr ''processing''
       then disk_io (complete_staged i None None None)
     else io_ret True)"

text \<open>\<open>self.storage.get_task(task_id) or {}\<close>\<close>

definition load_metadata :: "pystr \<Rightarrow> pydict broker" where
  "load_metadata i = io_bind (disk_io (stored_task i)) (\<lambda>j. case j of None \<Rightarrow> io_ret []
     | Some j \<Rightarrow> if \<not> truthy j then io_ret [] else (case j of JObj d \<Rightarrow> io_ret d | _ \<Rightarrow> io_raise AttributeErr))"

definition recover_task :: "pystr \<Rightarrow> unit broker" where
  "recover_task i = io_bind (sql (get_task i)) (\<lambda>row. case row of None \<Rightarrow> io_ret ()
     | Some t \<Rightarrow> io_bind (load_metadata i) (\<lambda>meta. io_then (recover_state i (t_state t) meta) (io_ret ())))"

fun recover_all :: "pystr list \<Rightarrow> unit broker" where
  "recover_all [] = io_ret ()"
| "recover_all (i # is) = io_then (recover_task i) (recover_all is)"

definition recover_interrupted_tasks :: "unit broker" where
  "recover_interrupted_tasks = io_bind (disk_io task_ids) recover_all"

definition run_retention_cleanup :: "int \<Rightarrow> unit broker" where
  "run_retention_cleanup days = io_try (io_then (disk_io (cleanup_old_tasks days)) (io_ret ())) is_os_or_value (\<lambda>_. io_ret ())"

definition daemon_init :: "int \<Rightarrow> unit broker" where
  "daemon_init days = io_then recover_interrupted_tasks (run_retention_cleanup days)"

section \<open>The polling loop\<close>

text \<open>
  One turn of \<open>run\<close>; \<open>due\<close> says whether a day has passed since the last cleanup, \<open>hour\<close> and \<open>shift\<close> are the
  local hour and the clock shift of the queue's queries.
\<close>

definition poll_once :: "int \<Rightarrow> int \<Rightarrow> bool \<Rightarrow> int \<Rightarrow> unit broker" where
  "poll_once hour shift due days = io_try
     (io_then (if due then run_retention_cleanup days else io_ret ())
     (io_bind (sql (get_next_task hour)) (\<lambda>t. case t of
         Some t \<Rightarrow> io_then (dispatch_task t) (io_ret ())
       | None \<Rightarrow> io_bind (sql (get_retry_wait_task shift)) (\<lambda>r. case r of
             Inr (Some r) \<Rightarrow> io_bind (sql (requeue_retry_wait (ts_id r))) (\<lambda>promoted.
               if promoted then io_then (sql (get_next_task hour)) (io_ret ()) else io_ret ())
           | _ \<Rightarrow> io_ret ()))))
     (\<lambda>_. True) (\<lambda>_. io_ret ())"

end
