(* ===== verification/CalmRuns.thy ===== *)
theory CalmRuns
  imports Transitions Queue
begin

text \<open>
  What the scheduler's methods do when no statement fails and no other client intervenes: total
  correctness of the transitions the daemon uses.
\<close>

lemma calm_exec_ok [wp_intros]:
  "(case w of None \<Rightarrow> Q () (f d) None | Some x \<Rightarrow> Q () d (Some (f x))) \<Longrightarrow> gwp calm_sql (exec_ok f) Q E d w"
  unfolding exec_ok_def by (cases w) (auto intro!: wp_intros)

lemma calm_emit [wp_intros]:
  "(\<And>t. Q () (insert_event i ty fr to det t d) None) \<Longrightarrow> gwp calm_sql (emit_event i ty fr to det) Q E d None"
  unfolding emit_event_def by (auto intro!: wp_intros)

lemma calm_emit_txn [wp_intros]:
  "(\<And>t. Q () d (Some (insert_event i ty fr to det t x))) \<Longrightarrow>
   gwp calm_sql (emit_event_in_transaction i ty fr to det) Q E d (Some x)"
  unfolding emit_event_in_transaction_def by (auto intro!: wp_intros)

lemma calm_controls [wp_intros]:
  "Q (controls_of (case w of None \<Rightarrow> d | Some x \<Rightarrow> x)) d w \<Longrightarrow> gwp calm_sql read_controls Q E d w"
  unfolding read_controls_def by (auto intro!: wp_intros)

lemma calm_busy [wp_intros]:
  "(\<And>b. Q b d w) \<Longrightarrow> gwp calm_sql p40_busy_cursor Q E d w"
  unfolding p40_busy_cursor_def by (auto intro!: wp_intros)

lemma calm_close [wp_intros]:
  "(\<And>t b. Q b (close_attempts i t d) None) \<Longrightarrow> gwp calm_sql (close_current_attempt i) Q E d None"
  unfolding close_current_attempt_def by (auto intro!: wp_intros)

lemma calm_ready [wp_intros]:
  assumes "\<And>d'. d_tasks d' = d_tasks d \<Longrightarrow> Q () d' None"
  shows "gwp calm_sql record_p40_ready_if_needed Q E d None"
  unfolding record_p40_ready_if_needed_def
  by (intro wp_intros) (auto intro!: wp_intros assms simp: table_simps)

lemma calm_write [wp_intros]:
  assumes "\<And>t d'. d_tasks d' = update_where (\<lambda>t. t_id t = i) f (d_tasks d) \<Longrightarrow> Q () d' None"
  shows "gwp calm_sql (write_and_emit i f (emit_event i ty fr to det)) Q E d None"
  unfolding write_and_emit_def
  by (auto intro!: wp_intros assms simp: update_task_def table_simps update_where_none)

text \<open>A row update of one id, seen through \<open>state_of\<close>.\<close>

lemma state_after_update:
  assumes "d_tasks d' = update_where (\<lambda>t. t_id t = i) f (d_tasks d)" "state_of d i = Some st" "moves_to st' f"
  shows "state_of d' i = Some st'"
proof -
  have f: "t_id (f t) = t_id t" "t_state (f t) = st'" for t using assms(3) by (simp_all add: moves_to_def)
  obtain t where t: "row_of t_id i (d_tasks d) = Some t" "t_id t = i"
    using assms(2) by (auto simp: state_of_def task_of_def dest: row_of_Some_in)
  then have "row_of t_id i (d_tasks d') = Some (f t)"
    using assms(1) f(1) by (simp add: row_of_update_where)
  then show ?thesis using f(2) by (simp add: state_of_def task_of_def)
qed

lemma state_of_tasks: "d_tasks d' = d_tasks d \<Longrightarrow> state_of d' i = state_of d i"
  by (simp add: state_of_def task_of_def)

lemma state_of_row: "state_of d i = Some st \<Longrightarrow> \<exists>t. task_of d i = Some t \<and> t_state t = st"
  by (auto simp: state_of_def)

lemma calm_complete:
  assumes "state_of d i = Some Running"
    "\<And>d'. state_of d' i = Some (if err = None then Succeeded else FailedTerminal) \<Longrightarrow> Q True d' None"
  shows "gwp calm_sql (complete_task i result err fc) Q E d None"
proof -
  obtain st where st_def: "st = (if err = None then Succeeded else FailedTerminal)" by blast
  have fin: "Q True d' None" if "d_tasks d' = update_where (\<lambda>t. t_id t = i) f (d_tasks d)" "moves_to st f" for d' f
    by (rule assms(2), fold st_def, rule state_after_update [OF that(1) assms(1) that(2)])
  show ?thesis
    unfolding complete_task_def complete_body_def Let_def st_def [symmetric]
    by (intro wp_intros)
       (auto intro!: wp_intros simp: assms(1) update_task_def annotate_attempts_def table_simps, (erule fin, simp)+)
qed

lemma calm_checked:
  assumes "task_of d i = Some t" "t_state t = st"
    "gwp calm_sql (body t) (\<lambda>a d' w'. Q a d' None) (\<lambda>_ _ _. False) d None"
  shows "gwp calm_sql (checked i st body) Q E d None"
  unfolding checked_def using assms(1,2)
  by (intro wp_intros) (auto intro!: wp_intros intro: wp_mono [OF assms(3)])

lemma calm_requeue_claimed:
  assumes "state_of d i = Some Claimed" "\<And>d'. state_of d' i = Some RetryWait \<Longrightarrow> Q True d' None"
  shows "gwp calm_sql (requeue_claimed_to_retry_wait i) Q E d None"
proof -
  obtain t where t: "task_of d i = Some t" "t_state t = Claimed" using state_of_row [OF assms(1)] by blast
  have fin: "Q True d'' None" if "d_tasks d' = update_where (\<lambda>t. t_id t = i) (set_retry RetryWait due now) (d_tasks d)"
    "d_tasks d'' = d_tasks d'" for d' d'' due now
    using that by (intro assms(2) state_after_update [OF _ assms(1), where f = "set_retry RetryWait due now"]) simp_all
  show ?thesis
    unfolding requeue_claimed_to_retry_wait_def
    by (rule calm_checked [OF t]) (auto intro!: wp_intros intro: fin)
qed

lemma calm_running_to_retry_wait:
  assumes "state_of d i = Some Running" "\<And>d'. state_of d' i = Some RetryWait \<Longrightarrow> Q True d' None"
  shows "gwp calm_sql (transition_running_to_retry_wait i result fc) Q E d None"
proof -
  obtain t where t: "task_of d i = Some t" "t_state t = Running" using state_of_row [OF assms(1)] by blast
  have fin: "Q True d' None" if "d_tasks d' = update_where (\<lambda>t. t_id t = i) (set_retry RetryWait due now) (d_tasks d)"
    for d' due now
    by (rule assms(2), rule state_after_update [OF that assms(1)]) simp
  show ?thesis
    unfolding transition_running_to_retry_wait_def
    by (rule calm_checked [OF t]) (auto intro!: wp_intros simp: annotate_attempts_def table_simps, (erule fin)+)
qed

lemma calm_running_to_awaiting_review:
  assumes "state_of d i = Some Running" "\<And>d'. state_of d' i = Some AwaitingReview \<Longrightarrow> Q True d' None"
  shows "gwp calm_sql (transition_running_to_awaiting_review i) Q E d None"
proof -
  obtain t where t: "task_of d i = Some t" "t_state t = Running" using state_of_row [OF assms(1)] by blast
  have fin: "Q True d' None" if "d_tasks d' = update_where (\<lambda>t. t_id t = i) (set_state AwaitingReview now) (d_tasks d)"
    for d' now
    by (rule assms(2), rule state_after_update [OF that assms(1)]) simp
  show ?thesis
    unfolding transition_running_to_awaiting_review_def
    by (rule calm_checked [OF t]) (auto intro!: wp_intros intro: fin simp: close_attempts_def table_simps)
qed

lemma calm_claim:
  assumes "\<And>d'. d_tasks d' = d_tasks d \<Longrightarrow> Q None d' None"
    "\<And>t now d'. task_of d i = Some t \<Longrightarrow> t_state t = Queued \<Longrightarrow> task_of d' i = Some (set_state Claimed now t) \<Longrightarrow>
       Q (Some (set_state Claimed now t)) d' None"
  shows "gwp calm_sql (claim_task i) Q E d None"
proof -
  have upd: "task_of (update_tasks (\<lambda>t. t_id t = i \<and> t_state t = Queued) (set_state Claimed now) d) i =
      Some (set_state Claimed now t)" if "task_of d i = Some t" "t_state t = Queued" for t now
    using that task_of_id [OF that(1)] by (simp add: task_of_update_tasks set_state_def)
  show ?thesis
    unfolding claim_task_def update_task_in_def
    by (intro wp_intros) (auto intro!: wp_intros assms simp: upd table_simps)
qed

section \<open>Selecting a worker and starting\<close>

lemma calm_get_worker [wp_intros]: "Q (worker_of d p) d w \<Longrightarrow> gwp calm_sql (get_worker p) Q E d w"
  unfolding get_worker_def by (auto intro!: wp_intros)

lemma calm_first_available [wp_intros]: "(\<And>r. Q r d w) \<Longrightarrow> gwp calm_sql (first_available ps) Q E d w"
  by (induction ps) (auto intro!: wp_intros)

lemma calm_select:
  assumes "dget (payload_of t) ''worker_profile'' = JNull \<or> (\<exists>s. dget (payload_of t) ''worker_profile'' = JStr s)" "\<And>r. Q r d w"
  shows "gwp calm_sql (select_worker_for_task t) Q E d w"
  unfolding select_worker_for_task_def Let_def using assms
  by (auto intro!: wp_intros)

lemma calm_no_manifest:
  "dget (payload_of t) ''manifest'' = JNull \<Longrightarrow> Q () d w \<Longrightarrow> gwp calm_sql (validate_manifest_task cf t) Q E d w"
  unfolding validate_manifest_task_def by (auto intro!: wp_intros)

lemma calm_refuse: "(\<And>x'. Q False d (Some x')) \<Longrightarrow> gwp calm_sql (refuse i det) Q E d (Some x)"
  unfolding refuse_def by (auto intro!: wp_intros)

lemma calm_start_checks:
  assumes "dget (payload_of t) ''manifest'' = JNull" "Q True d (Some x)" "\<And>x'. Q False d (Some x')"
  shows "gwp calm_sql (start_checks cf i t prof) Q E d (Some x)"
  unfolding start_checks_def check_resource_def
  by (intro wp_intros) (auto intro!: wp_intros calm_no_manifest calm_refuse simp: assms)

lemma calm_start_transition:
  assumes "state_of x i = Some Claimed" "\<And>d'. state_of d' i = Some Running \<Longrightarrow> Q True d' None"
  shows "gwp calm_sql (start_transition i prof m) Q E d (Some x)"
proof -
  obtain t where t: "row_of t_id i (d_tasks x) = Some t" "t_state t = Claimed" "t_id t = i" "t \<in> set (d_tasks x)"
    using assms(1) by (auto simp: state_of_def task_of_def dest: row_of_Some_in)
  then have "0 < count_where (\<lambda>t. t_id t = i \<and> t_state t = Claimed) (d_tasks x)"
    by (auto simp: count_where_pos_iff)
  moreover have "state_of d' i = Some Running"
    if "d_tasks d' = update_where (\<lambda>t. t_id t = i \<and> t_state t = Claimed) (set_state Running now) (d_tasks x)" for d' now
    using that t by (simp add: state_of_def task_of_def row_of_update_where set_state_def)
  ultimately show ?thesis
    unfolding start_transition_def update_task_in_def
    by (intro wp_intros)
       (auto intro!: wp_intros assms(2) simp: close_attempts_def insert_attempt_def table_simps)
qed

lemma calm_start:
  assumes "task_of d i = Some t" "t_state t = Claimed" "dget (payload_of t) ''manifest'' = JNull"
    "\<And>d'. state_of d' i = Some Running \<Longrightarrow> Q True d' None" "Q False d None"
  shows "gwp calm_sql (start_task cf i prof m) Q E d None"
  unfolding start_task_def start_body_def connect_bound_def numeral_3_eq_3 start_loop.simps
  by (intro wp_intros)
     (auto intro!: wp_intros calm_start_checks calm_start_transition simp: assms state_of_def)

end
