(* ===== verification/DaemonProps.thy ===== *)
theory DaemonProps
  imports Daemon CalmRuns StoreRecovery SchedulerDemo
begin

text \<open>
  The properties of the daemon: what a dispatch may run, that it settles every task it claims, and what a
  restart recovers and does not recover.
\<close>

section \<open>Rules for the daemon's programs\<close>

definition db_of :: "host \<Rightarrow> db" where
  "db_of h = s_db (h_sess h)"

definition idle :: "host \<Rightarrow> bool" where
  "idle h = (s_txn (h_sess h) = None)"

definition disk_of :: "host \<Rightarrow> disk" where
  "disk_of h = f_disk (h_store h)"

text \<open>A session method run by the daemon, as seen on the database; disk and log stay.\<close>

lemma io_wp_sql:
  assumes "gwp C m (\<lambda>a d w. w = None \<and> Q' a d) (\<lambda>e d w. w = None \<and> E' e d) (db_of h) None" "idle h"
    "\<And>env. F env \<Longrightarrow> C (dn_sql env)"
    "\<And>a h'. Q' a (db_of h') \<Longrightarrow> idle h' \<Longrightarrow> h_store h' = h_store h \<Longrightarrow> h_runs h' = h_runs h \<Longrightarrow> Q a h'"
    "\<And>e h'. E' e (db_of h') \<Longrightarrow> idle h' \<Longrightarrow> h_store h' = h_store h \<Longrightarrow> h_runs h' = h_runs h \<Longrightarrow> E e h'"
  shows "io_wp F (sql m) Q E D h"
  unfolding io_wp_def
proof (intro allI impI)
  fix env assume F: "F env"
  obtain r s where m: "m (dn_sql env) (h_sess h) = (r, s)" by (cases "m (dn_sql env) (h_sess h)")
  have "case r of Inr a \<Rightarrow> s_txn s = None \<and> Q' a (s_db s) | Inl e \<Rightarrow> s_txn s = None \<and> E' e (s_db s)"
    using wpD [OF assms(1) assms(3) [OF F] _ _ m] assms(2) by (simp add: db_of_def idle_def split: sum.splits)
  then show "case sql m env h of (Ok a, h') \<Rightarrow> Q a h' | (Raised e, h') \<Rightarrow> E e h' | (Died, h') \<Rightarrow> D h'"
    using m assms(4,5) by (cases r) (auto simp: sql_def db_of_def idle_def)
qed

lemma io_wp_ask [io_wp_intros]: "(\<And>env. F env \<Longrightarrow> Q (f env) h) \<Longrightarrow> io_wp F (ask f) Q E D h"
  by (simp add: io_wp_def ask_def)

lemma io_wp_ensure [io_wp_intros]: "(\<And>b. Q b h) \<Longrightarrow> io_wp F profile_applied Q E D h"
  by (simp add: io_wp_def profile_applied_def)

lemma io_wp_execute:
  assumes "\<And>x. (\<forall>m. x \<noteq> Crashed m) \<Longrightarrow> Q x (h\<lparr>h_runs := h_runs h @ [(t_id t, w)]\<rparr>)"
    "\<And>m. E (ValueErr m) (h\<lparr>h_runs := h_runs h @ [(t_id t, w)]\<rparr>)"
  shows "io_wp F (execute t w model) Q E D h"
  using assms by (auto simp: io_wp_def execute_def split: execution.splits)

lemma io_wp_prod [io_wp_intros]:
  "(\<And>a b. x = (a, b) \<Longrightarrow> io_wp F (f a b) Q E D h) \<Longrightarrow> io_wp F (case x of (a, b) \<Rightarrow> f a b) Q E D h"
  by (cases x) simp

lemma io_wp_ready [io_wp_intros]:
  "io_wp F m (\<lambda>ok h'. (ok \<longrightarrow> io_wp F n Q E D h') \<and> (\<not> ok \<longrightarrow> Q False h')) E D h \<Longrightarrow> io_wp F (ready_then m n) Q E D h"
  unfolding ready_then_def by (rule io_wp_bind) (auto elim!: io_wp_mono intro: io_wp_ret)

lemma store_ready_False [simp]: "store_ready False m = io_ret True"
  by (simp add: store_ready_def)

lemma run_handler_frame:
  assumes "\<And>r got h'. h_sess h' = h_sess h \<Longrightarrow> h_store h' = h_store h \<Longrightarrow> Q (r, got) h'"
    "\<And>e h'. h_sess h' = h_sess h \<Longrightarrow> h_store h' = h_store h \<Longrightarrow> E e h'"
  shows "io_wp F (run_handler t w model) Q E D h"
  unfolding run_handler_def
  by (intro io_wp_intros io_wp_execute)
     (auto intro!: io_wp_intros io_wp_execute assms split: execution.splits)

section \<open>A dispatch settles\<close>

definition calm_host :: "denv \<Rightarrow> bool" where
  "calm_host env = (calm_sql (dn_sql env) \<and> calm_env (dn_io env))"

definition at_rest :: "pystr \<Rightarrow> host \<Rightarrow> bool" where
  "at_rest i h = (idle h \<and> state_of (db_of h) i \<notin> {Some Claimed, Some Running})"

lemma calm_sql_step:
  assumes "gwp calm_sql m (\<lambda>a d w. w = None \<and> Q' a d) (\<lambda>_ _ _. False) (db_of h) None" "idle h"
    "\<And>a h'. Q' a (db_of h') \<Longrightarrow> idle h' \<Longrightarrow> h_store h' = h_store h \<Longrightarrow> Q a h'"
  shows "io_wp calm_host (sql m) Q E D h"
  by (rule io_wp_sql [where C = calm_sql and Q' = Q' and E' = "\<lambda>_ _. False"])
     (use assms in \<open>auto simp: calm_host_def elim: wp_mono\<close>)

lemma settle_settles:
  assumes "idle h" "state_of (db_of h) (t_id t) = Some Running"
  shows "io_wp calm_host (settle t False res got) (\<lambda>_. at_rest (t_id t)) (\<lambda>_ _. False) (\<lambda>_. False) h"
proof -
  have done1: "io_wp calm_host (sql (complete_task (t_id t) r err fc)) (\<lambda>_. at_rest (t_id t)) (\<lambda>_ _. False) (\<lambda>_. False) h" for r err fc
    by (rule calm_sql_step [where Q' = "\<lambda>_ d. state_of d (t_id t) \<in> {Some Succeeded, Some FailedTerminal}"])
       (auto intro!: calm_complete simp: assms at_rest_def split: if_splits)
  have done2: "io_wp calm_host (sql (transition_running_to_retry_wait (t_id t) r fc)) (\<lambda>_. at_rest (t_id t)) (\<lambda>_ _. False) (\<lambda>_. False) h" for r fc
    by (rule calm_sql_step [where Q' = "\<lambda>_ d. state_of d (t_id t) = Some RetryWait"])
       (auto intro!: calm_running_to_retry_wait simp: assms at_rest_def)
  have done3: "io_wp calm_host (sql (transition_running_to_awaiting_review (t_id t))) (\<lambda>_. at_rest (t_id t)) (\<lambda>_ _. False) (\<lambda>_. False) h"
    by (rule calm_sql_step [where Q' = "\<lambda>_ d. state_of d (t_id t) = Some AwaitingReview"])
       (auto intro!: calm_running_to_awaiting_review simp: assms at_rest_def)
  show ?thesis
    unfolding settle_def by (cases res) (auto intro!: io_wp_intros done1 done2 done3 simp: Let_def)
qed

lemma complete_settles:
  assumes "idle h" "state_of (db_of h) i = Some Running"
  shows "io_wp calm_host (sql (complete_task i r err fc)) (\<lambda>_. at_rest i) (\<lambda>_ _. False) (\<lambda>_. False) h"
  by (rule calm_sql_step [where Q' = "\<lambda>_ d. state_of d i \<in> {Some Succeeded, Some FailedTerminal}"])
     (auto intro!: calm_complete simp: assms at_rest_def split: if_splits)

lemma run_started_settles:
  assumes "idle h" "state_of (db_of h) (t_id t) = Some Running"
  shows "io_wp calm_host (run_started t False w) (\<lambda>_. at_rest (t_id t)) (\<lambda>_ _. False) (\<lambda>_. False) h"
proof -
  have row: "io_wp calm_host (sql (get_worker w))
     (\<lambda>_ h'. idle h' \<and> state_of (db_of h') (t_id t) = Some Running) (\<lambda>_ _. False) (\<lambda>_. False) h"
  proof (rule calm_sql_step [where Q' = "\<lambda>_ d. d = db_of h"])
    show "gwp calm_sql (get_worker w) (\<lambda>_ d w. w = None \<and> d = db_of h) (\<lambda>_ _ _. False) (db_of h) None"
      by (rule calm_get_worker) simp
  qed (simp_all add: assms)
  have body: "io_wp calm_host (handle_task t False w) (\<lambda>_. at_rest (t_id t))
      (\<lambda>_ h'. idle h' \<and> state_of (db_of h') (t_id t) = Some Running) (\<lambda>_. False) h"
  proof (cases "handler_for t")
    case None
    then show ?thesis
      unfolding handle_task_def
      by (auto intro!: io_wp_intros io_wp_mono [OF complete_settles [OF assms]])
  next
    case (Some x)
    have "io_wp calm_host (run_handler t w model) (\<lambda>p. io_wp calm_host (case p of (res, got) \<Rightarrow> settle t False res got)
        (\<lambda>_. at_rest (t_id t)) (\<lambda>_ h'. idle h' \<and> state_of (db_of h') (t_id t) = Some Running) (\<lambda>_. False))
      (\<lambda>_ h'. idle h' \<and> state_of (db_of h') (t_id t) = Some Running) (\<lambda>_. False) h'"
      if "idle h' \<and> state_of (db_of h') (t_id t) = Some Running" for h' model
      by (rule run_handler_frame)
         (use that in \<open>auto simp: idle_def db_of_def intro!: io_wp_mono [OF settle_settles]\<close>)
    then show ?thesis
      unfolding handle_task_def Some option.case Let_def
      by (intro io_wp_bind io_wp_mono [OF row]) auto
  qed
  show ?thesis
    unfolding run_started_def
    by (rule io_wp_try, rule io_wp_mono [OF body])
       (auto intro!: io_wp_intros io_wp_mono [OF complete_settles])
qed

lemma give_back_settles:
  assumes "idle h" "state_of (db_of h) (t_id t) = Some Claimed"
  shows "io_wp calm_host (give_back t False) (\<lambda>_. at_rest (t_id t)) (\<lambda>_ _. False) (\<lambda>_. False) h"
proof -
  have "io_wp calm_host (sql (requeue_claimed_to_retry_wait (t_id t))) (\<lambda>_. at_rest (t_id t)) (\<lambda>_ _. False) (\<lambda>_. False) h"
    by (rule calm_sql_step [where Q' = "\<lambda>_ d. state_of d (t_id t) = Some RetryWait"])
       (auto intro!: calm_requeue_claimed simp: assms at_rest_def)
  note req = this
  show ?thesis
    unfolding give_back_def by (auto intro!: io_wp_intros io_wp_mono [OF req])
qed

definition plain_task :: "task \<Rightarrow> bool" where
  "plain_task t = (\<not> has_text (t_input t) \<and> dget (payload_of t) ''manifest'' = JNull \<and>
     (dget (payload_of t) ''worker_profile'' = JNull \<or> (\<exists>s. dget (payload_of t) ''worker_profile'' = JStr s)))"

lemma run_claimed_settles:
  assumes "idle h" "task_of (db_of h) (t_id t) = Some u" "t_state u = Claimed" "dget (payload_of u) ''manifest'' = JNull" "plain_task t"
  shows "io_wp calm_host (run_claimed t False) (\<lambda>_. at_rest (t_id t)) (\<lambda>_ _. False) (\<lambda>_. False) h"
proof -
  have claimed: "state_of (db_of h) (t_id t) = Some Claimed" using assms(2,3) by (simp add: state_of_def)
  have sel: "io_wp calm_host (sql (select_worker_for_task t)) (\<lambda>_ h'. idle h' \<and> db_of h' = db_of h) (\<lambda>_ _. False) (\<lambda>_. False) h"
  proof (rule calm_sql_step [where Q' = "\<lambda>_ d. d = db_of h"])
    show "gwp calm_sql (select_worker_for_task t) (\<lambda>_ d w. w = None \<and> d = db_of h) (\<lambda>_ _ _. False) (db_of h) None"
      by (rule calm_select) (use assms(5) in \<open>auto simp: plain_task_def\<close>)
  qed (simp_all add: assms)
  have start: "io_wp calm_host (sql (start_task cf (t_id t) w None))
      (\<lambda>ok h'. idle h' \<and> state_of (db_of h') (t_id t) = Some (if ok then Running else Claimed)) (\<lambda>_ _. False) (\<lambda>_. False) h'"
    if "idle h'" "db_of h' = db_of h" for cf w h'
    by (rule calm_sql_step [where Q' = "\<lambda>ok d. state_of d (t_id t) = Some (if ok then Running else Claimed)"])
       (use that assms claimed in \<open>auto intro!: calm_start\<close>)
  have gb: "io_wp calm_host (give_back t False) (\<lambda>_. at_rest (t_id t)) (\<lambda>_ _. False) (\<lambda>_. False) h'"
    if "idle h'" "db_of h' = db_of h" for h'
    by (rule give_back_settles) (use that claimed in simp_all)
  show ?thesis
    unfolding run_claimed_def
    by (rule io_wp_bind, rule io_wp_mono [OF sel])
       (auto simp: claimed intro!: io_wp_intros gb io_wp_mono [OF start] give_back_settles run_started_settles)
qed

lemma dispatch_settles_wp:
  assumes "idle h" "task_of (db_of h) (t_id t) = Some t" "plain_task t"
    "state_of (db_of h) (t_id t) \<notin> {Some Claimed, Some Running}"
  shows "io_wp calm_host (dispatch_task t) (\<lambda>_. at_rest (t_id t)) (\<lambda>_ _. False) (\<lambda>_. False) h"
proof -
  let ?i = "t_id t"
  have claim: "io_wp calm_host (sql (claim_task ?i)) (\<lambda>r h'. idle h' \<and> (case r of
      None \<Rightarrow> state_of (db_of h') ?i \<notin> {Some Claimed, Some Running}
    | Some c \<Rightarrow> \<exists>now. c = set_state Claimed now t \<and> task_of (db_of h') ?i = Some c))
      (\<lambda>_ _. False) (\<lambda>_. False) h"
  proof (rule calm_sql_step [where Q' = "\<lambda>r d. case r of
      None \<Rightarrow> state_of d ?i \<notin> {Some Claimed, Some Running}
    | Some c \<Rightarrow> \<exists>now. c = set_state Claimed now t \<and> task_of d ?i = Some c"])
    show "gwp calm_sql (claim_task ?i) (\<lambda>r d w. w = None \<and> (case r of
        None \<Rightarrow> state_of d ?i \<notin> {Some Claimed, Some Running}
      | Some c \<Rightarrow> \<exists>now. c = set_state Claimed now t \<and> task_of d ?i = Some c)) (\<lambda>_ _ _. False) (db_of h) None"
    proof (rule calm_claim)
      show "None = None \<and> (case None of None \<Rightarrow> state_of d ?i \<notin> {Some Claimed, Some Running}
        | Some c \<Rightarrow> \<exists>now. c = set_state Claimed now t \<and> task_of d ?i = Some c)" if "d_tasks d = d_tasks (db_of h)" for d
        using assms(4) state_of_tasks [OF that] by simp
    qed (use assms(2) in auto)
  qed (simp_all add: assms)
  have valid: "io_wp calm_host (sql (validate_manifest_task cf (set_state Claimed now t)))
      (\<lambda>_ h''. idle h'' \<and> db_of h'' = db_of h') (\<lambda>_ _. False) (\<lambda>_. False) h'" if "idle h'" for cf now h'
  proof (rule calm_sql_step [where Q' = "\<lambda>_ d. d = db_of h'"])
    show "gwp calm_sql (validate_manifest_task cf (set_state Claimed now t)) (\<lambda>_ d w. w = None \<and> d = db_of h')
        (\<lambda>_ _ _. False) (db_of h') None"
      by (rule calm_no_manifest) (use assms(3) in \<open>auto simp: plain_task_def payload_of_def set_state_def\<close>)
  qed (simp_all add: that)
  have rest: "io_wp calm_host (run_claimed t False) (\<lambda>_. at_rest ?i) (\<lambda>_ _. False) (\<lambda>_. False) h'"
    if "idle h'" "task_of (db_of h') ?i = Some (set_state Claimed now t)" for h' now
    by (rule run_claimed_settles [OF that])
       (use assms(3) in \<open>simp_all add: plain_task_def payload_of_def set_state_def\<close>)
  have bare: "\<not> has_text (t_input t)" using assms(3) by (simp add: plain_task_def)
  show ?thesis
    unfolding dispatch_task_def claim_staged_input_def
    by (rule io_wp_bind, rule io_wp_mono [OF claim])
       (auto intro!: io_wp_intros io_wp_mono [OF valid] rest simp: bare at_rest_def split: option.splits)
qed

text \<open>C9. When the database works and no other client intervenes, a dispatch of a task without a stored
  input or a manifest returns, and whatever the controls, the workers and the handler do (an exception or
  a failing model profile included), the task is not left claimed or running.\<close>

theorem dispatch_settles:
  assumes "calm_host env" "idle h" "task_of (db_of h) (t_id t) = Some t" "plain_task t" "t_state t = Queued"
    "dispatch_task t env h = (r, h')"
  shows "(\<exists>b. r = Ok b) \<and> state_of (db_of h') (t_id t) \<notin> {Some Claimed, Some Running}"
proof -
  have "io_wp calm_host (dispatch_task t) (\<lambda>_. at_rest (t_id t)) (\<lambda>_ _. False) (\<lambda>_. False) h"
    by (rule dispatch_settles_wp [OF assms(2-4)]) (use assms(3,5) in \<open>simp add: state_of_def\<close>)
  from io_wp_run [OF this assms(1,6)] show ?thesis
    by (cases r) (auto simp: at_rest_def)
qed

section \<open>What a dispatch may run\<close>

definition live :: "denv \<Rightarrow> bool" where
  "live env = others_within db_steps (dn_sql env)"

text \<open>A program that runs no handler, and one that runs only \<open>i\<close> on \<open>w\<close>.\<close>

definition protocol_only :: "host \<Rightarrow> host \<Rightarrow> bool" where
  "protocol_only h h' = (idle h \<longrightarrow> idle h' \<and> db_steps (db_of h) (db_of h') \<and> h_runs h' = h_runs h)"

definition runs_only :: "pystr \<times> pystr \<Rightarrow> host \<Rightarrow> host \<Rightarrow> bool" where
  "runs_only p h h' = (idle h \<longrightarrow> idle h' \<and> (\<exists>ks. h_runs h' = h_runs h @ ks \<and> set ks \<subseteq> {p}))"

interpretation quiet_part: effect_law live protocol_only
  by unfold_locales (auto simp: protocol_only_def intro: two_steps)

interpretation run_part: effect_law live "runs_only p" for p
proof unfold_locales
  show "runs_only p a c" if "runs_only p a b" "runs_only p b c" for a b c
    using that unfolding runs_only_def by (metis Un_subset_iff append.assoc set_append)
qed (auto simp: runs_only_def)

lemma runs_only_quiet: "io_obeys live protocol_only m \<Longrightarrow> io_obeys live (runs_only p) m"
  unfolding io_obeys_def protocol_only_def runs_only_def by (metis append_Nil2 empty_subsetI list.set(1))

lemma sql_quiet: "obeys db_steps m \<Longrightarrow> io_obeys live protocol_only (sql m)"
  unfolding io_obeys_def
proof (intro allI impI)
  fix env :: denv and h :: host assume m: "obeys db_steps m" and l: "live env"
  obtain r s where run: "m (dn_sql env) (h_sess h) = (r, s)" by (cases "m (dn_sql env) (h_sess h)")
  show "protocol_only h (snd (sql m env h))"
    using protocol.obeys_run [OF m l [unfolded live_def] _ run] run
    by (cases r) (auto simp: protocol_only_def sql_def idle_def db_of_def)
qed

lemma disk_quiet: "io_obeys live protocol_only (disk_io m)"
  by (auto simp: io_obeys_def protocol_only_def disk_io_def idle_def db_of_def split: prod.splits)

lemma ask_quiet: "io_obeys live protocol_only (ask f)"
  by (simp add: io_obeys_def ask_def protocol_only_def)

lemma get_worker_obeys [obeys_intros]: "obeys db_steps (get_worker p)"
  unfolding get_worker_def by (rule protocol.obeys_query_other)

lemma validate_manifest_obeys: "obeys db_steps (validate_manifest_task cf t)"
  unfolding validate_manifest_task_def manifest_worker_def check_manifest_def
  by (auto intro!: obeys_intros lookup_worker_obeys split: json.splits sum.splits)

lemma first_available_obeys: "obeys db_steps (first_available ps)"
  by (induction ps) (auto intro!: obeys_intros)

lemma select_worker_obeys: "obeys db_steps (select_worker_for_task t)"
  unfolding select_worker_for_task_def Let_def
  by (intro obeys_intros first_available_obeys lookup_worker_obeys)

lemmas sql_quiet_methods = method_guarantees [THEN sql_quiet] select_worker_obeys [THEN sql_quiet]
  validate_manifest_obeys [THEN sql_quiet] get_worker_obeys [THEN sql_quiet]

context effect_law
begin

lemma io_obeys_ready [io_intros]: "io_obeys F G m \<Longrightarrow> io_obeys F G n \<Longrightarrow> io_obeys F G (ready_then m n)"
  unfolding ready_then_def by (intro io_intros)

lemma io_obeys_store_ready [io_intros]: "io_obeys F G m \<Longrightarrow> io_obeys F G (store_ready c m)"
  unfolding store_ready_def by (intro io_intros)

end

lemma staged_quiet [io_intros]:
  "io_obeys live protocol_only (requeue_staged_input i)"
  "io_obeys live protocol_only (complete_staged_input i res oc)"
  "io_obeys live protocol_only (claim_staged_input t)"
  unfolding requeue_staged_input_def complete_staged_input_def claim_staged_input_def Let_def
  by (intro io_intros disk_quiet ask_quiet)+

lemma settle_quiet: "io_obeys live protocol_only (settle t c res got)"
  unfolding settle_def Let_def
  by (cases res) (auto intro!: io_intros sql_quiet_methods)

lemma give_back_quiet: "io_obeys live protocol_only (give_back t c)"
  unfolding give_back_def by (intro io_intros sql_quiet_methods)

lemma execute_runs: "io_obeys live (runs_only (t_id t, w)) (execute t w model)"
  by (auto simp: io_obeys_def runs_only_def execute_def idle_def split: execution.splits)

lemma ensure_quiet: "io_obeys live protocol_only profile_applied"
  by (simp add: io_obeys_def profile_applied_def protocol_only_def)

lemma run_started_runs: "io_obeys live (runs_only (t_id t, w)) (run_started t c w)"
proof -
  let ?G = "runs_only (t_id t, w)"
  have handler: "io_obeys live ?G (run_handler t w model)" for model
    unfolding run_handler_def
    by (intro io_intros execute_runs runs_only_quiet [OF ensure_quiet] | split execution.split, intro conjI allI impI)+
  have body: "io_obeys live ?G (handle_task t c w)"
    unfolding handle_task_def Let_def
    by (intro io_intros handler runs_only_quiet staged_quiet settle_quiet sql_quiet_methods)
  show ?thesis
    unfolding run_started_def
    by (rule run_part.io_obeys_try [OF body]) (intro runs_only_quiet io_intros staged_quiet sql_quiet_methods)
qed

lemma io_wp_obeys:
  assumes "io_obeys F G m" "\<And>a s'. G s s' \<Longrightarrow> Q a s'" "\<And>e s'. G s s' \<Longrightarrow> E e s'" "\<And>s'. G s s' \<Longrightarrow> D s'"
  shows "io_wp F m Q E D s"
  unfolding io_wp_def
proof (intro allI impI)
  fix env assume F: "F env"
  obtain r s' where run: "m env s = (r, s')" by (cases "m env s")
  have "G s s'" by (rule io_obeysD [OF assms(1) F run])
  then show "case m env s of (Ok a, s') \<Rightarrow> Q a s' | (Raised e, s') \<Rightarrow> E e s' | (Died, s') \<Rightarrow> D s'"
    using run assms(2-4) by (cases r) simp_all
qed

text \<open>The manifest of a task, when it has one, passed the admission check.\<close>

definition manifest_ok :: "broker_config \<Rightarrow> task \<Rightarrow> bool" where
  "manifest_ok cf t = (case dget (payload_of t) ''manifest'' of JNull \<Rightarrow> True
     | JObj m \<Rightarrow> (\<exists>limit tm. validate_task_manifest (cf_fs cf) (cf_registry cf) True limit (JObj m) = Inr tm)
     | _ \<Rightarrow> False)"

lemma validated_manifest:
  "validate_manifest_task cf t env s = (Inr u, s') \<Longrightarrow> manifest_ok cf t"
  unfolding validate_manifest_task_def manifest_ok_def
  by (auto simp: ret_def throw_def sbind_def sthen_def check_manifest_def split: json.splits prod.splits sum.splits option.splits)

text \<open>
  When the handler may run task \<open>i\<close> on worker \<open>w\<close>: the task was claimed where the controls allowed it, its
  manifest was valid, and it was started where the worker was free.
\<close>

definition admitted :: "broker_config \<Rightarrow> db \<Rightarrow> pystr \<Rightarrow> pystr \<Rightarrow> bool" where
  "admitted cf d i w = (\<exists>x t now y. db_steps d x \<and> task_of x i = Some t \<and> t_state t = Queued \<and>
     claim_allowed (controls_of x) t \<and> manifest_ok cf (set_state Claimed now t) \<and>
     db_steps x y \<and> state_of y i = Some Claimed \<and> start_permitted y w)"

definition ran_admitted :: "broker_config \<Rightarrow> host \<Rightarrow> pystr \<Rightarrow> host \<Rightarrow> bool" where
  "ran_admitted cf h i h' = (\<exists>ks. h_runs h' = h_runs h @ ks \<and> (\<forall>(j, w) \<in> set ks. j = i \<and> admitted cf (db_of h) i w))"

lemma ran_nothing: "h_runs h' = h_runs h \<Longrightarrow> ran_admitted cf h i h'"
  by (simp add: ran_admitted_def)

lemma ran_one:
  assumes "runs_only (i, w) h1 h'" "idle h1" "h_runs h1 = h_runs h" "admitted cf (db_of h) i w"
  shows "ran_admitted cf h i h'"
  using assms by (fastforce simp: runs_only_def ran_admitted_def)

lemma io_wp_quiet:
  assumes "io_obeys live protocol_only m" "idle h"
    "\<And>a h'. protocol_only h h' \<Longrightarrow> idle h' \<Longrightarrow> db_steps (db_of h) (db_of h') \<Longrightarrow> h_runs h' = h_runs h \<Longrightarrow> Q a h'"
    "\<And>h'. h_runs h' = h_runs h \<Longrightarrow> E' h'"
  shows "io_wp live m Q (\<lambda>_. E') E' h"
  by (rule io_wp_obeys [OF assms(1)]) (use assms(2-4) in \<open>auto simp: protocol_only_def\<close>)

lemma run_claimed_admitted:
  assumes "idle h1" "h_runs h1 = h_runs h"
    "\<And>y w. db_steps (db_of h1) y \<Longrightarrow> state_of y (t_id t) = Some Claimed \<Longrightarrow> start_permitted y w \<Longrightarrow> admitted cf (db_of h) (t_id t) w"
  shows "io_wp live (run_claimed t c) (\<lambda>_. ran_admitted cf h (t_id t)) (\<lambda>_. ran_admitted cf h (t_id t)) (ran_admitted cf h (t_id t)) h1"
proof -
  let ?P = "ran_admitted cf h (t_id t)"
  have gb: "io_wp live (give_back t c) (\<lambda>_. ?P) (\<lambda>_. ?P) ?P h2" if "idle h2" "h_runs h2 = h_runs h" for h2
    by (rule io_wp_quiet [OF give_back_quiet that(1)]) (simp_all add: that ran_nothing)
  have start: "io_wp live (sql (start_task cf' (t_id t) w None))
      (\<lambda>ok h3. idle h3 \<and> h_runs h3 = h_runs h \<and> (ok \<longrightarrow> admitted cf (db_of h) (t_id t) w)) (\<lambda>_. ?P) ?P h2"
    if h2: "idle h2" "h_runs h2 = h_runs h" "db_steps (db_of h1) (db_of h2)" for cf' w h2
  proof (rule io_wp_sql [where C = "others_within db_steps" and E' = "\<lambda>_ _. True"
        and Q' = "\<lambda>ok _. ok \<longrightarrow> admitted cf (db_of h) (t_id t) w"])
    show "wp db_steps (start_task cf' (t_id t) w None) (\<lambda>ok d w'. w' = None \<and> (ok \<longrightarrow> admitted cf (db_of h) (t_id t) w))
        (\<lambda>_ d w'. w' = None \<and> True) (db_of h2) None"
      by (rule wp_mono [OF wp_start_task [where P = "\<lambda>ok _. ok \<longrightarrow> admitted cf (db_of h) (t_id t) w"]])
         (use assms(3) h2(3) in \<open>auto intro: two_steps\<close>)
  qed (use h2 in \<open>auto simp: live_def ran_nothing\<close>)
  have run: "io_wp live (run_started t c w) (\<lambda>_. ?P) (\<lambda>_. ?P) ?P h3"
    if "idle h3" "h_runs h3 = h_runs h" "admitted cf (db_of h) (t_id t) w" for w h3
    by (rule io_wp_obeys [OF run_started_runs]) (use that in \<open>auto intro: ran_one\<close>)
  show ?thesis
    unfolding run_claimed_def
    by (rule io_wp_bind, rule io_wp_quiet [OF select_worker_obeys [THEN sql_quiet] assms(1)])
       (auto intro!: io_wp_intros gb run io_wp_mono [OF start] simp: assms(2) ran_nothing)
qed

definition claimed_at :: "db \<Rightarrow> pystr \<Rightarrow> task \<Rightarrow> db \<Rightarrow> bool" where
  "claimed_at d i t' d' = (\<exists>x t now. db_steps d x \<and> task_of x i = Some t \<and> t_state t = Queued \<and>
     claim_allowed (controls_of x) t \<and> t' = set_state Claimed now t \<and> db_steps x d')"

lemma claimed_atI:
  assumes "db_steps d d1" "db_steps d1 x" "task_of x i = Some t" "t_state t = Queued" "claim_allowed (controls_of x) t"
    "task_of (update_tasks (\<lambda>t. t_id t = i \<and> t_state t = Queued) (set_state Claimed now) x) i = Some t'"
    "db_steps (update_tasks (\<lambda>t. t_id t = i \<and> t_state t = Queued) (set_state Claimed now) x) d'"
  shows "claimed_at d i t' d'"
proof -
  have "t' = set_state Claimed now t"
    using assms(3,4,6) task_of_id [OF assms(3)] by (simp add: task_of_update_tasks set_state_def)
  moreover have "db_steps d x" using assms(1,2) by (rule two_steps)
  moreover have "db_steps x d'"
    by (rule converse_rtranclp_into_rtranclp [OF step_claim [OF assms(3,5)] assms(7)])
  ultimately show ?thesis unfolding claimed_at_def using assms(3-5) by blast
qed

lemma wp_claim_at:
  "wp db_steps (claim_task i) (\<lambda>r d' w. w = None \<and> (\<forall>t'. r = Some t' \<longrightarrow> claimed_at d i t' d')) (\<lambda>_ _ w. w = None \<and> True) d None"
  unfolding claim_task_def
  by (intro wp_intros)
     (auto intro!: wp_intros intro: claimed_atI simp: update_task_in_def split: option.splits if_splits)

lemma admitted_after_claim:
  assumes "claimed_at d i c d1" "manifest_ok cf c" "db_steps d1 d2" "db_steps d2 y"
    "state_of y i = Some Claimed" "start_permitted y w"
  shows "admitted cf d i w"
  using assms unfolding claimed_at_def admitted_def by (metis two_steps)

lemma io_wp_quiet_run:
  assumes "io_obeys live protocol_only m" "idle h" "\<And>env. F env \<Longrightarrow> live env"
    "\<And>env a h'. m env h = (Ok a, h') \<Longrightarrow> idle h' \<Longrightarrow> db_steps (db_of h) (db_of h') \<Longrightarrow> h_runs h' = h_runs h \<Longrightarrow> Q a h'"
    "\<And>e h'. idle h' \<Longrightarrow> db_steps (db_of h) (db_of h') \<Longrightarrow> h_runs h' = h_runs h \<Longrightarrow> E e h'"
    "\<And>h'. h_runs h' = h_runs h \<Longrightarrow> D h'"
  shows "io_wp F m Q E D h"
  unfolding io_wp_def
proof (intro allI impI)
  fix env assume F: "F env"
  obtain r h' where run: "m env h = (r, h')" by (cases "m env h")
  have "protocol_only h h'" using io_obeysD [OF assms(1) assms(3) [OF F] run] .
  then show "case m env h of (Ok a, h') \<Rightarrow> Q a h' | (Raised e, h') \<Rightarrow> E e h' | (Died, h') \<Rightarrow> D h'"
    using run assms(2,4-6) by (cases r) (auto simp: protocol_only_def)
qed

lemma staged_input_id: "claim_staged_input t env h = (Ok (ok, t'), h') \<Longrightarrow> t_id t' = t_id t"
  unfolding claim_staged_input_def Let_def
  by (auto simp: io_ret_def io_bind_def ask_def split: if_splits prod.splits outcome.splits option.splits)

lemma sql_returned: "sql m env h = (Ok a, h') \<Longrightarrow> \<exists>s s'. m (dn_sql env) s = (Inr a, s')"
  by (auto simp: sql_def split: prod.splits sum.splits)

lemma checked_manifest:
  assumes "io_try (io_then (sql (validate_manifest_task cf c)) (io_ret None)) p (\<lambda>e. io_ret (Some (f e))) env h = (Ok None, h')"
  shows "manifest_ok cf c"
  using assms
  by (auto simp: io_try_def io_then_def io_bind_def io_ret_def dest!: sql_returned validated_manifest
    split: prod.splits outcome.splits if_splits)

definition live_under :: "broker_config \<Rightarrow> denv \<Rightarrow> bool" where
  "live_under cf env = (live env \<and> dn_config env = cf)"

lemma live_underD: "live_under cf env \<Longrightarrow> live env" "live_under cf env \<Longrightarrow> dn_config env = cf"
  by (simp_all add: live_under_def)

lemma dispatch_admitted:
  assumes "idle h"
  shows "io_wp (live_under cf) (dispatch_task t) (\<lambda>_. ran_admitted cf h (t_id t))
    (\<lambda>_. ran_admitted cf h (t_id t)) (ran_admitted cf h (t_id t)) h"
proof -
  let ?F = "live_under cf" and ?i = "t_id t"
  let ?P = "ran_admitted cf h ?i"
  have weak: "io_wp ?F m Q E D k" if "io_wp live m Q E D k" for m :: "bool broker" and Q E D k
    using that by (simp add: io_wp_def live_underD)
  have claim: "io_wp ?F (sql (claim_task ?i)) (\<lambda>r k. idle k \<and> h_runs k = h_runs h \<and>
      (\<forall>c. r = Some c \<longrightarrow> claimed_at (db_of h) ?i c (db_of k))) (\<lambda>_. ?P) ?P h"
    by (rule io_wp_sql [OF wp_claim_at assms]) (simp_all add: live_under_def live_def ran_nothing)
  have quiet_end: "io_wp ?F (io_then m (io_ret False)) (\<lambda>_. ?P) (\<lambda>_. ?P) ?P k"
    if "io_obeys live protocol_only m" "idle k" "h_runs k = h_runs h" for m :: "bool broker" and k
    by (rule io_wp_then, rule io_wp_quiet_run [OF that(1,2) live_underD(1)]) (auto intro!: io_wp_ret simp: that ran_nothing)
  have rest: "io_wp ?F (run_claimed t' ok) (\<lambda>_. ?P) (\<lambda>_. ?P) ?P k"
    if "idle k" "h_runs k = h_runs h" "t_id t' = ?i" "claimed_at (db_of h) ?i c d1" "db_steps d1 (db_of k)" "manifest_ok cf c"
    for t' ok c d1 k
    using run_claimed_admitted [of k h t' cf ok] that by (intro weak) (auto intro: admitted_after_claim)
  have staged: "io_wp ?F (claim_staged_input t) (\<lambda>(ok, t') k'. t_id t' = ?i \<and> idle k' \<and> h_runs k' = h_runs h \<and>
      db_steps (db_of k) (db_of k')) (\<lambda>_. ?P) ?P k" if "idle k" "h_runs k = h_runs h" for k
    by (rule io_wp_quiet_run [OF staged_quiet(3) that(1) live_underD(1)]) (auto simp: that ran_nothing dest: staged_input_id)
  have after: "io_wp ?F (io_bind (claim_staged_input t) (\<lambda>(ok, t').
       io_bind (ask dn_under) (\<lambda>under.
         if has_text (t_input t') \<and> \<not> ok \<and> under (the (t_input t'))
         then io_then (sql (requeue_claimed_to_retry_wait ?i)) (io_ret False)
         else run_claimed t' ok))) (\<lambda>_. ?P) (\<lambda>_. ?P) ?P k"
    if k: "idle k" "h_runs k = h_runs h" "claimed_at (db_of h) ?i c d1" "db_steps d1 (db_of k)" "manifest_ok cf c" for c d1 k
    by (rule io_wp_bind, rule io_wp_mono [OF staged [OF k(1,2)]])
       (auto intro!: io_wp_prod io_wp_bind [of _ "ask _"] io_wp_ask io_wp_if quiet_end [OF sql_quiet [OF requeue_claimed_obeys]]
         rest [OF _ _ _ k(3) two_steps [OF k(4)] k(5)])
  have checked: "io_wp ?F (io_try (io_then (sql (validate_manifest_task cf c)) (io_ret None)) is_value_error (\<lambda>e. io_ret (Some (exn_text e))))
      (\<lambda>bad k'. (bad = None \<longrightarrow> manifest_ok cf c) \<and> idle k' \<and> h_runs k' = h_runs h \<and> db_steps (db_of k) (db_of k'))
      (\<lambda>_. ?P) ?P k" if "idle k" "h_runs k = h_runs h" for c k
    by (rule io_wp_quiet_run [OF _ that(1) live_underD(1)])
       (auto intro!: io_intros sql_quiet_methods simp: that ran_nothing dest: checked_manifest)
  have claimed: "io_wp ?F (io_bind (ask dn_config) (\<lambda>cf.
      io_bind (io_try (io_then (sql (validate_manifest_task cf c)) (io_ret None)) is_value_error (\<lambda>e. io_ret (Some (exn_text e)))) (f cf)))
      (\<lambda>_. ?P) (\<lambda>_. ?P) ?P k"
    if k: "idle k" "h_runs k = h_runs h"
      and f: "\<And>bad k'. (bad = None \<longrightarrow> manifest_ok cf c) \<Longrightarrow> idle k' \<Longrightarrow> h_runs k' = h_runs h \<Longrightarrow> db_steps (db_of k) (db_of k')
        \<Longrightarrow> io_wp ?F (f cf bad) (\<lambda>_. ?P) (\<lambda>_. ?P) ?P k'" for c k f
  proof (rule io_wp_bind, rule io_wp_ask)
    fix env assume "?F env"
    then have "dn_config env = cf" by (rule live_underD)
    then show "io_wp ?F (io_bind (io_try (io_then (sql (validate_manifest_task (dn_config env) c)) (io_ret None)) is_value_error
        (\<lambda>e. io_ret (Some (exn_text e)))) (f (dn_config env))) (\<lambda>_. ?P) (\<lambda>_. ?P) ?P k"
      by (elim ssubst, intro io_wp_bind io_wp_mono [OF checked [OF k]]) (simp_all add: f)
  qed
  show ?thesis
    unfolding dispatch_task_def
    by (rule io_wp_bind, rule io_wp_mono [OF claim])
       (auto intro!: io_wp_option io_wp_ret claimed after quiet_end [OF sql_quiet [OF fail_claimed_task_obeys]]
         simp: ran_nothing)
qed

text \<open>C2. However other clients, failing writes, raising handlers or a killed process interfere,
  every handler run a dispatch makes is a run of its own task on a worker for which the database was, in
  order, in a state where the task was queued and the controls allowed its claim, with a valid manifest, and
  in a state where the claimed task could start on that free, permitted worker.\<close>

theorem executed_task_was_admitted:
  assumes "others_within db_steps (dn_sql env)" "s_txn (h_sess h) = None" "dispatch_task t env h = (r, h')"
  shows "\<exists>ks. h_runs h' = h_runs h @ ks \<and> (\<forall>(j, w) \<in> set ks. j = t_id t \<and>
    (\<exists>x u now y. db_steps (s_db (h_sess h)) x \<and> task_of x j = Some u \<and> t_state u = Queued \<and>
       claim_allowed (controls_of x) u \<and> manifest_ok (dn_config env) (set_state Claimed now u) \<and>
       db_steps x y \<and> state_of y j = Some Claimed \<and> start_permitted y w))"
proof -
  have "idle h" "live_under (dn_config env) env" using assms(1,2) by (simp_all add: idle_def live_under_def live_def)
  then have "ran_admitted (dn_config env) h (t_id t) h'"
    using io_wp_run [OF dispatch_admitted _ assms(3)] by (cases r) auto
  then show ?thesis by (fastforce simp: ran_admitted_def admitted_def db_of_def)
qed

section \<open>Concrete hosts\<close>

definition demo_denv :: denv where
  "demo_denv = \<lparr>dn_sql = plain_env, dn_io = calm, dn_config = demo_config, dn_base = ''/srv'', dn_under = (\<lambda>_. True),
     dn_execute = (\<lambda>_ _ _ _. Finished Success (Some (JObj [(''ok'', JBool True)]))), dn_ensure = (\<lambda>_. True)\<rparr>"

definition demo_host :: "task list \<Rightarrow> disk \<Rightarrow> host" where
  "demo_host ts d = \<lparr>h_sess = demo_sess ts, h_store = on_disk d, h_runs = []\<rparr>"

definition queued_coding :: task where
  "queued_coding = demo_task ''a'' ''coding'' Queued"

theorem dispatch_settles_witness:
  "\<exists>b h'. dispatch_task queued_coding demo_denv (demo_host [queued_coding] []) = (Ok b, h') \<and>
     state_of (db_of h') ''a'' \<notin> {Some Claimed, Some Running}"
proof -
  let ?h = "demo_host [queued_coding] []"
  obtain r h' where run: "dispatch_task queued_coding demo_denv ?h = (r, h')" by (metis surj_pair)
  have "calm_host demo_denv" "idle ?h" "task_of (db_of ?h) ''a'' = Some queued_coding"
    by (simp_all add: calm_host_def calm_sql_def calm_env_def demo_denv_def plain_env_def calm_def idle_def db_of_def
      demo_host_def task_of_def demo_db_def queued_coding_def demo_task_def)
  moreover have "plain_task queued_coding" "t_state queued_coding = Queued" "t_id queued_coding = ''a''"
    by (simp_all add: queued_coding_def plain_task_def demo_task_def has_text_def payload_of_def dget_def)
  ultimately show ?thesis
    using dispatch_settles [of demo_denv ?h queued_coding, OF _ _ _ _ _ run] run by auto
qed

text \<open>The stages of the demo dispatch up to the start of the handler.\<close>

definition claimed_host :: host where
  "claimed_host = snd (sql (claim_task ''a'') demo_denv (demo_host [queued_coding] []))"

definition selected_host :: host where
  "selected_host = snd (sql (select_worker_for_task queued_coding) demo_denv claimed_host)"

definition started_host :: host where
  "started_host = snd (sql (start_task demo_config ''a'' ''p40-coding'' None) demo_denv selected_host)"

lemma demo_stages:
  "fst (sql (claim_task ''a'') demo_denv (demo_host [queued_coding] [])) = Ok (Some (set_state Claimed 4000000 queued_coding))"
  "fst (sql (select_worker_for_task queued_coding) demo_denv claimed_host) = Ok (Some ''p40-coding'')"
  "fst (sql (start_task demo_config ''a'' ''p40-coding'' None) demo_denv selected_host) = Ok True"
  by code_simp+

lemma demo_dispatch:
  "dispatch_task queued_coding demo_denv (demo_host [queued_coding] []) =
   run_started queued_coding False ''p40-coding'' demo_denv started_host"
proof -
  have claim: "sql (claim_task ''a'') demo_denv (demo_host [queued_coding] []) =
      (Ok (Some (set_state Claimed 4000000 queued_coding)), claimed_host)"
    and sel: "sql (select_worker_for_task queued_coding) demo_denv claimed_host = (Ok (Some ''p40-coding''), selected_host)"
    and start: "sql (start_task demo_config ''a'' ''p40-coding'' None) demo_denv selected_host = (Ok True, started_host)"
    using demo_stages by (simp_all add: prod_eq_iff claimed_host_def selected_host_def started_host_def)
  have id: "t_id queued_coding = ''a''" "\<not> has_text (t_input queued_coding)" "dn_config demo_denv = demo_config"
    by (simp_all add: queued_coding_def demo_task_def has_text_def demo_denv_def)
  have valid: "sql (validate_manifest_task demo_config (set_state Claimed 4000000 queued_coding)) demo_denv claimed_host = (Ok (), claimed_host)"
    by (simp add: sql_def validate_manifest_task_def ret_def set_state_def queued_coding_def demo_task_def payload_of_def dget_def)
  show ?thesis
    unfolding dispatch_task_def run_claimed_def claim_staged_input_def
    by (simp add: io_bind_def io_then_def io_try_def io_ret_def ask_def id claim sel start valid)
qed

lemma demo_row: "case fst (sql (get_worker ''p40-coding'') demo_denv started_host) of Ok (Some v) \<Rightarrow> True | _ \<Rightarrow> False"
  by code_simp

lemma demo_idle: "s_txn (h_sess started_host) = None"
  by code_simp

lemma handler_runs:
  "idle h \<Longrightarrow> io_wp F (run_handler t w model) (\<lambda>_ h'. idle h' \<and> h_runs h' \<noteq> []) (\<lambda>_ h'. idle h' \<and> h_runs h' \<noteq> []) D h"
  unfolding run_handler_def
  by (intro io_wp_intros io_wp_execute) (auto intro!: io_wp_intros io_wp_execute simp: idle_def split: execution.splits)

lemma quiet_keeps_runs:
  assumes "io_obeys live protocol_only m" "idle h \<and> h_runs h \<noteq> []" "\<And>env. F env \<Longrightarrow> live env"
  shows "io_wp F m (\<lambda>_ h'. idle h' \<and> h_runs h' \<noteq> []) (\<lambda>_ h'. idle h' \<and> h_runs h' \<noteq> []) (\<lambda>h'. h_runs h' \<noteq> []) h"
  by (rule io_wp_quiet_run [OF assms(1) _ assms(3)]) (use assms(2) in auto)

lemma demo_runs: "h_runs (snd (run_started queued_coding False ''p40-coding'' demo_denv started_host)) \<noteq> []"
proof -
  let ?F = "\<lambda>env. env = demo_denv" and ?Q = "\<lambda>_ h'. idle h' \<and> h_runs h' \<noteq> []"
  have F: "live env" if "?F env" for env
    using that by (simp add: live_def demo_denv_def plain_env_within)
  have row: "io_wp ?F (sql (get_worker ''p40-coding'')) (\<lambda>_. idle) (\<lambda>_ _. False) (\<lambda>_. False) started_host"
    using demo_row io_obeysD [OF get_worker_obeys [THEN sql_quiet] F [OF refl]] demo_idle
    by (fastforce simp: io_wp_def protocol_only_def idle_def split: prod.splits outcome.splits)
  have "handler_for queued_coding = Some ''coding''" by code_simp
  then have body: "io_wp ?F (handle_task queued_coding False ''p40-coding'') ?Q ?Q (\<lambda>h'. h_runs h' \<noteq> []) started_host"
    unfolding handle_task_def Let_def
    by (auto intro!: io_wp_bind io_wp_mono [OF row] io_wp_mono [OF handler_runs] quiet_keeps_runs [OF settle_quiet _ F])
  have "io_wp ?F (run_started queued_coding False ''p40-coding'') ?Q ?Q (\<lambda>h'. h_runs h' \<noteq> []) started_host"
    unfolding run_started_def
    by (rule io_wp_try, rule io_wp_mono [OF body])
       (auto intro!: quiet_keeps_runs [OF _ _ F] io_intros staged_quiet sql_quiet_methods)
  note wp = this
  obtain r h' where run: "run_started queued_coding False ''p40-coding'' demo_denv started_host = (r, h')" by (metis surj_pair)
  have "case r of Ok a \<Rightarrow> idle h' \<and> h_runs h' \<noteq> [] | Raised e \<Rightarrow> idle h' \<and> h_runs h' \<noteq> [] | Died \<Rightarrow> h_runs h' \<noteq> []"
    by (rule io_wp_run [OF wp, OF refl run])
  then have "h_runs h' \<noteq> []" by (cases r) simp_all
  then show ?thesis by (simp only: run snd_conv not_False_eq_True)
qed

theorem executed_task_was_admitted_witness:
  "\<exists>r h' w y. dispatch_task queued_coding demo_denv (demo_host [queued_coding] []) = (r, h') \<and>
     (''a'', w) \<in> set (h_runs h') \<and> state_of y ''a'' = Some Claimed \<and> start_permitted y w"
proof -
  obtain r h' where run: "dispatch_task queued_coding demo_denv (demo_host [queued_coding] []) = (r, h')" by (metis surj_pair)
  have some: "h_runs h' \<noteq> []" using demo_runs run by (simp add: demo_dispatch)
  have "others_within db_steps (dn_sql demo_denv)" "s_txn (h_sess (demo_host [queued_coding] [])) = None"
    by (simp_all add: demo_denv_def plain_env_within demo_host_def)
  from executed_task_was_admitted [OF this run] some show ?thesis
    using run by (fastforce simp: demo_host_def queued_coding_def demo_task_def neq_Nil_conv)
qed


section \<open>Restarts\<close>

text \<open>The recovery after a restart walks the store's tasks, not the scheduler's.
  When no input is stored, it leaves the database as it was whatever happens: a coding, review or
  conversation task the last daemon had claimed or running stays in that state, and a running one keeps
  its worker and the P40.\<close>

theorem recovery_ignores_untracked:
  assumes "stored_ids (f_disk (h_store h)) = []" "daemon_init days env h = (r, h')"
  shows "h_sess h' = h_sess h"
  using assms
  by (auto simp: daemon_init_def recover_interrupted_tasks_def run_retention_cleanup_def io_then_def io_bind_def io_try_def
    disk_io_def task_ids_def look_disk_def io_look_def io_ret_def split: prod.splits outcome.splits if_splits)

lemma busy_demo_run:
  "states_of busy_demo = [(''a'', Running), (''b'', Claimed)] \<and>
   fst (start_task demo_config ''b'' ''p40-coding'' None plain_env busy_demo) = Inr False"
  by code_simp

theorem recovery_ignores_untracked_witness:
  "let h = \<lparr>h_sess = busy_demo, h_store = on_disk [], h_runs = []\<rparr>; s = h_sess (snd (daemon_init 30 demo_denv h)) in
   states_of s = [(''a'', Running), (''b'', Claimed)] \<and>
   fst (start_task demo_config ''b'' ''p40-coding'' None plain_env s) = Inr False"
proof -
  let ?h = "\<lparr>h_sess = busy_demo, h_store = on_disk [], h_runs = []\<rparr>"
  obtain r h' where run: "daemon_init 30 demo_denv ?h = (r, h')" by (metis surj_pair)
  have "stored_ids (f_disk (h_store ?h)) = []"
    by (simp add: stored_ids_def lifecycle_def with_meta_def ids_in_def on_disk_def)
  from recovery_ignores_untracked [OF this run] show ?thesis
    using busy_demo_run by (simp add: run)
qed

text \<open>\<open>claim_for_processing\<close> and \<open>complete_task\<close> rewrite metadata.json in place.  When the
  process is killed during such a write, the next start of the daemon raises JSONDecodeError in the
  recovery: it does not start, and the task stays claimed or running.\<close>

definition image_task :: "task_state \<Rightarrow> task" where
  "image_task st = (demo_task ''t'' ''vision'' st)\<lparr>t_input := Some ''/srv/incoming/t/image.png''\<rparr>"

definition torn_claim :: fsess where
  "torn_claim = snd (claim_for_processing ''t'' (fault_on 2 (Dies True)) (on_disk staged_disk))"

definition torn_completion :: fsess where
  "torn_completion = snd (complete_staged ''t'' None None (Some ''succeeded'') (fault_on 1 (Dies True)) (on_disk claimed_disk))"

theorem torn_metadata_blocks_restart:
  "list_all (\<lambda>(st, store). case daemon_init 30 demo_denv ((demo_host [image_task st] [])\<lparr>h_store := store\<rparr>) of
     (r, h) \<Rightarrow> r = Raised JsonErr \<and> states_of (h_sess h) = [(''t'', st)])
   [(Claimed, torn_claim), (Running, torn_completion)]"
  by code_simp

text \<open>A manifest that is not an object makes \<open>validate_manifest_task\<close> raise AttributeError,
  which the dispatch does not treat as a bad manifest: the polling loop swallows it and the task stays
  claimed, through the next turn and through a restart.\<close>

definition text_manifest :: task where
  "text_manifest = (demo_task ''m'' ''coding'' Queued)\<lparr>t_payload := Some [(''manifest'', JStr ''see PR'')]\<rparr>"

theorem malformed_manifest_wedges:
  "case poll_once 12 1 False 30 demo_denv (demo_host [text_manifest] []) of (r, h) \<Rightarrow>
     r = Ok () \<and> states_of (h_sess h) = [(''m'', Claimed)] \<and>
   (case daemon_init 30 demo_denv h of (r, h) \<Rightarrow> r = Ok () \<and> states_of (h_sess h) = [(''m'', Claimed)])"
  by code_simp

end
