(* ===== verification/Review.thy ===== *)
theory Review
  imports DaemonProps
begin

text \<open>
  The operator's review of gtx_broker/scheduler/review.py: a decision is written into the task's metadata and
  then carried out in the database.  \<open>reviewer\<close> and \<open>notes\<close> are the JSON values the caller passes; the
  statuses are those of the two entry points.
\<close>

section \<open>Decisions\<close>

definition json_notes :: "pystr option \<Rightarrow> json" where
  "json_notes n = (case n of None \<Rightarrow> JNull | Some s \<Rightarrow> JStr s)"

definition decision :: "pystr \<Rightarrow> pystr \<Rightarrow> pystr option \<Rightarrow> int \<Rightarrow> json" where
  "decision status who notes now = JObj [(''status'', JStr status), (''reviewer'', JStr who),
     (''notes'', json_notes notes), (''reviewed_at'', stamp now)]"

definition decide :: "pystr \<Rightarrow> json \<Rightarrow> pystr \<Rightarrow> pystr option \<Rightarrow> bool broker" where
  "decide i reviewer status notes = (case reviewer of
     JStr who \<Rightarrow> if strip who = [] then io_ret False else
       io_bind (sql (get_task i)) (\<lambda>row. case row of None \<Rightarrow> io_ret False
       | Some t \<Rightarrow>
         if t_state t \<noteq> AwaitingReview then io_ret False
         else if status = ''approved'' \<and> truthy (dget (payload_of t) ''manifest'') then io_ret False
         else io_bind (disk_io io_now) (\<lambda>now.
           io_bind (disk_io (update_metadata i [(''review'', decision status (strip who) notes now)])) (\<lambda>ok.
           if \<not> ok then io_ret False
           else if status = ''approved'' then sql (approve_awaiting_review i)
           else sql (transition_awaiting_review_to_failed i
             (if has_text notes then notes else Some ''vision result rejected during review'')))))
     | _ \<Rightarrow> io_ret False)"

definition approve :: "pystr \<Rightarrow> json \<Rightarrow> pystr option \<Rightarrow> bool broker" where
  "approve i reviewer notes = decide i reviewer ''approved'' notes"

definition reject :: "pystr \<Rightarrow> json \<Rightarrow> pystr \<Rightarrow> bool broker" where
  "reject i reviewer reason = decide i reviewer ''rejected'' (Some reason)"

text \<open>\<open>storage.get_task(id) or {}\<close> for every listed task.\<close>

definition or_empty :: "json option \<Rightarrow> json" where
  "or_empty j = (case j of None \<Rightarrow> JObj [] | Some j \<Rightarrow> if truthy j then j else JObj [])"

fun attach_storage :: "task list \<Rightarrow> (task \<times> json) list broker" where
  "attach_storage [] = io_ret []"
| "attach_storage (t # ts) = io_bind (disk_io (stored_task (t_id t))) (\<lambda>j.
     io_bind (attach_storage ts) (\<lambda>rest. io_ret ((t, or_empty j) # rest)))"

definition pending_reviews :: "int \<Rightarrow> (task \<times> json) list broker" where
  "pending_reviews limit = io_bind (sql (get_tasks_by_state ''awaiting_review'' (Some limit))) attach_storage"

section \<open>The record comes first\<close>

text \<open>The metadata of task \<open>i\<close> holds a decision of this status.\<close>

definition recorded :: "pystr \<Rightarrow> pystr \<Rightarrow> disk \<Rightarrow> bool" where
  "recorded status i d = (\<exists>r\<in>set lifecycle. \<exists>m who notes now. meta_of r i d = Some (Doc (JObj m)) \<and>
     dget m ''review'' = decision status who notes now)"

lemma in_dir_ok:
  "in_dir r i torn f env s = (Ok u, s') \<Longrightarrow> dir_of r i (f_disk s) \<noteq> None \<and> f_disk s' = change_dir r i f (f_disk s)"
  by (auto simp: in_dir_def io_step_def Let_def split: fault.splits if_splits sum.splits)

lemma replace_doc_ok: "replace_doc r i j env s = (Ok u, s') \<Longrightarrow> meta_of r i (f_disk s') = Some (Doc j)"
  unfolding replace_doc_def io_then_def io_bind_def
  by (auto simp: meta_of_def change_dir_def dest!: in_dir_ok split: prod.splits outcome.splits option.splits)

lemma update_first_ok:
  assumes "update_first rs i [(k, v)] env s = (Ok True, s')" "k \<noteq> ''updated_at''"
  shows "\<exists>r\<in>set rs. \<exists>m. meta_of r i (f_disk s') = Some (Doc (JObj m)) \<and> dget m k = v"
  using assms
  by (induction rs arbitrary: s)
     (fastforce simp: io_ret_def io_bind_def io_then_def io_try_def io_look_def look_disk_def io_now_def as_object_def io_raise_def
        dupdate_def dget_dput dest!: replace_doc_ok split: prod.splits outcome.splits if_splits json.splits)+

lemma update_metadata_ok:
  assumes "update_metadata i [(''review'', decision st who notes now)] env s = (Ok True, s')"
  shows "recorded st i (f_disk s')"
proof -
  have "update_first lifecycle i [(''review'', decision st who notes now)] env s = (Ok True, s')"
    using assms by (simp add: update_metadata_def with_valid_id_def io_raise_def split: if_splits)
  from update_first_ok [OF this] show ?thesis unfolding recorded_def by (simp, blast)
qed

lemma io_wp_disk:
  assumes "\<And>(env :: denv) a s'. m (dn_io env) (h_store h) = (Ok a, s') \<Longrightarrow> Q a (h\<lparr>h_store := s'\<rparr>)"
    "\<And>e s'. E e (h\<lparr>h_store := s'\<rparr>)" "\<And>s'. D (h\<lparr>h_store := s'\<rparr>)"
  shows "io_wp F (disk_io m) Q E D h"
  unfolding io_wp_def
proof (intro allI impI)
  fix env :: denv
  obtain r s' where run: "m (dn_io env) (h_store h) = (r, s')" by (metis surj_pair)
  show "case disk_io m env h of (Ok a, h') \<Rightarrow> Q a h' | (Raised e, h') \<Rightarrow> E e h' | (Died, h') \<Rightarrow> D h'"
    using assms run by (cases r) (auto simp: disk_io_def)
qed

lemma decide_records:
  assumes "quiet (dn_sql env)" "s_txn (h_sess h) = None" "decide i reviewer status notes env h = (r, h')"
  shows "(r = Ok True \<longrightarrow> recorded status i (f_disk (h_store h'))) \<and>
    (s_db (h_sess h') \<noteq> s_db (h_sess h) \<longrightarrow> recorded status i (f_disk (h_store h')))"
proof -
  let ?R = "\<lambda>d d'. d' = d" and ?F = "\<lambda>env. quiet (dn_sql env)"
  let ?P = "\<lambda>h'. db_of h' \<noteq> db_of h \<longrightarrow> recorded status i (disk_of h')"
  let ?Q = "\<lambda>ok h'. (ok \<longrightarrow> recorded status i (disk_of h')) \<and> ?P h'"
  have row: "io_wp ?F (sql (get_task i)) (\<lambda>_ h'. db_of h' = db_of h) (\<lambda>_. ?P) ?P h"
  proof (rule io_wp_sql [where C = "others_within ?R" and Q' = "\<lambda>_ d. d = db_of h" and E' = "\<lambda>_ d. d = db_of h"])
    show "wp ?R (get_task i) (\<lambda>_ d w. w = None \<and> d = db_of h) (\<lambda>_ d w. w = None \<and> d = db_of h) (db_of h) None"
      unfolding get_task_def by (intro wp_intros) (auto intro!: wp_intros)
  qed (use assms(2) in \<open>auto simp: idle_def quiet_within\<close>)
  have carried: "io_wp ?F (sql m) ?Q (\<lambda>_. ?P) ?P h1" if "recorded status i (disk_of h1)" for m :: "bool session" and h1
    using that by (auto simp: io_wp_def sql_def disk_of_def split: prod.splits sum.splits)
  have wrote: "io_wp ?F (disk_io (update_metadata i [(''review'', decision status who notes now)]))
      (\<lambda>ok h2. db_of h2 = db_of h \<and> (ok \<longrightarrow> recorded status i (disk_of h2))) (\<lambda>_. ?P) ?P h1"
    if "db_of h1 = db_of h" for who now h1
    by (rule io_wp_disk) (use that in \<open>auto simp: db_of_def disk_of_def dest: update_metadata_ok\<close>)
  have clock: "io_wp ?F (disk_io io_now) (\<lambda>_ h2. db_of h2 = db_of h) (\<lambda>_. ?P) ?P h1" if "db_of h1 = db_of h" for h1
    by (rule io_wp_disk) (use that in \<open>auto simp: db_of_def disk_of_def\<close>)
  have "io_wp ?F (decide i reviewer status notes) ?Q (\<lambda>_. ?P) ?P h"
  proof (cases reviewer)
    case (JStr who)
    show ?thesis
      unfolding decide_def JStr json.case
      by (intro io_wp_if io_wp_bind io_wp_option carried io_wp_mono [OF row] io_wp_mono [OF wrote] io_wp_mono [OF clock] io_wp_ret)
         simp_all
  qed (auto simp: decide_def intro!: io_wp_ret)
  from io_wp_run [OF this, OF assms(1,3)] show ?thesis
    by (cases r) (auto simp: db_of_def disk_of_def)
qed

text \<open>C21. Whatever fails in the store or the database and wherever the process is killed, a
  review call that changes the database has left its decision in the task's metadata: no task is approved
  or rejected without a record.  A call that returns true has left that record as well.\<close>

theorem review_record_comes_first:
  assumes "quiet (dn_sql env)" "s_txn (h_sess h) = None" "decide i reviewer status notes env h = (r, h')"
    "s_db (h_sess h') \<noteq> s_db (h_sess h) \<or> r = Ok True"
  shows "recorded status i (f_disk (h_store h'))"
  using decide_records [OF assms(1-3)] assms(4) by blast

lemma review_run: "case approve ''t'' (JStr '' op '') None demo_denv (demo_host [image_task AwaitingReview] staged_disk) of
    (r, h) \<Rightarrow> r = Ok True \<and> states_of (h_sess h) = [(''t'', Succeeded)]"
  by code_simp

theorem review_record_comes_first_witness:
  "\<exists>h'. decide ''t'' (JStr '' op '') ''approved'' None demo_denv (demo_host [image_task AwaitingReview] staged_disk) = (Ok True, h') \<and>
     states_of (h_sess h') = [(''t'', Succeeded)] \<and> recorded ''approved'' ''t'' (f_disk (h_store h'))"
proof -
  obtain h' where run: "decide ''t'' (JStr '' op '') ''approved'' None demo_denv (demo_host [image_task AwaitingReview] staged_disk) = (Ok True, h')"
      "states_of (h_sess h') = [(''t'', Succeeded)]"
    using review_run by (auto simp: approve_def split: prod.splits)
  have "quiet (dn_sql demo_denv)" "s_txn (h_sess (demo_host [image_task AwaitingReview] staged_disk)) = None"
    by (simp_all add: demo_denv_def plain_quiet demo_host_def)
  from review_record_comes_first [OF this run(1)] run show ?thesis by simp
qed

section \<open>Interrupted reviews\<close>

text \<open>The first metadata document on the lifecycle path is an object.\<close>

fun first_meta :: "root list \<Rightarrow> pystr \<Rightarrow> disk \<Rightarrow> doc option" where
  "first_meta [] i d = None"
| "first_meta (r # rs) i d = (case meta_of r i d of None \<Rightarrow> first_meta rs i d | Some x \<Rightarrow> Some x)"

definition readable :: "root list \<Rightarrow> pystr \<Rightarrow> disk \<Rightarrow> bool" where
  "readable rs i d = (\<exists>m. first_meta rs i d = Some (Doc (JObj m)))"

definition any_env :: "fenv \<Rightarrow> bool" where
  "any_env env = True"

lemma disk_wp_any_step:
  assumes "\<And>a d'. f d = Inr (a, d') \<Longrightarrow> Q a d'" "\<And>e d'. d' \<in> {d, torn d} \<Longrightarrow> E e d' \<and> D d'"
  shows "disk_wp any_env (io_step torn f) Q E D d"
  using assms by (auto simp: disk_wp_def io_step_def Let_def split: fault.splits sum.splits)

lemma any_steps:
  "(\<And>j. meta_of r i d = Some (Doc j) \<Longrightarrow> Q j d) \<Longrightarrow> (\<And>e. E e d) \<Longrightarrow> D d \<Longrightarrow> disk_wp any_env (read_doc r i) Q E D d"
  "(dir_of r i d \<noteq> None \<Longrightarrow> P () (change_dir r i f d)) \<Longrightarrow> (\<And>e d'. d' \<in> {d, change_dir r i torn d} \<Longrightarrow> E e d' \<and> D d') \<Longrightarrow>
   disk_wp any_env (in_dir r i torn f) P E D d"
  unfolding read_doc_def in_dir_def
  by (auto intro!: disk_wp_any_step split: option.splits doc.splits if_splits)

lemma change_dir_self: "(\<And>t. td_meta (f t) = td_meta t) \<Longrightarrow> meta_of r' j (change_dir r i f d) = meta_of r' j d"
  by (auto simp: meta_of_change meta_of_def split: option.splits)

lemma first_meta_skip: "(\<forall>p\<in>set pre. meta_of p i d = None) \<Longrightarrow> first_meta (pre @ rs) i d = first_meta rs i d"
  by (induction pre) auto

lemma readable_at: "(\<forall>p\<in>set pre. meta_of p i d = None) \<Longrightarrow> meta_of r i d = Some (Doc (JObj m)) \<Longrightarrow> readable (pre @ r # rs) i d"
  by (simp add: readable_def first_meta_skip)

lemma readable_same: "(\<And>r. meta_of r i d' = meta_of r i d) \<Longrightarrow> readable rs i d' = readable rs i d"
proof -
  assume "\<And>r. meta_of r i d' = meta_of r i d"
  then have "first_meta rs i d' = first_meta rs i d" by (induction rs) (simp_all split: option.splits)
  then show ?thesis by (simp add: readable_def)
qed

lemma replace_keeps_readable:
  assumes "\<forall>p\<in>set pre. meta_of p i d = None" "meta_of r i d = Some (Doc (JObj m0))"
    "\<And>d'. readable (pre @ r # rs) i d' \<Longrightarrow> Q () d' \<and> D d' \<and> (\<forall>e. E e d')"
  shows "disk_wp any_env (replace_doc r i (JObj m)) Q E D d"
proof -
  have temp: "readable (pre @ r # rs) i (change_dir r i (set_temp x) d)" for x
    by (rule readable_at [where m = m0]) (use assms(1,2) in \<open>simp_all only: change_dir_self set_temp_sel\<close>)
  have new: "readable (pre @ r # rs) i (change_dir r i (\<lambda>t. set_temp None (set_meta (td_temp t) t))
      (change_dir r i (set_temp (Some (Doc (JObj m)))) d))"
    by (rule readable_at [where m = m]) (use assms(1,2) in \<open>auto simp: meta_of_def change_dir_def split: option.splits\<close>)
  have same: "readable rs' i (change_dir r i id d') = readable rs' i d'" for rs' d'
    by (rule readable_same, rule change_dir_self) simp
  have old: "readable (pre @ r # rs) i d" by (rule readable_at [OF assms(1,2)])
  show ?thesis
    unfolding replace_doc_def
    by (intro disk_wp_then any_steps assms(3)) (use assms(3) temp new old same in auto)
qed

lemma update_keeps_readable:
  assumes "readable (pre @ rs) i d" "\<forall>p\<in>set pre. meta_of p i d = None"
  shows "disk_wp any_env (update_first rs i ups) (\<lambda>_. readable (pre @ rs) i) (\<lambda>_. readable (pre @ rs) i) (readable (pre @ rs) i) d"
  using assms
proof (induction rs arbitrary: pre)
  case (Cons r rs)
  show ?case
  proof (cases "meta_of r i d")
    case None
    then show ?thesis using Cons.IH [of "pre @ [r]"] Cons.prems by (auto intro!: disk_wp_intros)
  next
    case (Some x)
    then obtain m0 where m0: "meta_of r i d = Some (Doc (JObj m0))"
      using Cons.prems by (auto simp: readable_def first_meta_skip)
    then show ?thesis
      using Cons.prems
      by (auto intro!: disk_wp_intros any_steps replace_keeps_readable [OF Cons.prems(2) m0] simp: m0)
  qed
qed (simp add: disk_wp_ret)

lemma update_metadata_readable:
  "readable lifecycle i d \<Longrightarrow>
   disk_wp any_env (update_metadata i ups) (\<lambda>_. readable lifecycle i) (\<lambda>_. readable lifecycle i) (readable lifecycle i) d"
  unfolding update_metadata_def using update_keeps_readable [of "[]"] by (auto intro!: disk_wp_intros)

lemma calm_update:
  assumes "valid_task_id i" "readable lifecycle i d"
  shows "disk_wp calm_env (update_metadata i ups) (\<lambda>ok _. ok) (\<lambda>_ _. False) (\<lambda>_. False) d"
proof -
  have "disk_wp calm_env (update_first rs i ups) (\<lambda>ok _. ok) (\<lambda>_ _. False) (\<lambda>_. False) d" if "readable rs i d" for rs
    using that
    by (induction rs)
       (auto simp: readable_def replace_doc_def meta_of_def split: option.splits intro!: disk_wp_intros)
  then show ?thesis using assms by (auto simp: update_metadata_def intro!: disk_wp_intros)
qed

lemma calm_get_task:
  assumes "Q (task_of d i) d None"
  shows "gwp calm_sql (get_task i) Q E d None"
  unfolding get_task_def by (intro wp_intros) (auto intro!: wp_intros assms)

lemma calm_approve:
  assumes "task_of d i = Some t" "t_state t = AwaitingReview" "\<not> truthy (dget (payload_of t) ''manifest'')"
    "distinct (map t_id (d_tasks d))" "\<And>d'. state_of d' i = Some Succeeded \<Longrightarrow> Q True d' None"
  shows "gwp calm_sql (approve_awaiting_review i) Q E d None"
proof -
  have t: "row_of t_id i (d_tasks d) = Some t" "t \<in> set (d_tasks d)" "t_id t = i"
    using assms(1) by (auto simp: task_of_def dest: row_of_Some_in)
  have one: "count_where (\<lambda>t. t_id t = i \<and> t_state t = AwaitingReview) (d_tasks d) = 1"
    using count_where_key [OF assms(4) t(1)] assms(2) by simp
  have fin: "Q True d' None"
    if "d_tasks d' = update_where (\<lambda>t. t_id t = i \<and> t_state t = AwaitingReview) (set_state Succeeded now) (d_tasks d)" for d' now
    using that t assms(2) by (intro assms(5)) (simp add: state_of_def task_of_def row_of_update_where set_state_def)
  show ?thesis
    unfolding approve_awaiting_review_def update_task_in_def
    by (rule calm_checked [OF assms(1,2)])
       (auto intro!: wp_intros simp: assms(3) one, rule fin, simp add: table_simps)
qed

lemma get_task_obeys: "obeys db_steps (get_task i)"
  unfolding get_task_def by (intro obeys_intros)

lemma decide_quiet: "io_obeys live protocol_only (decide i reviewer status notes)"
  unfolding decide_def
  by (cases reviewer) (auto intro!: io_intros disk_quiet sql_quiet_methods sql_quiet [OF get_task_obeys] split: json.splits)

text \<open>A review call keeps the metadata readable in every environment, torn writes included.\<close>

definition keeps_readable :: "pystr \<Rightarrow> host \<Rightarrow> host \<Rightarrow> bool" where
  "keeps_readable i h h' = (readable lifecycle i (disk_of h) \<longrightarrow> readable lifecycle i (disk_of h'))"

definition any_denv :: "denv \<Rightarrow> bool" where
  "any_denv env = True"

interpretation readable_part: effect_law any_denv "keeps_readable i" for i
  by unfold_locales (auto simp: keeps_readable_def)

lemma sql_keeps_readable [io_intros]: "io_obeys any_denv (keeps_readable i) (sql m)"
  by (auto simp: io_obeys_def keeps_readable_def sql_def disk_of_def split: prod.splits sum.splits)

lemma now_keeps_readable [io_intros]: "io_obeys any_denv (keeps_readable i) (disk_io io_now)"
  by (auto simp: io_obeys_def keeps_readable_def disk_io_def io_now_def)

lemma update_keeps_readable_io [io_intros]: "io_obeys any_denv (keeps_readable i) (disk_io (update_metadata i ups))"
  unfolding io_obeys_def
proof (intro allI impI)
  fix env :: denv and h :: host
  obtain r s' where run: "update_metadata i ups (dn_io env) (h_store h) = (r, s')" by (metis surj_pair)
  show "keeps_readable i h (snd (disk_io (update_metadata i ups) env h))"
    using disk_wp_run [OF update_metadata_readable, OF _ _ run] run
    by (cases r) (auto simp: keeps_readable_def disk_io_def disk_of_def any_env_def)
qed

lemma decide_keeps_readable: "io_obeys any_denv (keeps_readable i) (decide i reviewer status notes)"
  unfolding decide_def by (cases reviewer) (auto intro!: io_intros)

lemma calm_disk_step:
  assumes "disk_wp calm_env m (\<lambda>a d. Q' a d) (\<lambda>_ _. False) (\<lambda>_. False) (disk_of h)"
    "\<And>a h'. Q' a (disk_of h') \<Longrightarrow> h_sess h' = h_sess h \<Longrightarrow> Q a h'"
  shows "io_wp calm_host (disk_io m) Q E D h"
  unfolding io_wp_def
proof (intro allI impI)
  fix env assume c: "calm_host env"
  obtain r s' where run: "m (dn_io env) (h_store h) = (r, s')" by (metis surj_pair)
  have "case r of Ok a \<Rightarrow> Q' a (f_disk s') | Raised e \<Rightarrow> False | Died \<Rightarrow> False"
    using disk_wp_run [OF assms(1) [unfolded disk_of_def], OF _ run] c by (simp add: calm_host_def)
  then show "case disk_io m env h of (Ok a, h') \<Rightarrow> Q a h' | (Raised e, h') \<Rightarrow> E e h' | (Died, h') \<Rightarrow> D h'"
    using run assms(2) by (cases r) (auto simp: disk_io_def disk_of_def)
qed

lemma calm_approval:
  assumes "idle h" "task_of (db_of h) i = Some t" "t_state t = AwaitingReview"
    "\<not> truthy (dget (payload_of t) ''manifest'')" "distinct (map t_id (d_tasks (db_of h)))"
    "valid_task_id i" "readable lifecycle i (disk_of h)" "strip who \<noteq> []"
  shows "io_wp calm_host (approve i (JStr who) notes) (\<lambda>ok h'. ok \<and> state_of (db_of h') i = Some Succeeded)
    (\<lambda>_ _. False) (\<lambda>_. False) h"
proof -
  have row: "io_wp calm_host (sql (get_task i)) (\<lambda>row h'. row = Some t \<and> idle h' \<and> db_of h' = db_of h \<and> disk_of h' = disk_of h)
      (\<lambda>_ _. False) (\<lambda>_. False) h"
    by (rule calm_sql_step [where Q' = "\<lambda>row d. row = Some t \<and> d = db_of h"])
       (use assms in \<open>auto intro!: calm_get_task simp: disk_of_def\<close>)
  have clock: "io_wp calm_host (disk_io io_now) (\<lambda>_ h'. h_sess h' = h_sess h1 \<and> disk_of h' = disk_of h1) E D h1" for E D h1
    by (rule calm_disk_step [where Q' = "\<lambda>_ d. d = disk_of h1"]) (auto intro!: disk_wp_intros)
  have wrote: "io_wp calm_host (disk_io (update_metadata i ups)) (\<lambda>ok h'. ok \<and> h_sess h' = h_sess h1) E D h1"
    if "disk_of h1 = disk_of h" for ups E D h1
    by (rule calm_disk_step [OF calm_update]) (use that assms in auto)
  have moved: "io_wp calm_host (sql (approve_awaiting_review i)) (\<lambda>ok h'. ok \<and> state_of (db_of h') i = Some Succeeded) E D h1"
    if "idle h1" "db_of h1 = db_of h" for E D h1
    by (rule calm_sql_step [where Q' = "\<lambda>ok d. ok \<and> state_of d i = Some Succeeded"])
       (use that assms in \<open>auto intro!: calm_approve\<close>)
  show ?thesis
    unfolding approve_def decide_def json.case
    by (intro io_wp_if io_wp_bind io_wp_option io_wp_mono [OF row] io_wp_mono [OF clock] io_wp_mono [OF wrote]
        io_wp_mono [OF moved] io_wp_ret)
       (use assms in \<open>simp_all add: idle_def db_of_def\<close>)
qed

text \<open>C34. An approval that failed or was killed before it changed the database, at any point and
  with any torn write, can be repeated: the same call then approves the task and its record is there.\<close>

theorem interrupted_review_resumes:
  assumes "others_within db_steps (dn_sql env)" "calm_host env'" "s_txn (h_sess h) = None" "db_inv (s_db (h_sess h))"
    "task_of (s_db (h_sess h)) i = Some t" "t_state t = AwaitingReview" "\<not> truthy (dget (payload_of t) ''manifest'')"
    "valid_task_id i" "readable lifecycle i (f_disk (h_store h))" "strip who \<noteq> []"
    "approve i (JStr who) notes env h = (r, h1)" "s_db (h_sess h1) = s_db (h_sess h)"
    "approve i (JStr who) notes env' h1 = (r', h2)"
  shows "r' = Ok True \<and> state_of (s_db (h_sess h2)) i = Some Succeeded \<and> recorded ''approved'' i (f_disk (h_store h2))"
proof -
  have "idle h1"
    using io_obeysD [OF decide_quiet, OF _ assms(11) [unfolded approve_def]] assms(1,3)
    by (auto simp: live_def protocol_only_def idle_def)
  moreover have "readable lifecycle i (disk_of h1)"
    using io_obeysD [OF decide_keeps_readable, OF _ assms(11) [unfolded approve_def]] assms(9)
    by (auto simp: any_denv_def keeps_readable_def disk_of_def)
  moreover have "distinct (map t_id (d_tasks (s_db (h_sess h))))"
    using assms(4) by (simp add: db_inv_def)
  ultimately have wp: "io_wp calm_host (approve i (JStr who) notes) (\<lambda>ok h'. ok \<and> state_of (db_of h') i = Some Succeeded)
      (\<lambda>_ _. False) (\<lambda>_. False) h1"
    using assms(5-8,10,12) by (intro calm_approval) (simp_all add: db_of_def)
  have "r' = Ok True \<and> state_of (db_of h2) i = Some Succeeded"
    using io_wp_run [OF wp, OF assms(2,13)] by (cases r') auto
  moreover have "quiet (dn_sql env')" using assms(2) by (simp add: calm_host_def calm_sql_def quiet_def)
  ultimately show ?thesis
    using decide_records [OF _ _ assms(13) [unfolded approve_def]] \<open>idle h1\<close> by (simp add: db_of_def idle_def)
qed

text \<open>The demo approval is killed in the middle of writing the new metadata.\<close>

definition torn_env :: denv where
  "torn_env = demo_denv\<lparr>dn_io := fault_on 1 (Dies True)\<rparr>"

lemma torn_approval: "case approve ''t'' (JStr '' op '') None torn_env (demo_host [image_task AwaitingReview] staged_disk) of
    (r, h) \<Rightarrow> r = Died \<and> states_of (h_sess h) = [(''t'', AwaitingReview)] \<and> s_db (h_sess h) = demo_db [image_task AwaitingReview]"
  by code_simp

theorem interrupted_review_resumes_witness:
  "let h1 = snd (approve ''t'' (JStr '' op '') None torn_env (demo_host [image_task AwaitingReview] staged_disk)) in
   fst (approve ''t'' (JStr '' op '') None demo_denv h1) = Ok True"
proof -
  let ?h = "demo_host [image_task AwaitingReview] staged_disk"
  obtain h1 where first: "approve ''t'' (JStr '' op '') None torn_env ?h = (Died, h1)" "s_db (h_sess h1) = s_db (h_sess ?h)"
    using torn_approval by (auto simp: demo_host_def split: prod.splits)
  obtain r' h2 where second: "approve ''t'' (JStr '' op '') None demo_denv h1 = (r', h2)" by (metis surj_pair)
  have "others_within db_steps (dn_sql torn_env)" "calm_host demo_denv" "s_txn (h_sess ?h) = None"
    by (simp_all add: torn_env_def demo_host_def calm_host_def calm_sql_def calm_env_def demo_denv_def plain_env_within)
      (simp_all add: plain_env_def calm_def)
  moreover have "db_inv (s_db (h_sess ?h))"
    by (simp add: demo_host_def, rule demo_inv) (simp_all add: image_task_def demo_task_def)
  moreover have "task_of (s_db (h_sess ?h)) ''t'' = Some (image_task AwaitingReview)" "t_state (image_task AwaitingReview) = AwaitingReview"
    "\<not> truthy (dget (payload_of (image_task AwaitingReview)) ''manifest'')"
    by (simp_all add: demo_host_def task_of_def demo_db_def image_task_def demo_task_def payload_of_def dget_def)
  moreover have "valid_task_id ''t'' \<and> strip '' op '' \<noteq> []" by code_simp
  moreover have "readable lifecycle ''t'' (f_disk (h_store ?h))"
    by (simp add: readable_def lifecycle_def demo_host_def on_disk_def staged_disk_def meta_of_def dir_of_def)
  ultimately show ?thesis
    using interrupted_review_resumes [of torn_env demo_denv ?h "''t''" "image_task AwaitingReview" "'' op ''" None Died h1 r' h2]
      first second by (simp add: Let_def)
qed

end
