(* ===== verification/Escalation.thy ===== *)
theory Escalation
  imports Effects
begin

text \<open>
  The decisions of the GTX broker, none of which keeps state: the classification of a task
  (gtx_broker/classifier.py) and what follows a failed attempt (gtx_broker/escalation_policy.py), with the
  state object both speak of (gtx_broker/state.py).  A quality importance, a float in the code, is counted in
  thousandths, which print as Python prints such a float; so are the floats of the model profiles.
\<close>

section \<open>The state of a task\<close>

datatype broker_workflow = DIRECT_ESCALATION | LAYERED_REVIEW

fun workflow_value :: "broker_workflow \<Rightarrow> pystr" where
  "workflow_value DIRECT_ESCALATION = ''direct_escalation''"
| "workflow_value LAYERED_REVIEW = ''layered_review''"

definition broker_workflow_of :: "pystr \<Rightarrow> exn + broker_workflow" where
  "broker_workflow_of w = (case map_of (map (\<lambda>x. (workflow_value x, x)) [DIRECT_ESCALATION, LAYERED_REVIEW]) w of
     None \<Rightarrow> Inl (ValueErr (py_repr w @ '' is not a valid GTXBrokerWorkflow'')) | Some x \<Rightarrow> Inr x)"

datatype task_class = BOUNDED_IMPLEMENTATION | BENCHMARK_VALIDATION | LARGE_CONTEXT | COMPLEX_REASONING | REPAIR_LOCAL

fun class_value :: "task_class \<Rightarrow> pystr" where
  "class_value BOUNDED_IMPLEMENTATION = ''bounded_implementation''"
| "class_value BENCHMARK_VALIDATION = ''benchmark_validation''"
| "class_value LARGE_CONTEXT = ''large_context''"
| "class_value COMPLEX_REASONING = ''complex_reasoning''"
| "class_value REPAIR_LOCAL = ''repair_local''"

text \<open>\<open>ProviderTransition\<close> and \<open>GTXBrokerState\<close>; an empty timestamp is \<open>None\<close>.\<close>

record provider_move =
  pm_from :: pystr
  pm_to :: pystr
  pm_reason :: pystr
  pm_at :: "int option"
  pm_evidence :: "pystr list"

record gtx_state =
  gs_model :: pystr
  gs_workflow :: "broker_workflow option"
  gs_task :: pystr
  gs_class :: pystr
  gs_context :: int
  gs_quality :: pystr
  gs_description :: pystr
  gs_transition :: "provider_move option"
  gs_routed_at :: "int option"
  gs_gtx_failures :: int
  gs_p40_failures :: int
  gs_attempt :: int
  gs_final :: bool
  gs_evidence :: "pystr list"

section \<open>Classification\<close>

record gtx_profile =
  gp_id :: pystr
  gp_name :: pystr
  gp_vram :: int
  gp_context :: int
  gp_quality :: bool
  gp_tier :: pystr
  gp_endpoints :: "pystr list"
  gp_speed :: int
  gp_load :: int

record model_config =
  mc_id :: pystr
  mc_name :: pystr
  mc_vram :: int
  mc_context :: int
  mc_quality :: bool
  mc_tier :: pystr
  mc_speed :: int

definition gtx_iq3_xs :: gtx_profile where
  "gtx_iq3_xs = \<lparr>gp_id = ''gtx_iq3_xs'', gp_name = ''GTX IQ3_XS'', gp_vram = 3700, gp_context = 65536, gp_quality = True,
     gp_tier = ''medium'', gp_endpoints = [''http://127.0.0.1:11438/v1''], gp_speed = 40700, gp_load = 2070\<rparr>"

definition gtx_q2_k :: gtx_profile where
  "gtx_q2_k = \<lparr>gp_id = ''gtx_q2_k'', gp_name = ''GTX Q2_K'', gp_vram = 3600, gp_context = 65536, gp_quality = False,
     gp_tier = ''fastest'', gp_endpoints = [''http://127.0.0.1:11438/v1''], gp_speed = 52100, gp_load = 2070\<rparr>"

definition p40_qwen35 :: gtx_profile where
  "p40_qwen35 = \<lparr>gp_id = ''p40_qwen35'', gp_name = ''P40 Qwen3.5'', gp_vram = 15000, gp_context = 262144, gp_quality = True,
     gp_tier = ''slow'', gp_endpoints = [''http://127.0.0.1:11436/v1''], gp_speed = 25000, gp_load = 15000\<rparr>"

definition gtx_profiles :: "gtx_profile list" where
  "gtx_profiles = [gtx_iq3_xs, gtx_q2_k, p40_qwen35]"

definition large_context_threshold :: int where
  "large_context_threshold = 65536"

definition max_context_p40 :: int where
  "max_context_p40 = 262144"

definition has_keyword :: "pystr \<Rightarrow> pystr list \<Rightarrow> bool" where
  "has_keyword text ks = list_ex (\<lambda>k. contains k text) ks"

definition determine_task_class :: "pystr \<Rightarrow> int \<Rightarrow> bool \<Rightarrow> task_class" where
  "determine_task_class description context benchmark = (let t = lower description in
     if benchmark then BENCHMARK_VALIDATION
     else if large_context_threshold < context then LARGE_CONTEXT
     else if has_keyword t [''deterministic benchmark'', ''qualification test'', ''benchmark run'', ''score'', ''metric'',
       ''eval'', ''reproducible'', ''validation suite''] then BENCHMARK_VALIDATION
     else if has_keyword t [''large context'', ''256k'', ''262k'', ''very long'', ''extended context''] then LARGE_CONTEXT
     else if has_keyword t [''reasoning'', ''analysis'', ''architectural'', ''design'', ''strategy'', ''planning'', ''complex'']
       then COMPLEX_REASONING
     else if has_keyword t [''fix'', ''repair'', ''correct'', ''adjust'', ''minor'', ''bounded'', ''small'', ''quick'',
       ''simple'', ''typo''] then REPAIR_LOCAL
     else BOUNDED_IMPLEMENTATION)"

definition select_model :: "task_class \<Rightarrow> int \<Rightarrow> pystr" where
  "select_model c context = (if c = BENCHMARK_VALIDATION then ''p40_qwen35''
     else if large_context_threshold < context then ''p40_qwen35''
     else if c = COMPLEX_REASONING then ''codex''
     else if c \<in> {BOUNDED_IMPLEMENTATION, REPAIR_LOCAL} then ''p40_qwen35''
     else ''p40_qwen35'')"

text \<open>The float of a number of thousandths, the trailing zeros of its fraction dropped down to one digit.\<close>

definition show_thousandths :: "int \<Rightarrow> pystr" where
  "show_thousandths q = (if q < 0 then ''-'' else '''') @ show_int (\<bar>q\<bar> div 1000) @ ''.'' @
     (let f = pad_left 3 (\<bar>q\<bar> mod 1000); g = rstrip_char CHR ''0'' f in if g = [] then ''0'' else g)"

definition show_number :: "json \<Rightarrow> pystr" where
  "show_number j = (case j of JInt i \<Rightarrow> show_int i | JFloat (Fin q) \<Rightarrow> show_thousandths \<lfloor>1000 * q\<rfloor>
     | JFloat PosInf \<Rightarrow> ''inf'' | JFloat NegInf \<Rightarrow> ''-inf'' | JFloat NaN \<Rightarrow> ''nan'' | _ \<Rightarrow> [])"

definition at_least :: "rat \<Rightarrow> json \<Rightarrow> bool" where
  "at_least q j = (case j of JInt i \<Rightarrow> q \<le> of_int i | JFloat (Fin r) \<Rightarrow> q \<le> r | JFloat PosInf \<Rightarrow> True | _ \<Rightarrow> False)"

definition at_most :: "rat \<Rightarrow> json \<Rightarrow> bool" where
  "at_most q j = (case j of JInt i \<Rightarrow> of_int i \<le> q | JFloat (Fin r) \<Rightarrow> r \<le> q | JFloat NegInf \<Rightarrow> True | _ \<Rightarrow> False)"

definition show_bool :: "bool \<Rightarrow> pystr" where
  "show_bool b = (if b then ''True'' else ''False'')"

definition classify_task :: "pystr \<Rightarrow> pystr \<Rightarrow> int \<Rightarrow> json \<Rightarrow> bool \<Rightarrow> gtx_state" where
  "classify_task task description context quality benchmark = (let c = determine_task_class description context benchmark in
     \<lparr>gs_model = select_model c context, gs_workflow = None, gs_task = task, gs_class = class_value c, gs_context = context,
      gs_quality = (if at_least (1 / 2) quality then ''quality'' else ''speed''), gs_description = description, gs_transition = None,
      gs_routed_at = None, gs_gtx_failures = 0, gs_p40_failures = 0, gs_attempt = 1, gs_final = False,
      gs_evidence = [''classification='' @ class_value c, ''context_size='' @ show_int context,
        ''quality_importance='' @ show_number quality, ''requires_benchmark='' @ show_bool benchmark]\<rparr>)"

text \<open>An id without a profile has the empty dictionary, here \<open>None\<close>.\<close>

definition get_model_constraints :: "pystr \<Rightarrow> model_config option" where
  "get_model_constraints i = map_option (\<lambda>p. \<lparr>mc_id = gp_id p, mc_name = gp_name p, mc_vram = gp_vram p,
     mc_context = gp_context p, mc_quality = gp_quality p, mc_tier = gp_tier p, mc_speed = gp_speed p\<rparr>)
     (find (\<lambda>p. gp_id p = i) gtx_profiles)"

definition validate_task_feasibility :: "int \<Rightarrow> json \<Rightarrow> bool \<times> pystr" where
  "validate_task_feasibility context quality = (
     if max_context_p40 < context
     then (False, ''Context size '' @ show_int context @ '' exceeds P40 max ('' @ show_int max_context_p40 @ '')'')
     else if \<not> (at_least 0 quality \<and> at_most 1 quality)
     then (False, ''Quality importance '' @ show_number quality @ '' must be 0.0-1.0'')
     else (True, ''Task is feasible''))"

definition route_task_standalone :: "pystr \<Rightarrow> pystr \<Rightarrow> int \<Rightarrow> json \<Rightarrow> bool \<Rightarrow> pystr \<times> model_config option \<times> pystr list" where
  "route_task_standalone task description context quality benchmark =
     (let s = classify_task task description context quality benchmark
      in (gs_model s, get_model_constraints (gs_model s), gs_evidence s))"

section \<open>Escalation\<close>

datatype routing_decision = ACCEPT | ACCEPT_NEEDS_VERIFICATION | REJECT | RETRY_LOCAL | ESCALATE_TO_CODEX
  | ESCALATE_TO_P40 | ESCALATE_TO_SECOND_SHIFT | BLOCKED

fun decision_value :: "routing_decision \<Rightarrow> pystr" where
  "decision_value ACCEPT = ''accept''"
| "decision_value ACCEPT_NEEDS_VERIFICATION = ''accept_needs_verification''"
| "decision_value REJECT = ''reject''"
| "decision_value RETRY_LOCAL = ''retry_local''"
| "decision_value ESCALATE_TO_CODEX = ''escalate_to_codex''"
| "decision_value ESCALATE_TO_P40 = ''escalate_to_p40''"
| "decision_value ESCALATE_TO_SECOND_SHIFT = ''escalate_to_second_shift''"
| "decision_value BLOCKED = ''blocked''"

record escalation_result =
  er_decision :: routing_decision
  er_target :: pystr
  er_reason :: pystr
  er_evidence :: "pystr list"
  er_fresh :: bool
  er_attempt :: int
  er_gtx :: int
  er_p40 :: int

text \<open>The arguments of \<open>evaluate_failure\<close>.\<close>

record failure_case =
  fc_kind :: pystr
  fc_findings :: "pystr list"
  fc_review :: "pystr option"
  fc_architectural :: bool
  fc_cross_file :: bool
  fc_repeated :: bool
  fc_attempt :: int
  fc_gtx :: int
  fc_p40 :: int
  fc_workflow :: pystr

definition max_gtx_attempts :: int where
  "max_gtx_attempts = 3"

definition max_p40_attempts :: int where
  "max_p40_attempts = 3"

definition gtx_substantive_kinds :: "pystr list" where
  "gtx_substantive_kinds = [''partial_code'', ''incorrect_code'', ''tests_failed'']"

definition is_substantive_failure :: "pystr \<Rightarrow> bool" where
  "is_substantive_failure k = (k \<in> set gtx_substantive_kinds)"

text \<open>A result with the counters of the case.\<close>

definition escalated :: "failure_case \<Rightarrow> routing_decision \<Rightarrow> pystr \<Rightarrow> pystr \<Rightarrow> pystr list \<Rightarrow> escalation_result" where
  "escalated c d target reason evidence = \<lparr>er_decision = d, er_target = target, er_reason = reason, er_evidence = evidence,
     er_fresh = False, er_attempt = fc_attempt c, er_gtx = fc_gtx c, er_p40 = fc_p40 c\<rparr>"

definition handle_non_substantive :: "failure_case \<Rightarrow> escalation_result" where
  "handle_non_substantive c = (if max_p40_attempts < fc_attempt c
     then (let target = (if fc_workflow c = ''layered_review'' then ''second_shift'' else ''codex'') in
       escalated c (if target = ''second_shift'' then ESCALATE_TO_SECOND_SHIFT else ESCALATE_TO_CODEX) target
         (''Exceeded non-substantive P40 retry limit ('' @ show_int max_p40_attempts @ '') after '' @ fc_kind c)
         [''classification='' @ fc_kind c, ''attempt='' @ show_int (fc_attempt c), ''limit='' @ show_int max_p40_attempts])
     else escalated c RETRY_LOCAL ''p40_qwen35'' (''Non-substantive failure: '' @ fc_kind c) [''classification='' @ fc_kind c])"

definition handle_acceptance :: "failure_case \<Rightarrow> escalation_result" where
  "handle_acceptance c = (escalated c ACCEPT_NEEDS_VERIFICATION ''codex''
     ''Implementation accepted, requires Codex verification'' [''classification=success''])\<lparr>er_fresh := True\<rparr>"

text \<open>The code lowers the text; the keywords stay as they are written.\<close>

definition find_keyword :: "pystr \<Rightarrow> pystr list \<Rightarrow> bool" where
  "find_keyword text ks = has_keyword (lower text) ks"

definition check_escalation_triggers :: "failure_case \<Rightarrow> pystr option" where
  "check_escalation_triggers c = (let review = lower (case fc_review c of None \<Rightarrow> [] | Some t \<Rightarrow> t) in
     if fc_architectural c then Some ''architectural_misunderstanding''
     else if fc_cross_file c then Some ''cross_file_contract_breakage''
     else if fc_repeated c then Some ''repeated_conceptual_error''
     else if find_keyword review [''architectural'', ''misunderstand'', ''wrong design'', ''fundamental error'', ''root cause'',
       ''deeply flawed''] then Some ''architectural_misunderstanding''
     else if find_keyword review [''multiple files'', ''cross-file'', ''contract break'', ''interface mismatch'', ''API change'',
       ''schema drift''] then Some ''cross_file_contract_breakage''
     else if find_keyword review [''same error'', ''repeated'', ''again'', ''still'', ''recurring'', ''persistent'']
       then Some ''repeated_conceptual_error''
     else if find_keyword review [''solves test'', ''passes test'', ''test passes'', ''doesn'' @ [CHR 0x27] @ ''t meet requirement'',
       ''acceptance criterion''] then Some ''solves_test_instead_of_acceptance_criterion''
     else if 5 < length (fc_findings c) then Some ''unrelated_files_repeatedly_changed''
     else None)"

definition handle_escalation :: "failure_case \<Rightarrow> pystr \<Rightarrow> escalation_result" where
  "handle_escalation c reason = (let evidence = [''reason='' @ reason, ''attempt='' @ show_int (fc_attempt c)] in
     if reason \<in> {''architectural_misunderstanding'', ''cross_file_contract_breakage''}
     then escalated c ESCALATE_TO_CODEX ''codex'' (''Escalate to Codex: '' @ reason) evidence
     else if reason \<in> {''repeated_conceptual_error'', ''solves_test_instead_of_acceptance_criterion''}
     then escalated c ESCALATE_TO_P40 ''p40_qwen35'' (''Escalate to P40: '' @ reason) evidence
     else if fc_workflow c = ''layered_review''
     then escalated c ESCALATE_TO_SECOND_SHIFT ''second_shift'' (''Escalate to Second Shift: '' @ reason) evidence
     else escalated c ESCALATE_TO_CODEX ''codex'' (''Escalate to Codex: '' @ reason) evidence)"

definition handle_retry_local :: "failure_case \<Rightarrow> escalation_result" where
  "handle_retry_local c = (
     if fc_workflow c = ''direct_escalation'' \<and> max_p40_attempts < fc_attempt c
     then escalated c ESCALATE_TO_CODEX ''codex'' (''Exceeded P40 attempt limit ('' @ show_int max_p40_attempts @ '')'')
       [''attempt='' @ show_int (fc_attempt c), ''limit='' @ show_int max_p40_attempts]
     else if fc_workflow c \<noteq> ''direct_escalation'' \<and> max_gtx_attempts \<le> fc_gtx c
     then escalated c ESCALATE_TO_SECOND_SHIFT ''second_shift'' (''Exceeded GTX attempt limit ('' @ show_int max_gtx_attempts @ '')'')
       [''gtx_failures='' @ show_int (fc_gtx c), ''limit='' @ show_int max_gtx_attempts]
     else escalated c RETRY_LOCAL ''p40_qwen35'' ''Retry local with bounded correction'' [''attempt='' @ show_int (fc_attempt c)])"

definition evaluate_failure :: "failure_case \<Rightarrow> escalation_result" where
  "evaluate_failure c = (
     if fc_kind c = ''success'' then handle_acceptance c
     else if \<not> is_substantive_failure (fc_kind c) then handle_non_substantive c
     else (case check_escalation_triggers c of
         Some reason \<Rightarrow> if reason \<noteq> [] then handle_escalation c reason else handle_retry_local c
       | None \<Rightarrow> handle_retry_local c))"

definition get_retry_guidance :: "pystr list \<Rightarrow> pystr" where
  "get_retry_guidance findings = (if findings = [] then ''Retry with same goal, apply corrections from review.''
     else ''Retry with same goal. Corrections needed:'' @ [CHR 0x0A] @
       concat (map (\<lambda>(i, f). ''  '' @ show_nat i @ ''. '' @ f @ [CHR 0x0A]) (enumerate 1 (take 5 findings))))"

end
