(* ===== verification/Shift.thy ===== *)
theory Shift
  imports Escalation "HOL-Library.AList" "HOL-Library.Product_Lexorder"
begin

text \<open>
  The durable state of Second Shift (src/second_shift/state.py): a registry and a ledger, two files that
  \<open>update_state\<close> reads, transforms and writes under one lock.  Each file is replaced atomically, one after
  the other; every file operation may raise OSError or be the last of a killed process.  The registry is
  a record of the keys this package writes, an absent key being \<open>None\<close>; keys of other packages are kept
  as they are and left out.  The pure operations on it are those of registry.py.
\<close>

section \<open>Data\<close>

record smodel =
  sm_id :: pystr
  sm_status :: pystr
  sm_credit :: "pystr option"
  sm_credit_evidence :: "pystr list option"
  sm_exhausted_at :: "int option"
  sm_recovery_evidence :: "pystr list option"
  sm_recovered_at :: "int option"
  sm_counts :: "(pystr \<times> int) list"
  sm_quarantined_at :: "int option"
  sm_reason :: "pystr option"
  sm_review_required :: bool
  sm_reviewed_by :: "pystr option"
  sm_reviewed_at :: "int option"
  sm_review_evidence :: "pystr option"
  sm_artifact :: "pystr option"
  sm_success_at :: "int option"
  sm_unavailable :: "(pystr list \<times> int) option"

record pool =
  pl_usable :: "nat option"
  pl_last :: "nat option"
  pl_to_two :: nat
  pl_to_four :: nat
  pl_members :: "pystr list"
  pl_original :: "pystr list"
  pl_transition_at :: "int option"
  pl_observed_at :: "int option"
  pl_events :: "(pystr \<times> pystr list \<times> int) list"

record transition =
  tr_from :: pystr
  tr_to :: pystr
  tr_reason :: pystr
  tr_goal :: pystr
  tr_at :: int

record dispatcher =
  dp_failures :: "(pystr \<times> int) list"
  dp_selected :: "pystr option"
  dp_decision :: "pystr option"
  dp_workflow :: "pystr option"
  dp_repair :: "bool option"
  dp_routed_at :: "int option"
  dp_attempt_at :: "int option"
  dp_transition :: "transition option"
  dp_gtx_used :: "bool option"
  dp_gtx_config :: "model_config option option"
  dp_gtx_error :: "pystr option"
  dp_gtx_counts :: "(int \<times> int \<times> int) option"

text \<open>The namespace of the GTX broker in the registry (gtx_broker/state.py).\<close>

record gtx_settings =
  st_gtx_threshold :: int
  st_p40_threshold :: int
  st_quality :: pystr
  st_direct :: bool

record gtx_broker =
  gb_current :: "gtx_state option"
  gb_history :: "gtx_state list"
  gb_transitions :: "provider_move list"
  gb_settings :: gtx_settings

text \<open>The counters of the backlog runner, and what the execution adapter keeps of an item: the phase its execution
  has reached and the results so far.\<close>

record runner_state =
  rn_updated :: "int option"
  rn_claimed :: int
  rn_completed :: int
  rn_errors :: int

record execution_request =
  xr_id :: pystr
  xr_title :: pystr
  xr_description :: pystr
  xr_criteria :: "pystr list"
  xr_repository :: pystr
  xr_worktree :: pystr
  xr_context :: int
  xr_quality :: json
  xr_benchmark :: bool
  xr_guidance :: pystr
  xr_workflow :: pystr
  xr_model :: pystr

record worker_result =
  wr_success :: bool
  wr_class :: pystr
  wr_summary :: pystr
  wr_files :: "pystr list"
  wr_output :: pystr
  wr_passed :: bool
  wr_exit :: int
  wr_evidence :: "pystr list"

record verification =
  vf_passed :: bool
  vf_evidence :: "pystr list"
  vf_kind :: pystr
  vf_reviewer :: "pystr option"

record item_execution =
  xc_phase :: "pystr option"
  xc_updated :: "int option"
  xc_status :: "pystr option"
  xc_attempts :: "int option"
  xc_model :: "pystr option"
  xc_workflow :: "pystr option"
  xc_request :: "execution_request option"
  xc_pid :: "int option"
  xc_worker :: "worker_result option"
  xc_tests :: "verification option"
  xc_self :: "verification option"
  xc_review :: "verification option"
  xc_final :: "verification option"
  xc_class :: "pystr option"
  xc_evidence :: "pystr list option"
  xc_recorded :: "bool option"
  xc_reason :: "pystr option"
  xc_error :: "pystr option"

record registry_doc =
  rg_models :: "smodel list option"
  rg_pool :: "pool option"
  rg_dispatch :: "dispatcher option"
  rg_gtx :: "gtx_broker option"
  rg_items :: "json option"
  rg_runner :: "runner_state option"
  rg_execution :: "(pystr \<times> item_execution) list option"

record failure_entry =
  fe_model :: pystr
  fe_provider :: pystr
  fe_goal :: pystr
  fe_class :: pystr
  fe_at :: int
  fe_kind :: pystr
  fe_credit :: pystr
  fe_substantive :: bool
  fe_count :: int
  fe_status :: pystr
  fe_evidence :: "pystr list"
  fe_transition :: "int option"
  fe_action :: "pystr option"
  fe_artifact :: "pystr option"
  fe_reviewer :: "pystr option"
  fe_notes :: "pystr option"

record attempt_entry =
  ae_goal :: pystr
  ae_class :: pystr
  ae_model :: pystr
  ae_provider :: pystr
  ae_kind :: pystr
  ae_credit :: pystr
  ae_substantive :: bool
  ae_number :: nat
  ae_reviewer :: "pystr option"
  ae_outcome :: "pystr option"
  ae_review_evidence :: "pystr option"
  ae_decision :: "pystr option"
  ae_final :: bool
  ae_role :: pystr
  ae_at :: int
  ae_evidence :: "pystr list"

record broker_entry =
  be_goal :: pystr
  be_model :: pystr
  be_config :: "model_config option"
  be_evidence :: "pystr list"
  be_class :: "pystr option"
  be_at :: "int option"

record backlog_entry =
  bl_id :: pystr
  bl_old :: pystr
  bl_new :: pystr
  bl_reason :: "pystr option"
  bl_at :: int

datatype entry = FailureEntry failure_entry | AttemptEntry attempt_entry | TransitionEntry transition
  | BrokerEntry broker_entry | BacklogEntry backlog_entry

section \<open>The state file\<close>

text \<open>The world: what each file operation does, the clock, the order in which a Python set is iterated, the text of
  an exception that carries none in the model, and what reading the backlog manifest gives at each moment.\<close>

record senv =
  se_fault :: "nat \<Rightarrow> fault"
  se_clock :: "nat \<Rightarrow> int"
  se_order :: "pystr list \<Rightarrow> pystr list"
  se_text :: "exn \<Rightarrow> pystr"
  se_manifest :: "nat \<Rightarrow> exn + json"

record sfile =
  ss_registry :: registry_doc
  ss_ledger :: "entry list"
  ss_tick :: nat

type_synonym 'a shift = "(senv, sfile, 'a) prog"

definition shift_step :: "(sfile \<Rightarrow> sfile) \<Rightarrow> (sfile \<Rightarrow> 'a) \<Rightarrow> 'a shift" where
  "shift_step f g env s = (let t = s\<lparr>ss_tick := ss_tick s + 1\<rparr> in case se_fault env (ss_tick s) of
     Fine \<Rightarrow> (Ok (g s), f t) | Fails _ \<Rightarrow> (Raised OsErr, t) | Dies b \<Rightarrow> (Died, if b then f t else t))"

definition read_registry :: "registry_doc shift" where
  "read_registry = shift_step id ss_registry"

definition read_ledger :: "entry list shift" where
  "read_ledger = shift_step id ss_ledger"

definition write_registry :: "registry_doc \<Rightarrow> unit shift" where
  "write_registry r = shift_step (\<lambda>s. s\<lparr>ss_registry := r\<rparr>) (\<lambda>_. ())"

definition write_ledger :: "entry list \<Rightarrow> unit shift" where
  "write_ledger es = shift_step (\<lambda>s. s\<lparr>ss_ledger := es\<rparr>) (\<lambda>_. ())"

definition shift_now :: "int shift" where
  "shift_now env s = (Ok (se_clock env (ss_tick s)), s)"

text \<open>A mutator gets one reading of the clock and the registry and the ledger, and may raise.\<close>

type_synonym mutator = "int \<Rightarrow> registry_doc \<Rightarrow> entry list \<Rightarrow> exn + registry_doc \<times> entry list"

text \<open>One transaction; \<open>'a\<close> is what the mutator hands to its caller besides the new documents.\<close>

definition transaction :: "(int \<Rightarrow> registry_doc \<Rightarrow> entry list \<Rightarrow> exn + (registry_doc \<times> entry list) \<times> 'a)
    \<Rightarrow> (registry_doc \<times> 'a) shift" where
  "transaction m = io_bind read_registry (\<lambda>r. io_bind read_ledger (\<lambda>es. io_bind shift_now (\<lambda>now.
     case m now r es of Inl e \<Rightarrow> io_raise e
     | Inr ((r', es'), a) \<Rightarrow> io_then (write_registry r') (io_then (write_ledger es') (io_ret (r', a))))))"

definition update_state :: "mutator \<Rightarrow> registry_doc shift" where
  "update_state m = io_bind (transaction (\<lambda>now r es. case m now r es of Inl e \<Rightarrow> Inl e | Inr x \<Rightarrow> Inr (x, ())))
     (\<lambda>(r, _). io_ret r)"

definition get_registry :: "registry_doc shift" where
  "get_registry = read_registry"

definition save_registry :: "registry_doc \<Rightarrow> unit shift" where
  "save_registry r = write_registry r"

definition append_ledger_entry :: "entry \<Rightarrow> unit shift" where
  "append_ledger_entry e = io_bind read_ledger (\<lambda>es. write_ledger (es @ [e]))"

definition get_ledger_entries :: "entry list shift" where
  "get_ledger_entries = read_ledger"

definition save_ledger_entries :: "entry list \<Rightarrow> unit shift" where
  "save_ledger_entries es = write_ledger es"

definition clear_ledger :: "unit shift" where
  "clear_ledger = write_ledger []"

section \<open>The model registry\<close>

definition strike_limit :: int where
  "strike_limit = 3"

definition models_of :: "registry_doc \<Rightarrow> smodel list" where
  "models_of r = (case rg_models r of None \<Rightarrow> [] | Some ms \<Rightarrow> ms)"

definition find_model :: "pystr \<Rightarrow> registry_doc \<Rightarrow> smodel option" where
  "find_model i r = find (\<lambda>m. sm_id m = i) (models_of r)"

text \<open>The loops over the models change the first one of the id.\<close>

fun at_first :: "pystr \<Rightarrow> (smodel \<Rightarrow> smodel) \<Rightarrow> smodel list \<Rightarrow> smodel list" where
  "at_first i f [] = []"
| "at_first i f (m # ms) = (if sm_id m = i then f m # ms else m # at_first i f ms)"

definition on_model :: "pystr \<Rightarrow> (smodel \<Rightarrow> smodel) \<Rightarrow> registry_doc \<Rightarrow> registry_doc" where
  "on_model i f r = r\<lparr>rg_models := map_option (at_first i f) (rg_models r)\<rparr>"

definition count_of :: "pystr \<Rightarrow> smodel \<Rightarrow> int" where
  "count_of g m = (case map_of (sm_counts m) g of None \<Rightarrow> 0 | Some n \<Rightarrow> n)"

definition put_count :: "pystr \<Rightarrow> int \<Rightarrow> smodel \<Rightarrow> smodel" where
  "put_count g n m = m\<lparr>sm_counts := AList.update g n (sm_counts m)\<rparr>"

definition quarantined :: "int \<Rightarrow> pystr \<Rightarrow> smodel \<Rightarrow> smodel" where
  "quarantined now reason m = m\<lparr>sm_status := ''unusable'', sm_quarantined_at := Some now, sm_reason := Some reason,
     sm_review_required := True\<rparr>"

definition strike_out :: "int \<Rightarrow> pystr \<Rightarrow> int \<Rightarrow> smodel \<Rightarrow> smodel" where
  "strike_out now g n m = (if strike_limit \<le> n \<and> sm_status m = ''active''
     then quarantined now (show_int strike_limit @ '' substantive failures for '' @ g) (put_count g n m)
     else put_count g n m)"

definition substantive_count :: "pystr \<Rightarrow> pystr \<Rightarrow> registry_doc \<Rightarrow> int" where
  "substantive_count i g r = (case find_model i r of None \<Rightarrow> 0 | Some m \<Rightarrow> count_of g m)"

definition increment_failure :: "int \<Rightarrow> pystr \<Rightarrow> pystr \<Rightarrow> registry_doc \<Rightarrow> registry_doc" where
  "increment_failure now i g = on_model i (\<lambda>m. strike_out now g (count_of g m + 1) m)"

definition decrement_failure :: "pystr \<Rightarrow> pystr \<Rightarrow> registry_doc \<Rightarrow> registry_doc" where
  "decrement_failure i g = on_model i (\<lambda>m. put_count g (max 0 (count_of g m - 1)) m)"

definition set_failure_count :: "int \<Rightarrow> pystr \<Rightarrow> pystr \<Rightarrow> int \<Rightarrow> registry_doc \<Rightarrow> exn + registry_doc" where
  "set_failure_count now i g n r = (if n < 0 then Inl (ValueErr ''failure count cannot be negative'')
     else Inr (on_model i (strike_out now g n) r))"

definition reactivated :: "int \<Rightarrow> pystr \<Rightarrow> pystr \<Rightarrow> smodel \<Rightarrow> smodel" where
  "reactivated now who evidence m = m\<lparr>sm_status := ''active'', sm_review_required := False, sm_reviewed_by := Some who,
     sm_reviewed_at := Some now, sm_review_evidence := Some evidence, sm_quarantined_at := None, sm_reason := None,
     sm_counts := []\<rparr>"

definition reactivate_model :: "int \<Rightarrow> pystr \<Rightarrow> pystr option \<Rightarrow> registry_doc \<Rightarrow> pystr option \<Rightarrow> exn + registry_doc" where
  "reactivate_model now i reviewer r evidence = (
     if (case reviewer of None \<Rightarrow> True | Some w \<Rightarrow> strip w = []) then Inl (ValueErr ''reviewer identity is required'')
     else if (case evidence of None \<Rightarrow> True | Some e \<Rightarrow> strip e = []) then Inl (ValueErr ''explicit reviewer evidence is required'')
     else (case find_model i r of None \<Rightarrow> Inr r
       | Some m \<Rightarrow> if sm_status m \<noteq> ''unusable'' then Inl (ValueErr ''only quarantined models require reactivation'')
           else Inr (on_model i (reactivated now (the reviewer) (the evidence)) r)))"

definition is_model_quarantined :: "pystr \<Rightarrow> registry_doc \<Rightarrow> bool" where
  "is_model_quarantined i r = (case find_model i r of None \<Rightarrow> False | Some m \<Rightarrow> sm_status m = ''unusable'')"

definition is_model_active :: "pystr \<Rightarrow> registry_doc \<Rightarrow> bool" where
  "is_model_active i r = (case find_model i r of None \<Rightarrow> False | Some m \<Rightarrow> sm_status m = ''active'')"

definition reset_failure_counts :: "int \<Rightarrow> pystr \<Rightarrow> registry_doc \<Rightarrow> pystr option \<Rightarrow> pystr option \<Rightarrow> exn + registry_doc" where
  "reset_failure_counts now i r reviewer evidence = (if is_model_quarantined i r
     then reactivate_model now i reviewer r evidence
     else Inr (on_model i (\<lambda>m. m\<lparr>sm_counts := []\<rparr>) r))"

definition record_last_artifact :: "int \<Rightarrow> pystr \<Rightarrow> pystr \<Rightarrow> registry_doc \<Rightarrow> exn + registry_doc" where
  "record_last_artifact now i a r = (if strip a = [] then Inl (ValueErr ''artifact reference is required'')
     else Inr (on_model i (\<lambda>m. m\<lparr>sm_artifact := Some a, sm_success_at := Some now\<rparr>) r))"

definition last_artifact :: "pystr \<Rightarrow> registry_doc \<Rightarrow> pystr option" where
  "last_artifact i r = (case find_model i r of None \<Rightarrow> None | Some m \<Rightarrow> sm_artifact m)"

definition quarantine_model :: "int \<Rightarrow> pystr \<Rightarrow> pystr \<Rightarrow> registry_doc \<Rightarrow> exn + registry_doc" where
  "quarantine_model now i reason r = (if strip reason = [] then Inl (ValueErr ''quarantine reason is required'')
     else Inr (on_model i (quarantined now reason) r))"

definition select_best_model :: "pystr \<Rightarrow> registry_doc \<Rightarrow> pystr option" where
  "select_best_model g r = (case sort_key (\<lambda>m. (count_of g m, sm_id m)) (filter (\<lambda>m. sm_status m = ''active'') (models_of r)) of
     [] \<Rightarrow> None | m # _ \<Rightarrow> Some (sm_id m))"

definition get_pool_stats :: "registry_doc \<Rightarrow> (pystr \<times> nat) list" where
  "get_pool_stats r = map (\<lambda>st. (st, length (filter (\<lambda>m. sm_status m = st) (models_of r))))
     [''active'', ''unusable'', ''blocked'', ''standby'']"

end
