(* ===== verification/ShiftHealth.thy ===== *)
theory ShiftHealth
  imports Shift
begin

text \<open>
  The health of the models: credit states (second_shift/credit_state.py), the failure ledger
  (second_shift/ledger.py) and the recovery of the pool (second_shift/pool_recovery.py).  Every operation is
  one \<open>update_state\<close> transaction; the registry a caller supplies seeds an empty state directory.
\<close>

section \<open>Credit states\<close>

definition credit_states :: "pystr list" where
  "credit_states = [''available'', ''exhausted'', ''low'', ''unknown'']"

definition validate_credit_status :: "pystr \<Rightarrow> pystr list" where
  "validate_credit_status st = (if st \<in> set credit_states then []
     else [''Invalid credit status: '' @ st @ ''. Must be one of: '' @ join '', '' credit_states])"

definition get_credit_status :: "pystr \<Rightarrow> registry_doc \<Rightarrow> pystr" where
  "get_credit_status i r = (case find_model i r of None \<Rightarrow> ''unknown''
     | Some m \<Rightarrow> (case sm_credit m of None \<Rightarrow> ''unknown'' | Some c \<Rightarrow> c))"

definition seeded :: "registry_doc \<Rightarrow> registry_doc \<Rightarrow> registry_doc" where
  "seeded supplied r = (if models_of r \<noteq> [] then r else supplied)"

text \<open>The transaction shared by the credit updates: the model must be in the registry that is used.\<close>

definition on_known :: "registry_doc \<Rightarrow> pystr \<Rightarrow> (int \<Rightarrow> smodel \<Rightarrow> smodel) \<Rightarrow> mutator" where
  "on_known supplied i f now r es = (let r' = seeded supplied r in
     if find_model i r' = None then Inl (ValueErr (''Unknown model: '' @ i)) else Inr (on_model i (f now) r', es))"

definition good_evidence :: "pystr list option \<Rightarrow> bool" where
  "good_evidence ev = (case ev of None \<Rightarrow> False | Some es \<Rightarrow> es \<noteq> [] \<and> list_all (\<lambda>e. strip e \<noteq> []) es)"

definition set_credit :: "pystr \<Rightarrow> pystr list option \<Rightarrow> bool \<Rightarrow> int \<Rightarrow> smodel \<Rightarrow> smodel" where
  "set_credit st ev explicit now m = (let m' = m\<lparr>sm_credit := Some st\<rparr> in
     if explicit \<and> st = ''exhausted''
     then m'\<lparr>sm_credit_evidence := Some (case ev of None \<Rightarrow> [] | Some es \<Rightarrow> es), sm_exhausted_at := Some now\<rparr>
     else if st = ''exhausted'' then m'\<lparr>sm_credit_evidence := None, sm_exhausted_at := None\<rparr>
     else m')"

definition update_credit :: "registry_doc \<Rightarrow> pystr \<Rightarrow> pystr \<Rightarrow> pystr list option \<Rightarrow> bool \<Rightarrow> registry_doc shift" where
  "update_credit supplied i st ev explicit = (
     if validate_credit_status st \<noteq> [] then io_raise (ValueErr (join ''; '' (validate_credit_status st)))
     else if find_model i supplied = None then io_raise (ValueErr (''Unknown model: '' @ i))
     else if st = ''exhausted'' \<and> \<not> explicit then io_raise (ValueErr ''Credit status 'exhausted' may be set only from explicit provider/account evidence. Use is_explicit_provider_evidence=True with evidence for exhausted.'')
     else if st = ''exhausted'' \<and> \<not> good_evidence ev then io_raise (ValueErr ''exhausted credit status requires non-empty provider/account evidence'')
     else io_then (update_state (on_known supplied i (set_credit st ev explicit))) get_registry)"

definition recovered_credit :: "pystr \<Rightarrow> pystr list option \<Rightarrow> int \<Rightarrow> smodel \<Rightarrow> smodel" where
  "recovered_credit st ev now m = (let m' = m\<lparr>sm_credit := Some st, sm_credit_evidence := None, sm_exhausted_at := None\<rparr> in
     case ev of None \<Rightarrow> m' | Some es \<Rightarrow> if es = [] then m'
       else m'\<lparr>sm_recovery_evidence := Some es, sm_recovered_at := Some now\<rparr>)"

definition recover_credit :: "registry_doc \<Rightarrow> pystr \<Rightarrow> pystr \<Rightarrow> pystr list option \<Rightarrow> registry_doc shift" where
  "recover_credit supplied i st ev = (
     if validate_credit_status st \<noteq> [] then io_raise (ValueErr (join ''; '' (validate_credit_status st)))
     else if st = ''exhausted'' then io_raise (ValueErr ''Recovery must be to available/low/unknown, not exhausted'')
     else if find_model i supplied = None then io_raise (ValueErr (''Unknown model: '' @ i))
     else io_then (update_state (on_known supplied i (recovered_credit st ev))) get_registry)"

definition set_substantive_count :: "pystr \<Rightarrow> pystr \<Rightarrow> int \<Rightarrow> registry_doc \<Rightarrow> registry_doc shift" where
  "set_substantive_count i g n supplied =
     io_then (update_state (on_known supplied i (\<lambda>_. put_count g n))) get_registry"

section \<open>The failure ledger\<close>

definition substantive_kinds :: "pystr list" where
  "substantive_kinds = [''partial_code'', ''incorrect_code'', ''tests_failed'']"

definition is_substantive :: "pystr \<Rightarrow> bool" where
  "is_substantive k = (k \<in> set substantive_kinds)"

definition failure_kinds :: "pystr list" where
  "failure_kinds = [''no_code'', ''partial_code'', ''incorrect_code'', ''tests_failed'', ''timeout'', ''endpoint_unavailable'',
     ''authentication'', ''credit_exhausted'', ''rate_limited'', ''policy_refusal'', ''context_limit'', ''unknown'']"

text \<open>The arguments of \<open>record_failure\<close>.\<close>

record failure_report =
  fr_model :: pystr
  fr_provider :: pystr
  fr_goal :: pystr
  fr_class :: pystr
  fr_kind :: pystr
  fr_evidence :: "pystr list"
  fr_credit :: pystr
  fr_artifact :: "pystr option"
  fr_reviewer :: "pystr option"
  fr_notes :: "pystr option"
  fr_transition :: "int option"
  fr_action :: "pystr option"

text \<open>\<open>validate_entry\<close> on a candidate with every field present.\<close>

definition validate_entry :: "failure_report \<Rightarrow> pystr list" where
  "validate_entry f = (if fr_evidence f = [] then [''evidence must be a non-empty list''] else []) @
     (if fr_kind f \<in> set failure_kinds then [] else [''Invalid classification: '' @ fr_kind f]) @
     (if fr_credit f \<in> set credit_states then [] else [''Invalid credit status: '' @ fr_credit f])"

definition failure_entry_of :: "failure_report \<Rightarrow> int \<Rightarrow> registry_doc \<Rightarrow> failure_entry" where
  "failure_entry_of f now r = \<lparr>fe_model = fr_model f, fe_provider = fr_provider f, fe_goal = fr_goal f, fe_class = fr_class f,
     fe_at = now, fe_kind = fr_kind f, fe_credit = fr_credit f, fe_substantive = is_substantive (fr_kind f),
     fe_count = substantive_count (fr_model f) (fr_class f) r,
     fe_status = (case find_model (fr_model f) r of None \<Rightarrow> ''unknown'' | Some m \<Rightarrow> sm_status m),
     fe_evidence = fr_evidence f, fe_transition = fr_transition f, fe_action = fr_action f,
     fe_artifact = fr_artifact f, fe_reviewer = fr_reviewer f, fe_notes = fr_notes f\<rparr>"

definition record_failure :: "failure_report \<Rightarrow> registry_doc \<Rightarrow> registry_doc shift" where
  "record_failure f supplied = io_bind shift_now (\<lambda>t0.
     if validate_entry f \<noteq> [] then io_raise (ValueErr (join ''; '' (validate_entry f))) else
     update_state (\<lambda>now r es. let cur = seeded supplied r;
         new = (if is_substantive (fr_kind f) then increment_failure now (fr_model f) (fr_class f) cur else cur) in
       Inr (new, es @ [FailureEntry (failure_entry_of f t0 new)])))"

definition succeeded_with :: "pystr \<Rightarrow> pystr \<Rightarrow> int \<Rightarrow> smodel \<Rightarrow> smodel" where
  "succeeded_with g a now m = (put_count g 0 m)\<lparr>sm_artifact := Some a, sm_success_at := Some now\<rparr>"

definition record_success :: "pystr \<Rightarrow> pystr \<Rightarrow> pystr \<Rightarrow> registry_doc \<Rightarrow> registry_doc shift" where
  "record_success i g a supplied = (
     if strip a = [] then io_raise (ValueErr ''successful artifact reference is required'') else
     update_state (\<lambda>now r es. let cur = seeded supplied r in
       if find_model i cur = None then Inl (ValueErr (''unknown model: '' @ i))
       else Inr (on_model i (succeeded_with g a now) cur, es)))"

fun failures_of :: "pystr \<Rightarrow> pystr option \<Rightarrow> entry list \<Rightarrow> failure_entry list" where
  "failures_of i g [] = []"
| "failures_of i g (FailureEntry e # es) = (if fe_model e = i \<and> (g = None \<or> g = Some (fe_class e))
     then e # failures_of i g es else failures_of i g es)"
| "failures_of i g (_ # es) = failures_of i g es"

definition get_failure_count :: "pystr \<Rightarrow> pystr \<Rightarrow> bool \<Rightarrow> nat shift" where
  "get_failure_count i g only = io_bind get_ledger_entries (\<lambda>es.
     io_ret (length (filter (\<lambda>e. only \<longrightarrow> fe_substantive e) (failures_of i (Some g) es))))"

section \<open>Pool recovery\<close>

definition recovery_members :: "pystr list" where
  "recovery_members = [''copilot'', ''codex'']"

definition usable :: "smodel \<Rightarrow> bool" where
  "usable m = (sm_status m = ''active'' \<and> sm_credit m \<noteq> Some ''exhausted'')"

definition usable_ids :: "registry_doc \<Rightarrow> pystr list" where
  "usable_ids r = remdups (map sm_id (filter usable (models_of r)))"

definition no_pool :: pool where
  "no_pool = \<lparr>pl_usable = None, pl_last = None, pl_to_two = 0, pl_to_four = 0, pl_members = [], pl_original = [],
     pl_transition_at = None, pl_observed_at = None, pl_events = []\<rparr>"

definition recovery_state :: "registry_doc \<Rightarrow> pool" where
  "recovery_state r = (case rg_pool r of None \<Rightarrow> no_pool | Some p \<Rightarrow> p)"

definition with_originals :: "registry_doc \<Rightarrow> pool \<Rightarrow> pool" where
  "with_originals r p = (if pl_original p \<noteq> [] then p
     else p\<lparr>pl_original := sort (remdups (filter (\<lambda>i. i \<notin> set recovery_members) (map sm_id (models_of r))))\<rparr>)"

definition set_status :: "pystr \<Rightarrow> smodel \<Rightarrow> smodel" where
  "set_status st m = m\<lparr>sm_status := st\<rparr>"

text \<open>What one observation does to the pool's record, the models and the list of actions.\<close>

definition drop_step :: "pool \<times> registry_doc \<times> pystr list \<Rightarrow> pool \<times> registry_doc \<times> pystr list" where
  "drop_step x = (case x of (p, r, acts) \<Rightarrow>
     let n = pl_to_two p + 1; p1 = p\<lparr>pl_to_two := n\<rparr>;
         target = (if n \<le> 2 then find_model (recovery_members ! (n - 1)) r else None) in
     (case target of None \<Rightarrow> (p1, r, acts)
      | Some m \<Rightarrow> let i = sm_id m in
          if i \<in> set (pl_original p1) then (p1, r, acts) else
          ((if i \<in> set (pl_members p1) then p1 else p1\<lparr>pl_members := pl_members p1 @ [i]\<rparr>),
           (if sm_status m \<noteq> ''active'' then on_model i (set_status ''active'') r else r),
           (if sm_status m \<noteq> ''active'' then acts @ [''activate_'' @ i] else acts))))"

definition rise_step :: "pool \<times> registry_doc \<times> pystr list \<Rightarrow> pool \<times> registry_doc \<times> pystr list" where
  "rise_step x = (case x of (p, r, acts) \<Rightarrow>
     let n = pl_to_four p + 1; p1 = p\<lparr>pl_to_four := n\<rparr>;
         target = (if n \<le> 2 then find_model (recovery_members ! (2 - n)) r else None) in
     (case target of None \<Rightarrow> (p1, r, acts)
      | Some m \<Rightarrow> let i = sm_id m in
          if i \<in> set (pl_members p1) \<and> i \<notin> set (pl_original p1)
          then (p1\<lparr>pl_members := remove1 i (pl_members p1)\<rparr>, on_model i (set_status ''standby'') r, acts @ [''deactivate_'' @ i])
          else (p1, r, acts)))"

definition drops_to_two :: "pool \<Rightarrow> nat \<Rightarrow> bool" where
  "drops_to_two p n = (case pl_last p of None \<Rightarrow> False | Some k \<Rightarrow> 2 < k \<and> n \<le> 2)"

definition rises_to_four :: "pool \<Rightarrow> nat \<Rightarrow> bool" where
  "rises_to_four p n = (case pl_last p of None \<Rightarrow> False | Some k \<Rightarrow> k < 4 \<and> 4 \<le> n)"

definition pool_steps :: "bool \<Rightarrow> bool \<Rightarrow> pool \<times> registry_doc \<times> pystr list \<Rightarrow> pool \<times> registry_doc \<times> pystr list" where
  "pool_steps dropped risen x = (let y = (if dropped then drop_step x else x) in if risen then rise_step y else y)"

definition noted :: "bool \<Rightarrow> bool \<Rightarrow> pystr list \<Rightarrow> int \<Rightarrow> nat \<Rightarrow> pool \<Rightarrow> pool" where
  "noted dropped risen acts now n p = (let q = (if dropped \<or> risen then p\<lparr>pl_transition_at := Some now,
       pl_events := pl_events p @ [(if dropped then ''drop_to_two'' else ''rise_to_four'', acts, now)]\<rparr> else p)
     in q\<lparr>pl_usable := Some n, pl_last := Some n, pl_observed_at := Some now\<rparr>)"

definition observe_pool :: "registry_doc \<Rightarrow> int \<Rightarrow> registry_doc \<Rightarrow> registry_doc \<times> pystr list \<times> bool \<times> bool" where
  "observe_pool seed now r0 = (let r = seeded seed r0; p = with_originals r (recovery_state r); n = length (usable_ids r);
     dropped = drops_to_two p n; risen = rises_to_four p n
   in case pool_steps dropped risen (p, r, []) of (p', r', acts) \<Rightarrow>
     (r'\<lparr>rg_pool := Some (noted dropped risen acts now n p')\<rparr>, acts, dropped, risen))"

record pool_events =
  pe_actions :: "pystr list"
  pe_to_two :: bool
  pe_to_four :: bool
  pe_usable :: "nat option"
  pe_count_two :: nat
  pe_count_four :: nat
  pe_members :: "pystr list"
  pe_original :: "pystr list"

text \<open>The events of the call are those the mutator observed in its transaction.\<close>

definition pool_events_of :: "registry_doc \<Rightarrow> pystr list \<times> bool \<times> bool \<Rightarrow> pool_events" where
  "pool_events_of r x = (case x of (acts, dropped, risen) \<Rightarrow> let p = recovery_state r in
     \<lparr>pe_actions = acts, pe_to_two = dropped, pe_to_four = risen, pe_usable = pl_usable p, pe_count_two = pl_to_two p,
      pe_count_four = pl_to_four p, pe_members = remdups (pl_members p), pe_original = remdups (pl_original p)\<rparr>)"

definition check_pool_recovery :: "registry_doc \<Rightarrow> (registry_doc \<times> pool_events) shift" where
  "check_pool_recovery seed = io_bind
     (transaction (\<lambda>now r es. case observe_pool seed now r of (r', x) \<Rightarrow> Inr ((r', es), x)))
     (\<lambda>(r, x). io_ret (r, pool_events_of r x))"

definition pool_recovery_status :: "pool shift" where
  "pool_recovery_status = io_bind get_registry (\<lambda>r. let p = recovery_state r in
     io_ret (p\<lparr>pl_members := remdups (pl_members p), pl_original := remdups (pl_original p)\<rparr>))"

end
