(* ===== verification/GtxDirector.thy ===== *)
theory GtxDirector
  imports Shift
begin

text \<open>
  The GTX broker's state in the registry of Second Shift (\<open>GTXBrokerRegistry\<close> of gtx_broker/state.py) and the
  director over it (gtx_broker/controller.py).  Each change is a \<open>get_registry\<close> and a \<open>save_registry\<close>, two locked
  accesses of their own, so a director's operation is a sequence of them that may stop after any.
\<close>

section \<open>The broker's registry\<close>

definition default_settings :: gtx_settings where
  "default_settings = \<lparr>st_gtx_threshold = 3, st_p40_threshold = 3, st_quality = ''quality'', st_direct = True\<rparr>"

definition fresh_broker :: gtx_broker where
  "fresh_broker = \<lparr>gb_current = None, gb_history = [], gb_transitions = [], gb_settings = default_settings\<rparr>"

definition broker_of :: "registry_doc \<Rightarrow> gtx_broker" where
  "broker_of r = (case rg_gtx r of None \<Rightarrow> fresh_broker | Some b \<Rightarrow> b)"

text \<open>\<open>to_dict\<close> writes every field, \<open>from_dict\<close> gives a state without a workflow the default one.\<close>

definition from_dict :: "gtx_state \<Rightarrow> gtx_state" where
  "from_dict s = s\<lparr>gs_workflow := Some (case gs_workflow s of None \<Rightarrow> DIRECT_ESCALATION | Some w \<Rightarrow> w)\<rparr>"

definition read_broker :: "gtx_broker shift" where
  "read_broker = io_bind get_registry (\<lambda>r. io_ret (broker_of r))"

definition edit_broker :: "(gtx_broker \<Rightarrow> gtx_broker) \<Rightarrow> unit shift" where
  "edit_broker f = io_bind get_registry (\<lambda>r. save_registry (r\<lparr>rg_gtx := Some (f (broker_of r))\<rparr>))"

definition get_current_state :: "gtx_state option shift" where
  "get_current_state = io_bind read_broker (\<lambda>b. io_ret (map_option from_dict (gb_current b)))"

definition newest_state :: "pystr \<Rightarrow> gtx_broker \<Rightarrow> gtx_state option" where
  "newest_state task b = (if (case gb_current b of None \<Rightarrow> False | Some s \<Rightarrow> gs_task s = task)
     then map_option from_dict (gb_current b)
     else map_option from_dict (find (\<lambda>s. gs_task s = task) (rev (gb_history b))))"

definition get_task_state :: "pystr \<Rightarrow> gtx_state option shift" where
  "get_task_state task = io_bind read_broker (\<lambda>b. io_ret (newest_state task b))"

definition set_current_state :: "gtx_state \<Rightarrow> unit shift" where
  "set_current_state s = edit_broker (\<lambda>b. b\<lparr>gb_current := Some s\<rparr>)"

definition history_limit :: nat where
  "history_limit = 100"

text \<open>\<open>history[-100:]\<close> when the history has grown past it.\<close>

definition recent :: "'a list \<Rightarrow> 'a list" where
  "recent h = (if history_limit < length h then drop (length h - history_limit) h else h)"

definition get_task_history :: "gtx_state list shift" where
  "get_task_history = io_bind read_broker (\<lambda>b. io_ret (gb_history b))"

definition append_task_history :: "gtx_state \<Rightarrow> unit shift" where
  "append_task_history s = edit_broker (\<lambda>b. b\<lparr>gb_history := recent (gb_history b @ [s])\<rparr>)"

definition get_provider_transitions :: "provider_move list shift" where
  "get_provider_transitions = io_bind read_broker (\<lambda>b. io_ret (gb_transitions b))"

definition append_provider_transition :: "provider_move \<Rightarrow> unit shift" where
  "append_provider_transition m = edit_broker (\<lambda>b. b\<lparr>gb_transitions := gb_transitions b @ [m]\<rparr>)"

definition get_settings :: "gtx_settings shift" where
  "get_settings = io_bind read_broker (\<lambda>b. io_ret (gb_settings b))"

text \<open>The keys a caller gives; the settings are a dictionary of these four.\<close>

record settings_update =
  su_gtx_threshold :: "int option"
  su_p40_threshold :: "int option"
  su_quality :: "pystr option"
  su_direct :: "bool option"

definition updated_settings :: "settings_update \<Rightarrow> gtx_settings \<Rightarrow> gtx_settings" where
  "updated_settings u st = \<lparr>
     st_gtx_threshold = (case su_gtx_threshold u of None \<Rightarrow> st_gtx_threshold st | Some x \<Rightarrow> x),
     st_p40_threshold = (case su_p40_threshold u of None \<Rightarrow> st_p40_threshold st | Some x \<Rightarrow> x),
     st_quality = (case su_quality u of None \<Rightarrow> st_quality st | Some x \<Rightarrow> x),
     st_direct = (case su_direct u of None \<Rightarrow> st_direct st | Some x \<Rightarrow> x)\<rparr>"

definition update_settings :: "settings_update \<Rightarrow> gtx_settings shift" where
  "update_settings u = io_bind get_registry (\<lambda>r. let b = broker_of r; st = updated_settings u (gb_settings b) in
     io_then (save_registry (r\<lparr>rg_gtx := Some (b\<lparr>gb_settings := st\<rparr>)\<rparr>)) (io_ret st))"

text \<open>The current state is a key of the namespace even when there is none, so its default never applies.\<close>

definition increment_failures :: "(gtx_state \<Rightarrow> int) \<Rightarrow> (gtx_state \<Rightarrow> gtx_state) \<Rightarrow> pystr \<Rightarrow> int shift" where
  "increment_failures count bump task = io_bind get_registry (\<lambda>r. let b = broker_of r in
     case gb_current b of None \<Rightarrow> io_raise AttributeErr
     | Some s \<Rightarrow> if gs_task s = task
         then io_then (save_registry (r\<lparr>rg_gtx := Some (b\<lparr>gb_current := Some (bump s)\<rparr>)\<rparr>)) (io_ret (count (bump s)))
         else io_ret (count s))"

definition increment_gtx_failures :: "pystr \<Rightarrow> int shift" where
  "increment_gtx_failures = increment_failures gs_gtx_failures (\<lambda>s. s\<lparr>gs_gtx_failures := gs_gtx_failures s + 1\<rparr>)"

definition increment_p40_failures :: "pystr \<Rightarrow> int shift" where
  "increment_p40_failures = increment_failures gs_p40_failures (\<lambda>s. s\<lparr>gs_p40_failures := gs_p40_failures s + 1\<rparr>)"

section \<open>The director\<close>

record routing_request =
  rq_task :: pystr
  rq_description :: pystr
  rq_context :: int
  rq_quality :: json
  rq_benchmark :: bool
  rq_workflow :: pystr
  rq_kind :: "pystr option"
  rq_findings :: "pystr list option"
  rq_review :: "pystr option"
  rq_attempt :: int
  rq_gtx :: int
  rq_p40 :: int

record routing_response =
  rs_task :: pystr
  rs_decision :: routing_decision
  rs_worker :: pystr
  rs_config :: "model_config option"
  rs_reason :: pystr
  rs_evidence :: "pystr list"
  rs_verify :: bool
  rs_attempt :: int
  rs_gtx :: int
  rs_p40 :: int
  rs_at :: "int option"
  rs_workflow :: pystr

definition map_worker_to_decision :: "pystr \<Rightarrow> routing_decision" where
  "map_worker_to_decision w = (case map_of [(''gtx_iq3_xs'', RETRY_LOCAL), (''gtx_q2_k'', RETRY_LOCAL),
     (''p40_qwen35'', ESCALATE_TO_P40), (''codex'', ESCALATE_TO_CODEX), (''second_shift'', ESCALATE_TO_SECOND_SHIFT)] w of
     None \<Rightarrow> RETRY_LOCAL | Some d \<Rightarrow> d)"

definition generate_reason :: "gtx_state \<Rightarrow> routing_request \<Rightarrow> pystr" where
  "generate_reason s q = (if has_text (rq_kind q) then ''Routing based on previous classification: '' @ the (rq_kind q)
     else ''Task classification: '' @ gs_class s @ ''; '' @
       (if gs_class s = ''benchmark_validation'' then ''requires benchmark evidence''
        else if gs_class s = ''large_context'' then ''context_size='' @ show_int (gs_context s) @ '' exceeds GTX limit''
        else if gs_class s = ''complex_reasoning'' then ''requires architectural reasoning''
        else if gs_quality s = ''quality'' then ''quality-focused routing''
        else ''speed-focused routing''))"

definition policy_workflow :: "pystr \<Rightarrow> pystr" where
  "policy_workflow w = (if w = ''gtx_direct_escalation'' then ''direct_escalation'' else w)"

text \<open>Steps 1 and 2: the state of the request, its time not yet set.\<close>

definition requested_state :: "routing_request \<Rightarrow> exn + gtx_state" where
  "requested_state q = (let s = classify_task (rq_task q) (rq_description q) (rq_context q) (rq_quality q) (rq_benchmark q) in
     if has_text (rq_kind q) \<and> 0 < rq_attempt q
     then (let e = evaluate_failure \<lparr>fc_kind = the (rq_kind q), fc_findings = (case rq_findings q of None \<Rightarrow> [] | Some f \<Rightarrow> f),
             fc_review = rq_review q, fc_architectural = False, fc_cross_file = False, fc_repeated = False,
             fc_attempt = rq_attempt q, fc_gtx = rq_gtx q, fc_p40 = rq_p40 q, fc_workflow = policy_workflow (rq_workflow q)\<rparr>
       in Inr (s\<lparr>gs_model := er_target e, gs_gtx_failures := er_gtx e, gs_p40_failures := er_p40 e,
            gs_attempt := rq_attempt q + 1, gs_evidence := gs_evidence s @ [''escalation_reason='' @ er_reason e]\<rparr>))
     else (case broker_workflow_of (policy_workflow (rq_workflow q)) of Inl e \<Rightarrow> Inl e
       | Inr w \<Rightarrow> Inr (s\<lparr>gs_workflow := Some w, gs_attempt := 1\<rparr>)))"

definition routing_response_of :: "routing_request \<Rightarrow> gtx_state \<Rightarrow> routing_response" where
  "routing_response_of q s = \<lparr>rs_task = rq_task q, rs_decision = map_worker_to_decision (gs_model s), rs_worker = gs_model s,
     rs_config = get_model_constraints (gs_model s), rs_reason = generate_reason s q, rs_evidence = gs_evidence s,
     rs_verify = (gs_model s = ''codex''), rs_attempt = gs_attempt s, rs_gtx = gs_gtx_failures s, rs_p40 = gs_p40_failures s,
     rs_at = gs_routed_at s, rs_workflow = rq_workflow q\<rparr>"

definition persist_state :: "gtx_state \<Rightarrow> unit shift" where
  "persist_state s = io_then (set_current_state s) (append_task_history s)"

definition route_request :: "routing_request \<Rightarrow> routing_response shift" where
  "route_request q = (case requested_state q of Inl e \<Rightarrow> io_raise e
   | Inr s0 \<Rightarrow> io_bind shift_now (\<lambda>now. let s = s0\<lparr>gs_routed_at := Some now\<rparr> in
       io_then (persist_state s) (io_ret (routing_response_of q s))))"

text \<open>The arguments of the director's \<open>record_attempt_result\<close>.\<close>

record attempt_result =
  at_task :: pystr
  at_kind :: pystr
  at_findings :: "pystr list"
  at_review :: "pystr option"
  at_architectural :: bool
  at_cross_file :: bool
  at_repeated :: bool
  at_workflow :: pystr

definition counted_failures :: "attempt_result \<Rightarrow> gtx_state \<Rightarrow> int \<times> int" where
  "counted_failures a s = (
     if is_substantive_failure (at_kind a) \<and> starts_with ''gtx_'' (gs_model s) then (gs_gtx_failures s + 1, gs_p40_failures s)
     else if is_substantive_failure (at_kind a) \<and> gs_model s = ''p40_qwen35'' then (gs_gtx_failures s, gs_p40_failures s + 1)
     else (gs_gtx_failures s, gs_p40_failures s))"

definition evaluated :: "attempt_result \<Rightarrow> gtx_state \<Rightarrow> escalation_result" where
  "evaluated a s = evaluate_failure \<lparr>fc_kind = at_kind a, fc_findings = at_findings a, fc_review = at_review a,
     fc_architectural = at_architectural a, fc_cross_file = at_cross_file a, fc_repeated = at_repeated a,
     fc_attempt = gs_attempt s + 1, fc_gtx = fst (counted_failures a s), fc_p40 = snd (counted_failures a s),
     fc_workflow = at_workflow a\<rparr>"

definition after_attempt :: "attempt_result \<Rightarrow> int \<Rightarrow> gtx_state \<Rightarrow> gtx_state" where
  "after_attempt a now s = s\<lparr>gs_model := er_target (evaluated a s), gs_gtx_failures := fst (counted_failures a s),
     gs_p40_failures := snd (counted_failures a s), gs_attempt := gs_attempt s + 1,
     gs_evidence := gs_evidence s @ [''result_classification='' @ at_kind a] @ at_findings a, gs_routed_at := Some now\<rparr>"

definition attempt_response :: "attempt_result \<Rightarrow> escalation_result \<Rightarrow> gtx_state \<Rightarrow> routing_response" where
  "attempt_response a e s = \<lparr>rs_task = at_task a, rs_decision = er_decision e, rs_worker = er_target e,
     rs_config = get_model_constraints (er_target e), rs_reason = er_reason e, rs_evidence = er_evidence e,
     rs_verify = er_fresh e, rs_attempt = gs_attempt s, rs_gtx = gs_gtx_failures s, rs_p40 = gs_p40_failures s,
     rs_at = gs_routed_at s, rs_workflow = at_workflow a\<rparr>"

definition record_result :: "attempt_result \<Rightarrow> routing_response shift" where
  "record_result a = io_bind (get_task_state (at_task a)) (\<lambda>found. case found of
     None \<Rightarrow> io_raise (ValueErr (''No state found for task '' @ at_task a))
   | Some s \<Rightarrow> io_bind shift_now (\<lambda>now. let e = evaluated a s; s' = after_attempt a now s in
       io_then (if er_target e \<noteq> gs_model s
           then append_provider_transition \<lparr>pm_from = gs_model s, pm_to = er_target e, pm_reason = er_reason e,
             pm_at = Some now, pm_evidence = er_evidence e\<rparr>
           else io_ret ())
         (io_then (persist_state s') (io_ret (attempt_response a e s')))))"

definition reset_task_state :: "pystr \<Rightarrow> bool shift" where
  "reset_task_state task = io_bind get_current_state (\<lambda>cur. case cur of None \<Rightarrow> io_ret False
     | Some s \<Rightarrow> if gs_task s \<noteq> task then io_ret False
         else io_bind shift_now (\<lambda>now. io_then
           (set_current_state (s\<lparr>gs_gtx_failures := 0, gs_p40_failures := 0, gs_attempt := 1, gs_routed_at := Some now\<rparr>))
           (io_ret True)))"

end
