(* ===== verification/ShiftDispatch.thy ===== *)
theory ShiftDispatch
  imports ShiftHealth GtxDirector
begin

text \<open>
  The coding dispatcher (second_shift/dispatch.py) and the role contracts it follows
  (second_shift/workflow_policy.py).  Under the workflow \<open>gtx_direct_escalation\<close> the GTX broker's director is
  asked before the transaction, and its own state changes before it.
\<close>

section \<open>Workflow contracts\<close>

record contract =
  ct_name :: pystr
  ct_primary :: pystr
  ct_reviewer :: pystr
  ct_verifier :: pystr
  ct_repair :: pystr
  ct_repair_fallback :: pystr
  ct_second_shift :: bool
  ct_max_attempts :: nat

definition default_contract :: "pystr \<Rightarrow> bool \<Rightarrow> contract" where
  "default_contract name second = \<lparr>ct_name = name, ct_primary = ''p40'', ct_reviewer = ''codex'', ct_verifier = ''codex'',
     ct_repair = ''copilot'', ct_repair_fallback = ''codex'', ct_second_shift = second, ct_max_attempts = 3\<rparr>"

definition layered_review :: contract where
  "layered_review = default_contract ''layered-review'' True"

definition direct_escalation :: contract where
  "direct_escalation = default_contract ''direct-escalation'' False"

definition get_workflow_contract :: "pystr \<Rightarrow> exn + contract" where
  "get_workflow_contract w = (case map_of (map (\<lambda>c. (ct_name c, c)) [layered_review, direct_escalation]) w of
     None \<Rightarrow> Inl (ValueErr (''Unknown coding workflow: '' @ w)) | Some c \<Rightarrow> Inr c)"

definition choose_repair_worker :: "bool \<Rightarrow> pystr" where
  "choose_repair_worker copilot = (if copilot then ''copilot'' else ''codex'')"

definition provider_events :: "pystr list" where
  "provider_events = [''provider_unavailable'', ''quota_exhausted'', ''rate_limited'', ''timeout'', ''no_response'',
     ''authentication_failure'', ''provider_refusal'']"

definition provider_transition :: "pystr \<Rightarrow> pystr \<Rightarrow> pystr \<Rightarrow> pystr \<Rightarrow> int \<Rightarrow> exn + transition" where
  "provider_transition src dst reason goal now = (
     if src \<noteq> ''copilot'' \<or> dst \<noteq> ''codex'' then Inl (ValueErr ''only Copilot-to-Codex repair failover is supported'')
     else if reason \<notin> set provider_events then Inl (ValueErr ''provider transition requires an operational reason'')
     else Inr \<lparr>tr_from = src, tr_to = dst, tr_reason = reason, tr_goal = goal, tr_at = now\<rparr>)"

section \<open>Routing\<close>

definition gtx_workflow :: pystr where
  "gtx_workflow = ''gtx_direct_escalation''"

definition empty_dispatcher :: dispatcher where
  "empty_dispatcher = \<lparr>dp_failures = [], dp_selected = None, dp_decision = None, dp_workflow = None, dp_repair = None,
     dp_routed_at = None, dp_attempt_at = None, dp_transition = None, dp_gtx_used = None, dp_gtx_config = None,
     dp_gtx_error = None, dp_gtx_counts = None\<rparr>"

definition empty_registry :: registry_doc where
  "empty_registry = \<lparr>rg_models = None, rg_pool = None, rg_dispatch = None, rg_gtx = None,
     rg_items = None, rg_runner = None, rg_execution = None\<rparr>"

definition dispatch_of :: "registry_doc \<Rightarrow> dispatcher" where
  "dispatch_of r = (case rg_dispatch r of None \<Rightarrow> empty_dispatcher | Some d \<Rightarrow> d)"

definition goal_key :: "pystr \<Rightarrow> pystr \<Rightarrow> pystr" where
  "goal_key goal cls = goal @ '':'' @ cls"

definition p40_count :: "pystr \<Rightarrow> dispatcher \<Rightarrow> int" where
  "p40_count k d = (case map_of (dp_failures d) k of None \<Rightarrow> 0 | Some n \<Rightarrow> n)"

text \<open>\<open>current.setdefault(key, value)\<close> for every key of the caller's snapshot.\<close>

definition merged :: "registry_doc \<Rightarrow> registry_doc \<Rightarrow> registry_doc" where
  "merged r s = \<lparr>rg_models = (if rg_models r = None then rg_models s else rg_models r),
     rg_pool = (if rg_pool r = None then rg_pool s else rg_pool r),
     rg_dispatch = (if rg_dispatch r = None then rg_dispatch s else rg_dispatch r),
     rg_gtx = (if rg_gtx r = None then rg_gtx s else rg_gtx r),
     rg_items = (if rg_items r = None then rg_items s else rg_items r),
     rg_runner = (if rg_runner r = None then rg_runner s else rg_runner r),
     rg_execution = (if rg_execution r = None then rg_execution s else rg_execution r)\<rparr>"

definition copilot_available :: "registry_doc \<Rightarrow> bool" where
  "copilot_available r = (case find_model ''copilot'' r of None \<Rightarrow> False | Some m \<Rightarrow> usable m)"

definition route_repair_worker :: "registry_doc \<Rightarrow> dispatcher \<Rightarrow> entry list \<Rightarrow> pystr \<Rightarrow> int
    \<Rightarrow> exn + pystr \<times> dispatcher \<times> entry list" where
  "route_repair_worker r d es goal now = (let w = choose_repair_worker (copilot_available r) in
     if w \<noteq> ''codex'' then Inr (w, d, es) else
     let reason = (case find_model ''copilot'' r of None \<Rightarrow> ''provider_unavailable''
         | Some m \<Rightarrow> if sm_credit m = Some ''exhausted'' then ''quota_exhausted'' else ''provider_unavailable'') in
     (case provider_transition ''copilot'' ''codex'' reason goal now of Inl e \<Rightarrow> Inl e
      | Inr t \<Rightarrow> Inr (w, d\<lparr>dp_transition := Some t\<rparr>, es @ [TransitionEntry t])))"

text \<open>The loop keeps the first id with the smallest count in iteration order.\<close>

fun least_failing :: "(pystr \<Rightarrow> int) \<Rightarrow> pystr list \<Rightarrow> (int \<times> pystr) option \<Rightarrow> (int \<times> pystr) option" where
  "least_failing f [] best = best"
| "least_failing f (i # is) best = least_failing f is (case best of
     None \<Rightarrow> Some (f i, i) | Some (n, j) \<Rightarrow> if f i < n then Some (f i, i) else Some (n, j))"

definition reserved_workers :: "pystr list" where
  "reserved_workers = [''p40'', ''copilot'', ''codex'']"

definition select_secondary_model :: "(pystr list \<Rightarrow> pystr list) \<Rightarrow> pystr \<Rightarrow> registry_doc \<Rightarrow> exn + pystr" where
  "select_secondary_model order cls r = (let ids = filter (\<lambda>i. i \<notin> set reserved_workers) (usable_ids r) in
     if ids = [] then Inl (ValueErr ''No usable Second Shift members available after P40 exhaustion'')
     else (case least_failing (\<lambda>i. substantive_count i cls r) (order ids) None of
         Some (_, i) \<Rightarrow> Inr i | None \<Rightarrow> Inr (hd (sort ids))))"

text \<open>The arguments of \<open>route_coding_request\<close>.\<close>

record coding_request =
  rr_goal :: pystr
  rr_class :: pystr
  rr_workflow :: pystr
  rr_repair :: bool
  rr_context :: int
  rr_quality :: json
  rr_description :: "pystr option"
  rr_benchmark :: bool

definition snapshot :: "registry_doc \<Rightarrow> registry_doc \<Rightarrow> registry_doc" where
  "snapshot supplied r = (case rg_models supplied of
     Some ms \<Rightarrow> r\<lparr>rg_models := Some ms\<rparr> | None \<Rightarrow> if models_of r = [] then merged r supplied else r)"

text \<open>What the dispatcher has of the broker: its choice, or the text of its error.\<close>

record broker_choice =
  bc_model :: pystr
  bc_config :: "model_config option"
  bc_evidence :: "pystr list"
  bc_at :: "int option"
  bc_class :: "pystr option"

definition director_request :: "coding_request \<Rightarrow> routing_request" where
  "director_request q = \<lparr>rq_task = rr_goal q, rq_description = (if has_text (rr_description q) then the (rr_description q)
       else ''Task '' @ rr_goal q @ '' ('' @ rr_class q @ '')''), rq_context = rr_context q, rq_quality = rr_quality q,
     rq_benchmark = rr_benchmark q, rq_workflow = gtx_workflow, rq_kind = None, rq_findings = None, rq_review = None,
     rq_attempt = 0, rq_gtx = 0, rq_p40 = 0\<rparr>"

text \<open>A task the broker is already on keeps the worker that its last recorded attempt chose.\<close>

definition ask_director :: "coding_request \<Rightarrow> broker_choice shift" where
  "ask_director q = io_bind get_current_state (\<lambda>cur.
     case (case cur of None \<Rightarrow> None | Some s \<Rightarrow> if gs_task s = rr_goal q then Some s else None) of
       Some s \<Rightarrow> io_ret \<lparr>bc_model = gs_model s, bc_config = get_model_constraints (gs_model s), bc_evidence = gs_evidence s,
         bc_at = gs_routed_at s, bc_class = Some (gs_class s)\<rparr>
     | None \<Rightarrow> io_bind (route_request (director_request q)) (\<lambda>a. io_bind get_current_state (\<lambda>cur.
         io_ret \<lparr>bc_model = rs_worker a, bc_config = rs_config a, bc_evidence = rs_evidence a, bc_at = rs_at a,
           bc_class = map_option gs_class cur\<rparr>)))"

definition shift_ask :: "(senv \<Rightarrow> 'a) \<Rightarrow> 'a shift" where
  "shift_ask f env s = (Ok (f env), s)"

text \<open>\<open>str\<close> of an exception.\<close>

definition exn_message :: "exn \<Rightarrow> pystr shift" where
  "exn_message e = shift_ask (\<lambda>env. case e of ValueErr msg \<Rightarrow> msg | _ \<Rightarrow> se_text env e)"

definition broker_answer :: "coding_request \<Rightarrow> (pystr + broker_choice) shift" where
  "broker_answer q = io_try (io_bind (ask_director q) (\<lambda>c. io_ret (Inr c))) (\<lambda>_. True)
     (\<lambda>e. io_bind (exn_message e) (\<lambda>msg. io_ret (Inl msg)))"

text \<open>The broker's answer as the dispatcher records it.\<close>

definition gtx_choice :: "pystr + broker_choice \<Rightarrow> dispatcher \<Rightarrow> pystr \<times> dispatcher" where
  "gtx_choice ans d = (case ans of
     Inr c \<Rightarrow> (bc_model c, d\<lparr>dp_gtx_used := Some True, dp_gtx_config := Some (bc_config c)\<rparr>)
   | Inl err \<Rightarrow> (''p40'', d\<lparr>dp_gtx_used := Some False, dp_gtx_error := Some err, dp_repair := Some False,
       dp_gtx_config := Some None\<rparr>))"

definition broker_entries :: "pystr \<Rightarrow> pystr + broker_choice \<Rightarrow> entry list \<Rightarrow> entry list" where
  "broker_entries goal ans es = (case ans of Inl _ \<Rightarrow> es
     | Inr c \<Rightarrow> if list_ex (\<lambda>e. case e of BrokerEntry b \<Rightarrow> be_goal b = goal \<and> be_at b = bc_at c | _ \<Rightarrow> False) es
         then es else es @ [BrokerEntry \<lparr>be_goal = goal, be_model = bc_model c, be_config = bc_config c,
           be_evidence = bc_evidence c, be_class = bc_class c, be_at = bc_at c\<rparr>])"

text \<open>The branches of the routing decision.\<close>

definition choose_route :: "(pystr list \<Rightarrow> pystr list) \<Rightarrow> (pystr + broker_choice) option \<Rightarrow> contract option \<Rightarrow> coding_request \<Rightarrow> int
    \<Rightarrow> registry_doc \<Rightarrow> dispatcher \<Rightarrow> entry list \<Rightarrow> exn + pystr \<times> dispatcher \<times> entry list" where
  "choose_route order gtx ct q now r d es = (
     if rr_repair q \<and> gtx = None
     then (case route_repair_worker r d es (rr_goal q) now of Inl e \<Rightarrow> Inl e
           | Inr (w, d', es') \<Rightarrow> Inr (w, d'\<lparr>dp_repair := Some True\<rparr>, es'))
     else (case gtx of Some ans \<Rightarrow> (case gtx_choice ans d of (w, d') \<Rightarrow> Inr (w, d', es))
     | None \<Rightarrow>
       if p40_count (goal_key (rr_goal q) (rr_class q)) d < strike_limit then Inr (''p40'', d\<lparr>dp_repair := Some False\<rparr>, es)
       else if map_option ct_name ct = Some (ct_name direct_escalation)
       then (case route_repair_worker r d es (rr_goal q) now of Inl e \<Rightarrow> Inl e
             | Inr (w, d', es') \<Rightarrow> Inr (w, d'\<lparr>dp_repair := Some True\<rparr>, es'))
       else (case select_secondary_model order (rr_class q) r of Inl e \<Rightarrow> Inl e
             | Inr w \<Rightarrow> Inr (w, d\<lparr>dp_repair := Some False\<rparr>, es))))"

definition routed :: "(pystr list \<Rightarrow> pystr list) \<Rightarrow> (pystr + broker_choice) option \<Rightarrow> contract option \<Rightarrow> coding_request \<Rightarrow> registry_doc
    \<Rightarrow> mutator" where
  "routed order gtx ct q supplied now cur es = (let r = snapshot supplied cur in
     (case choose_route order gtx ct q now r (dispatch_of r) es of Inl e \<Rightarrow> Inl e
      | Inr (w, d, es') \<Rightarrow>
        let d1 = d\<lparr>dp_selected := Some w, dp_decision := Some (''route_to_'' @ w), dp_routed_at := Some now\<rparr> in
        (case gtx of
           Some ans \<Rightarrow> Inr (r\<lparr>rg_dispatch := Some (d1\<lparr>dp_workflow := Some gtx_workflow\<rparr>)\<rparr>, broker_entries (rr_goal q) ans es')
         | None \<Rightarrow> Inr (r\<lparr>rg_dispatch := Some (d1\<lparr>dp_workflow := map_option ct_name ct\<rparr>)\<rparr>, es'))))"

definition route_coding_request :: "coding_request \<Rightarrow> registry_doc \<Rightarrow> registry_doc shift" where
  "route_coding_request q supplied = io_bind (shift_ask se_order) (\<lambda>order.
     if rr_workflow q = gtx_workflow
     then io_bind (broker_answer q) (\<lambda>ans. io_then (update_state (routed order (Some ans) None q supplied)) get_registry)
     else (case get_workflow_contract (rr_workflow q) of Inl e \<Rightarrow> io_raise e
       | Inr ct \<Rightarrow> io_then (update_state (routed order None (Some ct) q supplied)) get_registry))"

section \<open>Attempts\<close>

text \<open>The arguments of \<open>record_attempt_result\<close>.\<close>

record attempt_report =
  ar_goal :: pystr
  ar_class :: pystr
  ar_model :: pystr
  ar_provider :: pystr
  ar_kind :: pystr
  ar_credit :: pystr
  ar_reviewer :: "pystr option"
  ar_outcome :: "pystr option"
  ar_review_evidence :: "pystr option"
  ar_decision :: "pystr option"
  ar_final :: bool
  ar_role :: pystr
  ar_evidence :: "pystr list"
  ar_workflow :: pystr

definition routine_reviewers :: "pystr list" where
  "routine_reviewers = [''codex'', ''air-review'']"

definition check_attempt :: "attempt_report \<Rightarrow> pystr option" where
  "check_attempt a = (let reviewed = (\<exists>w\<in>set routine_reviewers. ar_reviewer a = Some w) in
     if ar_role a \<notin> {''candidate'', ''repair'', ''final_verification''} then Some ''Unknown coding attempt role''
     else if ar_role a = ''final_verification'' \<and> \<not> ar_final a then Some ''Final verification attempts must be marked explicitly''
     else if ar_model a = ''codex'' then
       (if ar_role a = ''final_verification''
        then (if ar_reviewer a \<noteq> Some ''codex'' then Some ''Codex final verification requires Codex reviewer'' else None)
        else if ar_role a \<noteq> ''repair'' \<or> ar_final a then Some ''Codex coding attempts must be explicit repair attempts''
        else if ar_reviewer a \<notin> {None, Some [], Some ''codex'', Some ''air-review''}
        then Some ''Codex repair reviewer must be Codex or Air Review'' else None)
     else if ar_role a = ''final_verification'' \<or> ar_final a then Some ''Only Codex may perform final verification''
     else if ar_kind a = ''success'' \<and> \<not> reviewed
     then Some ''successful candidate attempts require Codex review or Air Review''
     else if is_substantive (ar_kind a) \<and> \<not> reviewed
     then Some ''substantive candidate attempts require Codex review or Air Review''
     else None)"

definition recorded_decision :: "attempt_report \<Rightarrow> pystr option" where
  "recorded_decision a = (let d = (if ar_model a \<noteq> ''codex'' \<and> ar_decision a = Some ''accepted''
       then Some ''needs_codex_verification'' else ar_decision a) in
     if ar_model a = ''codex'' \<and> ar_role a = ''repair'' \<and> d = Some ''accepted'' then Some ''needs_fresh_codex_verification'' else d)"

definition p40_workers :: "pystr list" where
  "p40_workers = [''p40'', ''p40_qwen35'']"

definition counts_for_p40 :: "pystr \<Rightarrow> pystr \<Rightarrow> bool" where
  "counts_for_p40 model kind = (model \<in> set p40_workers \<and> is_substantive kind)"

definition counted :: "attempt_report \<Rightarrow> dispatcher \<Rightarrow> dispatcher" where
  "counted a d = (let k = goal_key (ar_goal a) (ar_class a) in
     if counts_for_p40 (ar_model a) (ar_kind a) then d\<lparr>dp_failures := AList.update k (p40_count k d + 1) (dp_failures d)\<rparr> else d)"

text \<open>The evidence of an attempt and its reviewer's, once.\<close>

definition all_findings :: "attempt_report \<Rightarrow> pystr list" where
  "all_findings a = ar_evidence a @ (if has_text (ar_review_evidence a) \<and> the (ar_review_evidence a) \<notin> set (ar_evidence a)
     then [the (ar_review_evidence a)] else [])"

definition provider_evidence :: "attempt_report \<Rightarrow> pystr list" where
  "provider_evidence a = (let ev = all_findings a in
     if ev = [] then [ar_provider a @ '' reported '' @ ar_kind a] else ev)"

definition copilot_health :: "attempt_report \<Rightarrow> int \<Rightarrow> smodel \<Rightarrow> smodel" where
  "copilot_health a now m = (
     if ar_kind a = ''credit_exhausted''
     then m\<lparr>sm_credit := Some ''exhausted'', sm_credit_evidence := Some (provider_evidence a), sm_exhausted_at := Some now\<rparr>
     else if ar_kind a \<in> {''endpoint_unavailable'', ''authentication''}
     then m\<lparr>sm_status := ''unusable'', sm_reason := Some (''Copilot provider unavailable: '' @ ar_kind a),
            sm_unavailable := Some (provider_evidence a, now)\<rparr>
     else m)"

fun same_goal :: "pystr \<Rightarrow> pystr \<Rightarrow> entry \<Rightarrow> bool" where
  "same_goal goal cls (AttemptEntry e) = (ae_goal e = goal \<and> ae_class e = cls)"
| "same_goal goal cls _ = False"

definition attempt_entry_of :: "attempt_report \<Rightarrow> int \<Rightarrow> entry list \<Rightarrow> attempt_entry" where
  "attempt_entry_of a at0 es = \<lparr>ae_goal = ar_goal a, ae_class = ar_class a, ae_model = ar_model a, ae_provider = ar_provider a,
     ae_kind = ar_kind a, ae_credit = ar_credit a, ae_substantive = is_substantive (ar_kind a),
     ae_number = 1 + length (filter (same_goal (ar_goal a) (ar_class a)) es), ae_reviewer = ar_reviewer a,
     ae_outcome = ar_outcome a, ae_review_evidence = ar_review_evidence a, ae_decision = recorded_decision a,
     ae_final = ar_final a, ae_role = ar_role a, ae_at = at0, ae_evidence = ar_evidence a\<rparr>"

definition controlled :: "routing_response \<Rightarrow> dispatcher \<Rightarrow> dispatcher" where
  "controlled c d = d\<lparr>dp_workflow := Some gtx_workflow, dp_gtx_used := Some True, dp_gtx_config := Some (rs_config c),
     dp_selected := Some (rs_worker c), dp_decision := Some (decision_value (rs_decision c)),
     dp_gtx_counts := Some (rs_attempt c, rs_gtx c, rs_p40 c)\<rparr>"

definition attempted :: "attempt_report \<Rightarrow> int \<Rightarrow> routing_response option \<Rightarrow> registry_doc \<Rightarrow> mutator" where
  "attempted a at0 ctl supplied now cur es = (let
     r = (if models_of cur = [] then merged cur supplied else cur);
     d = counted a (dispatch_of r);
     r1 = (if ar_model a = ''copilot'' then on_model ''copilot'' (copilot_health a at0) r else r);
     d1 = d\<lparr>dp_selected := Some (ar_model a),
            dp_decision := Some (if has_text (recorded_decision a) then the (recorded_decision a) else ''attempt_in_progress''),
            dp_attempt_at := Some at0\<rparr>;
     d2 = (case ctl of None \<Rightarrow> d1 | Some c \<Rightarrow> controlled c d1)
   in Inr (r1\<lparr>rg_dispatch := Some d2\<rparr>, es @ [AttemptEntry (attempt_entry_of a at0 es)]))"

text \<open>What the dispatcher tells the director of an attempt.\<close>

definition director_result :: "attempt_report \<Rightarrow> attempt_result" where
  "director_result a = (let findings = all_findings a in
     \<lparr>at_task = ar_goal a, at_kind = ar_kind a, at_findings = findings, at_review = ar_review_evidence a,
      at_architectural = (ar_kind a \<in> {''architectural'', ''complex_reasoning''}),
      at_cross_file = list_ex (\<lambda>f. contains ''cross-file'' (lower f)) findings,
      at_repeated = list_ex (\<lambda>f. contains ''repeated'' (lower f) \<or> contains ''same conceptual error'' (lower f)) findings,
      at_workflow = ''direct_escalation''\<rparr>)"

text \<open>\<open>registry if registry else self.state.get_registry()\<close>\<close>

definition given_or_stored :: "registry_doc option \<Rightarrow> registry_doc shift" where
  "given_or_stored r = (case r of Some x \<Rightarrow> if x = empty_registry then get_registry else io_ret x | None \<Rightarrow> get_registry)"

definition record_attempt_result :: "attempt_report \<Rightarrow> registry_doc option \<Rightarrow> registry_doc shift" where
  "record_attempt_result a reg = io_bind (given_or_stored reg) (\<lambda>supplied. io_bind shift_now (\<lambda>at0.
     case check_attempt a of Some msg \<Rightarrow> io_raise (ValueErr msg)
     | None \<Rightarrow> if ar_workflow a = gtx_workflow
         then io_bind (record_result (director_result a)) (\<lambda>c. update_state (attempted a at0 (Some c) supplied))
         else update_state (attempted a at0 None supplied)))"

definition record_provider_transition :: "pystr \<Rightarrow> pystr \<Rightarrow> pystr \<Rightarrow> pystr \<Rightarrow> registry_doc option \<Rightarrow> registry_doc shift" where
  "record_provider_transition goal src dst reason reg = (case provider_transition src dst reason goal 0 of Inl e \<Rightarrow> io_raise e
   | Inr t0 \<Rightarrow> io_bind (given_or_stored reg) (\<lambda>supplied. io_bind shift_now (\<lambda>at0. let t = t0\<lparr>tr_at := at0\<rparr> in
       update_state (\<lambda>now cur es. let r = seeded supplied cur in
         Inr (r\<lparr>rg_dispatch := Some ((dispatch_of r)\<lparr>dp_transition := Some t\<rparr>)\<rparr>, es @ [TransitionEntry t])))))"

text \<open>The whole workflow of one attempt; the report's decision and role are computed here.  Of the request only the
  repair flag and the broker's parameters are the caller's.\<close>

definition attempt_coding_task :: "attempt_report \<Rightarrow> coding_request \<Rightarrow> registry_doc option \<Rightarrow> registry_doc shift" where
  "attempt_coding_task a q reg = io_bind (given_or_stored reg) (\<lambda>r0.
     let fixing = (rr_repair q \<or> ar_model a = ''codex'') in
     io_bind (route_coding_request (q\<lparr>rr_goal := ar_goal a, rr_class := ar_class a, rr_workflow := ar_workflow a, rr_repair := fixing\<rparr>) r0) (\<lambda>r.
     if dp_selected (dispatch_of r) \<noteq> Some (ar_model a)
     then io_raise (ValueErr (''coding attempt model '' @ py_repr (ar_model a) @ '' does not match routed model '' @
            (case dp_selected (dispatch_of r) of None \<Rightarrow> ''None'' | Some w \<Rightarrow> py_repr w)))
     else record_attempt_result (a\<lparr>ar_role := (if fixing then ''repair'' else ''candidate''), ar_final := False,
            ar_decision := Some (if ar_outcome a \<noteq> Some ''approved'' then ''rejected''
              else if ar_model a = ''codex'' then ''needs_fresh_codex_verification'' else ''needs_codex_verification'')\<rparr>) (Some r)))"

definition record_final_verification :: "attempt_report \<Rightarrow> registry_doc option \<Rightarrow> registry_doc shift" where
  "record_final_verification a reg = record_attempt_result (a\<lparr>ar_model := ''codex'', ar_reviewer := Some ''codex'',
     ar_decision := Some (if ar_outcome a = Some ''approved'' then ''accepted'' else ''rejected''),
     ar_final := True, ar_role := ''final_verification''\<rparr>) reg"

fun attempts_of :: "pystr option \<Rightarrow> pystr option \<Rightarrow> entry list \<Rightarrow> attempt_entry list" where
  "attempts_of goal model [] = []"
| "attempts_of goal model (AttemptEntry e # es) = (if (has_text goal \<longrightarrow> Some (ae_goal e) = goal) \<and> (has_text model \<longrightarrow> Some (ae_model e) = model)
     then e # attempts_of goal model es else attempts_of goal model es)"
| "attempts_of goal model (_ # es) = attempts_of goal model es"

definition get_attempt_history :: "pystr option \<Rightarrow> pystr option \<Rightarrow> attempt_entry list shift" where
  "get_attempt_history goal model = io_then get_registry (io_bind get_ledger_entries (\<lambda>es. io_ret (attempts_of goal model es)))"

text \<open>The view of the dispatcher; a counter table and a repair flag that are absent read as empty and false.\<close>

definition get_dispatcher_state :: "registry_doc option \<Rightarrow> dispatcher shift" where
  "get_dispatcher_state reg = io_bind (given_or_stored reg) (\<lambda>r. let d = dispatch_of r in
     io_ret (empty_dispatcher\<lparr>dp_failures := dp_failures d, dp_selected := dp_selected d, dp_workflow := dp_workflow d,
       dp_repair := Some (case dp_repair d of None \<Rightarrow> False | Some b \<Rightarrow> b), dp_transition := dp_transition d,
       dp_decision := dp_decision d, dp_routed_at := dp_routed_at d, dp_attempt_at := dp_attempt_at d\<rparr>))"

definition get_p40_failure_count :: "pystr \<Rightarrow> pystr \<Rightarrow> int shift" where
  "get_p40_failure_count goal cls = io_bind get_registry (\<lambda>r. io_ret (p40_count (goal_key goal cls) (dispatch_of r)))"

definition can_route_to_secondary :: "pystr \<Rightarrow> pystr \<Rightarrow> bool shift" where
  "can_route_to_secondary goal cls = io_bind (get_p40_failure_count goal cls) (\<lambda>n. io_ret (strike_limit \<le> n))"

end
