(* ===== verification/ShiftDemo.thy ===== *)
theory ShiftDemo
  imports ShiftDispatch
begin

text \<open>The concrete inputs on which the witnesses of Second Shift evaluate its definitions.\<close>

definition calm_shift :: senv where
  "calm_shift = \<lparr>se_fault = \<lambda>_. Fine, se_clock = int, se_order = id, se_text = \<lambda>_. '''',
     se_manifest = \<lambda>_. Inl OsErr\<rparr>"

definition plain_model :: "pystr \<Rightarrow> pystr \<Rightarrow> smodel" where
  "plain_model i st = \<lparr>sm_id = i, sm_status = st, sm_credit = None, sm_credit_evidence = None, sm_exhausted_at = None,
     sm_recovery_evidence = None, sm_recovered_at = None, sm_counts = [], sm_quarantined_at = None, sm_reason = None,
     sm_review_required = False, sm_reviewed_by = None, sm_reviewed_at = None, sm_review_evidence = None,
     sm_artifact = None, sm_success_at = None, sm_unavailable = None\<rparr>"

definition shift_with :: "smodel list \<Rightarrow> sfile" where
  "shift_with ms = \<lparr>ss_registry = empty_registry\<lparr>rg_models := Some ms, rg_dispatch := Some empty_dispatcher\<rparr>, ss_ledger = [], ss_tick = 0\<rparr>"

definition attempt_by :: "pystr \<Rightarrow> pystr \<Rightarrow> attempt_report" where
  "attempt_by model kind = \<lparr>ar_goal = ''g'', ar_class = ''coding'', ar_model = model, ar_provider = ''local'', ar_kind = kind,
     ar_credit = ''unknown'', ar_reviewer = Some ''codex'', ar_outcome = Some ''approved'', ar_review_evidence = Some ''ok'',
     ar_decision = None, ar_final = False, ar_role = ''candidate'', ar_evidence = [''log''], ar_workflow = ''layered-review''\<rparr>"

definition coding_task :: "pystr \<Rightarrow> coding_request" where
  "coding_task w = \<lparr>rr_goal = ''g'', rr_class = ''coding'', rr_workflow = w, rr_repair = False, rr_context = 65536,
     rr_quality = JFloat (Fin (7 / 10)), rr_description = None, rr_benchmark = False\<rparr>"

end
