(* ===== verification/ShiftRules.thy ===== *)
theory ShiftRules
  imports ShiftDispatch
begin

text \<open>
  Rules for the calls of Second Shift: a call keeps one condition on the registry and one on the ledger when
  every document it writes satisfies its condition, whichever of its file operations fail or are the last of a
  killed process.
\<close>

section \<open>Rules for transactions\<close>

definition any_senv :: "senv \<Rightarrow> bool" where
  "any_senv env = True"

text \<open>A condition on the registry and one on the ledger, each on its own file.\<close>

definition sound :: "(registry_doc \<Rightarrow> bool) \<Rightarrow> (entry list \<Rightarrow> bool) \<Rightarrow> sfile \<Rightarrow> bool" where
  "sound R L s = (R (ss_registry s) \<and> L (ss_ledger s))"

definition keeps :: "(senv \<Rightarrow> bool) \<Rightarrow> (registry_doc \<Rightarrow> bool) \<Rightarrow> (entry list \<Rightarrow> bool) \<Rightarrow> ('a \<Rightarrow> bool) \<Rightarrow> 'a shift \<Rightarrow> bool" where
  "keeps F R L P m = (\<forall>s. sound R L s \<longrightarrow> io_wp F m (\<lambda>a s'. P a \<and> sound R L s') (\<lambda>_. sound R L) (sound R L) s)"

named_theorems keeps_intros \<open>one rule per construct for what a call keeps of the files\<close>

lemma keeps_step:
  assumes "\<And>s. sound R L s \<Longrightarrow> P (g s) \<and> sound R L (f (s\<lparr>ss_tick := ss_tick s + 1\<rparr>))"
  shows "keeps F R L P (shift_step f g)"
proof -
  have tick: "sound R L (s\<lparr>ss_tick := n\<rparr>) = sound R L s" for s n by (simp add: sound_def)
  show ?thesis
    using assms by (auto simp: keeps_def io_wp_def shift_step_def Let_def tick split: fault.splits)
qed

lemma keeps_read [keeps_intros]:
  "keeps F R L R read_registry" "keeps F R L L read_ledger" "keeps F R L R get_registry" "keeps F R L L get_ledger_entries"
  unfolding read_registry_def read_ledger_def get_registry_def get_ledger_entries_def
  by (rule keeps_step; simp add: sound_def)+

lemma keeps_write [keeps_intros]:
  "R r \<Longrightarrow> keeps F R L (\<lambda>_. True) (write_registry r)" "L es \<Longrightarrow> keeps F R L (\<lambda>_. True) (write_ledger es)"
  unfolding write_registry_def write_ledger_def by (rule keeps_step; simp add: sound_def)+

lemma keeps_now [keeps_intros]: "keeps F R L (\<lambda>_. True) shift_now"
  by (simp add: keeps_def io_wp_def shift_now_def)

lemma keeps_ask [keeps_intros]: "keeps F R L (\<lambda>_. True) (shift_ask f)" "keeps F R L (\<lambda>_. True) (exn_message e)"
  by (simp_all add: keeps_def io_wp_def shift_ask_def exn_message_def)

lemma keeps_ret: "P a \<Longrightarrow> keeps F R L P (io_ret a)"
  by (simp add: keeps_def io_wp_ret)

lemma keeps_raise [keeps_intros]: "keeps F R L P (io_raise e)"
  by (simp add: keeps_def io_wp_raise)

lemma keeps_bind:
  assumes "keeps F R L P m" "\<And>a. P a \<Longrightarrow> keeps F R L Q (f a)"
  shows "keeps F R L Q (io_bind m f)"
  unfolding keeps_def
proof (intro allI impI)
  fix s assume "sound R L s"
  then have m: "io_wp F m (\<lambda>a s'. P a \<and> sound R L s') (\<lambda>_. sound R L) (sound R L) s"
    using assms(1) by (simp add: keeps_def)
  show "io_wp F (io_bind m f) (\<lambda>a s'. Q a \<and> sound R L s') (\<lambda>_. sound R L) (sound R L) s"
    by (rule io_wp_bind, rule io_wp_mono [OF m]) (use assms(2) in \<open>auto simp: keeps_def\<close>)
qed

lemma keeps_then: "keeps F R L P m \<Longrightarrow> keeps F R L Q n \<Longrightarrow> keeps F R L Q (io_then m n)"
  unfolding io_then_def by (rule keeps_bind) auto

lemma keeps_try:
  assumes "keeps F R L P m" "\<And>e. keeps F R L P (h e)"
  shows "keeps F R L P (io_try m p h)"
  unfolding keeps_def
proof (intro allI impI)
  fix s assume "sound R L s"
  then have m: "io_wp F m (\<lambda>a s'. P a \<and> sound R L s') (\<lambda>_. sound R L) (sound R L) s"
    using assms(1) by (simp add: keeps_def)
  show "io_wp F (io_try m p h) (\<lambda>a s'. P a \<and> sound R L s') (\<lambda>_. sound R L) (sound R L) s"
    by (rule io_wp_try, rule io_wp_mono [OF m]) (use assms(2) in \<open>auto simp: keeps_def\<close>)
qed

lemma keeps_weaken: "keeps F R L P m \<Longrightarrow> (\<And>a. P a \<Longrightarrow> Q a) \<Longrightarrow> keeps F R L Q m"
  unfolding keeps_def by (auto elim!: io_wp_mono)

lemma keeps_transaction:
  assumes "\<And>now r es r' es' a. R r \<Longrightarrow> L es \<Longrightarrow> m now r es = Inr ((r', es'), a) \<Longrightarrow> R r' \<and> L es' \<and> Q a"
  shows "keeps F R L (\<lambda>(r, a). R r \<and> Q a) (transaction m)"
  unfolding transaction_def
proof (intro keeps_bind [OF keeps_read(1)] keeps_bind [OF keeps_read(2)] keeps_bind [OF keeps_now])
  fix r es now assume "R r" "L es"
  then show "keeps F R L (\<lambda>(r, a). R r \<and> Q a) (case m now r es of Inl e \<Rightarrow> io_raise e
      | Inr ((r', es'), a) \<Rightarrow> io_then (write_registry r') (io_then (write_ledger es') (io_ret (r', a))))"
    using assms [of r es now]
    by (auto intro!: keeps_raise keeps_then keeps_write keeps_ret split: sum.splits prod.splits)
qed

lemma keeps_update [keeps_intros]:
  assumes "\<And>now r es r' es'. R r \<Longrightarrow> L es \<Longrightarrow> m now r es = Inr (r', es') \<Longrightarrow> R r' \<and> L es'"
  shows "keeps F R L R (update_state m)"
  unfolding update_state_def
proof (rule keeps_bind [OF keeps_transaction [where Q = "\<lambda>_. True"]])
  show "R r' \<and> L es' \<and> True" if "R r" "L es" "(case m now r es of Inl e \<Rightarrow> Inl e | Inr x \<Rightarrow> Inr (x, ())) = Inr ((r', es'), a)"
    for now r es r' es' a
    using that assms [of r es now] by (cases "m now r es") auto
  show "keeps F R L R (case x of (r, _) \<Rightarrow> io_ret r)" if "case x of (r, _) \<Rightarrow> R r \<and> True" for x :: "registry_doc \<times> unit"
    using that by (cases x) (simp add: keeps_ret)
qed

lemma keeps_given [keeps_intros]: "(\<And>r. reg = Some r \<Longrightarrow> R r) \<Longrightarrow> keeps F R L R (given_or_stored reg)"
  unfolding given_or_stored_def by (auto intro!: keeps_read keeps_ret split: option.splits)

end
