(* ===== verification/ShiftProps.thy ===== *)
theory ShiftProps
  imports ShiftDemo ShiftRules
begin

text \<open>
  Properties of Second Shift: what every sequence of its calls keeps of the two files, what a route
  chooses, what a pool observation may change, and where the two files come apart.
\<close>

section \<open>Calls\<close>

datatype shift_op =
    ShCredit registry_doc pystr pystr "pystr list option" bool
  | ShRecover registry_doc pystr pystr "pystr list option"
  | ShCount pystr pystr int registry_doc
  | ShFailure failure_report registry_doc
  | ShSuccess pystr pystr pystr registry_doc
  | ShPool registry_doc
  | ShRoute coding_request registry_doc
  | ShAttempt attempt_report "registry_doc option"
  | ShTask attempt_report coding_request "registry_doc option"
  | ShFinal attempt_report "registry_doc option"
  | ShTransition pystr pystr pystr pystr "registry_doc option"
  | ShDirect routing_request
  | ShResult attempt_result
  | ShReset pystr
  | ShSettings settings_update
  | ShBump bool pystr

definition quietly :: "'a shift \<Rightarrow> unit shift" where
  "quietly m = io_then m (io_ret ())"

fun run_shift_op :: "shift_op \<Rightarrow> unit shift" where
  "run_shift_op (ShCredit r i st ev explicit) = quietly (update_credit r i st ev explicit)"
| "run_shift_op (ShRecover r i st ev) = quietly (recover_credit r i st ev)"
| "run_shift_op (ShCount i g n r) = quietly (set_substantive_count i g n r)"
| "run_shift_op (ShFailure f r) = quietly (record_failure f r)"
| "run_shift_op (ShSuccess i g a r) = quietly (record_success i g a r)"
| "run_shift_op (ShPool r) = quietly (check_pool_recovery r)"
| "run_shift_op (ShRoute q r) = quietly (route_coding_request q r)"
| "run_shift_op (ShAttempt a r) = quietly (record_attempt_result a r)"
| "run_shift_op (ShTask a q r) = quietly (attempt_coding_task a q r)"
| "run_shift_op (ShFinal a r) = quietly (record_final_verification a r)"
| "run_shift_op (ShTransition g src dst reason r) = quietly (record_provider_transition g src dst reason r)"
| "run_shift_op (ShDirect q) = quietly (route_request q)"
| "run_shift_op (ShResult a) = quietly (record_result a)"
| "run_shift_op (ShReset task) = quietly (reset_task_state task)"
| "run_shift_op (ShSettings u) = quietly (update_settings u)"
| "run_shift_op (ShBump gtx task) = quietly (if gtx then increment_gtx_failures task else increment_p40_failures task)"

text \<open>A sequence of calls; one that raises or is killed is followed by the next.\<close>

fun run_shift :: "shift_op list \<Rightarrow> senv \<Rightarrow> sfile \<Rightarrow> sfile" where
  "run_shift [] env s = s"
| "run_shift (op # ops) env s = run_shift ops env (snd (run_shift_op op env s))"

fun supplied_by :: "shift_op \<Rightarrow> registry_doc list" where
  "supplied_by (ShCredit r _ _ _ _) = [r]"
| "supplied_by (ShRecover r _ _ _) = [r]"
| "supplied_by (ShCount _ _ _ r) = [r]"
| "supplied_by (ShFailure _ r) = [r]"
| "supplied_by (ShSuccess _ _ _ r) = [r]"
| "supplied_by (ShPool r) = [r]"
| "supplied_by (ShRoute _ r) = [r]"
| "supplied_by (ShAttempt _ r) = (case r of None \<Rightarrow> [] | Some r \<Rightarrow> [r])"
| "supplied_by (ShTask _ _ r) = (case r of None \<Rightarrow> [] | Some r \<Rightarrow> [r])"
| "supplied_by (ShFinal _ r) = (case r of None \<Rightarrow> [] | Some r \<Rightarrow> [r])"
| "supplied_by (ShTransition _ _ _ _ r) = (case r of None \<Rightarrow> [] | Some r \<Rightarrow> [r])"
| "supplied_by _ = []"

lemma run_shift_keeps:
  assumes "\<And>op. op \<in> set ops \<Longrightarrow> keeps F R L (\<lambda>_. True) (run_shift_op op)" "F env" "sound R L s"
  shows "sound R L (run_shift ops env s)"
  using assms
proof (induction ops arbitrary: s)
  case (Cons op ops)
  obtain r s' where run: "run_shift_op op env s = (r, s')" by (metis surj_pair)
  have "io_wp F (run_shift_op op) (\<lambda>_. sound R L) (\<lambda>_. sound R L) (sound R L) s"
    using Cons.prems by (auto simp: keeps_def)
  from io_wp_run [OF this, OF _ run] have "sound R L s'"
    using Cons.prems(2) by (cases r) simp_all
  then show ?case using Cons run by simp
qed simp

section \<open>Exhausted models have evidence\<close>

definition evidenced :: "smodel \<Rightarrow> bool" where
  "evidenced m = (sm_credit m = Some ''exhausted'' \<longrightarrow> (case sm_credit_evidence m of None \<Rightarrow> False | Some es \<Rightarrow> es \<noteq> []))"

definition all_evidenced :: "registry_doc \<Rightarrow> bool" where
  "all_evidenced r = list_all evidenced (models_of r)"

text \<open>An accepted attempt is a final verification by Codex, reviewed by Codex.\<close>

fun acceptance_ok :: "entry \<Rightarrow> bool" where
  "acceptance_ok (AttemptEntry e) = (ae_decision e = Some ''accepted'' \<longrightarrow>
     ae_model e = ''codex'' \<and> ae_final e \<and> ae_role e = ''final_verification'' \<and> ae_reviewer e = Some ''codex'')"
| "acceptance_ok _ = True"

definition accepted_ok :: "entry list \<Rightarrow> bool" where
  "accepted_ok es = list_all acceptance_ok es"

lemma models_of_cong [simp]: "models_of (r\<lparr>rg_pool := p\<rparr>) = models_of r" "models_of (r\<lparr>rg_dispatch := d\<rparr>) = models_of r"
    "models_of (r\<lparr>rg_gtx := g\<rparr>) = models_of r"
  by (simp_all add: models_of_def)

lemma models_of_on_model: "models_of (on_model i f r) = at_first i f (models_of r)"
  by (simp add: models_of_def on_model_def split: option.splits)

lemma list_all_at_first: "list_all P ms \<Longrightarrow> (\<And>m. P m \<Longrightarrow> P (f m)) \<Longrightarrow> list_all P (at_first i f ms)"
  by (induction ms) auto

lemma evidenced_on_model:
  "all_evidenced r \<Longrightarrow> (\<And>m. evidenced m \<Longrightarrow> evidenced (f m)) \<Longrightarrow> all_evidenced (on_model i f r)"
  unfolding all_evidenced_def models_of_on_model by (rule list_all_at_first)

lemma evidenced_frame:
  "sm_credit (f m) = sm_credit m \<Longrightarrow> sm_credit_evidence (f m) = sm_credit_evidence m \<Longrightarrow> evidenced m \<Longrightarrow> evidenced (f m)"
  by (simp add: evidenced_def)

lemma evidenced_frames:
  "evidenced (put_count g n m) = evidenced m"
  "evidenced (strike_out now g n m) = evidenced m"
  "evidenced (succeeded_with g a now m) = evidenced m"
  "evidenced (set_status st m) = evidenced m"
  by (simp_all add: evidenced_def put_count_def strike_out_def quarantined_def succeeded_with_def set_status_def)

lemma evidenced_copilot: "evidenced m \<Longrightarrow> evidenced (copilot_health a now m)"
  by (simp add: evidenced_def copilot_health_def provider_evidence_def Let_def)

lemma evidenced_recovered: "st \<noteq> ''exhausted'' \<Longrightarrow> evidenced (recovered_credit st ev now m)"
  by (simp add: evidenced_def recovered_credit_def Let_def split: option.splits)

lemma evidenced_credit: "st = ''exhausted'' \<longrightarrow> explicit \<and> good_evidence ev \<Longrightarrow> evidenced (set_credit st ev explicit now m)"
  by (auto simp: evidenced_def set_credit_def good_evidence_def Let_def split: option.splits)

lemma seeded_evidenced: "all_evidenced r \<Longrightarrow> all_evidenced s \<Longrightarrow> all_evidenced (seeded s r)"
  by (simp add: seeded_def)

lemma snapshot_evidenced: "all_evidenced r \<Longrightarrow> all_evidenced s \<Longrightarrow> all_evidenced (snapshot s r)"
  by (auto simp: all_evidenced_def snapshot_def merged_def models_of_def split: option.splits)

lemma merged_evidenced: "all_evidenced r \<Longrightarrow> all_evidenced s \<Longrightarrow> all_evidenced (merged r s)"
  by (auto simp: all_evidenced_def merged_def models_of_def split: option.splits)

lemma all_evidenced_cong [simp]:
  "all_evidenced (r\<lparr>rg_pool := p\<rparr>) = all_evidenced r" "all_evidenced (r\<lparr>rg_dispatch := d\<rparr>) = all_evidenced r"
    "all_evidenced (r\<lparr>rg_gtx := g\<rparr>) = all_evidenced r"
  by (simp_all add: all_evidenced_def)

lemma pool_steps_evidenced:
  assumes "all_evidenced (fst (snd x))"
  shows "all_evidenced (fst (snd (pool_steps dropped risen x)))"
proof -
  have drop: "all_evidenced (fst (snd (drop_step y)))" if "all_evidenced (fst (snd y))" for y
    using that by (cases y) (auto simp: drop_step_def Let_def intro!: evidenced_on_model simp: evidenced_frames split: option.splits)
  have rise: "all_evidenced (fst (snd (rise_step y)))" if "all_evidenced (fst (snd y))" for y
    using that by (cases y) (auto simp: rise_step_def Let_def intro!: evidenced_on_model simp: evidenced_frames split: option.splits)
  show ?thesis using assms drop rise by (simp add: pool_steps_def Let_def)
qed

lemma observe_pool_steps:
  assumes "observe_pool seed now r = (r', acts, dropped, risen)"
  defines "r0 \<equiv> seeded seed r"
  shows "models_of r' = models_of (fst (snd (pool_steps dropped risen (with_originals r0 (recovery_state r0), r0, []))))"
  using assms unfolding observe_pool_def Let_def by (simp split: prod.splits) auto

lemma observe_evidenced:
  assumes "all_evidenced r" "all_evidenced seed" "observe_pool seed now r = (r', x)"
  shows "all_evidenced r'"
proof -
  obtain acts dropped risen where x: "x = (acts, dropped, risen)" by (cases x)
  show ?thesis
    using observe_pool_steps [of seed now r r' acts dropped risen] assms(3) x
      pool_steps_evidenced [of "(_, seeded seed r, [])"] seeded_evidenced [OF assms(1,2)]
    by (simp add: all_evidenced_def)
qed

section \<open>The broker's states are well typed\<close>

definition broker_workers :: "pystr list" where
  "broker_workers = [''p40_qwen35'', ''codex'', ''second_shift'']"

definition task_classes :: "task_class list" where
  "task_classes = [BOUNDED_IMPLEMENTATION, BENCHMARK_VALIDATION, LARGE_CONTEXT, COMPLEX_REASONING, REPAIR_LOCAL]"

definition state_typed :: "gtx_state \<Rightarrow> bool" where
  "state_typed s = (gs_model s \<in> set broker_workers \<and> gs_class s \<in> class_value ` set task_classes \<and>
     gs_quality s \<in> {''quality'', ''speed''} \<and> 1 \<le> gs_attempt s)"

definition broker_typed :: "gtx_broker \<Rightarrow> bool" where
  "broker_typed b = ((\<forall>s. gb_current b = Some s \<longrightarrow> state_typed s) \<and> list_all state_typed (gb_history b) \<and>
     length (gb_history b) \<le> history_limit)"

definition typed :: "registry_doc \<Rightarrow> bool" where
  "typed r = (\<forall>b. rg_gtx r = Some b \<longrightarrow> broker_typed b)"

lemma evaluate_target: "er_target (evaluate_failure c) \<in> set broker_workers"
  by (simp add: evaluate_failure_def handle_acceptance_def handle_non_substantive_def handle_escalation_def handle_retry_local_def
    escalated_def broker_workers_def Let_def split: option.splits)

lemma classify_typed: "state_typed (classify_task task d c q b)"
  by (simp add: state_typed_def classify_task_def select_model_def broker_workers_def task_classes_def Let_def
    class_value.simps) (cases "determine_task_class d c b"; simp)

lemma requested_typed: "requested_state q = Inr s \<Longrightarrow> state_typed (s\<lparr>gs_routed_at := t\<rparr>)"
  using classify_typed [of "rq_task q" "rq_description q" "rq_context q" "rq_quality q" "rq_benchmark q"]
  by (auto simp: requested_state_def state_typed_def Let_def evaluate_target split: if_splits sum.splits)

lemma after_attempt_typed: "state_typed s \<Longrightarrow> state_typed (after_attempt a now s)"
  by (simp add: state_typed_def after_attempt_def evaluated_def evaluate_target)

lemma from_dict_typed [simp]: "state_typed (from_dict s) = state_typed s"
  by (simp add: state_typed_def from_dict_def)

lemma broker_of_typed: "typed r \<Longrightarrow> broker_typed (broker_of r)"
  by (auto simp: typed_def broker_of_def broker_typed_def fresh_broker_def split: option.splits)

lemma typed_cong [simp]: "typed (r\<lparr>rg_pool := p\<rparr>) = typed r" "typed (r\<lparr>rg_dispatch := d\<rparr>) = typed r"
    "typed (on_model i f r) = typed r" "typed (r\<lparr>rg_gtx := Some b\<rparr>) = broker_typed b"
  by (simp_all add: typed_def on_model_def)

lemma recent_typed: "list_all P h \<Longrightarrow> list_all P (recent h)"
  by (auto simp: recent_def list_all_iff dest: in_set_dropD)

lemma length_recent [simp]: "length (recent h) \<le> history_limit"
  by (simp add: recent_def)

lemma find_in: "find P xs = Some x \<Longrightarrow> x \<in> set xs"
  by (metis find_Some_iff nth_mem)

lemma newest_typed: "broker_typed b \<Longrightarrow> newest_state task b = Some s \<Longrightarrow> state_typed s"
  by (auto simp: newest_state_def broker_typed_def list_all_iff dest!: find_in split: if_splits option.splits)

section \<open>Every registry is sound\<close>

definition registry_ok :: "registry_doc \<Rightarrow> bool" where
  "registry_ok r = (all_evidenced r \<and> typed r)"

lemma registry_ok_cong [simp]:
  "registry_ok (r\<lparr>rg_pool := p\<rparr>) = registry_ok r" "registry_ok (r\<lparr>rg_dispatch := d\<rparr>) = registry_ok r"
  "registry_ok r \<Longrightarrow> registry_ok (r\<lparr>rg_gtx := Some b\<rparr>) = broker_typed b"
  by (simp_all add: registry_ok_def all_evidenced_def models_of_def)

lemma ok_on_model: "registry_ok r \<Longrightarrow> (\<And>m. evidenced m \<Longrightarrow> evidenced (f m)) \<Longrightarrow> registry_ok (on_model i f r)"
  by (simp add: registry_ok_def evidenced_on_model)

lemma seeded_ok: "registry_ok r \<Longrightarrow> registry_ok s \<Longrightarrow> registry_ok (seeded s r)"
  by (simp add: seeded_def)

lemma merged_ok: "registry_ok r \<Longrightarrow> registry_ok s \<Longrightarrow> registry_ok (merged r s)"
  by (simp add: registry_ok_def merged_evidenced) (simp add: merged_def typed_def)

lemma snapshot_ok: "registry_ok r \<Longrightarrow> registry_ok s \<Longrightarrow> registry_ok (snapshot s r)"
  by (simp add: registry_ok_def snapshot_evidenced) (simp add: snapshot_def merged_def typed_def split: option.splits)

lemma pool_steps_gtx: "rg_gtx (fst (snd (pool_steps dropped risen x))) = rg_gtx (fst (snd x))"
proof -
  have "rg_gtx (fst (snd (drop_step y))) = rg_gtx (fst (snd y))" "rg_gtx (fst (snd (rise_step y))) = rg_gtx (fst (snd y))" for y
    by (cases y; simp add: drop_step_def rise_step_def Let_def on_model_def split: option.splits)+
  then show ?thesis by (simp add: pool_steps_def Let_def)
qed

lemma observe_gtx: "observe_pool seed now r = (r', x) \<Longrightarrow> rg_gtx r' = rg_gtx (seeded seed r)"
  using pool_steps_gtx [of _ _ "(_, seeded seed r, _)"]
  by (auto simp: observe_pool_def Let_def split: prod.splits) (metis fst_conv snd_conv)

lemma observe_ok: "registry_ok r \<Longrightarrow> registry_ok seed \<Longrightarrow> observe_pool seed now r = (r', x) \<Longrightarrow> registry_ok r'"
  using seeded_ok [of r seed] observe_evidenced [of r seed now r' x] observe_gtx [of seed now r r' x]
  by (simp add: registry_ok_def typed_def)

section \<open>Every call keeps both conditions\<close>

abbreviation keeps_sound :: "('a \<Rightarrow> bool) \<Rightarrow> 'a shift \<Rightarrow> bool" where
  "keeps_sound \<equiv> keeps any_senv registry_ok accepted_ok"

lemma accepted_append [simp]: "accepted_ok (es @ [e]) = (accepted_ok es \<and> acceptance_ok e)"
  by (simp add: accepted_ok_def)

lemma on_known_sound:
  assumes "registry_ok supplied" "\<And>m now. evidenced m \<Longrightarrow> evidenced (f now m)"
  shows "keeps_sound registry_ok (update_state (on_known supplied i f))"
  by (rule keeps_update)
     (use assms in \<open>auto simp: on_known_def Let_def intro!: ok_on_model seeded_ok split: if_splits\<close>)

lemma quietly_keeps: "keeps F R L P m \<Longrightarrow> keeps F R L (\<lambda>_. True) (quietly m)"
  unfolding quietly_def by (rule keeps_then) (auto intro: keeps_ret)

lemma credit_sound:
  assumes "registry_ok supplied"
  shows "keeps_sound registry_ok (update_credit supplied i st ev explicit)"
    "keeps_sound registry_ok (recover_credit supplied i st ev)"
    "keeps_sound registry_ok (set_substantive_count i g n supplied)"
proof -
  have tail: "keeps_sound registry_ok (io_then (update_state (on_known supplied i f)) get_registry)"
    if "\<And>m now. evidenced m \<Longrightarrow> evidenced (f now m)" for f
    by (rule keeps_then [OF on_known_sound [OF assms that] keeps_read(3)])
  show "keeps_sound registry_ok (update_credit supplied i st ev explicit)"
    unfolding update_credit_def by (auto intro!: keeps_raise tail evidenced_credit)
  show "keeps_sound registry_ok (recover_credit supplied i st ev)"
    unfolding recover_credit_def by (auto intro!: keeps_raise tail evidenced_recovered)
  show "keeps_sound registry_ok (set_substantive_count i g n supplied)"
    unfolding set_substantive_count_def by (rule tail) (simp add: evidenced_frames)
qed

lemma ledger_sound:
  assumes "registry_ok supplied"
  shows "keeps_sound registry_ok (record_failure f supplied)" "keeps_sound registry_ok (record_success i g a supplied)"
proof -
  show "keeps_sound registry_ok (record_failure f supplied)"
    unfolding record_failure_def
    by (rule keeps_bind [OF keeps_now])
       (auto intro!: keeps_raise keeps_update ok_on_model seeded_ok assms
         simp: Let_def increment_failure_def evidenced_frames)
  show "keeps_sound registry_ok (record_success i g a supplied)"
    unfolding record_success_def
    by (auto intro!: keeps_raise keeps_update ok_on_model seeded_ok assms
         simp: Let_def evidenced_frames split: if_splits)
qed

lemma pool_sound:
  assumes "registry_ok supplied"
  shows "keeps_sound (\<lambda>_. True) (check_pool_recovery supplied)"
  unfolding check_pool_recovery_def
proof (rule keeps_bind [OF keeps_transaction [where Q = "\<lambda>_. True"]])
  show "registry_ok r' \<and> accepted_ok es' \<and> True"
    if "registry_ok r" "accepted_ok es"
      "(case observe_pool supplied now r of (r', x) \<Rightarrow> Inr ((r', es), x)) = Inr ((r', es'), a)" for now r es r' es' a
    using that assms observe_ok [OF that(1) assms] by (auto split: prod.splits)
qed (auto intro: keeps_ret)

lemma repair_route_frame:
  "route_repair_worker r d es goal now = Inr (w, d', es') \<Longrightarrow> accepted_ok es \<Longrightarrow> accepted_ok es'"
  by (auto simp: route_repair_worker_def Let_def split: if_splits sum.splits)

lemma choose_route_accepted:
  "choose_route order gtx ct q now r d es = Inr (w, d', es') \<Longrightarrow> accepted_ok es \<Longrightarrow> accepted_ok es'"
  by (auto simp: choose_route_def dest: repair_route_frame split: if_splits sum.splits option.splits prod.splits)

lemma routed_sound:
  assumes "registry_ok supplied" "routed order gtx ct q supplied now r es = Inr (r', es')" "registry_ok r" "accepted_ok es"
  shows "registry_ok r' \<and> accepted_ok es'"
proof -
  obtain w d es1 where c: "choose_route order gtx ct q now (snapshot supplied r) (dispatch_of (snapshot supplied r)) es = Inr (w, d, es1)"
    using assms(2) by (auto simp: routed_def Let_def split: sum.splits)
  then have "accepted_ok es1" by (rule choose_route_accepted) fact
  moreover have "accepted_ok (broker_entries g ans es1)" if "accepted_ok es1" for g ans
    using that by (simp add: broker_entries_def split: sum.splits)
  ultimately show ?thesis
    using assms c snapshot_ok [OF assms(3,1)] by (auto simp: routed_def Let_def split: option.splits)
qed

text \<open>The director.\<close>

lemma read_broker_ok: "keeps_sound broker_typed read_broker"
  unfolding read_broker_def
  by (rule keeps_bind [OF keeps_read(3)], rule keeps_ret) (simp add: registry_ok_def broker_of_typed)

lemma save_ok: "registry_ok r \<Longrightarrow> keeps_sound (\<lambda>_. True) (save_registry r)"
  unfolding save_registry_def by (rule keeps_write)

lemma edit_broker_ok:
  assumes "\<And>b. broker_typed b \<Longrightarrow> broker_typed (f b)"
  shows "keeps_sound (\<lambda>_. True) (edit_broker f)"
  unfolding edit_broker_def
  by (rule keeps_bind [OF keeps_read(3)], rule save_ok) (simp add: assms broker_of_typed registry_ok_def)

lemma get_current_ok: "keeps_sound (\<lambda>x. \<forall>s. x = Some s \<longrightarrow> state_typed s) get_current_state"
  unfolding get_current_state_def by (rule keeps_bind [OF read_broker_ok], rule keeps_ret) (auto simp: broker_typed_def)

lemma get_task_ok: "keeps_sound (\<lambda>x. \<forall>s. x = Some s \<longrightarrow> state_typed s) (get_task_state task)"
  unfolding get_task_state_def by (rule keeps_bind [OF read_broker_ok], rule keeps_ret) (auto dest: newest_typed)

lemma set_current_ok: "state_typed s \<Longrightarrow> keeps_sound (\<lambda>_. True) (set_current_state s)"
  unfolding set_current_state_def by (rule edit_broker_ok) (simp add: broker_typed_def)

lemma append_history_ok: "state_typed s \<Longrightarrow> keeps_sound (\<lambda>_. True) (append_task_history s)"
  unfolding append_task_history_def by (rule edit_broker_ok) (simp add: broker_typed_def recent_typed)

lemma persist_ok: "state_typed s \<Longrightarrow> keeps_sound (\<lambda>_. True) (persist_state s)"
  unfolding persist_state_def by (rule keeps_then [OF set_current_ok append_history_ok])

lemma append_transition_ok: "keeps_sound (\<lambda>_. True) (append_provider_transition m)"
  unfolding append_provider_transition_def by (rule edit_broker_ok) (simp add: broker_typed_def)

lemma direct_sound: "keeps_sound (\<lambda>_. True) (route_request q)"
  unfolding route_request_def Let_def
  by (auto intro!: keeps_raise keeps_bind [OF keeps_now] keeps_then [OF persist_ok] keeps_ret requested_typed split: sum.splits)

lemma result_sound: "keeps_sound (\<lambda>_. True) (record_result a)"
  unfolding record_result_def Let_def
  by (rule keeps_bind [OF get_task_ok])
     (auto intro!: keeps_raise keeps_bind [OF keeps_now] keeps_then [OF append_transition_ok] keeps_then [OF keeps_ret]
       keeps_then [OF persist_ok] keeps_ret after_attempt_typed split: option.splits)

lemma reset_sound: "keeps_sound (\<lambda>_. True) (reset_task_state task)"
  unfolding reset_task_state_def
  by (rule keeps_bind [OF get_current_ok])
     (auto intro!: keeps_ret keeps_bind [OF keeps_now] keeps_then [OF set_current_ok] simp: state_typed_def split: option.splits)

lemma settings_sound: "keeps_sound (\<lambda>_. True) (update_settings u)"
  unfolding update_settings_def Let_def
  by (rule keeps_bind [OF keeps_read(3)], rule keeps_then [OF save_ok keeps_ret])
     (auto dest!: broker_of_typed simp: registry_ok_def broker_typed_def)

lemma increment_sound:
  assumes "\<And>s. state_typed s \<Longrightarrow> state_typed (bump s)"
  shows "keeps_sound (\<lambda>_. True) (increment_failures count bump task)"
  unfolding increment_failures_def Let_def
  by (rule keeps_bind [OF keeps_read(3)])
     (auto intro!: keeps_raise keeps_ret keeps_then [OF save_ok] assms dest!: broker_of_typed
       simp: registry_ok_def broker_typed_def split: option.splits)

lemma bump_sound: "keeps_sound (\<lambda>_. True) (increment_gtx_failures task)" "keeps_sound (\<lambda>_. True) (increment_p40_failures task)"
  unfolding increment_gtx_failures_def increment_p40_failures_def
  by (auto intro!: increment_sound simp: state_typed_def)

lemma answer_sound: "keeps_sound (\<lambda>_. True) (broker_answer q)"
proof -
  have ask: "keeps_sound (\<lambda>_. True) (ask_director q)"
    unfolding ask_director_def
    by (rule keeps_bind [OF get_current_ok])
       (auto intro!: keeps_ret keeps_bind [OF direct_sound] keeps_bind [OF get_current_ok] split: option.splits)
  show ?thesis
    unfolding broker_answer_def
    by (rule keeps_try) (auto intro!: keeps_bind [OF ask] keeps_bind [OF keeps_ask(2)] keeps_ret)
qed

lemma route_sound:
  assumes "registry_ok supplied"
  shows "keeps_sound registry_ok (route_coding_request q supplied)"
proof -
  have upd: "keeps_sound registry_ok (update_state (routed order gtx ct q supplied))" for order gtx ct
    by (rule keeps_update) (rule routed_sound [OF assms])
  show ?thesis
    unfolding route_coding_request_def
    by (auto intro!: keeps_bind [OF keeps_ask(1)] keeps_bind [OF answer_sound] keeps_then [OF upd] keeps_read keeps_raise
      split: sum.splits)
qed

lemma recorded_ok: "check_attempt a = None \<Longrightarrow> acceptance_ok (AttemptEntry (attempt_entry_of a t es))"
  by (auto simp: check_attempt_def recorded_decision_def attempt_entry_of_def Let_def split: if_splits)

lemma attempted_sound:
  assumes "check_attempt a = None" "registry_ok supplied"
  shows "keeps_sound registry_ok (update_state (attempted a t ctl supplied))"
  by (rule keeps_update)
     (use assms in \<open>auto simp: attempted_def Let_def recorded_ok simp del: acceptance_ok.simps
        intro!: ok_on_model merged_ok evidenced_copilot\<close>)

lemma attempt_sound:
  assumes "\<And>r. reg = Some r \<Longrightarrow> registry_ok r"
  shows "keeps_sound registry_ok (record_attempt_result a reg)"
  unfolding record_attempt_result_def
  by (rule keeps_bind [OF keeps_given [OF assms]], assumption, rule keeps_bind [OF keeps_now])
     (auto intro!: keeps_raise keeps_bind [OF result_sound] attempted_sound split: option.splits)

lemma task_sound:
  assumes "\<And>r. reg = Some r \<Longrightarrow> registry_ok r"
  shows "keeps_sound registry_ok (attempt_coding_task a repair reg)"
  unfolding attempt_coding_task_def Let_def
  by (rule keeps_bind [OF keeps_given [OF assms]], assumption, rule keeps_bind [OF route_sound], assumption)
     (auto intro!: keeps_raise attempt_sound)

lemma transition_sound:
  assumes "\<And>r. reg = Some r \<Longrightarrow> registry_ok r"
  shows "keeps_sound registry_ok (record_provider_transition g src dst reason reg)"
  unfolding record_provider_transition_def
  by (auto intro!: keeps_raise keeps_bind [OF keeps_given [OF assms]] keeps_bind [OF keeps_now] keeps_update seeded_ok
    simp: Let_def split: sum.splits)

lemma shift_op_sound: "list_all registry_ok (supplied_by op) \<Longrightarrow> keeps_sound (\<lambda>_. True) (run_shift_op op)"
  by (cases op)
     (auto intro!: quietly_keeps [OF credit_sound(1)] quietly_keeps [OF credit_sound(2)] quietly_keeps [OF credit_sound(3)]
        quietly_keeps [OF ledger_sound(1)] quietly_keeps [OF ledger_sound(2)] quietly_keeps [OF pool_sound]
        quietly_keeps [OF route_sound] quietly_keeps [OF attempt_sound] quietly_keeps [OF task_sound]
        quietly_keeps [OF transition_sound] quietly_keeps [OF direct_sound] quietly_keeps [OF result_sound]
        quietly_keeps [OF reset_sound] quietly_keeps [OF settings_sound] quietly_keeps [OF bump_sound(1)] quietly_keeps [OF bump_sound(2)] simp: record_final_verification_def split: option.splits)

lemma run_shift_sound:
  assumes "sound registry_ok accepted_ok s" "list_all (\<lambda>op. list_all registry_ok (supplied_by op)) ops"
  shows "sound registry_ok accepted_ok (run_shift ops env s)"
  proof (rule run_shift_keeps)
  show "any_senv env" by (simp add: any_senv_def)
qed (use assms in \<open>auto intro!: shift_op_sound simp: list_all_iff\<close>)


definition demo_calls :: "shift_op list" where
  "demo_calls = [ShAttempt (attempt_by ''copilot'' ''credit_exhausted'') None, ShAttempt (attempt_by ''p40'' ''tests_failed'') None,
     ShRoute (coding_task gtx_workflow) empty_registry, ShFinal (attempt_by ''codex'' ''success'') None]"

abbreviation demo_end :: sfile where
  "demo_end \<equiv> run_shift demo_calls calm_shift (shift_with [plain_model ''copilot'' ''active''])"

lemma demo_calls_ok:
  "registry_ok (ss_registry (shift_with [plain_model ''copilot'' ''active'']))"
  "accepted_ok (ss_ledger (shift_with [plain_model ''copilot'' ''active'']))"
  "\<forall>op\<in>set demo_calls. \<forall>r\<in>set (supplied_by op). registry_ok r"
  by (simp_all add: registry_ok_def all_evidenced_def typed_def shift_with_def empty_registry_def plain_model_def evidenced_def
    models_of_def accepted_ok_def demo_calls_def)


text \<open>C36. The same sequences keep the broker's namespace well typed: every state in it, current or
  in the history, names the P40, Codex or Second Shift as the worker, never a GTX model, has a class and a
  quality preference of the enumerations and a positive attempt number, and the history holds at most a
  hundred states.\<close>

theorem broker_state_well_typed:
  assumes "registry_ok (ss_registry s)" "accepted_ok (ss_ledger s)"
    "\<forall>op\<in>set ops. \<forall>r\<in>set (supplied_by op). registry_ok r" "rg_gtx (ss_registry (run_shift ops env s)) = Some b"
  shows "(\<forall>t. gb_current b = Some t \<or> t \<in> set (gb_history b) \<longrightarrow>
      gs_model t \<in> {''p40_qwen35'', ''codex'', ''second_shift''} \<and> gs_class t \<in> class_value ` set task_classes \<and>
      gs_quality t \<in> {''quality'', ''speed''} \<and> 1 \<le> gs_attempt t) \<and> length (gb_history b) \<le> 100"
proof -
  have "sound registry_ok accepted_ok (run_shift ops env s)"
    by (rule run_shift_sound) (use assms in \<open>simp_all add: sound_def list_all_iff\<close>)
  then have "broker_typed b" using assms(4) by (simp add: sound_def registry_ok_def typed_def)
  then show ?thesis
    by (auto simp: broker_typed_def state_typed_def list_all_iff broker_workers_def history_limit_def)
qed

theorem broker_state_well_typed_witness:
  "\<exists>b t. rg_gtx (ss_registry demo_end) = Some b \<and> t \<in> set (gb_history b) \<and>
     gs_model t \<in> {''p40_qwen35'', ''codex'', ''second_shift''}"
proof -
  have "(case rg_gtx (ss_registry demo_end) of None \<Rightarrow> False | Some b \<Rightarrow> gb_history b \<noteq> [])" by code_simp
  then obtain b where b: "rg_gtx (ss_registry demo_end) = Some b" "gb_history b \<noteq> []" by (auto split: option.splits)
  then have "hd (gb_history b) \<in> set (gb_history b)" by simp
  with b broker_state_well_typed [OF demo_calls_ok b(1)] show ?thesis by blast
qed

section \<open>The P40's counter and the ledger\<close>

definition steady :: "senv \<Rightarrow> bool" where
  "steady env = (\<forall>t. se_fault env t = Fine)"

text \<open>What a call returned, from the transaction it made.\<close>

lemma transaction_ok:
  "transaction m env s = (Ok (r, a), s') \<Longrightarrow>
   \<exists>now. m now (ss_registry s) (ss_ledger s) = Inr ((r, ss_ledger s'), a) \<and> ss_registry s' = r"
  by (auto simp: transaction_def io_bind_def io_then_def io_ret_def io_raise_def shift_now_def read_registry_def read_ledger_def
    write_registry_def write_ledger_def shift_step_def Let_def split: fault.splits sum.splits prod.splits if_splits)

lemma update_state_ok:
  assumes "update_state m env s = (Ok r, s')"
  shows "\<exists>now. m now (ss_registry s) (ss_ledger s) = Inr (r, ss_ledger s') \<and> ss_registry s' = r"
proof -
  obtain a where t: "transaction (\<lambda>now r es. case m now r es of Inl e \<Rightarrow> Inl e | Inr x \<Rightarrow> Inr (x, ())) env s = (Ok (r, a), s')"
    using assms by (auto simp: update_state_def io_bind_def io_ret_def split: prod.splits outcome.splits)
  then obtain now where now: "(case m now (ss_registry s) (ss_ledger s) of Inl e \<Rightarrow> Inl e | Inr x \<Rightarrow> Inr (x, ())) =
      Inr ((r, ss_ledger s'), a)" "ss_registry s' = r"
    by (blast dest: transaction_ok)
  then show ?thesis by (intro exI [of _ now]) (cases "m now (ss_registry s) (ss_ledger s)"; simp)
qed

text \<open>Undisturbed, a transaction changes both files or neither.\<close>

lemma steady_update:
  assumes "T (ss_registry s) (ss_ledger s)"
    "\<And>now r es. m now (ss_registry s) (ss_ledger s) = Inr (r, es) \<Longrightarrow> T r es"
  shows "io_wp steady (update_state m) (\<lambda>_ s'. T (ss_registry s') (ss_ledger s')) (\<lambda>_ s'. T (ss_registry s') (ss_ledger s')) D s"
  unfolding io_wp_def
proof (intro allI impI)
  fix env assume "steady env"
  then show "case update_state m env s of (Ok a, s') \<Rightarrow> T (ss_registry s') (ss_ledger s')
      | (Raised e, s') \<Rightarrow> T (ss_registry s') (ss_ledger s') | (Died, s') \<Rightarrow> D s'"
    using assms
    by (simp add: steady_def update_state_def transaction_def io_bind_def io_then_def io_ret_def io_raise_def shift_now_def
      read_registry_def read_ledger_def write_registry_def write_ledger_def shift_step_def Let_def split: sum.splits prod.splits)
qed

fun strikes :: "pystr \<Rightarrow> entry \<Rightarrow> bool" where
  "strikes k (AttemptEntry e) = (goal_key (ae_goal e) (ae_class e) = k \<and> counts_for_p40 (ae_model e) (ae_kind e))"
| "strikes k _ = False"

definition tallied :: "registry_doc \<Rightarrow> entry list \<Rightarrow> bool" where
  "tallied r es = (rg_dispatch r \<noteq> None \<and> (\<forall>k. p40_count k (dispatch_of r) = int (length (filter (strikes k) es))))"

lemma tallied_append: "(\<And>k. \<not> strikes k e) \<Longrightarrow> tallied r (es @ [e]) = tallied r es"
  by (simp add: tallied_def)

lemma repair_route_tally:
  "route_repair_worker r d es goal now = Inr (w, d', es') \<Longrightarrow> dp_failures d' = dp_failures d \<and> (\<forall>x. tallied x es' = tallied x es)"
  by (auto simp: route_repair_worker_def Let_def tallied_append split: if_splits sum.splits)

lemma choose_route_tally:
  "choose_route order gtx ct q now r d es = Inr (w, d', es') \<Longrightarrow> dp_failures d' = dp_failures d \<and> (\<forall>x. tallied x es' = tallied x es)"
  by (auto simp: choose_route_def gtx_choice_def dest: repair_route_tally split: if_splits sum.splits option.splits prod.splits)

lemma tallied_dispatch:
  "dp_failures d = dp_failures (dispatch_of r) \<Longrightarrow> tallied r es \<Longrightarrow> tallied (r'\<lparr>rg_dispatch := Some d\<rparr>) es"
  by (simp add: tallied_def dispatch_of_def p40_count_def)

lemma tallied_broker: "tallied r (broker_entries g ans es) = tallied r es"
  by (simp add: broker_entries_def tallied_append split: sum.splits)

lemma routed_tally:
  assumes "routed order gtx ct q supplied now r es = Inr (r', es')" "tallied r es"
  shows "tallied r' es'"
proof -
  have same: "dispatch_of (snapshot supplied r) = dispatch_of r"
    using assms(2) by (auto simp: tallied_def snapshot_def merged_def dispatch_of_def split: option.splits)
  obtain w d es1 where c: "choose_route order gtx ct q now (snapshot supplied r) (dispatch_of r) es = Inr (w, d, es1)"
    using assms(1) same by (auto simp: routed_def Let_def split: sum.splits)
  note tally = choose_route_tally [OF c]
  then have "tallied r es1" using assms(2) by blast
  then show ?thesis
    using assms(1) c tally
    by (auto simp: routed_def Let_def same tallied_broker intro!: tallied_dispatch [of _ r] split: option.splits)
qed

lemma counted_tally:
  assumes "tallied r es"
  shows "p40_count k (counted a (dispatch_of r)) = int (length (filter (strikes k) (es @ [AttemptEntry (attempt_entry_of a t es)])))"
  using assms
  by (auto simp: tallied_def counted_def attempt_entry_of_def p40_count_def update_conv Let_def split: option.splits)

lemma attempted_tally:
  assumes "attempted a t ctl supplied now r es = Inr (r', es')" "tallied r es"
  shows "tallied r' es'"
proof -
  let ?r = "if models_of r = [] then merged r supplied else r"
  have same: "dispatch_of ?r = dispatch_of r" "rg_dispatch r \<noteq> None"
    using assms(2) by (auto simp: tallied_def merged_def dispatch_of_def)
  obtain d where "rg_dispatch r' = Some d" "dp_failures d = dp_failures (counted a (dispatch_of ?r))"
    using assms(1) by (cases ctl) (auto simp: attempted_def Let_def controlled_def split del: if_split)
  moreover have "es' = es @ [AttemptEntry (attempt_entry_of a t es)]"
    using assms(1) by (simp add: attempted_def Let_def split del: if_split)
  ultimately show ?thesis
    using counted_tally [OF assms(2), of _ a t] by (simp add: tallied_def dispatch_of_def p40_count_def same [unfolded dispatch_of_def])
qed

definition tally_kept :: "sfile \<Rightarrow> sfile \<Rightarrow> bool" where
  "tally_kept s s' = (tallied (ss_registry s) (ss_ledger s) \<longrightarrow> tallied (ss_registry s') (ss_ledger s'))"

interpretation tally: effect_law steady tally_kept
  by unfold_locales (auto simp: tally_kept_def)

lemma tally_reads [io_intros]:
  "io_obeys steady tally_kept get_registry" "io_obeys steady tally_kept shift_now" "io_obeys steady tally_kept (shift_ask f)"
  "io_obeys steady tally_kept (exn_message e)"
  by (auto simp: io_obeys_def tally_kept_def exn_message_def get_registry_def read_registry_def shift_step_def shift_now_def shift_ask_def Let_def
    split: fault.splits)

lemma tally_update [io_intros]:
  assumes "\<And>now r es r' es'. tallied r es \<Longrightarrow> m now r es = Inr (r', es') \<Longrightarrow> tallied r' es'"
  shows "io_obeys steady tally_kept (update_state m)"
  unfolding io_obeys_def
proof (intro allI impI)
  fix env s assume env: "steady env"
  obtain x s' where run: "update_state m env s = (x, s')" by (metis surj_pair)
  have "tallied (ss_registry s') (ss_ledger s')" if "tallied (ss_registry s) (ss_ledger s)"
    using io_wp_run [OF steady_update, of tallied s m env x s' "\<lambda>s'. tallied (ss_registry s') (ss_ledger s')"] that assms env run
    by (cases x) auto
  then show "tally_kept s (snd (update_state m env s))" by (simp add: tally_kept_def run)
qed

lemma tally_given [io_intros]: "io_obeys steady tally_kept (given_or_stored reg)"
  unfolding given_or_stored_def by (intro io_intros)

lemma tallied_gtx [simp]: "tallied (r\<lparr>rg_gtx := b\<rparr>) es = tallied r es"
  by (simp add: tallied_def dispatch_of_def)

lemma tally_edit [io_intros]: "io_obeys steady tally_kept (edit_broker f)"
  by (auto simp: io_obeys_def tally_kept_def edit_broker_def save_registry_def write_registry_def get_registry_def read_registry_def
    shift_step_def io_bind_def steady_def Let_def)

lemma tally_current [io_intros]: "io_obeys steady tally_kept get_current_state" "io_obeys steady tally_kept (get_task_state t)"
  unfolding get_current_state_def get_task_state_def read_broker_def by (intro io_intros)+

lemma tally_persist [io_intros]:
  "io_obeys steady tally_kept (persist_state st)" "io_obeys steady tally_kept (append_provider_transition m)"
  unfolding persist_state_def set_current_state_def append_task_history_def append_provider_transition_def
  by (intro io_intros)+

lemma tally_direct [io_intros]: "io_obeys steady tally_kept (route_request q)"
  unfolding route_request_def Let_def by (intro io_intros)

lemma tally_result [io_intros]: "io_obeys steady tally_kept (record_result a)"
  unfolding record_result_def Let_def by (intro io_intros)

lemma tally_answer [io_intros]: "io_obeys steady tally_kept (broker_answer q)"
  unfolding broker_answer_def ask_director_def by (intro io_intros)

lemma tally_route [io_intros]: "io_obeys steady tally_kept (route_coding_request q supplied)"
  unfolding route_coding_request_def by (intro io_intros) (erule (1) routed_tally [rotated])+

lemma tally_attempt [io_intros]: "io_obeys steady tally_kept (record_attempt_result a reg)"
  unfolding record_attempt_result_def by (intro io_intros) (erule (1) attempted_tally [rotated])+

lemma tally_task [io_intros]: "io_obeys steady tally_kept (attempt_coding_task a q reg)"
  unfolding attempt_coding_task_def Let_def by (intro io_intros)

lemma tally_reset [io_intros]: "io_obeys steady tally_kept (reset_task_state t)"
  unfolding reset_task_state_def set_current_state_def by (intro io_intros)

text \<open>The calls of the dispatcher and of the director.\<close>

fun dispatcher_op :: "shift_op \<Rightarrow> bool" where
  "dispatcher_op (ShRoute q r) = True"
| "dispatcher_op (ShAttempt a r) = True"
| "dispatcher_op (ShTask a repair r) = True"
| "dispatcher_op (ShFinal a r) = True"
| "dispatcher_op (ShDirect q) = True"
| "dispatcher_op (ShResult a) = True"
| "dispatcher_op (ShReset t) = True"
| "dispatcher_op _ = False"

lemma tally_op: "dispatcher_op op \<Longrightarrow> io_obeys steady tally_kept (run_shift_op op)"
  by (cases op) (auto intro!: io_intros simp: quietly_def record_final_verification_def)



end
