(* ===== verification/ShiftRoutes.thy ===== *)
theory ShiftRoutes
  imports ShiftProps
begin

text \<open>
  What Second Shift decides: the worker a routing request selects, the models an observation of the pool may
  change, and the two places where the decision or the state is not what the package promises.
\<close>

section \<open>Undisturbed runs\<close>

lemma steady_fine: "steady env \<Longrightarrow> se_fault env t = Fine"
  by (simp add: steady_def)

lemma steady_update_run: "steady env \<Longrightarrow> update_state m env s =
   (case m (se_clock env (ss_tick s + 2)) (ss_registry s) (ss_ledger s) of
      Inl e \<Rightarrow> (Raised e, s\<lparr>ss_tick := ss_tick s + 2\<rparr>)
    | Inr (r, es) \<Rightarrow> (Ok r, s\<lparr>ss_registry := r, ss_ledger := es, ss_tick := ss_tick s + 4\<rparr>))"
  by (simp add: update_state_def transaction_def io_bind_def io_then_def io_ret_def io_raise_def shift_now_def read_registry_def
    read_ledger_def write_registry_def write_ledger_def shift_step_def steady_fine Let_def eval_nat_numeral
    split: sum.splits prod.splits)

lemma steady_read: "steady env \<Longrightarrow> get_registry env s = (Ok (ss_registry s), s\<lparr>ss_tick := ss_tick s + 1\<rparr>)"
  by (simp add: get_registry_def read_registry_def shift_step_def steady_fine Let_def)

lemma steady_edit: "steady env \<Longrightarrow> edit_broker f env s =
   (Ok (), s\<lparr>ss_registry := (ss_registry s)\<lparr>rg_gtx := Some (f (broker_of (ss_registry s)))\<rparr>, ss_tick := ss_tick s + 2\<rparr>)"
  by (simp add: edit_broker_def io_bind_def steady_read save_registry_def write_registry_def shift_step_def steady_fine Let_def)

section \<open>Routes\<close>

lemma least_failing_least:
  assumes "least_failing f is best = Some (n, i)" "\<And>m j. best = Some (m, j) \<Longrightarrow> m = f j"
  shows "n = f i \<and> (i \<in> set is \<or> best = Some (n, i)) \<and> (\<forall>j\<in>set is. n \<le> f j) \<and> (\<forall>m j. best = Some (m, j) \<longrightarrow> n \<le> m)"
  using assms
proof (induction "is" arbitrary: best)
  case (Cons k ks)
  define best' where "best' = (case best of None \<Rightarrow> Some (f k, k) | Some (n, j) \<Rightarrow> if f k < n then Some (f k, k) else Some (n, j))"
  have good: "best' = Some (m, j) \<Longrightarrow> m = f j \<and> (j = k \<or> best = Some (m, j)) \<and> m \<le> f k" for m j
    using Cons.prems(2) by (cases best) (auto simp: best'_def split: if_splits)
  have low: "\<exists>m' j'. best' = Some (m', j') \<and> m' \<le> f k \<and> (\<forall>m j. best = Some (m, j) \<longrightarrow> m' \<le> m)"
    by (cases best) (force simp: best'_def)+
  have run: "least_failing f ks best' = Some (n, i)" using Cons.prems(1) by (simp add: best'_def)
  have ih: "n = f i \<and> (i \<in> set ks \<or> best' = Some (n, i)) \<and> (\<forall>j\<in>set ks. n \<le> f j) \<and> (\<forall>m j. best' = Some (m, j) \<longrightarrow> n \<le> m)"
    by (rule Cons.IH [OF run]) (simp add: good)
  from low obtain m' j' where b: "best' = Some (m', j')" "m' \<le> f k" "\<And>m j. best = Some (m, j) \<Longrightarrow> m' \<le> m" by blast
  from ih b(1) have "n \<le> m'" by blast
  with ih b(2,3) good show ?case by (auto intro: order_trans)
qed auto

lemma least_failing_some: "is \<noteq> [] \<Longrightarrow> least_failing f is best \<noteq> None"
  and least_failing_keeps: "least_failing f is (Some x) \<noteq> None"
proof -
  show keep: "least_failing f is (Some x) \<noteq> None" for "is" x
    by (induction "is" arbitrary: x) (auto split: prod.splits)
  show "is \<noteq> [] \<Longrightarrow> least_failing f is best \<noteq> None"
    using keep by (cases "is") (auto split: option.splits prod.splits simp del: not_None_eq)
qed

lemma secondary_model_fits:
  assumes "select_secondary_model order cls r = Inr w" "\<And>l. set (order l) = set l"
  shows "w \<in> set (usable_ids r) - set reserved_workers \<and>
    (\<forall>j\<in>set (usable_ids r) - set reserved_workers. substantive_count w cls r \<le> substantive_count j cls r)"
proof -
  let ?ids = "filter (\<lambda>i. i \<notin> set reserved_workers) (usable_ids r)"
  have ids: "?ids \<noteq> []" "order ?ids \<noteq> []"
    using assms(1) assms(2) [of ?ids] by (auto simp: select_secondary_model_def Let_def split: if_splits)
  have "least_failing (\<lambda>i. substantive_count i cls r) (order ?ids) None \<noteq> None"
    by (rule least_failing_some [OF ids(2)])
  then obtain n where "least_failing (\<lambda>i. substantive_count i cls r) (order ?ids) None = Some (n, w)"
    using assms(1) ids(1) by (auto simp: select_secondary_model_def Let_def simp del: not_None_eq split: option.splits)
  from least_failing_least [OF this] show ?thesis using assms(2) [of ?ids] by auto
qed


lemma select_secondary_total:
  assumes "\<And>l. set (order l) = set l"
  shows "(\<exists>w. select_secondary_model order cls r = Inr w) \<or> set (usable_ids r) \<subseteq> set reserved_workers"
  using least_failing_some [of "order (filter (\<lambda>i. i \<notin> set reserved_workers) (usable_ids r))"] assms
  by (auto simp: select_secondary_model_def Let_def filter_empty_conv split: option.splits)

lemma repair_route_worker:
  "\<exists>d' es'. route_repair_worker r d es goal now = Inr (choose_repair_worker (copilot_available r), d', es')"
  by (auto simp: route_repair_worker_def choose_repair_worker_def provider_transition_def provider_events_def Let_def
    split: option.splits)

text \<open>What \<open>choose_route\<close> answers outside the GTX workflow and outside a repair.\<close>

definition chosen_fits :: "registry_doc \<Rightarrow> coding_request \<Rightarrow> pystr \<Rightarrow> bool" where
  "chosen_fits r q w = (
     if p40_count (goal_key (rr_goal q) (rr_class q)) (dispatch_of r) < strike_limit then w = ''p40''
     else if rr_workflow q = ''direct-escalation'' then w = choose_repair_worker (copilot_available r)
     else w \<in> set (usable_ids r) - set reserved_workers \<and>
       (\<forall>j\<in>set (usable_ids r) - set reserved_workers. substantive_count w (rr_class q) r \<le> substantive_count j (rr_class q) r))"

lemma contract_names: "get_workflow_contract w = Inr ct \<Longrightarrow> ct_name ct = w \<and> w \<in> {''layered-review'', ''direct-escalation''}"
  by (auto simp: get_workflow_contract_def layered_review_def direct_escalation_def default_contract_def split: if_splits)

lemma known_contract: "w \<in> {''layered-review'', ''direct-escalation''} \<Longrightarrow> \<exists>ct. get_workflow_contract w = Inr ct"
  by (auto simp: get_workflow_contract_def layered_review_def direct_escalation_def default_contract_def)

lemma choose_route_cases:
  assumes "\<not> rr_repair q" "get_workflow_contract (rr_workflow q) = Inr ct" "\<And>l. set (order l) = set l"
  shows "case choose_route order None (Some ct) q now r (dispatch_of r) es of
     Inr (w, d, es') \<Rightarrow> chosen_fits r q w
   | Inl e \<Rightarrow> strike_limit \<le> p40_count (goal_key (rr_goal q) (rr_class q)) (dispatch_of r) \<and> rr_workflow q = ''layered-review'' \<and>
       set (usable_ids r) \<subseteq> set reserved_workers"
proof -
  note ct = contract_names [OF assms(2)]
  obtain d' es' where rep: "route_repair_worker r (dispatch_of r) es (rr_goal q) now = Inr (choose_repair_worker (copilot_available r), d', es')"
    using repair_route_worker by blast
  have sel: "case select_secondary_model order (rr_class q) r of Inl e \<Rightarrow> set (usable_ids r) \<subseteq> set reserved_workers
     | Inr w \<Rightarrow> w \<in> set (usable_ids r) - set reserved_workers \<and>
         (\<forall>j\<in>set (usable_ids r) - set reserved_workers. substantive_count w (rr_class q) r \<le> substantive_count j (rr_class q) r)"
    using select_secondary_total [of order "rr_class q" r] assms(3) secondary_model_fits [of order "rr_class q" r]
    by (auto split: sum.splits)
  show ?thesis
    using ct sel assms(1) rep
    by (auto simp: choose_route_def chosen_fits_def direct_escalation_def default_contract_def split: sum.splits)
qed


definition struck_out :: sfile where
  "struck_out = (let s = shift_with [put_count ''coding'' 2 (plain_model ''m1'' ''active''), plain_model ''m2'' ''active'',
       plain_model ''codex'' ''active'', plain_model ''m0'' ''standby''] in
     s\<lparr>ss_registry := (ss_registry s)\<lparr>rg_dispatch := Some (empty_dispatcher\<lparr>dp_failures := [(''g:coding'', 3)]\<rparr>)\<rparr>\<rparr>)"


section \<open>The pool\<close>

text \<open>One model before and after an observation.\<close>

definition pool_change :: "bool \<Rightarrow> bool \<Rightarrow> pystr list \<Rightarrow> smodel \<Rightarrow> smodel \<Rightarrow> bool" where
  "pool_change dropped risen original m m' = (m' = m \<or> sm_id m \<in> {''copilot'', ''codex''} \<and> sm_id m \<notin> set original \<and>
     (dropped \<and> m' = m\<lparr>sm_status := ''active''\<rparr> \<or> risen \<and> m' = m\<lparr>sm_status := ''standby''\<rparr>))"

lemma pool_change_remdups: "pool_change dropped risen (remdups original) = pool_change dropped risen original"
  by (intro ext) (simp add: pool_change_def)

lemma at_first_all2: "(\<And>m. R m m) \<Longrightarrow> (\<And>m. sm_id m = i \<Longrightarrow> R m (f m)) \<Longrightarrow> list_all2 R ms (at_first i f ms)"
  by (induction ms) (auto intro: list_all2_refl)

lemma found_id: "find_model i r = Some m \<Longrightarrow> sm_id m = i"
  by (auto simp: find_model_def find_Some_iff)

lemma recovery_member: "1 \<le> n \<Longrightarrow> n \<le> 2 \<Longrightarrow> recovery_members ! (n - 1) \<in> {''copilot'', ''codex''} \<and> recovery_members ! (2 - n) \<in> {''copilot'', ''codex''}"
  by (cases "n = 1") (auto simp: recovery_members_def nth_Cons' numeral_2_eq_2)

lemma drop_step_change:
  assumes "drop_step (p, r, acts) = (p', r', acts')"
  shows "pl_original p' = pl_original p \<and> list_all2 (pool_change True risen (pl_original p)) (models_of r) (models_of r')"
proof -
  have refl: "list_all2 (pool_change True risen (pl_original p)) ms ms" for ms
    by (rule list_all2_refl) (simp add: pool_change_def)
  have mem: "Suc (pl_to_two p) \<le> 2 \<Longrightarrow> recovery_members ! (Suc (pl_to_two p) - 1) \<in> {''copilot'', ''codex''}"
    using recovery_member [of "Suc (pl_to_two p)"] by simp
  show ?thesis
    using assms mem refl
    by (auto simp: drop_step_def Let_def models_of_on_model pool_change_def set_status_def dest!: found_id
      intro!: at_first_all2 split: if_splits option.splits)
qed

lemma rise_step_change:
  assumes "rise_step (p, r, acts) = (p', r', acts')"
  shows "pl_original p' = pl_original p \<and> list_all2 (pool_change dropped True (pl_original p)) (models_of r) (models_of r')"
proof -
  have refl: "list_all2 (pool_change dropped True (pl_original p)) ms ms" for ms
    by (rule list_all2_refl) (simp add: pool_change_def)
  have mem: "Suc (pl_to_four p) \<le> 2 \<Longrightarrow> recovery_members ! (2 - Suc (pl_to_four p)) \<in> {''copilot'', ''codex''}"
    using recovery_member [of "Suc (pl_to_four p)"] by simp
  show ?thesis
    using assms mem refl
    by (auto simp: rise_step_def Let_def models_of_on_model pool_change_def set_status_def dest!: found_id
      intro!: at_first_all2 split: if_splits option.splits)
qed

lemma pool_steps_change:
  assumes "pool_steps dropped risen (p, r, []) = (p', r', acts)" "\<not> (dropped \<and> risen)"
  shows "pl_original p' = pl_original p \<and> list_all2 (pool_change dropped risen (pl_original p)) (models_of r) (models_of r')"
proof (cases dropped)
  case True
  then show ?thesis using assms drop_step_change [of p r "[]" p' r' acts risen] by (simp add: pool_steps_def Let_def)
next
  case low: False
  show ?thesis
  proof (cases risen)
    case True
    then show ?thesis using low assms rise_step_change [of p r "[]" p' r' acts dropped] by (simp add: pool_steps_def Let_def)
  next
    case False
    have "list_all2 (pool_change dropped risen (pl_original p)) ms ms" for ms
      by (rule list_all2_refl) (simp add: pool_change_def)
    then show ?thesis using low False assms by (simp add: pool_steps_def Let_def)
  qed
qed

lemma never_both: "\<not> (drops_to_two p n \<and> rises_to_four p n)"
  by (auto simp: drops_to_two_def rises_to_four_def split: option.splits)

lemma observe_change:
  assumes "observe_pool seed now r = (r', acts, dropped, risen)"
  defines "r0 \<equiv> seeded seed r"
  shows "list_all2 (pool_change dropped risen (pl_original (recovery_state r'))) (models_of r0) (models_of r') \<and>
    pl_usable (recovery_state r') = Some (length (usable_ids r0)) \<and>
    dropped = drops_to_two (recovery_state r0) (length (usable_ids r0)) \<and>
    risen = rises_to_four (recovery_state r0) (length (usable_ids r0))"
proof -
  define n where "n = length (usable_ids r0)"
  define p where "p = with_originals r0 (recovery_state r0)"
  have last: "pl_last p = pl_last (recovery_state r0)" by (simp add: p_def with_originals_def)
  have d: "dropped = drops_to_two p n" "risen = rises_to_four p n"
    using assms by (auto simp: observe_pool_def Let_def n_def p_def r0_def split: prod.splits)
  obtain p' r1 acts' where st: "pool_steps dropped risen (p, r0, []) = (p', r1, acts')" by (metis prod_cases3)
  have r': "r' = r1\<lparr>rg_pool := Some (noted dropped risen acts' now n p')\<rparr>"
    using assms st d by (auto simp: observe_pool_def Let_def n_def p_def r0_def)
  note ch = pool_steps_change [OF st] never_both [of p n]
  have same: "pl_original (recovery_state r') = pl_original p'" "pl_usable (recovery_state r') = Some n"
    by (simp_all add: r' recovery_state_def noted_def Let_def)
  show ?thesis
    using ch d same last r' by (simp add: n_def drops_to_two_def rises_to_four_def)
qed


definition small_pool :: sfile where
  "small_pool = shift_with [plain_model ''m1'' ''active'', plain_model ''m2'' ''active'', plain_model ''copilot'' ''active'']"

text \<open>The pool is observed, Copilot fails to authenticate, and the pool is observed again.\<close>

definition lost_copilot :: "shift_op list" where
  "lost_copilot = [ShPool empty_registry, ShAttempt (attempt_by ''copilot'' ''authentication'') None]"


text \<open>A model that became unusable returns to service by an observation of the pool: Copilot, put out of service because its
  provider refused it, is active again, still with the reason on it and with no reviewer named, although
  \<open>reactivate_model\<close> asks for a reviewer and evidence.\<close>

lemma unusable_copilot_returns:
  "is_model_quarantined ''copilot'' (ss_registry (run_shift lost_copilot calm_shift small_pool)) \<and>
   (let r = ss_registry (run_shift (lost_copilot @ [ShPool empty_registry]) calm_shift small_pool) in
      is_model_active ''copilot'' r \<and>
      map_option (\<lambda>m. (sm_reason m, sm_reviewed_by m, sm_review_evidence m)) (find_model ''copilot'' r) =
        Some (Some ''Copilot provider unavailable: authentication'', None, None))"
  by code_simp

text \<open>The process dies between the two files of a transaction.\<close>

definition dies_at :: "nat \<Rightarrow> senv" where
  "dies_at t = calm_shift\<lparr>se_fault := (\<lambda>n. if n = t then Dies False else Fine)\<rparr>"

lemma killed_between_files:
  "let s = run_shift [ShAttempt (attempt_by ''p40'' ''tests_failed'') None] (dies_at 4) (shift_with []) in
   p40_count ''g:coding'' (dispatch_of (ss_registry s)) = 1 \<and> ss_ledger s = []"
  by code_simp

text \<open>An attempt under the GTX workflow whose transaction fails has been counted by the director; made again, it is counted
  again, and the ledger holds it once.\<close>

definition fails_at :: "nat \<Rightarrow> senv" where
  "fails_at t = calm_shift\<lparr>se_fault := (\<lambda>n. if n = t then Fails False else Fine)\<rparr>"

definition gtx_attempt :: shift_op where
  "gtx_attempt = ShAttempt (attempt_by ''p40_qwen35'' ''tests_failed''\<lparr>ar_workflow := gtx_workflow\<rparr>) None"

lemma gtx_attempt_counted_twice:
  "let s = run_shift [ShRoute (coding_task gtx_workflow) empty_registry, gtx_attempt, gtx_attempt] (fails_at 19) (shift_with []) in
   map_option (\<lambda>t. (gs_p40_failures t, gs_attempt t)) (gb_current (broker_of (ss_registry s))) = Some (2, 3) \<and>
   length (attempts_of None None (ss_ledger s)) = 1"
  by code_simp

end
