(* ===== verification/GtxRuns.thy ===== *)
theory GtxRuns
  imports ShiftRoutes
begin

text \<open>
  What becomes of a task under the GTX broker's director, from the results recorded for it: how many attempts
  the P40 gets before Codex takes over, and where that bound does not hold.
\<close>

section \<open>One recorded result\<close>

abbreviation newest :: "pystr \<Rightarrow> sfile \<Rightarrow> gtx_state option" where
  "newest task s \<equiv> newest_state task (broker_of (ss_registry s))"

lemma find_holds: "find P xs = Some x \<Longrightarrow> P x"
  by (auto simp: find_Some_iff)

lemma newest_task: "newest_state task b = Some s \<Longrightarrow> gs_task s = task \<and> gs_workflow s \<noteq> None"
  by (auto simp: newest_state_def from_dict_def dest!: find_holds split: if_splits option.splits)

lemma newest_current: "gb_current b = Some s \<Longrightarrow> gs_task s = task \<Longrightarrow> gs_workflow s \<noteq> None \<Longrightarrow> newest_state task b = Some s"
  by (auto simp: newest_state_def from_dict_def)

lemma after_attempt_same [simp]:
  "gs_task (after_attempt a now s) = gs_task s" "gs_workflow (after_attempt a now s) = gs_workflow s"
  "gs_attempt (after_attempt a now s) = gs_attempt s + 1"
  by (simp_all add: after_attempt_def)

lemma broker_of_set [simp]: "broker_of (r\<lparr>rg_gtx := Some b\<rparr>) = b"
  by (simp add: broker_of_def)

lemma persist_run:
  assumes "steady env"
  shows "persist_state st env s = (Ok (), s\<lparr>ss_tick := Suc (Suc (Suc (Suc (ss_tick s)))), ss_registry := (ss_registry s)\<lparr>rg_gtx := Some
    (let b = broker_of (ss_registry s) in b\<lparr>gb_current := Some st, gb_history := recent (gb_history b @ [st])\<rparr>)\<rparr>\<rparr>)"
  by (simp add: persist_state_def set_current_state_def append_task_history_def io_then_def io_bind_def steady_edit [OF assms] Let_def)

lemma record_result_step:
  assumes "steady env" "newest (at_task a) s = Some st"
  shows "\<exists>now. newest (at_task a) (snd (record_result a env s)) = Some (after_attempt a now st)"
proof -
  let ?t = "after_attempt a (se_clock env (Suc (ss_tick s))) st"
  have st: "gs_task st = at_task a" "gs_workflow st \<noteq> None" using newest_task [OF assms(2)] by simp_all
  have get: "get_task_state (at_task a) env s = (Ok (Some st), s\<lparr>ss_tick := ss_tick s + 1\<rparr>)"
    using assms by (simp add: get_task_state_def read_broker_def io_bind_def io_ret_def steady_read)
  have "gb_current (broker_of (ss_registry (snd (record_result a env s)))) = Some ?t"
    by (cases "er_target (evaluated a st) = gs_model st")
       (simp_all add: record_result_def io_bind_def io_then_def io_ret_def get shift_now_def Let_def
         append_provider_transition_def steady_edit [OF assms(1)] persist_run [OF assms(1)])
  then show ?thesis
    using st by (intro exI newest_current) auto
qed

lemma quiet_state: "snd (quietly m env s) = snd (m env s)"
  by (auto simp: quietly_def io_then_def io_bind_def io_ret_def split: prod.splits outcome.splits)

section \<open>Sequences of results\<close>

text \<open>A condition on the newest state that every recorded result of a task keeps holds after all of them.\<close>

lemma results_run:
  assumes "steady env" "newest task s = Some st" "I (0::nat) st" "\<forall>a\<in>set as. at_task a = task"
    "\<And>n a now st. a \<in> set as \<Longrightarrow> I n st \<Longrightarrow> I (n + 1) (after_attempt a now st)"
  shows "\<exists>st'. newest task (run_shift (map ShResult as) env s) = Some st' \<and> I (length as) st'"
proof -
  have "\<exists>st'. newest task (run_shift (map ShResult bs) env s) = Some st' \<and> I (k + length bs) st'"
    if "newest task s = Some st" "I k st" "set bs \<subseteq> set as" for bs s st k
    using that
  proof (induction bs arbitrary: s st k)
    case (Cons a bs)
    have task: "at_task a = task" using assms(4) Cons.prems(3) by simp
    obtain now where step: "newest task (snd (record_result a env s)) = Some (after_attempt a now st)"
      using record_result_step [OF assms(1), of a s st] Cons.prems(1) task by auto
    have "I (k + 1) (after_attempt a now st)" using assms(5) Cons.prems by simp
    from Cons.IH [OF step this] Cons.prems(3) show ?case by (simp add: quiet_state)
  qed auto
  from this [OF assms(2,3)] show ?thesis by simp
qed

text \<open>A failed attempt in which nothing speaks for a direct escalation.\<close>

definition bounded_failure :: "attempt_result \<Rightarrow> bool" where
  "bounded_failure a = (at_kind a \<noteq> ''success'' \<and> at_workflow a = ''direct_escalation'' \<and>
     (is_substantive_failure (at_kind a) \<longrightarrow> \<not> at_architectural a \<and> \<not> at_cross_file a \<and> \<not> at_repeated a \<and>
       length (at_findings a) \<le> 5 \<and> (case at_review a of None \<Rightarrow> True | Some t \<Rightarrow> t = [])))"

lemma no_keyword_Nil [simp]: "find_keyword [] ks = ([] \<in> set ks)"
  by (induction ks) (auto simp: find_keyword_def has_keyword_def lower_def)

lemma bounded_target: "bounded_failure a \<Longrightarrow> er_target (evaluated a s) = (if 3 \<le> gs_attempt s then ''codex'' else ''p40_qwen35'')"
  by (auto simp: bounded_failure_def evaluated_def evaluate_failure_def handle_non_substantive_def handle_retry_local_def
    check_escalation_triggers_def escalated_def lower_def max_p40_attempts_def Let_def split: option.splits)


definition fresh_task :: "pystr \<Rightarrow> sfile" where
  "fresh_task task = (let st = (classify_task task ''Add a parser'' 65536 (JFloat (Fin (7 / 10))) False)\<lparr>gs_workflow := Some DIRECT_ESCALATION\<rparr> in
     (shift_with [])\<lparr>ss_registry := empty_registry\<lparr>rg_gtx := Some (fresh_broker\<lparr>gb_current := Some st, gb_history := [st]\<rparr>)\<rparr>\<rparr>)"

definition failed_attempt :: "pystr \<Rightarrow> attempt_result" where
  "failed_attempt kind = \<lparr>at_task = ''g'', at_kind = kind, at_findings = [''log''], at_review = None, at_architectural = False,
     at_cross_file = False, at_repeated = False, at_workflow = ''direct_escalation''\<rparr>"

lemma fresh_task_newest:
  "newest ''g'' (fresh_task ''g'') = Some ((classify_task ''g'' ''Add a parser'' 65536 (JFloat (Fin (7 / 10))) False)\<lparr>gs_workflow := Some DIRECT_ESCALATION\<rparr>)"
  "gs_attempt (classify_task ''g'' ''Add a parser'' 65536 (JFloat (Fin (7 / 10))) False) = 1"
  "gs_model (classify_task ''g'' ''Add a parser'' 65536 (JFloat (Fin (7 / 10))) False) = ''p40_qwen35''"
proof -
  show "gs_attempt (classify_task ''g'' ''Add a parser'' 65536 (JFloat (Fin (7 / 10))) False) = 1" by (simp add: classify_task_def Let_def)
  show "gs_model (classify_task ''g'' ''Add a parser'' 65536 (JFloat (Fin (7 / 10))) False) = ''p40_qwen35''" by code_simp
  show "newest ''g'' (fresh_task ''g'') = Some ((classify_task ''g'' ''Add a parser'' 65536 (JFloat (Fin (7 / 10))) False)\<lparr>gs_workflow := Some DIRECT_ESCALATION\<rparr>)"
    by (rule newest_current) (simp_all add: fresh_task_def classify_task_def Let_def)
qed


section \<open>Where the bound does not hold\<close>

text \<open>A substantive failure that the reviewer calls repeated, and nothing worse.\<close>

definition repeated_failure :: "attempt_result \<Rightarrow> bool" where
  "repeated_failure a = (is_substantive_failure (at_kind a) \<and> \<not> at_architectural a \<and> \<not> at_cross_file a \<and> at_repeated a)"

lemma repeated_target: "repeated_failure a \<Longrightarrow> er_target (evaluated a s) = ''p40_qwen35''"
  by (auto simp: repeated_failure_def evaluated_def evaluate_failure_def check_escalation_triggers_def handle_escalation_def
    escalated_def is_substantive_failure_def gtx_substantive_kinds_def Let_def)

text \<open>The bound is lost when the reviewer calls the failures repeated: undisturbed, a task whose
  results are all substantive failures of that sort stays with the P40, however many of them there are.\<close>

theorem repeated_failures_stay_on_p40:
  assumes "steady env" "newest_state task (broker_of (ss_registry s)) = Some st" "gs_model st = ''p40_qwen35''"
    "\<forall>a\<in>set as. at_task a = task \<and> repeated_failure a"
  shows "\<exists>st'. newest_state task (broker_of (ss_registry (run_shift (map ShResult as) env s))) = Some st' \<and>
    gs_attempt st' = gs_attempt st + int (length as) \<and> gs_model st' = ''p40_qwen35''"
proof -
  have "\<exists>st'. newest task (run_shift (map ShResult as) env s) = Some st' \<and> (gs_attempt st' = gs_attempt st + int (length as) \<and>
      gs_model st' = ''p40_qwen35'')"
    by (rule results_run [OF assms(1,2), where I = "\<lambda>n t. gs_attempt t = gs_attempt st + int n \<and> gs_model t = ''p40_qwen35''"])
       (use assms(3,4) in \<open>auto simp: after_attempt_def repeated_target\<close>)
  then show ?thesis .
qed

theorem repeated_failures_stay_on_p40_witness:
  "\<exists>st'. newest_state ''g'' (broker_of (ss_registry (run_shift
      (map ShResult (replicate 20 (failed_attempt ''tests_failed''\<lparr>at_repeated := True\<rparr>))) calm_shift (fresh_task ''g'')))) = Some st' \<and>
    gs_attempt st' = 21 \<and> gs_model st' = ''p40_qwen35''"
  using repeated_failures_stay_on_p40 [of calm_shift "''g''" "fresh_task ''g''", OF _ fresh_task_newest(1),
      of "replicate 20 (failed_attempt ''tests_failed''\<lparr>at_repeated := True\<rparr>)"] fresh_task_newest(2,3)
  by (simp add: steady_def calm_shift_def failed_attempt_def repeated_failure_def is_substantive_failure_def gtx_substantive_kinds_def)

text \<open>Under layered review the limit is one of GTX failures, and no GTX model ever works on a task: failures of the code without
  a trigger leave it with the P40 for ever.\<close>

definition layered_failure :: "attempt_result \<Rightarrow> bool" where
  "layered_failure a = (is_substantive_failure (at_kind a) \<and> at_workflow a = ''layered_review'' \<and> \<not> at_architectural a \<and>
     \<not> at_cross_file a \<and> \<not> at_repeated a \<and> length (at_findings a) \<le> 5 \<and> at_review a = None)"

lemma layered_target:
  "layered_failure a \<Longrightarrow> gs_model s = ''p40_qwen35'' \<Longrightarrow> gs_gtx_failures s < 3 \<Longrightarrow> er_target (evaluated a s) = ''p40_qwen35''"
  by (auto simp: layered_failure_def evaluated_def evaluate_failure_def check_escalation_triggers_def handle_retry_local_def
    escalated_def is_substantive_failure_def gtx_substantive_kinds_def counted_failures_def starts_with_def lower_def
    max_gtx_attempts_def Let_def)

lemma layered_failures_stay_on_p40:
  assumes "steady env" "newest task s = Some st" "gs_model st = ''p40_qwen35''" "gs_gtx_failures st = 0"
    "\<forall>a\<in>set as. at_task a = task \<and> layered_failure a"
  shows "\<exists>st'. newest task (run_shift (map ShResult as) env s) = Some st' \<and>
    gs_p40_failures st' = gs_p40_failures st + int (length as) \<and> gs_gtx_failures st' = 0 \<and> gs_model st' = ''p40_qwen35''"
  by (rule results_run [OF assms(1,2), where I = "\<lambda>n t. gs_p40_failures t = gs_p40_failures st + int n \<and> gs_gtx_failures t = 0 \<and>
        gs_model t = ''p40_qwen35''"])
     (use assms(3-5) in \<open>auto simp: after_attempt_def layered_target counted_failures_def starts_with_def layered_failure_def\<close>)

text \<open>The keyword "API change" is looked for in a text in lower case.\<close>

lemma lower_char_not_A: "lower_char c \<noteq> CHR ''A''"
proof -
  have "\<forall>c. lower_char c \<noteq> CHR ''A''" by code_simp
  then show ?thesis by blast
qed

lemma api_change_never_found: "\<not> contains ''API change'' (lower text)"
proof
  assume "contains ''API change'' (lower text)"
  then have "CHR ''A'' \<in> set (lower text)" by (auto simp: contains_iff_infix)
  then obtain c where "lower_char c = CHR ''A''" by (auto simp: lower_def)
  then show False using lower_char_not_A [of c] by blast
qed

text \<open>A counter asked to grow before any task has been routed raises AttributeError.\<close>

lemma increment_without_task:
  "fst (increment_gtx_failures ''g'' calm_shift (shift_with [])) = Raised AttributeErr \<and>
   fst (increment_p40_failures ''g'' calm_shift (shift_with [])) = Raised AttributeErr"
  by code_simp

end
