(* ===== verification/Backlog.thy ===== *)
theory Backlog
  imports ShiftDispatch PyLibrary
begin

text \<open>
  The backlog of Second Shift: the manifest of coding items (second_shift/backlog_manifest.py) and the queue that
  claims one item at a time (second_shift/backlog_runner.py).  The manifest is a JSON document that is read afresh by
  each operation; the status of each item is kept, as JSON again, in the registry of the state file.
\<close>

section \<open>Items\<close>

datatype backlog_status = QUEUED | IN_PROGRESS | COMPLETED | BLOCKED_ITEM | ESCALATED

fun backlog_value :: "backlog_status \<Rightarrow> pystr" where
  "backlog_value QUEUED = ''queued''"
| "backlog_value IN_PROGRESS = ''in_progress''"
| "backlog_value COMPLETED = ''completed''"
| "backlog_value BLOCKED_ITEM = ''blocked''"
| "backlog_value ESCALATED = ''escalated''"

definition backlog_statuses :: "backlog_status list" where
  "backlog_statuses = [QUEUED, IN_PROGRESS, COMPLETED, BLOCKED_ITEM, ESCALATED]"

definition status_of :: "json \<Rightarrow> backlog_status option" where
  "status_of j = (case j of JStr s \<Rightarrow> map_of (map (\<lambda>x. (backlog_value x, x)) backlog_statuses) s | _ \<Rightarrow> None)"

record backlog_item =
  bi_id :: pystr
  bi_title :: pystr
  bi_description :: pystr
  bi_criteria :: "pystr list"
  bi_context :: int
  bi_quality :: json
  bi_benchmark :: bool
  bi_status :: backlog_status
  bi_created :: json
  bi_updated :: json

definition required_item_fields :: "pystr list" where
  "required_item_fields = [''issue_id'', ''title'', ''description'', ''acceptance_criteria'', ''context_size'',
     ''quality_importance'', ''requires_benchmark_evidence'', ''status'']"

definition item_fields :: "pystr list" where
  "item_fields = required_item_fields @ [''created_at'', ''updated_at'']"

text \<open>\<open>str\<close> of a JSON value that is not a string; the texts of floats, lists and objects are not modelled.\<close>

definition py_str :: "json \<Rightarrow> pystr" where
  "py_str j = (case j of JStr s \<Rightarrow> s | JNull \<Rightarrow> ''None'' | JBool b \<Rightarrow> show_bool b | JInt i \<Rightarrow> show_int i | _ \<Rightarrow> ''?'')"

definition manifest_err :: "pystr \<Rightarrow> exn" where
  "manifest_err msg = ValueErr msg"

definition need_text :: "pydict \<Rightarrow> pystr \<Rightarrow> exn + pystr" where
  "need_text d f = (case dget d f of JStr s \<Rightarrow> if strip s \<noteq> [] then Inr s
       else Inl (manifest_err (f @ '' is required and must be a non-empty string''))
     | _ \<Rightarrow> Inl (manifest_err (f @ '' is required and must be a non-empty string'')))"

fun need_criteria :: "nat \<Rightarrow> json list \<Rightarrow> exn + pystr list" where
  "need_criteria i [] = Inr []"
| "need_criteria i (JStr s # js) = (if strip s = []
     then Inl (manifest_err (''acceptance_criteria['' @ show_nat i @ ''] must be a non-empty string''))
     else sum_bind (need_criteria (i + 1) js) (\<lambda>ss. Inr (s # ss)))"
| "need_criteria i (j # js) = Inl (manifest_err (''acceptance_criteria['' @ show_nat i @ ''] must be a non-empty string''))"

definition criteria_of :: "json \<Rightarrow> exn + pystr list" where
  "criteria_of j = (if \<not> truthy j then Inl (manifest_err ''acceptance_criteria is required and must be non-empty'')
     else (case j of JArr js \<Rightarrow> need_criteria 0 js | _ \<Rightarrow> Inl (manifest_err ''acceptance_criteria must be a list'')))"

definition context_of :: "json \<Rightarrow> exn + int" where
  "context_of j = (case j of JInt i \<Rightarrow>
       if i \<le> 0 then Inl (manifest_err ''context_size must be positive'')
       else if max_context_p40 < i
         then Inl (manifest_err (''context_size must be <= '' @ show_int max_context_p40 @ '' (P40 maximum)''))
       else Inr i
     | _ \<Rightarrow> Inl (manifest_err ''context_size must be an integer''))"

definition quality_of :: "json \<Rightarrow> exn + json" where
  "quality_of j = (case j of
       JInt i \<Rightarrow> if 0 \<le> i \<and> i \<le> 1 then Inr j else Inl (manifest_err ''quality_importance must be between 0.0 and 1.0'')
     | JFloat (Fin q) \<Rightarrow> if 0 \<le> q \<and> q \<le> 1 then Inr j else Inl (manifest_err ''quality_importance must be between 0.0 and 1.0'')
     | JFloat _ \<Rightarrow> Inl (manifest_err ''quality_importance must be between 0.0 and 1.0'')
     | _ \<Rightarrow> Inl (manifest_err ''quality_importance must be a number''))"

definition benchmark_of :: "json \<Rightarrow> exn + bool" where
  "benchmark_of j = (case j of JBool b \<Rightarrow> Inr b | _ \<Rightarrow> Inl (manifest_err ''requires_benchmark_evidence must be a boolean''))"

text \<open>The checks of \<open>validate_backlog_item\<close>, in its order, on the fields of the dictionary.\<close>

definition validated_item :: "pydict \<Rightarrow> backlog_status \<Rightarrow> exn + backlog_item" where
  "validated_item d st =
     sum_bind (need_text d ''issue_id'') (\<lambda>i. sum_bind (need_text d ''title'') (\<lambda>t.
     sum_bind (need_text d ''description'') (\<lambda>ds. sum_bind (criteria_of (dget d ''acceptance_criteria'')) (\<lambda>cs.
     sum_bind (context_of (dget d ''context_size'')) (\<lambda>c. sum_bind (quality_of (dget d ''quality_importance'')) (\<lambda>q.
     sum_bind (benchmark_of (dget d ''requires_benchmark_evidence'')) (\<lambda>b.
     Inr \<lparr>bi_id = i, bi_title = t, bi_description = ds, bi_criteria = cs, bi_context = c, bi_quality = q, bi_benchmark = b,
       bi_status = st, bi_created = dget d ''created_at'', bi_updated = dget d ''updated_at''\<rparr>)))))))"

definition item_from_dict :: "json \<Rightarrow> exn + backlog_item" where
  "item_from_dict j = (case j of JObj d \<Rightarrow>
       (let unknown = sort (remdups (filter (\<lambda>k. k \<notin> set item_fields) (map fst d)));
            missing = filter (\<lambda>f. f \<notin> fst ` set d) required_item_fields in
        if unknown \<noteq> [] then Inl (manifest_err (''unknown field(s): '' @ join '', '' unknown))
        else if missing \<noteq> [] then Inl (manifest_err (''required field '' @ py_repr (hd missing) @ '' is missing''))
        else (case status_of (dget d ''status'') of
            None \<Rightarrow> Inl (manifest_err (''status must be one of: ['' @ join '', '' (map (py_repr \<circ> backlog_value) backlog_statuses) @
              '']; got '' @ [CHR 0x27] @ py_str (dget d ''status'') @ [CHR 0x27]))
          | Some st \<Rightarrow> validated_item d st))
     | _ \<Rightarrow> Inl (manifest_err ''backlog item must be an object''))"

definition item_to_dict :: "backlog_item \<Rightarrow> json" where
  "item_to_dict b = JObj [(''issue_id'', JStr (bi_id b)), (''title'', JStr (bi_title b)), (''description'', JStr (bi_description b)),
     (''acceptance_criteria'', JArr (map JStr (bi_criteria b))), (''context_size'', JInt (bi_context b)),
     (''quality_importance'', bi_quality b), (''requires_benchmark_evidence'', JBool (bi_benchmark b)),
     (''status'', JStr (backlog_value (bi_status b))), (''created_at'', bi_created b), (''updated_at'', bi_updated b)]"

section \<open>Manifests\<close>

fun check_items :: "nat \<Rightarrow> pystr list \<Rightarrow> json list \<Rightarrow> exn + backlog_item list" where
  "check_items n seen [] = Inr []"
| "check_items n seen (j # js) = (case j of JObj d \<Rightarrow>
       (case item_from_dict j of
          Inl e \<Rightarrow> Inl (manifest_err (''items['' @ show_nat n @ ''] validation failed: '' @ (case e of ValueErr msg \<Rightarrow> msg | _ \<Rightarrow> [])))
        | Inr b \<Rightarrow> if bi_id b \<in> set seen then Inl (manifest_err (''duplicate issue_id found: '' @ bi_id b))
            else sum_bind (check_items (n + 1) (bi_id b # seen) js) (\<lambda>bs. Inr (b # bs)))
     | _ \<Rightarrow> Inl (manifest_err (''items['' @ show_nat n @ ''] must be an object'')))"

text \<open>\<open>validate_manifest\<close>, with the items it constructs on the way; \<open>load_backlog_items\<close> constructs them again.\<close>

definition manifest_items :: "json \<Rightarrow> exn + backlog_item list" where
  "manifest_items doc = (case doc of JObj d \<Rightarrow>
       (if ''items'' \<notin> fst ` set d then Inl (manifest_err (''manifest must contain '' @ py_repr ''items'' @ '' array''))
        else (case dget d ''items'' of JArr js \<Rightarrow> check_items 0 [] js
          | _ \<Rightarrow> Inl (manifest_err (py_repr ''items'' @ '' must be an array''))))
     | _ \<Rightarrow> Inl (manifest_err ''manifest must be a JSON object''))"

definition manifest_document :: "backlog_item list \<Rightarrow> json" where
  "manifest_document bs = JObj [(''items'', JArr (map item_to_dict bs))]"

text \<open>\<open>save_manifest\<close> up to the writing of the file.\<close>

definition saved_manifest :: "backlog_item list \<Rightarrow> exn + json" where
  "saved_manifest bs = sum_bind (manifest_items (manifest_document bs)) (\<lambda>_. Inr (manifest_document bs))"

section \<open>The queue\<close>

text \<open>\<open>dict\<close> of the persisted records by id, the last of an id winning; a record that is no object is skipped.\<close>

fun persisted_items :: "json list \<Rightarrow> exn + (pystr \<times> backlog_item) list" where
  "persisted_items [] = Inr []"
| "persisted_items (j # js) = (case j of JObj d \<Rightarrow>
       sum_bind (item_from_dict j) (\<lambda>b. sum_bind (persisted_items js) (\<lambda>bs. Inr (bs @ [(bi_id b, b)])))
     | _ \<Rightarrow> persisted_items js)"

definition overlaid :: "(pystr \<times> backlog_item) list \<Rightarrow> backlog_item \<Rightarrow> backlog_item" where
  "overlaid ps b = (case map_of ps (bi_id b) of None \<Rightarrow> b
     | Some p \<Rightarrow> b\<lparr>bi_status := bi_status p, bi_created := bi_created p, bi_updated := bi_updated p\<rparr>)"

text \<open>What the manifest file holds, and the lifecycle of the registry laid over it.\<close>

definition overlay_items :: "exn + json \<Rightarrow> registry_doc \<Rightarrow> exn + backlog_item list" where
  "overlay_items manifest r =
     sum_bind (case rg_items r of Some (JArr js) \<Rightarrow> persisted_items js | _ \<Rightarrow> Inr []) (\<lambda>ps.
     sum_bind manifest (\<lambda>doc. sum_bind (manifest_items doc) (\<lambda>bs. Inr (map (overlaid ps) bs))))"

definition read_manifest :: "(exn + json) shift" where
  "read_manifest env s = (Ok (se_manifest env (ss_tick s)), s)"

definition shift_sum :: "exn + 'a \<Rightarrow> 'a shift" where
  "shift_sum x = (case x of Inl e \<Rightarrow> io_raise e | Inr a \<Rightarrow> io_ret a)"

definition load_manifest :: "backlog_item list shift" where
  "load_manifest = io_bind get_registry (\<lambda>r. io_bind read_manifest (\<lambda>m. shift_sum (overlay_items m r)))"

definition get_queued_items :: "backlog_item list \<Rightarrow> backlog_item list" where
  "get_queued_items bs = filter (\<lambda>b. bi_status b = QUEUED) bs"

definition select_next_item :: "backlog_item list \<Rightarrow> backlog_item option" where
  "select_next_item bs = (if list_ex (\<lambda>b. bi_status b = IN_PROGRESS) bs then None
     else (case get_queued_items bs of [] \<Rightarrow> None | b # _ \<Rightarrow> Some b))"

definition with_status :: "pystr \<Rightarrow> backlog_status \<Rightarrow> int \<Rightarrow> backlog_item list \<Rightarrow> backlog_item list" where
  "with_status i st now bs = map (\<lambda>b. if bi_id b = i then b\<lparr>bi_status := st, bi_updated := JStr (iso_utc now)\<rparr> else b) bs"

definition runner_of :: "registry_doc \<Rightarrow> runner_state" where
  "runner_of r = (case rg_runner r of None \<Rightarrow> \<lparr>rn_updated = None, rn_claimed = 0, rn_completed = 0, rn_errors = 0\<rparr> | Some n \<Rightarrow> n)"

definition runner_counted :: "backlog_status \<Rightarrow> int \<Rightarrow> runner_state \<Rightarrow> runner_state" where
  "runner_counted st now n = (let n' = n\<lparr>rn_updated := Some now\<rparr> in (case st of
       IN_PROGRESS \<Rightarrow> n'\<lparr>rn_claimed := rn_claimed n + 1\<rparr>
     | COMPLETED \<Rightarrow> n'\<lparr>rn_completed := rn_completed n + 1\<rparr>
     | BLOCKED_ITEM \<Rightarrow> n'\<lparr>rn_errors := rn_errors n + 1\<rparr>
     | ESCALATED \<Rightarrow> n'\<lparr>rn_errors := rn_errors n + 1\<rparr>
     | QUEUED \<Rightarrow> n'))"

definition stored_items :: "backlog_item list \<Rightarrow> json" where
  "stored_items bs = JArr (map item_to_dict bs)"

text \<open>The mutator of a transition: the whole list of the caller is stored.\<close>

definition item_moved :: "backlog_item list \<Rightarrow> backlog_item \<Rightarrow> backlog_status \<Rightarrow> pystr option \<Rightarrow> int \<Rightarrow> mutator" where
  "item_moved bs b st reason t now r es = Inr (r\<lparr>rg_items := Some (stored_items bs),
       rg_runner := Some (runner_counted st t (runner_of r))\<rparr>,
     es @ [BacklogEntry \<lparr>bl_id = bi_id b, bl_old = backlog_value (bi_status b), bl_new = backlog_value st, bl_reason = reason, bl_at = t\<rparr>])"

definition transition_item_state :: "backlog_item list \<Rightarrow> backlog_item \<Rightarrow> backlog_status \<Rightarrow> pystr option \<Rightarrow> backlog_item list shift" where
  "transition_item_state bs b st reason = io_bind shift_now (\<lambda>t.
     if \<not> list_ex (\<lambda>c. bi_id c = bi_id b) bs then io_raise (ValueErr (''item is not present in manifest: '' @ bi_id b))
     else (let bs' = with_status (bi_id b) st t bs in io_then (update_state (item_moved bs' b st reason t)) (io_ret bs')))"

definition claimed_next :: "exn + json \<Rightarrow> int \<Rightarrow> registry_doc \<Rightarrow> entry list
    \<Rightarrow> exn + (registry_doc \<times> entry list) \<times> backlog_item list \<times> backlog_item option" where
  "claimed_next manifest now r es = sum_bind (overlay_items manifest r) (\<lambda>bs. case select_next_item bs of
       None \<Rightarrow> Inr ((r, es), bs, None)
     | Some b \<Rightarrow> let bs' = with_status (bi_id b) IN_PROGRESS now bs in
         sum_bind (item_moved bs' b IN_PROGRESS None now now r es) (\<lambda>x. Inr (x, bs', find (\<lambda>c. bi_id c = bi_id b) bs')))"

definition claim_next_item :: "(backlog_item list \<times> backlog_item option) shift" where
  "claim_next_item = io_bind read_manifest (\<lambda>m. io_bind (transaction (claimed_next m)) (\<lambda>(r, x). io_ret x))"

definition task_description :: "backlog_item \<Rightarrow> pystr" where
  "task_description b = (let nl = [CHR 0x0A] in bi_title b @ nl @ nl @ bi_description b @ nl @ nl @ ''Acceptance criteria:'' @ nl @
     join nl (map (\<lambda>c. ''- '' @ c) (bi_criteria b)))"

text \<open>The dispatcher is an argument, as in the code.\<close>

type_synonym dispatch_function = "coding_request \<Rightarrow> registry_doc \<Rightarrow> registry_doc shift"

definition delegated :: "backlog_item \<Rightarrow> pystr \<Rightarrow> coding_request" where
  "delegated b workflow = \<lparr>rr_goal = bi_id b, rr_class = ''coding'', rr_workflow = workflow, rr_repair = False,
     rr_context = bi_context b, rr_quality = bi_quality b, rr_description = Some (task_description b), rr_benchmark = bi_benchmark b\<rparr>"

definition delegate_to_dispatcher :: "backlog_item \<Rightarrow> dispatch_function \<Rightarrow> pystr \<Rightarrow> registry_doc shift" where
  "delegate_to_dispatcher b f workflow = io_bind get_registry (\<lambda>r. f (delegated b workflow) r)"

record dispatch_outcome =
  do_item :: pystr
  do_routing :: "pystr + registry_doc"
  do_status :: backlog_status

definition dispatch_next :: "dispatch_function \<Rightarrow> pystr \<Rightarrow> (backlog_item list \<times> dispatch_outcome option) shift" where
  "dispatch_next f workflow = io_bind claim_next_item (\<lambda>(bs, claimed). case claimed of
     None \<Rightarrow> io_ret (bs, None)
   | Some b \<Rightarrow> io_try
       (io_bind (delegate_to_dispatcher b f workflow) (\<lambda>r.
          io_ret (bs, Some \<lparr>do_item = bi_id b, do_routing = Inr r, do_status = IN_PROGRESS\<rparr>)))
       (\<lambda>_. True)
       (\<lambda>e. io_bind (exn_message e) (\<lambda>msg. io_bind (transition_item_state bs b BLOCKED_ITEM (Some msg)) (\<lambda>bs'.
          io_ret (bs', Some \<lparr>do_item = bi_id b, do_routing = Inl msg, do_status = BLOCKED_ITEM\<rparr>)))))"

definition record_outcome :: "backlog_item list \<Rightarrow> pystr \<Rightarrow> backlog_status \<Rightarrow> pystr option \<Rightarrow> backlog_item list shift" where
  "record_outcome bs i st reason = (case find (\<lambda>b. bi_id b = i) bs of
     None \<Rightarrow> io_raise (ValueErr (''unknown backlog item: '' @ i))
   | Some b \<Rightarrow> transition_item_state bs b st reason)"

definition get_runner_state :: "runner_state shift" where
  "get_runner_state = io_bind get_registry (\<lambda>r. io_ret (runner_of r))"

end
