(* ===== verification/Gates.thy ===== *)
theory Gates
  imports Backlog
begin

text \<open>
  The workers and the review gates of the execution adapter (second_shift/backlog_execution_adapter.py): what it
  starts as a process, what it makes of the process's end, and its check that a reviewer left the worktree as it
  was.  The processes themselves, git's included, are parameters: each call of one is a moment of its own at
  which the environment says how it ends.  A prompt is the JSON document whose text the process is given.
\<close>

section \<open>The adapter and what it calls\<close>

record worktree_snapshot =
  ws_head :: pystr
  ws_fingerprint :: pystr
  ws_files :: "pystr list"

text \<open>A callable given to the constructor, or one of the adapter's own methods.\<close>

datatype executor = Injected "nat \<Rightarrow> execution_request \<Rightarrow> worker_result outcome" | P40Worker | CodexWorker

datatype reviewer = InjectedReview "nat \<Rightarrow> execution_request \<Rightarrow> worker_result \<Rightarrow> verification \<Rightarrow> verification outcome"
  | CodexReview | AirReview | CodexFinal | P40SelfReview | SelfReviewSkipped

datatype test_runner = InjectedTests "nat \<Rightarrow> execution_request \<Rightarrow> verification outcome" | RepositoryTests

datatype worktree_factory = InjectedWorktree "nat \<Rightarrow> backlog_item \<Rightarrow> pystr outcome" | GitWorktree

text \<open>The adapter, with the world outside it: environment variables, the hermes command on the path, processes,
  the sorted JSON text of a value, \<open>json.loads\<close>, \<open>str\<close> of a JSON value, SHA-256 of a text, the files of a
  worktree, the schema file in the state directory, whether a process is alive, and names of exceptions.\<close>

record adapter =
  ad_repository :: pystr
  ad_guidance :: pystr
  ad_workflow :: pystr
  ad_router :: "(nat \<Rightarrow> backlog_item \<Rightarrow> pystr \<Rightarrow> registry_doc outcome) option"
  ad_executors :: "(pystr \<times> executor) list"
  ad_tests :: test_runner
  ad_self :: reviewer
  ad_reviewer :: reviewer
  ad_failover :: reviewer
  ad_final :: reviewer
  ad_worktree :: worktree_factory
  ad_getenv :: "pystr \<Rightarrow> pystr option"
  ad_which :: "pystr option"
  ad_process :: "nat \<Rightarrow> pystr list \<Rightarrow> pystr \<Rightarrow> json option \<Rightarrow> process_end outcome"
  ad_dumps :: "json \<Rightarrow> pystr"
  ad_loads :: "pystr \<Rightarrow> json option"
  ad_str :: "json \<Rightarrow> pystr"
  ad_sha :: "pystr \<Rightarrow> pystr"
  ad_file :: "nat \<Rightarrow> pystr \<Rightarrow> pystr \<Rightarrow> exn + pystr option"
  ad_exists :: "nat \<Rightarrow> pystr \<Rightarrow> bool"
  ad_mkdir :: "nat \<Rightarrow> pystr \<Rightarrow> unit outcome"
  ad_schema :: "nat \<Rightarrow> pystr \<Rightarrow> pystr outcome"
  ad_alive :: "nat \<Rightarrow> int \<Rightarrow> bool"
  ad_pid :: int
  ad_class :: "exn \<Rightarrow> pystr"

text \<open>A call to the outside takes the next moment.\<close>

definition outside :: "(nat \<Rightarrow> 'a outcome) \<Rightarrow> 'a shift" where
  "outside f env s = (f (ss_tick s), s\<lparr>ss_tick := ss_tick s + 1\<rparr>)"

section \<open>Constructing the adapter\<close>

definition setdefault :: "pystr \<Rightarrow> 'a \<Rightarrow> (pystr \<times> 'a) list \<Rightarrow> (pystr \<times> 'a) list" where
  "setdefault k v m = (if map_of m k = None then m @ [(k, v)] else m)"

definition default_executors :: "executor option \<Rightarrow> executor option \<Rightarrow> (pystr \<times> executor) list \<Rightarrow> (pystr \<times> executor) list" where
  "default_executors worker escalation given = (let w = (case worker of Some w \<Rightarrow> w | None \<Rightarrow> P40Worker) in
     setdefault ''codex'' (case escalation of Some x \<Rightarrow> x | None \<Rightarrow> CodexWorker)
       (setdefault ''p40_qwen35'' w (setdefault ''p40'' w given)))"

definition default_self_review :: "executor option \<Rightarrow> reviewer option \<Rightarrow> reviewer" where
  "default_self_review worker given = (case given of Some r \<Rightarrow> r
     | None \<Rightarrow> if worker = None then P40SelfReview else SelfReviewSkipped)"

definition codex_gates :: "adapter \<Rightarrow> adapter" where
  "codex_gates a = a\<lparr>ad_tests := RepositoryTests, ad_reviewer := CodexReview, ad_failover := AirReview, ad_final := CodexFinal,
     ad_worktree := GitWorktree\<rparr>"

section \<open>Prompts\<close>

definition texts :: "pystr list \<Rightarrow> json" where
  "texts xs = JArr (map JStr xs)"

definition request_fields :: "execution_request \<Rightarrow> pydict" where
  "request_fields q = [(''issue_id'', JStr (xr_id q)), (''title'', JStr (xr_title q)), (''description'', JStr (xr_description q)),
     (''acceptance_criteria'', texts (xr_criteria q)), (''repository_path'', JStr (xr_repository q)),
     (''worktree_path'', JStr (xr_worktree q)), (''context_size'', JInt (xr_context q)), (''quality_importance'', xr_quality q),
     (''requires_benchmark_evidence'', JBool (xr_benchmark q)), (''file_guidance'', JStr (xr_guidance q)),
     (''workflow'', JStr (xr_workflow q)), (''selected_model'', JStr (xr_model q))]"

definition worker_json :: "worker_result \<Rightarrow> json" where
  "worker_json w = JObj [(''success'', JBool (wr_success w)), (''classification'', JStr (wr_class w)), (''summary'', JStr (wr_summary w)),
     (''changed_files'', texts (wr_files w)), (''test_output'', JStr (wr_output w)), (''test_passed'', JBool (wr_passed w)),
     (''exit_code'', JInt (wr_exit w)), (''evidence'', texts (wr_evidence w))]"

definition verification_json :: "verification \<Rightarrow> json" where
  "verification_json v = JObj [(''passed'', JBool (vf_passed v)), (''evidence'', texts (vf_evidence v)),
     (''failure_kind'', JStr (vf_kind v)), (''reviewer'', case vf_reviewer v of None \<Rightarrow> JNull | Some r \<Rightarrow> JStr r)]"

definition worker_prompt :: "execution_request \<Rightarrow> json" where
  "worker_prompt q = JObj (request_fields q @ [(''require_implementation_artifact'', JBool True),
     (''instruction'', JStr ''Implement the task. A plan-only response is not success; leave changed files or a committed implementation and report them.'')])"

definition repair_prompt :: "execution_request \<Rightarrow> json" where
  "repair_prompt q = JObj (request_fields q @ [(''role'', JStr ''repair_executor''), (''require_implementation_artifact'', JBool True),
     (''instruction'', JStr ''Repair or implement the task in the worktree. A plan-only response is not success; leave changed files or a committed implementation.'')])"

definition self_review_prompt :: "execution_request \<Rightarrow> worker_result \<Rightarrow> verification \<Rightarrow> json" where
  "self_review_prompt q w t = JObj [(''role'', JStr ''p40_self_review''), (''request'', JObj (request_fields q)),
     (''worker'', worker_json w), (''tests'', verification_json t),
     (''instruction'', JStr (''Review your implementation in the current worktree without editing it. '' @
       ''Check the task, acceptance criteria, changed files, and test evidence. '' @
       ''Report concrete findings and any remaining risks for an independent Codex reviewer.''))]"

definition gate_prompt :: "pystr \<Rightarrow> execution_request \<Rightarrow> worker_result \<Rightarrow> verification \<Rightarrow> json" where
  "gate_prompt gate q w v = JObj [(''gate'', JStr gate), (''request'', JObj (request_fields q)), (''worker'', worker_json w),
     (''verification'', verification_json v),
     (''output_schema'', JObj [(''passed'', JStr ''boolean''), (''findings'', texts [''string'']), (''evidence'', texts [''string''])]),
     (''instruction'', JStr (''Inspect the current worktree and emit only JSON matching the schema. '' @
       ''Do not run pytest or other commands requiring writable temporary storage. '' @
       ''Only inspect files under the current worktree; do not search parent directories. '' @
       ''passed must be false when findings remain.''))]"

definition air_prompt :: "execution_request \<Rightarrow> verification \<Rightarrow> json" where
  "air_prompt q t = JObj [(''kind'', JStr ''review''), (''payload'', JObj [(''worktree_path'', JStr (xr_worktree q)),
     (''repository_path'', JStr (xr_repository q)), (''goal'', JStr (xr_description q)),
     (''acceptance_criteria'', texts (xr_criteria q)), (''reported_tests'', verification_json t)])]"

section \<open>The worktree\<close>

definition start_process :: "adapter \<Rightarrow> pystr list \<Rightarrow> pystr \<Rightarrow> json option \<Rightarrow> process_end shift" where
  "start_process a argv cwd prompt = outside (\<lambda>n. ad_process a n argv cwd prompt)"

text \<open>How a process ended, or which of the exceptions the caller handles starting it raised, and its text.\<close>

definition ended :: "(exn \<Rightarrow> bool) \<Rightarrow> process_end shift \<Rightarrow> ((exn \<times> pystr) + process_end) shift" where
  "ended p m = io_try (io_bind m (\<lambda>e. io_ret (Inr e))) p (\<lambda>x. io_bind (exn_message x) (\<lambda>msg. io_ret (Inl (x, msg))))"

text \<open>A git command with \<open>check=True\<close>.\<close>

definition git_output :: "adapter \<Rightarrow> pystr \<Rightarrow> pystr list \<Rightarrow> pystr shift" where
  "git_output a wt args = io_bind (start_process a ([''git'', ''-C'', wt] @ args) [] None) (\<lambda>e. case e of
     Exited rc out err \<Rightarrow> if rc = 0 then io_ret out else io_raise ProcessErr)"

fun untracked_bytes :: "adapter \<Rightarrow> pystr \<Rightarrow> pystr list \<Rightarrow> pystr shift" where
  "untracked_bytes a wt [] = io_ret []"
| "untracked_bytes a wt (f # fs) = io_bind (outside (\<lambda>n. case ad_file a n wt f of Inl e \<Rightarrow> Raised e | Inr c \<Rightarrow> Ok c)) (\<lambda>c.
     io_bind (untracked_bytes a wt fs) (\<lambda>rest. io_ret ((case c of None \<Rightarrow> [] | Some b \<Rightarrow> f @ [CHR 0x00] @ b) @ rest)))"

definition status_files :: "pystr \<Rightarrow> pystr list" where
  "status_files out = map (\<lambda>l. if 3 < length l then drop 3 l else l) (filter (\<lambda>l. strip l \<noteq> []) (splitlines out))"

definition git_snapshot :: "adapter \<Rightarrow> pystr \<Rightarrow> worktree_snapshot shift" where
  "git_snapshot a wt = io_try
     (io_bind (git_output a wt [''rev-parse'', ''HEAD'']) (\<lambda>head0. let head = strip head0 in
      io_bind (git_output a wt [''diff'', ''--binary'', ''HEAD'']) (\<lambda>diff.
      io_bind (git_output a wt [''status'', ''--porcelain'', ''--untracked-files=all'']) (\<lambda>status.
      io_bind (git_output a wt [''ls-files'', ''--others'', ''--exclude-standard'']) (\<lambda>others.
      io_bind (untracked_bytes a wt (sort (splitlines others))) (\<lambda>bytes.
        io_ret \<lparr>ws_head = head, ws_fingerprint = ad_sha a (head @ [CHR 0x00] @ diff @ [CHR 0x00] @ bytes),
          ws_files = status_files status\<rparr>))))))
     (\<lambda>e. os_error e \<or> e = ProcessErr)
     (\<lambda>_. io_ret \<lparr>ws_head = [], ws_fingerprint = [], ws_files = []\<rparr>)"

definition same_tree :: "worktree_snapshot \<Rightarrow> worktree_snapshot \<Rightarrow> bool" where
  "same_tree x y = (ws_head x = ws_head y \<and> ws_fingerprint x = ws_fingerprint y)"

definition verdict :: "bool \<Rightarrow> pystr list \<Rightarrow> pystr \<Rightarrow> pystr option \<Rightarrow> verification" where
  "verdict p ev kind who = \<lparr>vf_passed = p, vf_evidence = ev, vf_kind = kind, vf_reviewer = who\<rparr>"

definition unavailable :: "pystr list \<Rightarrow> pystr option \<Rightarrow> verification" where
  "unavailable ev who = verdict False ev ''review_unavailable'' who"

definition review_mutation :: "pystr \<Rightarrow> worktree_snapshot \<Rightarrow> worktree_snapshot \<Rightarrow> verification option" where
  "review_mutation who tree0 tree1 = (if ws_head tree0 = [] \<or> ws_head tree1 = [] \<or> \<not> same_tree tree0 tree1
     then Some (verdict False [who @ '' review modified the worktree or its fingerprint could not be verified; reviewer execution is read-only'']
       ''review_mutated'' (Some who)) else None)"

definition create_worktree :: "adapter \<Rightarrow> backlog_item \<Rightarrow> pystr shift" where
  "create_worktree a b = (let dir = ad_repository a @ ''/.worktrees'';
       wt = dir @ ''/'' @ map (\<lambda>c. if c = CHR ''/'' then CHR ''-'' else c) (bi_id b) in
     io_bind (outside (\<lambda>n. Ok (ad_exists a n wt))) (\<lambda>there.
       if there then io_ret wt
       else io_then (outside (\<lambda>n. ad_mkdir a n dir))
         (io_then (git_output a (ad_repository a) [''worktree'', ''add'', ''--detach'', wt, ''HEAD'']) (io_ret wt))))"

definition worktree_for :: "adapter \<Rightarrow> backlog_item \<Rightarrow> pystr shift" where
  "worktree_for a b = (case ad_worktree a of InjectedWorktree f \<Rightarrow> outside (\<lambda>n. f n b) | GitWorktree \<Rightarrow> create_worktree a b)"

section \<open>Workers\<close>

definition worker_failed :: "pystr \<Rightarrow> pystr \<Rightarrow> pystr list \<Rightarrow> worker_result" where
  "worker_failed cls summary ev = \<lparr>wr_success = False, wr_class = cls, wr_summary = summary, wr_files = [], wr_output = [],
     wr_passed = False, wr_exit = 0, wr_evidence = ev\<rparr>"

definition changed_paths :: "worktree_snapshot \<Rightarrow> worktree_snapshot \<Rightarrow> pystr list" where
  "changed_paths tree0 tree1 = (let ch = sort (remdups (ws_files tree0 @ ws_files tree1)) in
     if \<not> same_tree tree0 tree1 \<and> ch = [] then [''<worktree-diff>''] else ch)"

text \<open>What a worker process that ended shows; \<open>who\<close> and the other texts are as its messages have them.\<close>

definition worker_outcome :: "pystr \<Rightarrow> pystr \<Rightarrow> pystr \<Rightarrow> worktree_snapshot \<Rightarrow> worktree_snapshot \<Rightarrow> process_end \<Rightarrow> worker_result" where
  "worker_outcome who failed no_code tree0 tree1 e = (case e of Exited rc out err \<Rightarrow>
     let ch = changed_paths tree0 tree1 in
     if rc \<noteq> 0 then (worker_failed ''unknown'' (tail_text 4000 out) [if tail_text 1000 err \<noteq> [] then tail_text 1000 err else failed])
         \<lparr>wr_files := ch, wr_exit := rc\<rparr>
     else if same_tree tree0 tree1 then worker_failed ''no_code'' (tail_text 4000 out) [no_code]
     else (worker_failed ''success'' (tail_text 4000 out) [who @ '' changed '' @ show_nat (length ch) @ '' file(s)''])
         \<lparr>wr_success := True, wr_files := ch\<rparr>)"

definition hermes_argv :: "pystr \<Rightarrow> pystr \<Rightarrow> pystr list" where
  "hermes_argv command wt = [command, ''--in'', wt, ''--yolo'', ''-z'']"

definition run_p40_worker :: "adapter \<Rightarrow> execution_request \<Rightarrow> worker_result shift" where
  "run_p40_worker a q = (let command = or_text (ad_getenv a ''P40_HERMES_COMMAND'') (ad_which a); wt = xr_worktree q in
     if \<not> has_text command then io_ret (worker_failed ''endpoint_unavailable'' [] [''P40_HERMES_COMMAND is not configured''])
     else io_bind (git_snapshot a wt) (\<lambda>tree0.
       io_bind (ended (\<lambda>x. x = Expired) (start_process a (hermes_argv (the command) wt) wt (Some (worker_prompt q)))) (\<lambda>x. case x of
         Inl (_, msg) \<Rightarrow> io_ret (worker_failed ''timeout'' msg [''P40 worker timed out''])
       | Inr e \<Rightarrow> io_bind (git_snapshot a wt) (\<lambda>tree1. io_ret (worker_outcome ''P40'' ''P40 worker failed''
           ''P40 returned successfully without an implementation artifact or changed files'' tree0 tree1 e)))))"

text \<open>The command line of Codex; with a gate it names the schema file of that gate, written if it is not there.\<close>

definition codex_exec_argv :: "adapter \<Rightarrow> pystr \<Rightarrow> pystr \<Rightarrow> pystr option \<Rightarrow> pystr list shift" where
  "codex_exec_argv a command wt gate = io_bind (shift_sum (shlex_split command)) (\<lambda>parts0. case parts0 of
     [] \<Rightarrow> io_raise (ValueErr ''Codex command is empty'')
   | p # ps \<Rightarrow> let parts1 = (if ''exec'' \<in> set ps then p # ps else p # ''exec'' # ps) @ [''--cd'', wt];
         parts2 = (if ''--ephemeral'' \<in> set parts1 then parts1 else parts1 @ [''--ephemeral'']) in
       (case gate of None \<Rightarrow> io_ret parts2
        | Some g \<Rightarrow> io_bind (outside (\<lambda>n. ad_schema a n g)) (\<lambda>path. io_ret (parts2 @ [''--output-schema'', path]))))"

definition launch_failure :: "exn \<Rightarrow> bool" where
  "launch_failure x = (x = Expired \<or> os_error x)"

definition run_codex_worker :: "adapter \<Rightarrow> execution_request \<Rightarrow> worker_result shift" where
  "run_codex_worker a q = (let command = or_text (ad_getenv a ''CODEX_REPAIR_COMMAND'') (ad_getenv a ''CODEX_COMMAND''); wt = xr_worktree q in
     if \<not> has_text command then io_ret (worker_failed ''endpoint_unavailable'' [] [''CODEX_COMMAND is not configured''])
     else io_bind (git_snapshot a wt) (\<lambda>tree0.
       io_bind (ended launch_failure (io_bind (codex_exec_argv a (the command) wt None) (\<lambda>argv.
           start_process a argv wt (Some (repair_prompt q))))) (\<lambda>x. case x of
         Inl (y, msg) \<Rightarrow> io_ret (if y = Expired then worker_failed ''timeout'' msg [''Codex repair worker timed out'']
           else worker_failed ''endpoint_unavailable'' msg [''Codex repair command could not be started''])
       | Inr e \<Rightarrow> io_bind (git_snapshot a wt) (\<lambda>tree1. io_ret (worker_outcome ''Codex'' ''Codex repair worker failed''
           ''Codex repair returned without an implementation artifact or changed files'' tree0 tree1 e)))))"

definition run_executor :: "adapter \<Rightarrow> executor \<Rightarrow> execution_request \<Rightarrow> worker_result shift" where
  "run_executor a x q = (case x of Injected f \<Rightarrow> outside (\<lambda>n. f n q) | P40Worker \<Rightarrow> run_p40_worker a q
     | CodexWorker \<Rightarrow> run_codex_worker a q)"

definition run_repository_tests :: "adapter \<Rightarrow> execution_request \<Rightarrow> verification shift" where
  "run_repository_tests a q = io_bind (start_process a [''python3'', ''-m'', ''pytest'', ''-q''] (xr_worktree q) None) (\<lambda>e. case e of
     Exited rc out err \<Rightarrow> io_ret (verdict (rc = 0) [if tail_text 2000 out \<noteq> [] then tail_text 2000 out else tail_text 2000 err]
       ''rejected_code'' None))"

definition run_tests :: "adapter \<Rightarrow> execution_request \<Rightarrow> verification shift" where
  "run_tests a q = (case ad_tests a of InjectedTests f \<Rightarrow> outside (\<lambda>n. f n q) | RepositoryTests \<Rightarrow> run_repository_tests a q)"

section \<open>Gates\<close>

text \<open>\<open>[*x]\<close> of a field of a decoded object, a missing field being empty and a text being one entry.\<close>

definition entries_of :: "pydict \<Rightarrow> pystr \<Rightarrow> exn + json list" where
  "entries_of d f = (if f \<notin> fst ` set d then Inr [] else (case dget d f of
     JArr js \<Rightarrow> Inr js | JStr s \<Rightarrow> Inr [JStr s] | JObj kvs \<Rightarrow> Inr (map (JStr \<circ> fst) kvs) | _ \<Rightarrow> Inl TypeErr))"

definition shown :: "adapter \<Rightarrow> json \<Rightarrow> pystr" where
  "shown a j = (case j of JStr s \<Rightarrow> s | _ \<Rightarrow> ad_str a j)"

text \<open>The decoded object of a gate's answer and its verdict, when it has both.\<close>

definition gate_payload :: "adapter \<Rightarrow> pystr \<Rightarrow> pystr + pydict \<times> bool" where
  "gate_payload a out = (case ad_loads a (strip out) of None \<Rightarrow> Inl ''returned non-JSON output''
     | Some (JObj d) \<Rightarrow> (case dget d ''passed'' of JBool p \<Rightarrow> Inr (d, p) | _ \<Rightarrow> Inl ''JSON must contain boolean passed'')
     | Some _ \<Rightarrow> Inl ''JSON must contain boolean passed'')"

definition parse_codex_result :: "adapter \<Rightarrow> pystr \<Rightarrow> pystr \<Rightarrow> exn + verification" where
  "parse_codex_result a out gate = (case gate_payload a out of
     Inl msg \<Rightarrow> Inr (unavailable [''Codex '' @ gate @ '' '' @ msg] (Some ''codex''))
   | Inr (d, p) \<Rightarrow> sum_bind (entries_of d ''findings'') (\<lambda>findings. sum_bind (entries_of d ''evidence'') (\<lambda>evidence.
       Inr (verdict p (map (shown a) (findings @ evidence)) (if p then ''approved'' else ''rejected_code'') (Some ''codex'')))))"

definition as_list :: "json \<Rightarrow> json list" where
  "as_list j = (case j of JArr js \<Rightarrow> js | _ \<Rightarrow> [])"

definition parse_air_review_result :: "adapter \<Rightarrow> pystr \<Rightarrow> exn + verification" where
  "parse_air_review_result a out = (case gate_payload a out of
     Inl msg \<Rightarrow> Inr (unavailable [''Air Review '' @ msg] (Some ''air-review''))
   | Inr (d, p) \<Rightarrow> sum_bind (entries_of d ''evidence'') (\<lambda>evidence.
       Inr (verdict p (map (shown a) evidence @ map (ad_dumps a) (as_list (dget d ''findings'')) @
           (case dget d ''summary'' of JStr s \<Rightarrow> if s \<noteq> [] then [s] else [] | _ \<Rightarrow> []) @
           map (shown a) (as_list (dget d ''required_changes'')))
         (if p then ''approved'' else ''rejected_code'') (Some ''air-review''))))"

text \<open>A reviewer's process between two snapshots of the worktree: a worktree that changed overrides whatever it said.\<close>

definition watched :: "adapter \<Rightarrow> pystr \<Rightarrow> pystr \<Rightarrow> process_end shift \<Rightarrow> ((exn \<times> pystr) + process_end \<Rightarrow> verification shift) \<Rightarrow> verification shift" where
  "watched a who wt m k = io_bind (git_snapshot a wt) (\<lambda>tree0. io_bind (ended launch_failure m) (\<lambda>x.
     io_bind (git_snapshot a wt) (\<lambda>tree1. case review_mutation who tree0 tree1 of Some v \<Rightarrow> io_ret v | None \<Rightarrow> k x)))"

definition run_codex_gate :: "adapter \<Rightarrow> pystr \<Rightarrow> execution_request \<Rightarrow> worker_result \<Rightarrow> verification \<Rightarrow> verification shift" where
  "run_codex_gate a gate q w v = (let variable = (if gate = ''review'' then ''CODEX_REVIEW_COMMAND'' else ''CODEX_FINAL_VERIFY_COMMAND'');
       command = or_text (ad_getenv a variable) (ad_getenv a ''CODEX_COMMAND''); wt = xr_worktree q in
     if \<not> has_text command then io_ret (unavailable [variable @ '' is not configured; '' @ gate @ '' failed closed''] (Some ''codex''))
     else watched a ''codex'' wt
       (io_bind (codex_exec_argv a (the command) wt (Some gate)) (\<lambda>argv. start_process a argv wt (Some (gate_prompt gate q w v))))
       (\<lambda>x. case x of
          Inl (y, msg) \<Rightarrow> io_ret (unavailable [if y = Expired then ''Codex '' @ gate @ '' timed out''
            else ''Codex '' @ gate @ '' process could not be started: '' @ msg] (Some ''codex''))
        | Inr (Exited rc out err) \<Rightarrow> if rc \<noteq> 0 then io_ret (unavailable [''Codex '' @ gate @ '' process failed'', tail_text 1000 err] (Some ''codex''))
            else shift_sum (parse_codex_result a out gate)))"

definition run_air_review :: "adapter \<Rightarrow> execution_request \<Rightarrow> worker_result \<Rightarrow> verification \<Rightarrow> verification shift" where
  "run_air_review a q w t = (let command = ad_getenv a ''AIR_REVIEW_COMMAND''; wt = xr_worktree q in
     if \<not> has_text command then io_ret (unavailable [''AIR_REVIEW_COMMAND is not configured; failover unavailable''] None)
     else watched a ''air-review'' wt
       (io_bind (shift_sum (shlex_split (the command))) (\<lambda>argv. start_process a argv wt (Some (air_prompt q t))))
       (\<lambda>x. case x of
          Inl (y, msg) \<Rightarrow> io_ret (unavailable [''Air Review failover unavailable: '' @ msg] (Some ''air-review''))
        | Inr (Exited rc out err) \<Rightarrow> if rc \<noteq> 0 then io_ret (unavailable [''Air Review failover process failed'', tail_text 1000 err] (Some ''air-review''))
            else shift_sum (parse_air_review_result a out)))"

text \<open>\<open>str\<close> of a tuple of texts.\<close>

definition tuple_text :: "pystr list \<Rightarrow> pystr" where
  "tuple_text xs = ''('' @ join '', '' (map py_repr xs) @ (if length xs = 1 then '','' else []) @ '')''"

definition self_review_mutated :: "worktree_snapshot \<Rightarrow> worktree_snapshot \<Rightarrow> verification" where
  "self_review_mutated tree0 tree1 = verdict False [''P40 self-review modified the worktree; review was rejected'',
     ''before files='' @ tuple_text (ws_files tree0), ''after files='' @ tuple_text (ws_files tree1)] ''self_review_mutated'' None"

definition run_p40_self_review :: "adapter \<Rightarrow> execution_request \<Rightarrow> worker_result \<Rightarrow> verification \<Rightarrow> verification shift" where
  "run_p40_self_review a q w t = (let command = or_text (ad_getenv a ''P40_SELF_REVIEW_COMMAND'')
         (or_text (ad_getenv a ''P40_HERMES_COMMAND'') (ad_which a)); wt = xr_worktree q in
     if \<not> has_text command then io_ret (unavailable [''P40 self-review command is not configured''] None)
     else io_bind (git_snapshot a wt) (\<lambda>tree0.
       io_bind (ended launch_failure (start_process a (hermes_argv (the command) wt) wt (Some (self_review_prompt q w t)))) (\<lambda>x.
       io_bind (git_snapshot a wt) (\<lambda>tree1. io_ret (
         if \<not> same_tree tree0 tree1 then self_review_mutated tree0 tree1
         else (case x of
             Inl (y, msg) \<Rightarrow> unavailable [if y = Expired then ''P40 self-review timed out''
               else ''P40 self-review could not start: '' @ msg] None
           | Inr (Exited rc out err) \<Rightarrow> let output = tail_text 4000 (strip (if out \<noteq> [] then out else err)) in
               if rc \<noteq> 0 then unavailable [''P40 self-review process failed'', output] None
               else verdict True [''P40 self-review completed'', output] ''approved'' None))))))"

definition run_reviewer :: "adapter \<Rightarrow> reviewer \<Rightarrow> execution_request \<Rightarrow> worker_result \<Rightarrow> verification \<Rightarrow> verification shift" where
  "run_reviewer a r q w v = (case r of InjectedReview f \<Rightarrow> outside (\<lambda>n. f n q w v)
     | CodexReview \<Rightarrow> run_codex_gate a ''review'' q w v
     | CodexFinal \<Rightarrow> run_codex_gate a ''final'' q w v
     | AirReview \<Rightarrow> run_air_review a q w v
     | P40SelfReview \<Rightarrow> run_p40_self_review a q w v
     | SelfReviewSkipped \<Rightarrow> io_ret (verdict True [''P40 self-review skipped for an injected test executor''] ''approved'' None))"

text \<open>\<open>type(exc).__name__: exc\<close>\<close>

definition exn_shown :: "adapter \<Rightarrow> exn \<Rightarrow> pystr shift" where
  "exn_shown a e = io_bind (exn_message e) (\<lambda>msg. io_ret (ad_class a e @ '': '' @ msg))"

definition run_review_with_failover :: "adapter \<Rightarrow> execution_request \<Rightarrow> worker_result \<Rightarrow> verification \<Rightarrow> verification shift" where
  "run_review_with_failover a q w t = io_bind (run_reviewer a (ad_reviewer a) q w t) (\<lambda>primary.
     if vf_passed primary \<or> vf_kind primary \<noteq> ''review_unavailable'' then io_ret primary
     else io_bind (io_try (io_bind (run_reviewer a (ad_failover a) q w t) (\<lambda>v. io_ret (Inr v))) (\<lambda>_. True)
         (\<lambda>e. io_bind (exn_shown a e) (\<lambda>msg. io_ret (Inl msg)))) (\<lambda>x. io_ret (case x of
           Inl msg \<Rightarrow> unavailable (vf_evidence primary @ [''Air Review failover raised '' @ msg]) (Some ''air-review'')
         | Inr fallback \<Rightarrow> verdict (vf_passed fallback)
             (vf_evidence primary @ [''Codex review unavailable; Air Review failover attempted''] @ vf_evidence fallback)
             (vf_kind fallback) (Some (if has_text (vf_reviewer fallback) then the (vf_reviewer fallback) else ''air-review'')))))"

end
