(* ===== verification/Adapter.thy ===== *)
theory Adapter
  imports Gates
begin

text \<open>
  The execution adapter of the backlog (second_shift/backlog_execution_adapter.py): one item is claimed, worked on,
  tested, reviewed, recorded with the dispatcher and settled in the queue, with a checkpoint in the registry
  after each phase.  A candidate whose reviewer or verifier is unavailable is kept and resumed by the next call.
  \<open>self\<close> is the argument \<open>a\<close>; the state file is the state of the programs.
\<close>

section \<open>Checkpoints\<close>

record execution_outcome =
  eo_id :: pystr
  eo_status :: backlog_status
  eo_attempt :: int
  eo_worker :: pystr
  eo_evidence :: "pystr list"

definition empty_execution :: item_execution where
  "empty_execution = \<lparr>xc_phase = None, xc_updated = None, xc_status = None, xc_attempts = None, xc_model = None, xc_workflow = None,
     xc_request = None, xc_pid = None, xc_worker = None, xc_tests = None, xc_self = None, xc_review = None, xc_final = None,
     xc_class = None, xc_evidence = None, xc_recorded = None, xc_reason = None, xc_error = None\<rparr>"

definition executions_of :: "registry_doc \<Rightarrow> (pystr \<times> item_execution) list" where
  "executions_of r = (case rg_execution r of None \<Rightarrow> [] | Some m \<Rightarrow> m)"

definition execution_of :: "(pystr \<times> item_execution) list \<Rightarrow> pystr \<Rightarrow> item_execution" where
  "execution_of m i = (case map_of m i of None \<Rightarrow> empty_execution | Some x \<Rightarrow> x)"

definition persistent :: "(pystr \<times> item_execution) list shift" where
  "persistent = io_bind get_registry (\<lambda>r. io_ret (executions_of r))"

definition checkpointed :: "pystr \<Rightarrow> pystr \<Rightarrow> (item_execution \<Rightarrow> item_execution) \<Rightarrow> mutator" where
  "checkpointed i phase upd now r es = (let x = execution_of (executions_of r) i in
     Inr (r\<lparr>rg_execution := Some (AList.update i (upd (x\<lparr>xc_phase := Some phase, xc_updated := Some now\<rparr>)) (executions_of r))\<rparr>, es))"

definition checkpoint :: "pystr \<Rightarrow> pystr \<Rightarrow> (item_execution \<Rightarrow> item_execution) \<Rightarrow> unit shift" where
  "checkpoint i phase upd = io_then (update_state (checkpointed i phase upd)) (io_ret ())"

definition put_status :: "backlog_status \<Rightarrow> item_execution \<Rightarrow> item_execution" where
  "put_status st x = x\<lparr>xc_status := Some (backlog_value st)\<rparr>"

definition begin_execution :: "adapter \<Rightarrow> pystr \<Rightarrow> int \<Rightarrow> execution_request \<Rightarrow> unit shift" where
  "begin_execution a i attempt q = checkpoint i ''executing'' (\<lambda>x. put_status IN_PROGRESS (x\<lparr>xc_attempts := Some attempt,
     xc_model := Some (xr_model q), xc_workflow := Some (xr_workflow q), xc_request := Some q, xc_pid := Some (ad_pid a)\<rparr>))"

definition attempts_so_far :: "item_execution \<Rightarrow> int" where
  "attempts_so_far x = (case xc_attempts x of None \<Rightarrow> 0 | Some n \<Rightarrow> n)"

definition model_or :: "pystr \<Rightarrow> item_execution \<Rightarrow> pystr" where
  "model_or d x = (case xc_model x of None \<Rightarrow> d | Some m \<Rightarrow> m)"

definition evidence_of :: "item_execution \<Rightarrow> pystr list" where
  "evidence_of x = (case xc_evidence x of None \<Rightarrow> [] | Some es \<Rightarrow> es)"

text \<open>\<open>_result\<close> and \<open>_verification\<close> of a record's field, an absent one reading as an empty mapping.\<close>

definition stored_worker :: "item_execution \<Rightarrow> worker_result" where
  "stored_worker x = (case xc_worker x of Some w \<Rightarrow> w | None \<Rightarrow> worker_failed ''unknown'' [] [])"

definition verification_of :: "verification option \<Rightarrow> verification" where
  "verification_of v = (case v of Some x \<Rightarrow> x | None \<Rightarrow> verdict False [] ''rejected_code'' None)"

section \<open>Interrupted executions\<close>

definition recover_interrupted :: "backlog_item list \<Rightarrow> backlog_item \<Rightarrow> item_execution \<Rightarrow> execution_outcome shift" where
  "recover_interrupted bs b x = (let reason = ''interrupted execution recovered from phase='' @ (case xc_phase x of None \<Rightarrow> ''claim'' | Some p \<Rightarrow> p) in
     io_then (record_outcome bs (bi_id b) BLOCKED_ITEM (Some reason))
       (io_then (checkpoint (bi_id b) ''recovery_required'' (\<lambda>x. put_status BLOCKED_ITEM (x\<lparr>xc_reason := Some reason\<rparr>)))
         (io_ret \<lparr>eo_id = bi_id b, eo_status = BLOCKED_ITEM, eo_attempt = attempts_so_far x, eo_worker = model_or ''unknown'' x,
            eo_evidence = [reason]\<rparr>)))"

definition active_item :: "backlog_item list \<Rightarrow> backlog_item option" where
  "active_item bs = find (\<lambda>b. bi_status b = IN_PROGRESS) bs"

definition in_progress_outcome :: "adapter \<Rightarrow> backlog_item list \<Rightarrow> execution_outcome option shift" where
  "in_progress_outcome a bs = (case active_item bs of None \<Rightarrow> io_ret None
   | Some b \<Rightarrow> io_bind persistent (\<lambda>m. let x = execution_of m (bi_id b) in
       io_bind (case xc_pid x of None \<Rightarrow> io_ret False | Some pid \<Rightarrow> outside (\<lambda>n. Ok (ad_alive a n pid))) (\<lambda>alive.
         if xc_phase x \<noteq> Some ''executing'' \<or> \<not> alive then io_bind (recover_interrupted bs b x) (\<lambda>out. io_ret (Some out))
         else io_ret (Some \<lparr>eo_id = bi_id b, eo_status = IN_PROGRESS, eo_attempt = attempts_so_far x,
           eo_worker = model_or ''unknown'' x, eo_evidence = [''existing IN_PROGRESS item inspected; worker was not re-dispatched'']\<rparr>))))"

section \<open>Requests and reports\<close>

definition dispatch_route :: "adapter \<Rightarrow> dispatch_function" where
  "dispatch_route a q supplied = io_bind load_manifest (\<lambda>bs. case find (\<lambda>b. bi_id b = rr_goal q) bs of
     None \<Rightarrow> io_raise StopIter
   | Some b \<Rightarrow> (case ad_router a of Some f \<Rightarrow> outside (\<lambda>n. f n b (rr_workflow q))
       | None \<Rightarrow> route_coding_request q supplied))"

definition request_for :: "adapter \<Rightarrow> backlog_item \<Rightarrow> pystr \<Rightarrow> pystr \<Rightarrow> execution_request" where
  "request_for a b worktree model = \<lparr>xr_id = bi_id b, xr_title = bi_title b, xr_description = bi_description b, xr_criteria = bi_criteria b,
     xr_repository = ad_repository a, xr_worktree = worktree, xr_context = bi_context b, xr_quality = bi_quality b,
     xr_benchmark = bi_benchmark b, xr_guidance = ad_guidance a, xr_workflow = ad_workflow a, xr_model = model\<rparr>"

definition selected_or :: "pystr \<Rightarrow> registry_doc \<Rightarrow> pystr" where
  "selected_or d r = (case dp_selected (dispatch_of r) of None \<Rightarrow> d | Some m \<Rightarrow> m)"

definition request_of :: "adapter \<Rightarrow> backlog_item \<Rightarrow> registry_doc \<Rightarrow> execution_request shift" where
  "request_of a b routing = io_bind (worktree_for a b) (\<lambda>wt. io_ret (request_for a b wt (selected_or ''p40'' routing)))"

definition request_from_record :: "adapter \<Rightarrow> backlog_item \<Rightarrow> item_execution \<Rightarrow> execution_request shift" where
  "request_from_record a b x = (case xc_request x of Some q \<Rightarrow> io_ret q
     | None \<Rightarrow> io_bind (worktree_for a b) (\<lambda>wt. io_ret (request_for a b wt (model_or ''p40_qwen35'' x))))"

definition provider_name :: "pystr \<Rightarrow> pystr" where
  "provider_name m = (if starts_with ''p40'' m then ''p40'' else if starts_with ''gtx'' m then ''gtx'' else m)"

definition candidate_report :: "execution_request \<Rightarrow> pystr \<Rightarrow> verification \<Rightarrow> pystr list \<Rightarrow> pystr \<Rightarrow> attempt_report" where
  "candidate_report q cls review evidence decision = \<lparr>ar_goal = xr_id q, ar_class = ''coding'', ar_model = xr_model q,
     ar_provider = provider_name (xr_model q), ar_kind = cls, ar_credit = ''unknown'',
     ar_reviewer = Some (if has_text (vf_reviewer review) then the (vf_reviewer review) else ''codex''),
     ar_outcome = Some (if vf_passed review then ''approved'' else if vf_kind review = ''rejected_code'' then ''rejected'' else ''unavailable''),
     ar_review_evidence = (if vf_evidence review = [] then None else Some (join ''; '' (vf_evidence review))),
     ar_decision = Some decision, ar_final = False, ar_role = (if xr_model q = ''codex'' then ''repair'' else ''candidate''),
     ar_evidence = evidence, ar_workflow = xr_workflow q\<rparr>"

definition record_candidate :: "execution_request \<Rightarrow> pystr \<Rightarrow> verification \<Rightarrow> pystr list \<Rightarrow> pystr \<Rightarrow> registry_doc shift" where
  "record_candidate q cls review evidence decision = io_bind get_registry (\<lambda>r.
     record_attempt_result (candidate_report q cls review evidence decision) (Some r))"

definition final_report :: "execution_request \<Rightarrow> verification \<Rightarrow> pystr list \<Rightarrow> attempt_report" where
  "final_report q final evidence = \<lparr>ar_goal = xr_id q, ar_class = ''coding'', ar_model = ''codex'', ar_provider = ''codex'',
     ar_kind = (if vf_passed final then ''success'' else ''rejected_code''), ar_credit = ''unknown'', ar_reviewer = Some ''codex'',
     ar_outcome = Some (if vf_passed final then ''approved'' else ''rejected''),
     ar_review_evidence = Some (join ''; '' (vf_evidence final)), ar_decision = None, ar_final = True,
     ar_role = ''final_verification'', ar_evidence = evidence, ar_workflow = xr_workflow q\<rparr>"

text \<open>A gate that raises counts as one that is unavailable.\<close>

definition guarded_gate :: "adapter \<Rightarrow> pystr \<Rightarrow> verification shift \<Rightarrow> verification shift" where
  "guarded_gate a gate m = io_try m (\<lambda>_. True) (\<lambda>e. io_bind (exn_shown a e) (\<lambda>msg.
     io_ret (unavailable [''Codex '' @ gate @ '' gate raised '' @ msg] None)))"

definition pending_outcome :: "backlog_item \<Rightarrow> item_execution \<Rightarrow> pystr list \<Rightarrow> execution_outcome" where
  "pending_outcome b x evidence = \<lparr>eo_id = bi_id b, eo_status = BLOCKED_ITEM, eo_attempt = attempts_so_far x,
     eo_worker = model_or ''p40_qwen35'' x, eo_evidence = evidence\<rparr>"

definition next_status :: "adapter \<Rightarrow> registry_doc \<Rightarrow> pystr list \<Rightarrow> backlog_status \<times> pystr list" where
  "next_status a r evidence = (let m = selected_or [] r in
     if m \<in> fst ` set (ad_executors a) then (QUEUED, evidence)
     else (BLOCKED_ITEM, evidence @ [''next dispatcher selection has no executor: '' @ (if m = [] then ''none'' else m)]))"

definition phase_of :: "backlog_status \<Rightarrow> pystr" where
  "phase_of st = (case st of COMPLETED \<Rightarrow> ''completed'' | QUEUED \<Rightarrow> ''queued'' | _ \<Rightarrow> ''blocked'')"

section \<open>Resuming a kept candidate\<close>

definition settle_item :: "backlog_item list \<Rightarrow> pystr \<Rightarrow> backlog_status \<Rightarrow> pystr \<Rightarrow> pystr \<Rightarrow> pystr \<Rightarrow> pystr list \<Rightarrow> unit shift" where
  "settle_item bs i st reason phase cls evidence = io_then (record_outcome bs i st (Some reason))
     (checkpoint i phase (\<lambda>x. put_status st (x\<lparr>xc_class := Some cls, xc_evidence := Some evidence\<rparr>)))"

definition outcome_of :: "backlog_item \<Rightarrow> backlog_status \<Rightarrow> int \<Rightarrow> pystr \<Rightarrow> pystr list \<Rightarrow> execution_outcome" where
  "outcome_of b st n worker evidence = \<lparr>eo_id = bi_id b, eo_status = st, eo_attempt = n, eo_worker = worker, eo_evidence = evidence\<rparr>"

text \<open>A final verification that gave a verdict: it is recorded and the item settled.\<close>

definition settle_final :: "adapter \<Rightarrow> backlog_item list \<Rightarrow> backlog_item \<Rightarrow> item_execution \<Rightarrow> execution_request \<Rightarrow> verification \<Rightarrow> registry_doc
    \<Rightarrow> pystr list \<Rightarrow> pystr \<Rightarrow> pystr \<Rightarrow> execution_outcome shift" where
  "settle_final a bs b x q final r evidence reason cls =
     io_bind (record_final_verification (final_report q final evidence) (Some r)) (\<lambda>fr.
       let (st, evidence') = (if vf_passed final then (COMPLETED, evidence) else next_status a fr evidence) in
       io_then (settle_item bs (bi_id b) st reason (phase_of st) cls evidence')
         (io_ret (outcome_of b st (attempts_so_far x) (xr_model q) evidence')))"

definition resume_final_verification_pending :: "adapter \<Rightarrow> backlog_item list \<Rightarrow> backlog_item \<Rightarrow> item_execution \<Rightarrow> execution_outcome shift" where
  "resume_final_verification_pending a bs b x = io_bind (request_from_record a b x) (\<lambda>q.
     io_bind (guarded_gate a ''final verification'' (run_reviewer a (ad_final a) q (stored_worker x) (verification_of (xc_review x)))) (\<lambda>final.
     let evidence = evidence_of x @ vf_evidence final;
         kept = (\<lambda>x. put_status BLOCKED_ITEM (x\<lparr>xc_class := Some ''success'', xc_evidence := Some evidence\<rparr>)) in
     io_then (checkpoint (bi_id b) ''final_verification_pending'' (\<lambda>x. (kept x)\<lparr>xc_final := Some final\<rparr>))
     (if \<not> vf_passed final \<and> vf_kind final \<noteq> ''rejected_code''
      then io_then (checkpoint (bi_id b) ''final_verification_pending'' kept)
        (io_ret (pending_outcome b x (evidence @ [''candidate preserved pending Codex final verification''])))
      else io_bind get_registry (\<lambda>r. settle_final a bs b x q final r evidence (if vf_passed final then ''success'' else ''rejected_code'') ''success''))))"

definition review_class :: "verification \<Rightarrow> pystr" where
  "review_class review = (if vf_kind review = ''rejected_code'' then ''incorrect_code'' else vf_kind review)"

definition resume_review_pending :: "adapter \<Rightarrow> backlog_item list \<Rightarrow> backlog_item \<Rightarrow> item_execution \<Rightarrow> execution_outcome shift" where
  "resume_review_pending a bs b x = io_bind (request_from_record a b x) (\<lambda>q. let w = stored_worker x; t = verification_of (xc_tests x) in
     io_bind (guarded_gate a ''review'' (run_review_with_failover a q w t)) (\<lambda>review. let evidence = evidence_of x @ vf_evidence review in
     io_then (checkpoint (bi_id b) ''review_pending'' (\<lambda>x. put_status BLOCKED_ITEM (x\<lparr>xc_review := Some review, xc_evidence := Some evidence\<rparr>)))
     (if \<not> vf_passed review \<and> vf_kind review = ''review_unavailable''
      then io_then (checkpoint (bi_id b) ''review_pending'' (\<lambda>x. put_status BLOCKED_ITEM
          (x\<lparr>xc_class := Some ''candidate_pending_review'', xc_evidence := Some evidence\<rparr>)))
        (io_ret (pending_outcome b x (evidence @ [''candidate preserved pending Codex review''])))
      else let cls = (if vf_passed review then ''success'' else review_class review) in
        io_bind (record_candidate q cls review evidence (if vf_passed review then ''needs_fresh_codex_verification'' else ''rejected'')) (\<lambda>recorded.
        if \<not> vf_passed review
        then (let (st, evidence') = next_status a recorded evidence in
          io_then (settle_item bs (bi_id b) st cls (phase_of st) cls evidence')
            (io_ret (outcome_of b st (attempts_so_far x) (xr_model q) evidence')))
        else io_then (checkpoint (bi_id b) ''final_verification_pending'' (\<lambda>x. put_status BLOCKED_ITEM
            (x\<lparr>xc_class := Some ''success'', xc_request := Some q, xc_worker := Some w, xc_tests := Some t, xc_review := Some review,
               xc_recorded := Some True, xc_evidence := Some evidence\<rparr>)))
          (io_bind (guarded_gate a ''final verification'' (run_reviewer a (ad_final a) q w review)) (\<lambda>final. let ev = evidence @ vf_evidence final in
          io_then (checkpoint (bi_id b) ''final_verification_complete'' (\<lambda>x. x\<lparr>xc_final := Some final, xc_evidence := Some ev\<rparr>))
          (if \<not> vf_passed final \<and> vf_kind final \<noteq> ''rejected_code''
           then io_then (checkpoint (bi_id b) ''final_verification_pending'' (\<lambda>x. put_status BLOCKED_ITEM
               (x\<lparr>xc_class := Some ''success'', xc_evidence := Some ev\<rparr>)))
             (io_ret (pending_outcome b x (ev @ [''candidate preserved pending Codex final verification''])))
           else settle_final a bs b x q final recorded ev cls cls)))))))"

definition pending_phases :: "pystr list" where
  "pending_phases = [''review_pending'', ''final_verification_pending'']"

definition pending_item :: "(pystr \<times> item_execution) list \<Rightarrow> backlog_item list \<Rightarrow> backlog_item option" where
  "pending_item m bs = find (\<lambda>b. \<exists>p\<in>set pending_phases. xc_phase (execution_of m (bi_id b)) = Some p) bs"

definition resume_pending_verification :: "adapter \<Rightarrow> execution_outcome option shift" where
  "resume_pending_verification a = io_bind load_manifest (\<lambda>bs. io_bind persistent (\<lambda>m. case pending_item m bs of
     None \<Rightarrow> io_ret None
   | Some b \<Rightarrow> let x = execution_of m (bi_id b) in
       io_bind (if xc_phase x = Some ''review_pending'' then resume_review_pending a bs b x
         else resume_final_verification_pending a bs b x) (\<lambda>out. io_ret (Some out))))"

section \<open>One execution\<close>

definition substantive_classes :: "pystr list" where
  "substantive_classes = [''partial_code'', ''incorrect_code'', ''tests_failed'']"

definition checked_worker :: "worker_result \<Rightarrow> worker_result" where
  "checked_worker w = (if wr_success w \<and> wr_files w = []
     then w\<lparr>wr_success := False, wr_class := ''no_code'',
       wr_evidence := wr_evidence w @ [''worker reported success without changed-file/artifact evidence'']\<rparr> else w)"

text \<open>The self-review of the P40, between two snapshots: the result of the review, and whether it was done.\<close>

definition self_review_phase :: "adapter \<Rightarrow> execution_request \<Rightarrow> worker_result \<Rightarrow> verification \<Rightarrow> (verification \<times> bool) shift" where
  "self_review_phase a q w t = (if starts_with ''p40'' (xr_model q) \<and> wr_success w \<and> vf_passed t
     then io_bind (git_snapshot a (xr_worktree q)) (\<lambda>tree0.
       io_bind (io_try (run_reviewer a (ad_self a) q w t) (\<lambda>_. True) (\<lambda>e. io_bind (exn_shown a e) (\<lambda>msg.
         io_ret (unavailable [''P40 self-review raised '' @ msg] None)))) (\<lambda>v.
       io_bind (git_snapshot a (xr_worktree q)) (\<lambda>tree1.
         io_ret (if same_tree tree0 tree1 then v else self_review_mutated tree0 tree1, True))))
     else io_ret (verdict True [''P40 self-review not required''] ''approved'' None, False))"

definition mutated_verdict :: "verification \<Rightarrow> bool" where
  "mutated_verdict v = (vf_kind v = ''self_review_mutated'')"

definition reviewed_worker :: "verification \<times> bool \<Rightarrow> worker_result \<Rightarrow> worker_result" where
  "reviewed_worker sv w = (case sv of (v, done) \<Rightarrow> if \<not> done then w
     else (let w1 = w\<lparr>wr_evidence := wr_evidence w @ vf_evidence v\<rparr> in
       if mutated_verdict v then w1\<lparr>wr_success := False, wr_class := ''tests_failed''\<rparr> else w1))"

definition review_phase :: "adapter \<Rightarrow> execution_request \<Rightarrow> worker_result \<Rightarrow> verification \<Rightarrow> bool \<Rightarrow> verification shift" where
  "review_phase a q w t mutated = (
     if \<not> mutated \<and> (xr_model q = ''codex'' \<or> wr_success w \<or> wr_class w \<in> set substantive_classes) then run_review_with_failover a q w t
     else io_ret (verdict False [if mutated then ''Codex review skipped because self-review changed the tested worktree''
       else ''review gate not reached''] ''rejected_code'' None))"

definition classification_of :: "worker_result \<Rightarrow> verification \<Rightarrow> verification \<Rightarrow> pystr" where
  "classification_of w t review = (if \<not> wr_success w then wr_class w else if \<not> vf_passed t then ''tests_failed''
     else if \<not> vf_passed review then review_class review else ''success'')"

definition infrastructure_down :: "pystr list \<Rightarrow> bool" where
  "infrastructure_down evidence = list_ex (\<lambda>s. contains ''failed closed'' s \<or> contains ''not configured'' s) evidence"

text \<open>The candidate whose reviewer is unavailable: the item is blocked and the candidate kept.\<close>

definition keep_for_review :: "backlog_item list \<Rightarrow> execution_request \<Rightarrow> worker_result \<Rightarrow> verification \<Rightarrow> verification \<Rightarrow> verification
    \<Rightarrow> pystr list \<Rightarrow> backlog_item \<Rightarrow> int \<Rightarrow> execution_outcome shift" where
  "keep_for_review bs q w t self review evidence b n = io_then (record_outcome bs (bi_id b) BLOCKED_ITEM (Some ''review_unavailable''))
     (io_then (checkpoint (bi_id b) ''review_pending'' (\<lambda>x. put_status BLOCKED_ITEM (x\<lparr>xc_class := Some ''candidate_pending_review'',
         xc_evidence := Some evidence, xc_request := Some q, xc_worker := Some w, xc_tests := Some t, xc_self := Some self,
         xc_review := Some review\<rparr>)))
       (io_ret (outcome_of b BLOCKED_ITEM n (xr_model q) (evidence @ [''candidate preserved pending Codex review'']))))"

text \<open>Final verification, the dispatcher's records and the queue, once the candidate has been reviewed.\<close>

definition conclude :: "adapter \<Rightarrow> backlog_item list \<Rightarrow> execution_request \<Rightarrow> worker_result \<Rightarrow> verification \<Rightarrow> verification
    \<Rightarrow> pystr list \<Rightarrow> backlog_item \<Rightarrow> int \<Rightarrow> execution_outcome shift" where
  "conclude a bs q w t review evidence0 b n = (let cls = classification_of w t review;
       good = (wr_success w \<and> vf_passed t \<and> vf_passed review) in
     io_bind (if good
       then io_bind (run_reviewer a (ad_final a) q w review) (\<lambda>final.
         io_then (checkpoint (bi_id b) ''final_verification_complete'' (\<lambda>x. x\<lparr>xc_final := Some final\<rparr>)) (io_ret final))
       else io_ret (verdict False [''final verification gate not reached''] ''rejected_code'' None)) (\<lambda>final.
     let evidence = (if good then evidence0 @ vf_evidence final else evidence0);
         pending = (good \<and> \<not> vf_passed final \<and> vf_kind final \<noteq> ''rejected_code'') in
     io_bind (record_candidate q cls review evidence (if good then ''needs_fresh_codex_verification'' else ''rejected'')) (\<lambda>recorded.
     io_bind (if good \<and> \<not> pending then record_final_verification (final_report q final evidence) (Some recorded) else io_ret recorded) (\<lambda>fr.
     let (st, evidence') = (if good \<and> vf_passed final then (COMPLETED, evidence)
         else if pending then (BLOCKED_ITEM, evidence @ [''candidate preserved pending Codex final verification''])
         else if infrastructure_down evidence
         then (BLOCKED_ITEM, evidence @ [''verification infrastructure is unavailable; item is blocked''])
         else next_status a fr evidence);
       phase = (if st = COMPLETED \<or> st = QUEUED then phase_of st else if pending then ''final_verification_pending'' else ''blocked'') in
     io_then (settle_item bs (bi_id b) st cls phase cls evidence') (io_ret (outcome_of b st n (xr_model q) evidence'))))))"

text \<open>The phases of one execution, from the worker on.\<close>

definition execute_item :: "adapter \<Rightarrow> backlog_item list \<Rightarrow> execution_request \<Rightarrow> executor \<Rightarrow> backlog_item \<Rightarrow> int \<Rightarrow> execution_outcome shift" where
  "execute_item a bs q ex b n = (let i = bi_id b;
       e0 = [''worktree='' @ xr_worktree q, ''workflow='' @ xr_workflow q, ''executor='' @ xr_model q] in
     io_bind (run_executor a ex q) (\<lambda>w0. let w1 = checked_worker w0; e1 = e0 @ wr_evidence w1 in
     io_then (checkpoint i ''worker_complete'' (\<lambda>x. x\<lparr>xc_worker := Some w1\<rparr>))
     (io_bind (if wr_success w1 then run_tests a q
         else io_ret (verdict False [''worker did not produce a successful artifact''] ''rejected_code'' None)) (\<lambda>t. let e2 = e1 @ vf_evidence t in
     io_then (checkpoint i ''tests_complete'' (\<lambda>x. x\<lparr>xc_tests := Some t\<rparr>))
     (io_bind (self_review_phase a q w1 t) (\<lambda>(sv, done). let w = reviewed_worker (sv, done) w1;
         e3 = (if done then e2 @ vf_evidence sv else e2); mutated = (done \<and> mutated_verdict sv) in
     io_then (if done then checkpoint i ''self_review_complete'' (\<lambda>x. x\<lparr>xc_self := Some sv\<rparr>) else io_ret ())
     (io_bind (review_phase a q w t mutated) (\<lambda>review. let e4 = e3 @ vf_evidence review in
     io_then (checkpoint i ''review_complete'' (\<lambda>x. x\<lparr>xc_self := Some sv, xc_review := Some review\<rparr>))
     (if wr_success w \<and> vf_passed t \<and> \<not> vf_passed review \<and> vf_kind review = ''review_unavailable''
      then keep_for_review bs q w t sv review e4 b n
      else conclude a bs q w t review e4 b n)))))))))"

definition run_next_once :: "adapter \<Rightarrow> execution_outcome option shift" where
  "run_next_once a = io_bind (dispatch_next (dispatch_route a) (ad_workflow a)) (\<lambda>(bs, dispatch). case dispatch of
     None \<Rightarrow> in_progress_outcome a bs
   | Some d \<Rightarrow> (case do_routing d of
       Inl err \<Rightarrow> io_ret (Some \<lparr>eo_id = do_item d, eo_status = BLOCKED_ITEM, eo_attempt = 0, eo_worker = ''dispatcher'',
         eo_evidence = [''routing failed: '' @ err]\<rparr>)
     | Inr routing \<Rightarrow> (case find (\<lambda>b. bi_id b = do_item d) bs of None \<Rightarrow> io_raise StopIter
       | Some b \<Rightarrow> io_bind (request_of a b routing) (\<lambda>q. case map_of (ad_executors a) (xr_model q) of
           None \<Rightarrow> let reason = ''no executor configured for selected model '' @ xr_model q in
             io_then (record_outcome bs (bi_id b) BLOCKED_ITEM (Some reason))
               (io_then (checkpoint (bi_id b) ''executor_missing'' (\<lambda>x. put_status BLOCKED_ITEM
                   (x\<lparr>xc_model := Some (xr_model q), xc_reason := Some reason\<rparr>)))
                 (io_ret (Some (outcome_of b BLOCKED_ITEM 0 (xr_model q) [reason]))))
         | Some ex \<Rightarrow> io_bind persistent (\<lambda>m. let n = attempts_so_far (execution_of m (bi_id b)) + 1 in
             io_then (begin_execution a (bi_id b) n q)
               (io_bind (execute_item a bs q ex b n) (\<lambda>out. io_ret (Some out))))))))"

section \<open>Exceptions\<close>

definition handle_unexpected_exception :: "adapter \<Rightarrow> exn \<Rightarrow> execution_outcome shift" where
  "handle_unexpected_exception a e = io_bind load_manifest (\<lambda>bs. case active_item bs of None \<Rightarrow> io_raise e
   | Some b \<Rightarrow> io_bind persistent (\<lambda>m. io_bind (exn_shown a e) (\<lambda>msg. let x = execution_of m (bi_id b);
         model = model_or ''p40_qwen35'' x;
         cls = (if ad_class a e \<in> {''FileNotFoundError'', ''PermissionError''} then ''endpoint_unavailable'' else ''unknown'');
         evidence = [msg, ''execution exception was durably classified''];
         q = (case xc_request x of Some q \<Rightarrow> q | None \<Rightarrow> request_for a b (ad_repository a @ ''/.worktrees/'' @ bi_id b) model) in
       io_bind (io_try
           (io_bind (record_candidate q cls (verdict False evidence ''rejected_code'' None) evidence ''rejected'') (\<lambda>recorded.
              io_ret (next_status a recorded evidence)))
           (\<lambda>_. True)
           (\<lambda>e2. io_bind (exn_message e2) (\<lambda>msg2. io_ret (BLOCKED_ITEM, evidence @ [''could not persist dispatcher outcome: '' @ msg2]))))
         (\<lambda>(st, evidence'). io_then (record_outcome bs (bi_id b) st (Some cls))
           (io_then (checkpoint (bi_id b) ''exception'' (\<lambda>x. put_status st (x\<lparr>xc_model := Some model, xc_class := Some cls,
               xc_evidence := Some evidence'\<rparr>)))
             (io_ret (outcome_of b st (attempts_so_far x) model evidence')))))))"

definition handle_pending_exception :: "adapter \<Rightarrow> exn \<Rightarrow> execution_outcome shift" where
  "handle_pending_exception a e = io_bind load_manifest (\<lambda>bs. io_bind persistent (\<lambda>m. case pending_item m bs of
     None \<Rightarrow> handle_unexpected_exception a e
   | Some b \<Rightarrow> let x = execution_of m (bi_id b) in io_bind (exn_shown a e) (\<lambda>shown. io_bind (exn_message e) (\<lambda>msg.
       let evidence = evidence_of x @ [''resume persistence failed: '' @ shown] in
       io_then (io_try (checkpoint (bi_id b) (case xc_phase x of None \<Rightarrow> [] | Some p \<Rightarrow> p)
           (\<lambda>x. put_status BLOCKED_ITEM (x\<lparr>xc_evidence := Some evidence, xc_error := Some msg\<rparr>))) (\<lambda>_. True) (\<lambda>_. io_ret ()))
         (io_ret (pending_outcome b x evidence))))))"

definition run_next :: "adapter \<Rightarrow> execution_outcome option shift" where
  "run_next a = io_try
     (io_bind (resume_pending_verification a) (\<lambda>pending. case pending of Some out \<Rightarrow> io_ret (Some out) | None \<Rightarrow> run_next_once a))
     (\<lambda>_. True)
     (\<lambda>e. io_try (io_bind (handle_pending_exception a e) (\<lambda>out. io_ret (Some out))) (\<lambda>_. True)
       (\<lambda>_. io_bind (handle_unexpected_exception a e) (\<lambda>out. io_ret (Some out))))"

end
