(* ===== verification/AdapterDemo.thy ===== *)
theory AdapterDemo
  imports Adapter ShiftDemo
begin

text \<open>The concrete inputs on which the witnesses of the backlog evaluate its definitions.\<close>

definition demo_item :: "pystr \<Rightarrow> backlog_item" where
  "demo_item i = \<lparr>bi_id = i, bi_title = ''t'', bi_description = ''d'', bi_criteria = [''c''], bi_context = 65536,
     bi_quality = JFloat (Fin (1 / 2)), bi_benchmark = False, bi_status = QUEUED, bi_created = JNull, bi_updated = JNull\<rparr>"

definition demo_backlog :: json where
  "demo_backlog = manifest_document [demo_item ''a'', demo_item ''b'']"

definition backlog_senv :: "(nat \<Rightarrow> fault) \<Rightarrow> senv" where
  "backlog_senv f = calm_shift\<lparr>se_manifest := \<lambda>_. Inr demo_backlog, se_fault := f\<rparr>"

definition good_worker :: worker_result where
  "good_worker = \<lparr>wr_success = True, wr_class = ''success'', wr_summary = [], wr_files = [''f.py''], wr_output = [],
     wr_passed = False, wr_exit = 0, wr_evidence = []\<rparr>"

text \<open>All gates are given; \<open>rv\<close> is what the reviewer answers.\<close>

definition demo_adapter :: "verification \<Rightarrow> verification \<Rightarrow> verification \<Rightarrow> adapter" where
  "demo_adapter t rv fin = \<lparr>ad_repository = ''/r'', ad_guidance = [], ad_workflow = ''layered-review'', ad_router = None,
     ad_executors = [(''p40'', Injected (\<lambda>_ _. Ok good_worker))], ad_tests = InjectedTests (\<lambda>_ _. Ok t), ad_self = SelfReviewSkipped,
     ad_reviewer = InjectedReview (\<lambda>_ _ _ _. Ok rv), ad_failover = InjectedReview (\<lambda>_ _ _ _. Ok rv),
     ad_final = InjectedReview (\<lambda>_ _ _ _. Ok fin), ad_worktree = InjectedWorktree (\<lambda>_ _. Ok ''/w''),
     ad_getenv = \<lambda>_. None, ad_which = None, ad_process = \<lambda>_ _ _ _. Ok (Exited 0 ''h'' []), ad_dumps = \<lambda>_. [], ad_loads = \<lambda>_. None,
     ad_str = \<lambda>_. [], ad_sha = id, ad_file = \<lambda>_ _ _. Inr None, ad_exists = \<lambda>_ _. False, ad_mkdir = \<lambda>_ _. Ok (),
     ad_schema = \<lambda>_ _. Ok [], ad_alive = \<lambda>_ _. False, ad_pid = 1, ad_class = \<lambda>_. []\<rparr>"

definition yes :: verification where
  "yes = verdict True [] ''approved'' (Some ''codex'')"

definition backlog_start :: sfile where
  "backlog_start = shift_with [plain_model ''p40'' ''active'']"

end
