(* ===== verification/BacklogProps.thy ===== *)
theory BacklogProps
  imports Backlog
begin

text \<open>
  Properties of the backlog: a manifest that loads is saved and loads again unchanged, and however the queue's
  calls fail or die the registry never holds two items in progress.
\<close>

section \<open>Round trips\<close>

definition valid_item :: "backlog_item \<Rightarrow> bool" where
  "valid_item b = (strip (bi_id b) \<noteq> [] \<and> strip (bi_title b) \<noteq> [] \<and> strip (bi_description b) \<noteq> [] \<and> bi_criteria b \<noteq> [] \<and>
     list_all (\<lambda>c. strip c \<noteq> []) (bi_criteria b) \<and> 0 < bi_context b \<and> bi_context b \<le> max_context_p40 \<and>
     quality_of (bi_quality b) = Inr (bi_quality b))"

lemma need_text_Inr: "(need_text d f = Inr s) = (dget d f = JStr s \<and> strip s \<noteq> [])"
  by (auto simp: need_text_def split: json.splits)

lemma map_JStr [simp]: "(map JStr xs = map JStr ys) = (xs = ys)"
  by (simp add: inj_map_eq_map inj_def)

lemma need_criteria_Inr: "(need_criteria i js = Inr ss) = (js = map JStr ss \<and> list_all (\<lambda>c. strip c \<noteq> []) ss)"
proof (induction js arbitrary: i ss)
  case (Cons j js)
  then show ?case by (cases j) (auto simp: sum_bind_Inr Cons_eq_map_conv)
qed auto

lemma criteria_of_Inr: "(criteria_of j = Inr ss) = (j = JArr (map JStr ss) \<and> ss \<noteq> [] \<and> list_all (\<lambda>c. strip c \<noteq> []) ss)"
  by (auto simp: criteria_of_def need_criteria_Inr split: json.splits)

lemma context_of_Inr: "(context_of j = Inr i) = (j = JInt i \<and> 0 < i \<and> i \<le> max_context_p40)"
  by (auto simp: context_of_def split: json.splits if_splits)

lemma quality_of_Inr: "quality_of j = Inr q \<Longrightarrow> q = j \<and> quality_of q = Inr q"
  by (cases j; cases "case j of JFloat x \<Rightarrow> x | _ \<Rightarrow> NaN") (auto simp: quality_of_def split: if_splits)

lemma benchmark_of_Inr: "(benchmark_of j = Inr b) = (j = JBool b)"
  by (auto simp: benchmark_of_def split: json.splits)

lemma status_of_value: "status_of (JStr (backlog_value st)) = Some st"
  by (cases st) (simp_all add: status_of_def backlog_statuses_def)

lemma item_fields_known: "filter (\<lambda>k. k \<notin> set item_fields) (map fst [(''issue_id'', a), (''title'', b), (''description'', c),
    (''acceptance_criteria'', d), (''context_size'', e), (''quality_importance'', f), (''requires_benchmark_evidence'', g),
    (''status'', h), (''created_at'', k), (''updated_at'', l)]) = []"
  by (simp add: item_fields_def required_item_fields_def)

lemma parsed_valid: "item_from_dict j = Inr b \<Longrightarrow> valid_item b"
  by (auto simp: item_from_dict_def validated_item_def valid_item_def sum_bind_Inr need_text_Inr criteria_of_Inr context_of_Inr
    Let_def dest: quality_of_Inr split: json.splits if_splits option.splits)

lemma item_roundtrip: "item_from_dict (item_to_dict b) = Inr c \<longleftrightarrow> valid_item b \<and> c = b"
proof -
  obtain i t ds cs ctx q ev st cr up where b: "b = \<lparr>bi_id = i, bi_title = t, bi_description = ds, bi_criteria = cs, bi_context = ctx,
      bi_quality = q, bi_benchmark = ev, bi_status = st, bi_created = cr, bi_updated = up\<rparr>" by (cases b)
  have "item_from_dict (item_to_dict b) = validated_item [(''issue_id'', JStr i), (''title'', JStr t), (''description'', JStr ds),
      (''acceptance_criteria'', JArr (map JStr cs)), (''context_size'', JInt ctx), (''quality_importance'', q),
      (''requires_benchmark_evidence'', JBool ev), (''status'', JStr (backlog_value st)), (''created_at'', cr), (''updated_at'', up)] st"
    by (simp add: b item_from_dict_def item_to_dict_def item_fields_known [simplified] dget_def status_of_value required_item_fields_def
        item_fields_def Let_def)
  then show ?thesis
    by (auto simp: b validated_item_def valid_item_def sum_bind_Inr need_text_Inr criteria_of_Inr context_of_Inr benchmark_of_Inr
      dget_def dest: quality_of_Inr)
qed

lemma check_items_Inr:
  "check_items n seen js = Inr bs \<Longrightarrow> list_all valid_item bs \<and> distinct (map bi_id bs) \<and> set (map bi_id bs) \<inter> set seen = {}"
proof (induction js arbitrary: n seen bs)
  case (Cons j js)
  from Cons.prems obtain b cs where step: "item_from_dict j = Inr b" "bi_id b \<notin> set seen"
      "check_items (n + 1) (bi_id b # seen) js = Inr cs" "bs = b # cs"
    by (auto simp: sum_bind_Inr split: json.splits sum.splits if_splits)
  from Cons.IH [OF step(3)] step show ?case by (auto dest: parsed_valid)
qed simp

lemma check_items_back:
  "list_all valid_item bs \<Longrightarrow> distinct (map bi_id bs) \<Longrightarrow> set (map bi_id bs) \<inter> set seen = {} \<Longrightarrow>
   check_items n seen (map item_to_dict bs) = Inr bs"
proof (induction bs arbitrary: n seen)
  case (Cons b bs)
  have "item_from_dict (item_to_dict b) = Inr b" using Cons.prems by (simp add: item_roundtrip)
  moreover have "\<exists>d. item_to_dict b = JObj d" by (simp add: item_to_dict_def)
  moreover have "check_items (n + 1) (bi_id b # seen) (map item_to_dict bs) = Inr bs"
    by (rule Cons.IH) (use Cons.prems in auto)
  ultimately show ?case using Cons.prems by auto
qed simp

lemma check_items_same: "check_items n seen (map item_to_dict bs) = Inr cs \<Longrightarrow> cs = bs"
proof (induction bs arbitrary: n seen cs)
  case (Cons b bs)
  moreover obtain d where d: "item_to_dict b = JObj d" by (simp add: item_to_dict_def)
  ultimately show ?case using item_roundtrip [of b] by (auto simp: sum_bind_Inr d split: sum.splits if_splits)
qed simp

lemma manifest_items_back: "manifest_items (manifest_document bs) = check_items 0 [] (map item_to_dict bs)"
  by (simp add: manifest_items_def manifest_document_def dget_def)

lemma manifest_items_Inr: "manifest_items doc = Inr bs \<Longrightarrow> list_all valid_item bs \<and> distinct (map bi_id bs)"
  by (auto simp: manifest_items_def dest: check_items_Inr split: json.splits if_splits)

text \<open>C38. A list of items that was loaded from a manifest, or that \<open>save_manifest\<close> accepts, has distinct ids,
  can be saved, and what is saved loads as the same list.\<close>

theorem manifest_roundtrip:
  assumes "manifest_items doc = Inr bs \<or> saved_manifest bs = Inr doc"
  shows "distinct (map bi_id bs) \<and> saved_manifest bs = Inr (manifest_document bs) \<and> manifest_items (manifest_document bs) = Inr bs"
proof -
  have "list_all valid_item bs \<and> distinct (map bi_id bs)"
    using assms
  proof
    assume "saved_manifest bs = Inr doc"
    then obtain cs where cs: "check_items 0 [] (map item_to_dict bs) = Inr cs"
      by (auto simp: saved_manifest_def sum_bind_Inr manifest_items_back)
    have "cs = bs" by (rule check_items_same [OF cs])
    then show ?thesis using check_items_Inr [OF cs] by simp
  qed (rule manifest_items_Inr)
  then have "manifest_items (manifest_document bs) = Inr bs"
    by (simp add: manifest_items_back check_items_back)
  then show ?thesis using \<open>list_all valid_item bs \<and> _\<close> by (simp add: saved_manifest_def)
qed

definition written_item :: json where
  "written_item = JObj [(''status'', JStr ''blocked''), (''issue_id'', JStr ''GTX-7''), (''title'', JStr ''t''), (''description'', JStr ''d''),
     (''acceptance_criteria'', JArr [JStr ''a'', JStr ''b'']), (''context_size'', JInt 262144), (''quality_importance'', JInt 1),
     (''requires_benchmark_evidence'', JBool True)]"

lemma manifest_roundtrip_witness:
  "\<exists>b. manifest_items (JObj [(''items'', JArr [written_item])]) = Inr [b] \<and> bi_id b = ''GTX-7'' \<and> bi_status b = BLOCKED_ITEM \<and>
     saved_manifest [b] = Inr (manifest_document [b]) \<and> manifest_items (manifest_document [b]) = Inr [b]"
proof -
  let ?b = "\<lparr>bi_id = ''GTX-7'', bi_title = ''t'', bi_description = ''d'', bi_criteria = [''a'', ''b''], bi_context = 262144, bi_quality = JInt 1,
     bi_benchmark = True, bi_status = BLOCKED_ITEM, bi_created = JNull, bi_updated = JNull\<rparr>"
  have "manifest_items (JObj [(''items'', JArr [written_item])]) = Inr [?b]" by code_simp
  then show ?thesis using manifest_roundtrip [of "JObj [(''items'', JArr [written_item])]" "[?b]"] by auto
qed

section \<open>At most one item in progress\<close>

definition one_claimed :: "backlog_item list \<Rightarrow> bool" where
  "one_claimed bs = (distinct (map bi_id bs) \<and>
     (\<forall>b\<in>set bs. \<forall>c\<in>set bs. bi_status b = IN_PROGRESS \<longrightarrow> bi_status c = IN_PROGRESS \<longrightarrow> bi_id b = bi_id c))"

text \<open>\<open>V i es\<close>: what has to be in the ledger before the item \<open>i\<close> may count as completed.\<close>

definition good_list :: "(pystr \<Rightarrow> entry list \<Rightarrow> bool) \<Rightarrow> backlog_item list \<Rightarrow> entry list \<Rightarrow> bool" where
  "good_list V bs es = (list_all valid_item bs \<and> one_claimed bs \<and> (\<forall>b\<in>set bs. bi_status b = COMPLETED \<longrightarrow> V (bi_id b) es))"

definition good_items :: "(pystr \<Rightarrow> entry list \<Rightarrow> bool) \<Rightarrow> json option \<Rightarrow> entry list \<Rightarrow> bool" where
  "good_items V j es = (case j of None \<Rightarrow> True | Some x \<Rightarrow> \<exists>bs. x = stored_items bs \<and> good_list V bs es)"

text \<open>The manifest file announces work; it does not itself hold an item in progress, nor one completed without \<open>V\<close>.\<close>

definition announced :: "(pystr \<Rightarrow> entry list \<Rightarrow> bool) \<Rightarrow> backlog_item \<Rightarrow> bool" where
  "announced V b = (bi_status b \<noteq> IN_PROGRESS \<and> (bi_status b = COMPLETED \<longrightarrow> (\<forall>es. V (bi_id b) es)))"

definition good_manifest :: "(pystr \<Rightarrow> entry list \<Rightarrow> bool) \<Rightarrow> exn + json \<Rightarrow> bool" where
  "good_manifest V m = (\<forall>doc bs. m = Inr doc \<longrightarrow> manifest_items doc = Inr bs \<longrightarrow> list_all (announced V) bs)"

lemma persisted_back: "list_all valid_item bs \<Longrightarrow> persisted_items (map item_to_dict bs) = Inr (rev (map (\<lambda>b. (bi_id b, b)) bs))"
proof (induction bs)
  case (Cons b bs)
  moreover obtain d where d: "item_to_dict b = JObj d" by (simp add: item_to_dict_def)
  ultimately show ?case using item_roundtrip [of b b] by (simp add: d)
qed simp

lemma valid_updates [simp]:
  "valid_item (b\<lparr>bi_status := st\<rparr>) = valid_item b" "valid_item (b\<lparr>bi_created := c\<rparr>) = valid_item b"
  "valid_item (b\<lparr>bi_updated := u\<rparr>) = valid_item b"
  by (simp_all add: valid_item_def)

lemma overlaid_simps [simp]: "bi_id (overlaid ps b) = bi_id b" "valid_item (overlaid ps b) = valid_item b"
  by (simp_all add: overlaid_def split: option.splits)

lemma overlaid_status:
  "bi_status (overlaid ps b) = st \<Longrightarrow> bi_status b = st \<or> (\<exists>p. (bi_id b, p) \<in> set ps \<and> bi_status p = st)"
  by (auto simp: overlaid_def dest: map_of_SomeD split: option.splits)

lemma overlay_good:
  assumes "overlay_items m r = Inr bs" "good_items V (rg_items r) es" "good_manifest V m"
  shows "good_list V bs es"
proof -
  obtain ps doc cs where o: "manifest_items doc = Inr cs" "bs = map (overlaid ps) cs" "m = Inr doc"
      and ps: "(case rg_items r of Some (JArr js) \<Rightarrow> persisted_items js | _ \<Rightarrow> Inr []) = Inr ps"
    using assms(1) by (auto simp: overlay_items_def sum_bind_Inr)
  obtain qs where qs: "good_list V qs es" "set ps = (\<lambda>b. (bi_id b, b)) ` set qs"
  proof (cases "rg_items r")
    case None
    then show ?thesis using ps by (intro that [of "[]"]) (simp_all add: good_list_def one_claimed_def)
  next
    case (Some x)
    then obtain qs where "x = stored_items qs" "good_list V qs es" using assms(2) by (auto simp: good_items_def)
    then show ?thesis using ps Some by (intro that [of qs]) (auto simp: stored_items_def persisted_back good_list_def)
  qed
  have source: "(\<exists>c\<in>set cs. bi_id c = bi_id b \<and> bi_status c = bi_status b) \<or> (\<exists>p\<in>set qs. bi_id p = bi_id b \<and> bi_status p = bi_status b)"
    if b: "b \<in> set bs" for b
  proof -
    obtain c where "c \<in> set cs" "b = overlaid ps c" using b by (auto simp: o(2))
    then show ?thesis using overlaid_status [where ps = ps and b = c, OF refl] by (auto simp: qs(2))
  qed
  have told: "announced V c" if "c \<in> set cs" for c
    using assms(3) o that by (auto simp: good_manifest_def list_all_iff)
  have "one_claimed bs"
    unfolding one_claimed_def
  proof (intro conjI ballI impI)
    show "distinct (map bi_id bs)" using manifest_items_Inr [OF o(1)] by (simp add: o(2) comp_def)
    fix b c assume bc: "b \<in> set bs" "c \<in> set bs" "bi_status b = IN_PROGRESS" "bi_status c = IN_PROGRESS"
    have "\<exists>p\<in>set qs. bi_id p = bi_id d \<and> bi_status p = IN_PROGRESS" if "d \<in> set bs" "bi_status d = IN_PROGRESS" for d
      using source [OF that(1)] that(2) told by (auto simp: announced_def)
    from this [OF bc(1,3)] this [OF bc(2,4)] obtain p q where "p \<in> set qs" "q \<in> set qs" "bi_status p = IN_PROGRESS"
        "bi_status q = IN_PROGRESS" "bi_id p = bi_id b" "bi_id q = bi_id c" by blast
    then show "bi_id b = bi_id c" using qs(1) unfolding good_list_def one_claimed_def by metis
  qed
  moreover have "V (bi_id b) es" if "b \<in> set bs" "bi_status b = COMPLETED" for b
    using source [OF that(1)] that(2) told qs(1) unfolding good_list_def announced_def by metis
  ultimately show ?thesis using manifest_items_Inr [OF o(1)] by (auto simp: o(2) list_all_iff good_list_def)
qed

lemma with_status_ids [simp]: "map bi_id (with_status i st now bs) = map bi_id bs"
  by (simp add: with_status_def comp_def if_distrib cong: if_cong)

lemma with_status_mem:
  assumes "c \<in> set (with_status i st now bs)"
  shows "\<exists>b\<in>set bs. bi_id c = bi_id b \<and> valid_item c = valid_item b \<and> bi_status c = (if bi_id b = i then st else bi_status b)"
proof -
  obtain b where "b \<in> set bs" "c = (if bi_id b = i then b\<lparr>bi_status := st, bi_updated := JStr (iso_utc now)\<rparr> else b)"
    using assms unfolding with_status_def set_map by (rule imageE)
  then show ?thesis by (intro bexI [of _ b]) simp_all
qed

lemma with_status_valid: "list_all valid_item bs \<Longrightarrow> list_all valid_item (with_status i st now bs)"
  unfolding list_all_iff by (blast dest: with_status_mem)

lemma settled_claimed: "one_claimed bs \<Longrightarrow> st \<noteq> IN_PROGRESS \<Longrightarrow> one_claimed (with_status i st now bs)"
  unfolding one_claimed_def by (fastforce dest!: with_status_mem split: if_splits)

lemma claim_claimed: "distinct (map bi_id bs) \<Longrightarrow> \<forall>b\<in>set bs. bi_status b \<noteq> IN_PROGRESS \<Longrightarrow> one_claimed (with_status i IN_PROGRESS now bs)"
  unfolding one_claimed_def by (fastforce dest!: with_status_mem split: if_splits)

lemma settled_good:
  assumes "good_list V bs es" "st \<noteq> IN_PROGRESS" "st = COMPLETED \<longrightarrow> V i es"
  shows "good_list V (with_status i st now bs) es"
proof -
  have "one_claimed (with_status i st now bs)"
    using assms(1,2) by (simp add: good_list_def settled_claimed)
  moreover have "V (bi_id b) es" if "b \<in> set (with_status i st now bs)" "bi_status b = COMPLETED" for b
    using with_status_mem [OF that(1)] that(2) assms by (auto simp: good_list_def split: if_splits)
  ultimately show ?thesis using assms(1) by (simp add: good_list_def with_status_valid)
qed

lemma claim_good:
  assumes "good_list V bs es" "\<forall>b\<in>set bs. bi_status b \<noteq> IN_PROGRESS"
  shows "good_list V (with_status i IN_PROGRESS now bs) es"
proof -
  have "one_claimed (with_status i IN_PROGRESS now bs)"
    using assms by (simp add: good_list_def one_claimed_def [of bs] claim_claimed)
  moreover have "V (bi_id b) es" if "b \<in> set (with_status i IN_PROGRESS now bs)" "bi_status b = COMPLETED" for b
    using with_status_mem [OF that(1)] that(2) assms by (auto simp: good_list_def split: if_splits)
  ultimately show ?thesis using assms(1) by (simp add: good_list_def with_status_valid)
qed

lemma moved_items: "item_moved bs b st reason t now r es = Inr (r', es') \<Longrightarrow>
    rg_items r' = Some (stored_items bs) \<and> rg_execution r' = rg_execution r \<and> (\<exists>e. es' = es @ [BacklogEntry e])"
  by (auto simp: item_moved_def)

lemma claimed_good:
  assumes "claimed_next m now r es = Inr ((r', es'), bs, x)" "good_items V (rg_items r) es" "good_manifest V m"
  shows "good_list V bs es \<and> (rg_items r' = rg_items r \<or> rg_items r' = Some (stored_items bs)) \<and>
    rg_execution r' = rg_execution r \<and> (\<exists>xs. es' = es @ xs) \<and> (\<forall>b. x = Some b \<longrightarrow> b \<in> set bs)"
proof -
  obtain cs where cs: "overlay_items m r = Inr cs" using assms(1) by (auto simp: claimed_next_def sum_bind_Inr)
  note ok = overlay_good [OF cs assms(2,3)]
  show ?thesis
  proof (cases "select_next_item cs")
    case None
    then show ?thesis using assms(1) cs ok by (auto simp: claimed_next_def)
  next
    case (Some b)
    let ?bs = "with_status (bi_id b) IN_PROGRESS now cs"
    have "good_list V ?bs es"
      using Some ok by (intro claim_good) (auto simp: select_next_item_def list_ex_iff split: if_splits)
    moreover have "bs = ?bs" "item_moved ?bs b IN_PROGRESS None now now r es = Inr (r', es')" "x = find (\<lambda>c. bi_id c = bi_id b) ?bs"
      using assms(1) cs Some by (auto simp: claimed_next_def sum_bind_Inr Let_def)
    ultimately show ?thesis using moved_items [of ?bs b IN_PROGRESS None now now r es r' es'] by (auto simp: find_Some_iff)
  qed
qed

lemma status_value_inj [simp]: "(backlog_value s = backlog_value t) = (s = t)"
  by (cases s; cases t) simp_all

lemma stored_items_inj: "(stored_items bs = stored_items cs) = (bs = cs)"
proof -
  have "b = c" if "item_to_dict b = item_to_dict c" for b c
    using that by (cases b; cases c) (simp add: item_to_dict_def)
  then show ?thesis by (auto simp: stored_items_def inj_def intro: map_injective)
qed

text \<open>A list with distinct ids that names one id at most in progress has one item in progress at most.\<close>

lemma one_claimed_length:
  assumes "one_claimed bs"
  shows "length (filter (\<lambda>b. bi_status b = IN_PROGRESS) bs) \<le> 1"
proof -
  have "card (bi_id ` {b \<in> set bs. bi_status b = IN_PROGRESS}) \<le> 1"
    using assms by (auto simp: one_claimed_def card_le_Suc0_iff_eq)
  moreover have "inj_on bi_id (set bs)" "distinct bs" using assms by (auto simp: one_claimed_def distinct_map)
  ultimately show ?thesis
    by (simp add: card_image inj_on_subset [of bi_id "set bs"] distinct_card [symmetric] del: distinct_card)
qed

end
