(* ===== verification/ShiftFrames.thy ===== *)
theory ShiftFrames
  imports ShiftRules
begin

text \<open>
  What the dispatcher and the broker's director leave alone: the backlog's part of the registry, and every entry
  already in the ledger.
\<close>

text \<open>A key the registry lacks may be taken from the registry the caller supplied.\<close>

definition kept_or_supplied :: "(registry_doc \<Rightarrow> 'a option) \<Rightarrow> registry_doc \<Rightarrow> registry_doc \<Rightarrow> registry_doc \<Rightarrow> bool" where
  "kept_or_supplied key given r r' = (key r' = key r \<or> key r = None \<and> key r' = key given)"

definition backlog_kept :: "registry_doc \<Rightarrow> registry_doc \<Rightarrow> registry_doc \<Rightarrow> bool" where
  "backlog_kept given r r' = (kept_or_supplied rg_items given r r' \<and> kept_or_supplied rg_execution given r r')"

definition appends :: "entry list \<Rightarrow> entry list \<Rightarrow> bool" where
  "appends es es' = (\<exists>xs. es' = es @ xs)"

definition framed :: "registry_doc \<Rightarrow> sfile \<Rightarrow> sfile \<Rightarrow> bool" where
  "framed given s s' = (backlog_kept given (ss_registry s) (ss_registry s') \<and> appends (ss_ledger s) (ss_ledger s'))"

lemma backlog_kept_refl [simp]: "backlog_kept given r r"
  by (simp add: backlog_kept_def kept_or_supplied_def)

lemma backlog_kept_trans: "backlog_kept given a b \<Longrightarrow> backlog_kept given b c \<Longrightarrow> backlog_kept given a c"
  by (auto simp: backlog_kept_def kept_or_supplied_def)

lemma appends_refl [simp]: "appends es es" "appends es (es @ xs)"
  by (simp_all add: appends_def)

lemma appends_trans: "appends a b \<Longrightarrow> appends b c \<Longrightarrow> appends a c"
  by (auto simp: appends_def)

interpretation framed: effect_law any_senv "framed given" for given
  by unfold_locales (auto simp: framed_def intro: backlog_kept_trans appends_trans)

lemma framed_reads [io_intros]:
  "io_obeys any_senv (framed given) get_registry" "io_obeys any_senv (framed given) get_ledger_entries"
  "io_obeys any_senv (framed given) shift_now" "io_obeys any_senv (framed given) (shift_ask f)"
  "io_obeys any_senv (framed given) (exn_message e)"
  by (auto simp: io_obeys_def framed_def get_registry_def read_registry_def get_ledger_entries_def read_ledger_def shift_now_def
    shift_ask_def exn_message_def shift_step_def Let_def split: fault.splits)

text \<open>A transaction writes the registry first, so each file changes as the frame allows on its own.\<close>

lemma framed_update [io_intros]:
  assumes "\<And>now r es r' es'. m now r es = Inr (r', es') \<Longrightarrow> backlog_kept given r r' \<and> appends es es'"
  shows "io_obeys any_senv (framed given) (update_state m)"
proof (rule io_obeys_wp)
  fix s :: sfile
  let ?R = "backlog_kept given (ss_registry s)" and ?L = "appends (ss_ledger s)"
  have "keeps any_senv ?R ?L ?R (update_state m)"
    by (rule keeps_update) (use assms in \<open>blast intro: backlog_kept_trans appends_trans\<close>)
  then have "io_wp any_senv (update_state m) (\<lambda>a s'. ?R a \<and> sound ?R ?L s') (\<lambda>_. sound ?R ?L) (sound ?R ?L) s"
    by (simp add: keeps_def sound_def)
  then show "io_wp any_senv (update_state m) (\<lambda>_. framed given s) (\<lambda>_. framed given s) (framed given s) s"
    by (rule io_wp_mono) (simp_all add: framed_def sound_def)
qed

text \<open>What a call was given is what the registry holds when it has just been read.\<close>

lemma framed_fresh [io_intros]:
  assumes "\<And>r. io_obeys any_senv (framed r) (f r)"
  shows "io_obeys any_senv (framed given) (io_bind get_registry f)"
  unfolding io_obeys_def
proof (intro allI impI)
  fix env and s :: sfile assume F: "any_senv env"
  let ?t = "s\<lparr>ss_tick := ss_tick s + 1\<rparr>"
  obtain x s' where run: "f (ss_registry s) env ?t = (x, s')" by (metis surj_pair)
  have "framed (ss_registry s) ?t s'" by (rule io_obeysD [OF assms F run])
  then have "framed given s s'" by (auto simp: framed_def backlog_kept_def kept_or_supplied_def)
  then show "framed given s (snd (io_bind get_registry f env s))"
    using run by (auto simp: io_bind_def get_registry_def read_registry_def shift_step_def Let_def framed_def split: fault.splits)
qed

section \<open>The director\<close>

lemma io_bind_ret: "io_bind (io_ret a) f = f a"
  by (simp add: fun_eq_iff io_bind_def io_ret_def)

lemma framed_edit [io_intros]: "io_obeys any_senv (framed given) (edit_broker f)"
  by (auto simp: io_obeys_def framed_def edit_broker_def get_registry_def read_registry_def save_registry_def write_registry_def
    io_bind_def shift_step_def Let_def backlog_kept_def kept_or_supplied_def split: fault.splits)

lemma framed_current [io_intros]: "io_obeys any_senv (framed given) get_current_state" "io_obeys any_senv (framed given) (get_task_state t)"
  unfolding get_current_state_def get_task_state_def read_broker_def by (intro io_intros)+

lemma framed_persist [io_intros]:
  "io_obeys any_senv (framed given) (persist_state st)" "io_obeys any_senv (framed given) (append_provider_transition m)"
  unfolding persist_state_def set_current_state_def append_task_history_def append_provider_transition_def by (intro io_intros)+

lemma framed_direct [io_intros]: "io_obeys any_senv (framed given) (route_request q)"
  unfolding route_request_def Let_def by (intro io_intros)

lemma framed_result [io_intros]: "io_obeys any_senv (framed given) (record_result a)"
  unfolding record_result_def Let_def by (intro io_intros)

lemma framed_answer [io_intros]: "io_obeys any_senv (framed given) (broker_answer q)"
  unfolding broker_answer_def ask_director_def by (intro io_intros)

section \<open>The dispatcher\<close>

lemma kept_simps [simp]:
  "backlog_kept given r (r'\<lparr>rg_dispatch := d\<rparr>) = backlog_kept given r r'" "backlog_kept given r (on_model i f r') = backlog_kept given r r'"
  by (simp_all add: backlog_kept_def kept_or_supplied_def on_model_def)

lemma kept_merged: "backlog_kept given r (merged r given)" "backlog_kept given r (snapshot given r)"
  by (simp_all add: backlog_kept_def kept_or_supplied_def merged_def snapshot_def split: option.splits)

lemma repair_route_appends: "route_repair_worker r d es goal now = Inr (w, d', es') \<Longrightarrow> appends es es'"
  by (auto simp: route_repair_worker_def Let_def split: if_splits sum.splits)

lemma choose_route_appends: "choose_route order gtx ct q now r d es = Inr (w, d', es') \<Longrightarrow> appends es es'"
  by (auto simp: choose_route_def gtx_choice_def dest: repair_route_appends split: if_splits sum.splits option.splits prod.splits)

lemma broker_entries_appends: "appends es (broker_entries g ans es)"
  by (simp add: broker_entries_def split: sum.splits)

lemma routed_frame: "routed order gtx ct q given now r es = Inr (r', es') \<Longrightarrow> backlog_kept given r r' \<and> appends es es'"
  by (auto simp: routed_def Let_def kept_merged dest!: choose_route_appends intro: appends_trans broker_entries_appends
    split: sum.splits option.splits prod.splits)

lemma attempted_frame: "attempted a t ctl given now r es = Inr (r', es') \<Longrightarrow> backlog_kept given r r' \<and> appends es es'"
  by (auto simp: attempted_def Let_def kept_merged)

lemma framed_route [io_intros]: "io_obeys any_senv (framed given) (route_coding_request q given)"
  unfolding route_coding_request_def by (intro io_intros) (erule routed_frame)+

lemma framed_attempt [io_intros]: "io_obeys any_senv (framed given) (record_attempt_result a (Some given))"
proof -
  have rest: "io_obeys any_senv (framed r) (io_bind shift_now (\<lambda>at0. case check_attempt a of Some msg \<Rightarrow> io_raise (ValueErr msg)
     | None \<Rightarrow> if ar_workflow a = gtx_workflow
         then io_bind (record_result (director_result a)) (\<lambda>c. update_state (attempted a at0 (Some c) r))
         else update_state (attempted a at0 None r)))" for r
    by (intro io_intros) (erule attempted_frame)+
  show ?thesis
    unfolding record_attempt_result_def given_or_stored_def option.case
    by (cases "given = empty_registry") (simp_all add: framed_fresh rest io_bind_ret)
qed

end
