(* ===== verification/BacklogRules.thy ===== *)
theory BacklogRules
  imports BacklogProps ShiftFrames
begin

text \<open>
  Rules for the programs of the backlog.  Between any two file operations the items of the registry are sound
  and the executions kept for resumption have their candidate in the ledger; what is known of the ledger stays
  known, because every call only appends to it.
\<close>

section \<open>What the ledger shows of an item\<close>

definition candidate_entry :: "pystr \<Rightarrow> attempt_entry \<Rightarrow> bool" where
  "candidate_entry i e = (ae_goal e = i \<and> ae_kind e = ''success'' \<and> ae_outcome e = Some ''approved'' \<and>
     ae_reviewer e \<in> {Some ''codex'', Some ''air-review''} \<and> ae_role e \<noteq> ''final_verification'')"

definition accepted_entry :: "pystr \<Rightarrow> attempt_entry \<Rightarrow> bool" where
  "accepted_entry i e = (ae_goal e = i \<and> ae_model e = ''codex'' \<and> ae_role e = ''final_verification'' \<and> ae_final e \<and>
     ae_reviewer e = Some ''codex'' \<and> ae_decision e = Some ''accepted'')"

definition candidate_recorded :: "pystr \<Rightarrow> entry list \<Rightarrow> bool" where
  "candidate_recorded i es = (\<exists>c. AttemptEntry c \<in> set es \<and> candidate_entry i c)"

definition verified :: "pystr \<Rightarrow> entry list \<Rightarrow> bool" where
  "verified i es = (\<exists>as c bs e cs. es = as @ AttemptEntry c # bs @ AttemptEntry e # cs \<and> candidate_entry i c \<and> accepted_entry i e)"

lemma candidate_grows: "candidate_recorded i es \<Longrightarrow> candidate_recorded i (es @ xs)"
  by (auto simp: candidate_recorded_def)

lemma verified_grows: "verified i es \<Longrightarrow> verified i (es @ xs)"
  unfolding verified_def by (metis append.assoc append_Cons)

lemma verified_final: "candidate_recorded i es \<Longrightarrow> accepted_entry i e \<Longrightarrow> verified i (es @ [AttemptEntry e])"
  unfolding verified_def candidate_recorded_def by (metis append.assoc append_Cons in_set_conv_decomp)

section \<open>The condition on the two files\<close>

definition execution_ok :: "pystr \<Rightarrow> entry list \<Rightarrow> item_execution \<Rightarrow> bool" where
  "execution_ok i es x = ((\<forall>q. xc_request x = Some q \<longrightarrow> xr_id q = i) \<and>
     (xc_phase x = Some ''final_verification_pending'' \<longrightarrow> candidate_recorded i es))"

definition executions_ok :: "(pystr \<times> item_execution) list option \<Rightarrow> entry list \<Rightarrow> bool" where
  "executions_ok m es = (case m of None \<Rightarrow> True | Some xs \<Rightarrow> \<forall>i x. map_of xs i = Some x \<longrightarrow> execution_ok i es x)"

definition docs_ok :: "(pystr \<Rightarrow> entry list \<Rightarrow> bool) \<Rightarrow> registry_doc \<Rightarrow> entry list \<Rightarrow> bool" where
  "docs_ok V r es = (good_items V (rg_items r) es \<and> executions_ok (rg_execution r) es)"

definition good_manifests :: "(pystr \<Rightarrow> entry list \<Rightarrow> bool) \<Rightarrow> senv \<Rightarrow> bool" where
  "good_manifests V env = (\<forall>n. good_manifest V (se_manifest env n))"

definition grows :: "(entry list \<Rightarrow> bool) \<Rightarrow> bool" where
  "grows K = (\<forall>es xs. K es \<longrightarrow> K (es @ xs))"

definition safe :: "(pystr \<Rightarrow> entry list \<Rightarrow> bool) \<Rightarrow> (entry list \<Rightarrow> bool) \<Rightarrow> 'a shift \<Rightarrow> ('a \<Rightarrow> entry list \<Rightarrow> bool) \<Rightarrow> bool" where
  "safe V K m R = (\<forall>s. docs_ok V (ss_registry s) (ss_ledger s) \<and> K (ss_ledger s) \<longrightarrow> io_wp (good_manifests V) m
     (\<lambda>a s'. docs_ok V (ss_registry s') (ss_ledger s') \<and> K (ss_ledger s') \<and> R a (ss_ledger s'))
     (\<lambda>_ s'. docs_ok V (ss_registry s') (ss_ledger s') \<and> K (ss_ledger s'))
     (\<lambda>s'. docs_ok V (ss_registry s') (ss_ledger s') \<and> K (ss_ledger s')) s)"

section \<open>Structure\<close>

lemma safe_ret: "(\<And>es. K es \<Longrightarrow> R a es) \<Longrightarrow> safe V K (io_ret a) R"
  by (simp add: safe_def io_wp_ret)

lemma safe_raise: "safe V K (io_raise e) R"
  by (simp add: safe_def io_wp_raise)

lemma safe_weaken: "safe V K m R \<Longrightarrow> (\<And>a es. K es \<Longrightarrow> R a es \<Longrightarrow> R' a es) \<Longrightarrow> safe V K m R'"
  unfolding safe_def by (auto elim!: io_wp_mono)

lemma safe_bind:
  assumes "safe V K m R" "\<And>a. safe V (\<lambda>es. K es \<and> R a es) (f a) Q"
  shows "safe V K (io_bind m f) Q"
  unfolding safe_def
proof (intro allI impI)
  fix s :: sfile assume "docs_ok V (ss_registry s) (ss_ledger s) \<and> K (ss_ledger s)"
  note m = assms(1) [unfolded safe_def, rule_format, OF this]
  show "io_wp (good_manifests V) (io_bind m f)
     (\<lambda>a s'. docs_ok V (ss_registry s') (ss_ledger s') \<and> K (ss_ledger s') \<and> Q a (ss_ledger s'))
     (\<lambda>_ s'. docs_ok V (ss_registry s') (ss_ledger s') \<and> K (ss_ledger s'))
     (\<lambda>s'. docs_ok V (ss_registry s') (ss_ledger s') \<and> K (ss_ledger s')) s"
  proof (rule io_wp_bind, rule io_wp_mono [OF m])
    fix a and s' :: sfile
    assume "docs_ok V (ss_registry s') (ss_ledger s') \<and> K (ss_ledger s') \<and> R a (ss_ledger s')"
    then have "docs_ok V (ss_registry s') (ss_ledger s') \<and> K (ss_ledger s') \<and> R a (ss_ledger s')" by simp
    note f = assms(2) [of a, unfolded safe_def, rule_format, OF this]
    show "io_wp (good_manifests V) (f a)
     (\<lambda>a s'. docs_ok V (ss_registry s') (ss_ledger s') \<and> K (ss_ledger s') \<and> Q a (ss_ledger s'))
     (\<lambda>_ s'. docs_ok V (ss_registry s') (ss_ledger s') \<and> K (ss_ledger s'))
     (\<lambda>s'. docs_ok V (ss_registry s') (ss_ledger s') \<and> K (ss_ledger s')) s'"
      by (rule io_wp_mono [OF f]) auto
  qed auto
qed

lemma safe_then: "safe V K m R \<Longrightarrow> (\<And>a. safe V (\<lambda>es. K es \<and> R a es) n Q) \<Longrightarrow> safe V K (io_then m n) Q"
  unfolding io_then_def by (rule safe_bind)

lemma safe_try:
  assumes "safe V K m R" "\<And>e. safe V K (h e) R"
  shows "safe V K (io_try m p h) R"
  unfolding safe_def
proof (intro allI impI)
  fix s :: sfile assume "docs_ok V (ss_registry s) (ss_ledger s) \<and> K (ss_ledger s)"
  note m = assms(1) [unfolded safe_def, rule_format, OF this]
  show "io_wp (good_manifests V) (io_try m p h)
     (\<lambda>a s'. docs_ok V (ss_registry s') (ss_ledger s') \<and> K (ss_ledger s') \<and> R a (ss_ledger s'))
     (\<lambda>_ s'. docs_ok V (ss_registry s') (ss_ledger s') \<and> K (ss_ledger s'))
     (\<lambda>s'. docs_ok V (ss_registry s') (ss_ledger s') \<and> K (ss_ledger s')) s"
    by (rule io_wp_try, rule io_wp_mono [OF m]) (use assms(2) in \<open>auto simp: safe_def\<close>)
qed

text \<open>Programs that change neither file.\<close>

definition untouched :: "sfile \<Rightarrow> sfile \<Rightarrow> bool" where
  "untouched s s' = (ss_registry s' = ss_registry s \<and> ss_ledger s' = ss_ledger s)"

interpretation untouched: effect_law any_senv untouched
  by unfold_locales (auto simp: untouched_def)

lemma quiet_reads [io_intros]:
  "io_obeys any_senv untouched get_registry" "io_obeys any_senv untouched shift_now" "io_obeys any_senv untouched (shift_ask f)"
  "io_obeys any_senv untouched (exn_message e)" "io_obeys any_senv untouched read_manifest" "io_obeys any_senv untouched (shift_sum x)"
  by (auto simp: io_obeys_def untouched_def get_registry_def read_registry_def shift_now_def shift_ask_def exn_message_def
    read_manifest_def shift_sum_def io_raise_def io_ret_def shift_step_def Let_def split: fault.splits sum.splits)

lemma safe_quiet: "io_obeys any_senv untouched m \<Longrightarrow> safe V K m (\<lambda>_ _. True)"
  unfolding safe_def io_wp_def
  by (auto simp: io_obeys_def untouched_def any_senv_def split: outcome.splits prod.splits) (metis snd_conv)+

text \<open>Results that say nothing of the ledger.\<close>

lemma safe_bind_known:
  assumes "safe V K m (\<lambda>a _. P a)" "\<And>a. P a \<Longrightarrow> safe V K (f a) Q"
  shows "safe V K (io_bind m f) Q"
proof (rule safe_bind [OF assms(1)])
  show "safe V (\<lambda>es. K es \<and> P a) (f a) Q" for a using assms(2) [of a] by (cases "P a") (auto simp: safe_def)
qed

lemma safe_bind_quiet: "io_obeys any_senv untouched m \<Longrightarrow> (\<And>a. safe V K (f a) Q) \<Longrightarrow> safe V K (io_bind m f) Q"
  by (rule safe_bind_known [OF safe_quiet])

lemma safe_then_true: "safe V K m (\<lambda>_ _. True) \<Longrightarrow> safe V K n Q \<Longrightarrow> safe V K (io_then m n) Q"
  unfolding io_then_def by (rule safe_bind_known)

lemma framed_quiet: "io_obeys any_senv untouched m \<Longrightarrow> io_obeys any_senv (framed given) m"
  by (auto simp: io_obeys_def untouched_def framed_def)

lemma safe_registry: "safe V K get_registry (\<lambda>r es. docs_ok V r es)"
  by (auto simp: safe_def io_wp_def get_registry_def read_registry_def shift_step_def Let_def split: fault.splits)

lemma safe_manifest: "safe V K read_manifest (\<lambda>m _. good_manifest V m)"
  by (simp add: safe_def io_wp_def read_manifest_def good_manifests_def)

lemma safe_load: "safe V K load_manifest (\<lambda>bs es. good_list V bs es)"
  unfolding load_manifest_def
  by (rule safe_bind [OF safe_registry], rule safe_bind [OF safe_manifest])
     (auto simp: shift_sum_def docs_ok_def intro!: safe_raise safe_ret elim!: overlay_good split: sum.splits)

text \<open>A transaction: the registry is written first, so its new contents must do with the old ledger too.\<close>

lemma transaction_cases:
  "transaction m env s = (x, s') \<Longrightarrow>
   (ss_registry s' = ss_registry s \<and> ss_ledger s' = ss_ledger s \<and> (\<forall>b. x \<noteq> Ok b)) \<or>
   (\<exists>now r es a. m now (ss_registry s) (ss_ledger s) = Inr ((r, es), a) \<and> ss_registry s' = r \<and>
     (ss_ledger s' = ss_ledger s \<and> (\<forall>b. x \<noteq> Ok b) \<or> ss_ledger s' = es \<and> (\<forall>b. x = Ok b \<longrightarrow> b = (r, a))))"
  by (fastforce simp: transaction_def io_bind_def io_then_def io_ret_def io_raise_def shift_now_def read_registry_def read_ledger_def
    write_registry_def write_ledger_def shift_step_def Let_def split: sum.splits prod.splits fault.splits if_splits)

lemma safe_transaction:
  assumes "\<And>now r es r' es' a. docs_ok V r es \<Longrightarrow> K es \<Longrightarrow> m now r es = Inr ((r', es'), a) \<Longrightarrow>
    docs_ok V r' es \<and> docs_ok V r' es' \<and> K es' \<and> R r' a es'"
  shows "safe V K (transaction m) (\<lambda>(r, a) es. R r a es)"
  unfolding safe_def io_wp_def
proof (intro allI impI)
  fix s :: sfile and env assume ok: "docs_ok V (ss_registry s) (ss_ledger s) \<and> K (ss_ledger s)"
  obtain x s' where run: "transaction m env s = (x, s')" by (metis surj_pair)
  have "docs_ok V (ss_registry s') (ss_ledger s') \<and> K (ss_ledger s') \<and> (\<forall>r a. x = Ok (r, a) \<longrightarrow> R r a (ss_ledger s'))"
    using transaction_cases [OF run]
  proof
    assume "\<exists>now r es a. m now (ss_registry s) (ss_ledger s) = Inr ((r, es), a) \<and> ss_registry s' = r \<and>
      (ss_ledger s' = ss_ledger s \<and> (\<forall>b. x \<noteq> Ok b) \<or> ss_ledger s' = es \<and> (\<forall>b. x = Ok b \<longrightarrow> b = (r, a)))"
    then obtain now r es a where step: "m now (ss_registry s) (ss_ledger s) = Inr ((r, es), a)" "ss_registry s' = r"
        "ss_ledger s' = ss_ledger s \<and> (\<forall>b. x \<noteq> Ok b) \<or> ss_ledger s' = es \<and> (\<forall>b. x = Ok b \<longrightarrow> b = (r, a))" by blast
    from ok have "docs_ok V r (ss_ledger s) \<and> docs_ok V r es \<and> K es \<and> R r a es" by (intro assms [OF _ _ step(1)]) simp_all
    then show ?thesis using step ok by auto
  qed (use ok in simp)
  then show "case transaction m env s of
      (Ok a, s') \<Rightarrow> docs_ok V (ss_registry s') (ss_ledger s') \<and> K (ss_ledger s') \<and> (case a of (r, a) \<Rightarrow> R r a) (ss_ledger s')
    | (Raised e, s') \<Rightarrow> docs_ok V (ss_registry s') (ss_ledger s') \<and> K (ss_ledger s')
    | (Died, s') \<Rightarrow> docs_ok V (ss_registry s') (ss_ledger s') \<and> K (ss_ledger s')"
    unfolding run by (cases x) auto
qed

lemma safe_update:
  assumes "\<And>now r es r' es'. docs_ok V r es \<Longrightarrow> K es \<Longrightarrow> m now r es = Inr (r', es') \<Longrightarrow>
    docs_ok V r' es \<and> docs_ok V r' es' \<and> K es' \<and> R r' es'"
  shows "safe V K (update_state m) R"
  unfolding update_state_def
proof (rule safe_bind)
  show "safe V K (transaction (\<lambda>now r es. case m now r es of Inl e \<Rightarrow> Inl e | Inr x \<Rightarrow> Inr (x, ()))) (\<lambda>(r, _) es. R r es)"
  proof (rule safe_transaction)
    fix now r es r' es' a
    assume ok: "docs_ok V r es" "K es" "(case m now r es of Inl e \<Rightarrow> Inl e | Inr x \<Rightarrow> Inr (x, ())) = Inr ((r', es'), a)"
    from ok(3) have "m now r es = Inr (r', es')" by (cases "m now r es") auto
    then show "docs_ok V r' es \<and> docs_ok V r' es' \<and> K es' \<and> R r' es'" by (rule assms [OF ok(1,2)])
  qed
  show "safe V (\<lambda>es. K es \<and> (case a of (r, _) \<Rightarrow> R r) es) (case a of (r, _) \<Rightarrow> io_ret r) R" for a :: "registry_doc \<times> unit"
    by (cases a) (auto intro!: safe_ret)
qed

section \<open>The queue\<close>

text \<open>What the queue needs of its dispatcher: whatever it does, it leaves the backlog's part of the registry alone.\<close>

locale item_dispatcher =
  fixes f :: dispatch_function
  assumes leaves_backlog: "io_obeys any_senv (framed given) (f q given)"

interpretation coding: item_dispatcher route_coding_request
  by unfold_locales (rule framed_route)

text \<open>Evidence of completion that is not lost when the ledger grows.\<close>

locale settling =
  fixes V :: "pystr \<Rightarrow> entry list \<Rightarrow> bool"
  assumes V_grows: "V i es \<Longrightarrow> V i (es @ xs)"
begin

lemma good_list_grows: "good_list V bs es \<Longrightarrow> good_list V bs (es @ xs)"
  by (auto simp: good_list_def V_grows)

lemma good_items_grows: "good_items V j es \<Longrightarrow> good_items V j (es @ xs)"
  by (auto simp: good_items_def good_list_grows split: option.splits)

lemma executions_grows: "executions_ok m es \<Longrightarrow> executions_ok m (es @ xs)"
  by (auto simp: executions_ok_def execution_ok_def candidate_grows split: option.splits)

lemma docs_grows: "docs_ok V r es \<Longrightarrow> docs_ok V r (es @ xs)"
  by (simp add: docs_ok_def good_items_grows executions_grows)

lemma docs_kept: "backlog_kept given r r' \<Longrightarrow> docs_ok V r es \<Longrightarrow> docs_ok V given es \<Longrightarrow> docs_ok V r' es"
  by (auto simp: backlog_kept_def kept_or_supplied_def docs_ok_def)

lemma grows_known: "grows (good_list V bs)" "grows (docs_ok V r)" "grows (V i)" "grows (candidate_recorded i)" "grows (\<lambda>_. b)"
  by (simp_all add: grows_def good_list_grows docs_grows V_grows candidate_grows)

lemma grows_conj: "grows K \<Longrightarrow> grows L \<Longrightarrow> grows (\<lambda>es. K es \<and> L es)"
  by (simp add: grows_def)

lemma safe_framed:
  assumes "io_obeys any_senv (framed given) m" "grows K" "\<And>es. K es \<Longrightarrow> docs_ok V given es"
  shows "safe V K m (\<lambda>_ _. True)"
  unfolding safe_def io_wp_def
proof (intro allI impI)
  fix s :: sfile and env assume ok: "docs_ok V (ss_registry s) (ss_ledger s) \<and> K (ss_ledger s)"
  obtain x s' where run: "m env s = (x, s')" by (metis surj_pair)
  have "framed given s s'" by (rule io_obeysD [OF assms(1) _ run]) (simp add: any_senv_def)
  then obtain xs where step: "backlog_kept given (ss_registry s) (ss_registry s')" "ss_ledger s' = ss_ledger s @ xs"
    by (auto simp: framed_def appends_def)
  then have "docs_ok V (ss_registry s') (ss_ledger s') \<and> K (ss_ledger s')"
    using ok assms(2,3) docs_kept [OF step(1), of "ss_ledger s"] by (simp add: docs_grows grows_def)
  then show "case m env s of
      (Ok a, s') \<Rightarrow> docs_ok V (ss_registry s') (ss_ledger s') \<and> K (ss_ledger s') \<and> True
    | (Raised e, s') \<Rightarrow> docs_ok V (ss_registry s') (ss_ledger s') \<and> K (ss_ledger s')
    | (Died, s') \<Rightarrow> docs_ok V (ss_registry s') (ss_ledger s') \<and> K (ss_ledger s')"
    unfolding run by (cases x) auto
qed

lemma safe_transition:
  assumes "grows K" "\<And>es. K es \<Longrightarrow> good_list V bs es \<and> st \<noteq> IN_PROGRESS \<and> (st = COMPLETED \<longrightarrow> V (bi_id b) es)"
  shows "safe V K (transition_item_state bs b st reason) (\<lambda>bs' es. good_list V bs' es)"
  unfolding transition_item_state_def
proof (rule safe_bind [OF safe_quiet [OF quiet_reads(2)]])
  fix t
  let ?bs = "with_status (bi_id b) st t bs"
  have good: "good_list V ?bs es" if "K es" for es using assms(2) [OF that] by (auto intro: settled_good)
  have "safe V K (update_state (item_moved ?bs b st reason t)) (\<lambda>_ _. True)"
  proof (rule safe_update)
    fix now r es r' es'
    assume r: "docs_ok V r es" and K: "K es" and m: "item_moved ?bs b st reason t now r es = Inr (r', es')"
    have "docs_ok V r' es" using moved_items [OF m] good [OF K] r by (auto simp: docs_ok_def good_items_def)
    moreover obtain e where "es' = es @ [BacklogEntry e]" using moved_items [OF m] by blast
    ultimately show "docs_ok V r' es \<and> docs_ok V r' es' \<and> K es' \<and> True"
      using docs_grows assms(1) K by (auto simp: grows_def)
  qed
  then show "safe V (\<lambda>es. K es \<and> True) (if \<not> list_ex (\<lambda>c. bi_id c = bi_id b) bs
      then io_raise (ValueErr (''item is not present in manifest: '' @ bi_id b))
      else (let bs' = with_status (bi_id b) st t bs in io_then (update_state (item_moved bs' b st reason t)) (io_ret bs')))
    (\<lambda>bs' es. good_list V bs' es)"
    by (auto simp: Let_def good intro!: safe_raise safe_then safe_ret)
qed

lemma safe_outcome:
  assumes "grows K" "\<And>es. K es \<Longrightarrow> good_list V bs es \<and> st \<noteq> IN_PROGRESS \<and> (st = COMPLETED \<longrightarrow> V i es)"
  shows "safe V K (record_outcome bs i st reason) (\<lambda>bs' es. good_list V bs' es)"
  unfolding record_outcome_def
proof (cases "find (\<lambda>b. bi_id b = i) bs")
  case (Some b)
  then have "bi_id b = i" by (auto simp: find_Some_iff)
  then show "safe V K (case find (\<lambda>b. bi_id b = i) bs of None \<Rightarrow> io_raise (ValueErr (''unknown backlog item: '' @ i))
      | Some b \<Rightarrow> transition_item_state bs b st reason) (\<lambda>bs' es. good_list V bs' es)"
    using assms Some by (auto intro!: safe_transition)
qed (simp add: safe_raise)

lemma safe_claim:
  assumes "grows K"
  shows "safe V K claim_next_item (\<lambda>(bs, x) es. good_list V bs es)"
  unfolding claim_next_item_def
proof (rule safe_bind [OF safe_manifest])
  fix m
  let ?R = "\<lambda>(x :: backlog_item list \<times> backlog_item option) es. good_list V (fst x) es"
  show "safe V (\<lambda>es. K es \<and> good_manifest V m) (io_bind (transaction (claimed_next m)) (\<lambda>(r, x). io_ret x))
     (\<lambda>(bs, x) es. good_list V bs es)"
  proof (rule safe_bind)
    show "safe V (\<lambda>es. K es \<and> good_manifest V m) (transaction (claimed_next m)) (\<lambda>(r, x) es. ?R x es)"
    proof (rule safe_transaction)
      fix now r es r' es' a
      assume r: "docs_ok V r es" and K: "K es \<and> good_manifest V m" and c: "claimed_next m now r es = Inr ((r', es'), a)"
      obtain bs x where a: "a = (bs, x)" by (cases a)
      have good: "good_list V bs es \<and> (rg_items r' = rg_items r \<or> rg_items r' = Some (stored_items bs)) \<and>
          rg_execution r' = rg_execution r \<and> (\<exists>xs. es' = es @ xs) \<and> (\<forall>b. x = Some b \<longrightarrow> b \<in> set bs)"
        using claimed_good [of m now r es r' es' bs x V] c r K by (simp add: a docs_ok_def)
      then obtain xs where xs: "es' = es @ xs" by blast
      have "docs_ok V r' es" using good r by (auto simp: docs_ok_def good_items_def)
      then show "docs_ok V r' es \<and> docs_ok V r' es' \<and> (K es' \<and> good_manifest V m) \<and> ?R a es'"
        using good K assms by (simp add: a xs docs_grows good_list_grows grows_def)
    qed
  qed (auto intro!: safe_ret split: prod.splits)
qed

end

locale settling_queue = settling V + item_dispatcher f for V and f
begin

lemma safe_delegate: "grows K \<Longrightarrow> safe V K (delegate_to_dispatcher b f workflow) (\<lambda>_ _. True)"
  unfolding delegate_to_dispatcher_def
  by (rule safe_bind [OF safe_registry], rule safe_framed [OF leaves_backlog], rule grows_conj [OF _ grows_known(2)]) simp_all

lemma safe_dispatch:
  assumes "grows K"
  shows "safe V K (dispatch_next f workflow) (\<lambda>(bs, d) es. good_list V bs es)"
  unfolding dispatch_next_def
proof (rule safe_bind [OF safe_claim [OF assms]])
  fix a :: "backlog_item list \<times> backlog_item option"
  obtain bs x where a: "a = (bs, x)" by (cases a)
  let ?K = "\<lambda>es. K es \<and> good_list V bs es"
  have K: "grows ?K" using assms by (simp add: grows_conj grows_known)
  have "safe V ?K (io_try
       (io_bind (delegate_to_dispatcher b f workflow) (\<lambda>r.
          io_ret (bs, Some \<lparr>do_item = bi_id b, do_routing = Inr r, do_status = IN_PROGRESS\<rparr>)))
       (\<lambda>_. True)
       (\<lambda>e. io_bind (exn_message e) (\<lambda>msg. io_bind (transition_item_state bs b BLOCKED_ITEM (Some msg)) (\<lambda>bs'.
          io_ret (bs', Some \<lparr>do_item = bi_id b, do_routing = Inl msg, do_status = BLOCKED_ITEM\<rparr>)))))
     (\<lambda>(bs, d) es. good_list V bs es)" for b
  proof (rule safe_try)
    show "safe V ?K (io_bind (delegate_to_dispatcher b f workflow) (\<lambda>r.
        io_ret (bs, Some \<lparr>do_item = bi_id b, do_routing = Inr r, do_status = IN_PROGRESS\<rparr>))) (\<lambda>(bs, d) es. good_list V bs es)"
      by (rule safe_bind [OF safe_delegate [OF K]]) (auto intro!: safe_ret)
    show "safe V ?K (io_bind (exn_message e) (\<lambda>msg. io_bind (transition_item_state bs b BLOCKED_ITEM (Some msg)) (\<lambda>bs'.
        io_ret (bs', Some \<lparr>do_item = bi_id b, do_routing = Inl msg, do_status = BLOCKED_ITEM\<rparr>)))) (\<lambda>(bs, d) es. good_list V bs es)" for e
      by (rule safe_bind [OF safe_quiet [OF quiet_reads(4)]], rule safe_bind [OF safe_transition])
         (use K in \<open>auto intro!: safe_ret simp: grows_def\<close>)
  qed
  then show "safe V (\<lambda>es. K es \<and> (case a of (bs, x) \<Rightarrow> good_list V bs) es) (case a of (bs, None) \<Rightarrow> io_ret (bs, None)
    | (bs, Some b) \<Rightarrow> io_try
       (io_bind (delegate_to_dispatcher b f workflow) (\<lambda>r.
          io_ret (bs, Some \<lparr>do_item = bi_id b, do_routing = Inr r, do_status = IN_PROGRESS\<rparr>)))
       (\<lambda>_. True)
       (\<lambda>e. io_bind (exn_message e) (\<lambda>msg. io_bind (transition_item_state bs b BLOCKED_ITEM (Some msg)) (\<lambda>bs'.
          io_ret (bs', Some \<lparr>do_item = bi_id b, do_routing = Inl msg, do_status = BLOCKED_ITEM\<rparr>)))))
     (\<lambda>(bs, d) es. good_list V bs es)"
    by (cases x) (auto simp: a intro!: safe_ret)
qed

end

end
