(* ===== verification/AdapterRun.thy ===== *)
theory AdapterRun
  imports AdapterDemo BacklogRules
begin

text \<open>
  One run of the adapter in an undisturbed world, worked out step by step: the item is claimed, routed to the P40,
  executed, tested, reviewed, verified and completed.  The witnesses about runs of the adapter use its end.
\<close>

section \<open>An undisturbed world\<close>

definition env0 :: senv where
  "env0 = backlog_senv (\<lambda>_. Fine)"

definition ad0 :: adapter where
  "ad0 = demo_adapter yes yes yes"

lemma env0_simps: "se_fault env0 n = Fine" "se_clock env0 n = int n" "se_order env0 = id" "se_manifest env0 n = Inr demo_backlog"
  by (simp_all add: env0_def backlog_senv_def calm_shift_def)

lemma ad0_simps: "ad_executors ad0 = [(''p40'', Injected (\<lambda>_ _. Ok good_worker))]" "ad_workflow ad0 = ''layered-review''"
  "ad_router ad0 = None" "ad_tests ad0 = InjectedTests (\<lambda>_ _. Ok yes)" "ad_self ad0 = SelfReviewSkipped"
  "ad_reviewer ad0 = InjectedReview (\<lambda>_ _ _ _. Ok yes)" "ad_final ad0 = InjectedReview (\<lambda>_ _ _ _. Ok yes)"
  "ad_worktree ad0 = InjectedWorktree (\<lambda>_ _. Ok ''/w'')" "ad_process ad0 n argv cwd p = Ok (Exited 0 ''h'' [])"
  "ad_sha ad0 = id" "ad_file ad0 n w f = Inr None" "ad_guidance ad0 = []" "ad_repository ad0 = ''/r''" "ad_pid ad0 = 1"
  by (simp_all add: ad0_def demo_adapter_def)

definition at_tick :: "registry_doc \<Rightarrow> entry list \<Rightarrow> nat \<Rightarrow> sfile" where
  "at_tick r es n = \<lparr>ss_registry = r, ss_ledger = es, ss_tick = n\<rparr>"

lemma at_tick: "ss_registry (at_tick r es n) = r" "ss_ledger (at_tick r es n) = es" "ss_tick (at_tick r es n) = n"
  by (simp_all add: at_tick_def)

text \<open>In this world each construct and each primitive step is a rewrite; the rest of a program waits until it is reached.\<close>

lemma prog: "io_bind m f env0 s = (case m env0 s of (Ok a, s') \<Rightarrow> f a env0 s' | (Raised e, s') \<Rightarrow> (Raised e, s') | (Died, s') \<Rightarrow> (Died, s'))"
  "io_then m k env0 s = (case m env0 s of (Ok a, s') \<Rightarrow> k env0 s' | (Raised e, s') \<Rightarrow> (Raised e, s') | (Died, s') \<Rightarrow> (Died, s'))"
  "io_try m p h env0 s = (case m env0 s of (Raised e, s') \<Rightarrow> if p e then h e env0 s' else (Raised e, s')
     | (Ok a, s') \<Rightarrow> (Ok a, s') | (Died, s') \<Rightarrow> (Died, s'))"
  "io_ret a env0 s = (Ok a, s)" "io_raise e env0 s = (Raised e, s)"
  by (simp_all add: io_bind_def io_then_def io_try_def io_ret_def io_raise_def)

lemma stops: "io_bind m f = io_bind m f" "io_try m p h = io_try m p h" "io_then m n = io_then m n"
  by (rule refl)+

lemma calm_transaction: "transaction m env0 (at_tick r es n) = (case m (int (n + 2)) r es of
    Inl e \<Rightarrow> (Raised e, at_tick r es (n + 2)) | Inr ((r', es'), a) \<Rightarrow> (Ok (r', a), at_tick r' es' (n + 4)))"
  by (simp add: transaction_def prog read_registry_def read_ledger_def write_registry_def write_ledger_def
    shift_step_def shift_now_def env0_simps Let_def at_tick_def split: sum.splits)

lemma calm_shift_update: "update_state m env0 (at_tick r es n) = (case m (int (n + 2)) r es of
    Inl e \<Rightarrow> (Raised e, at_tick r es (n + 2)) | Inr (r', es') \<Rightarrow> (Ok r', at_tick r' es' (n + 4)))"
  by (simp add: update_state_def prog calm_transaction split: sum.splits prod.splits)

lemma calm: "get_registry env0 (at_tick r es n) = (Ok r, at_tick r es (n + 1))"
  "read_manifest env0 (at_tick r es n) = (Ok (Inr demo_backlog), at_tick r es n)"
  "shift_now env0 (at_tick r es n) = (Ok (int n), at_tick r es n)"
  "outside f env0 (at_tick r es n) = (f n, at_tick r es (n + 1))"
  "shift_ask g env0 (at_tick r es n) = (Ok (g env0), at_tick r es n)"
  by (simp_all add: get_registry_def read_registry_def shift_step_def at_tick_def
    read_manifest_def env0_simps shift_now_def outside_def shift_ask_def)

section \<open>The queue of the run\<close>

definition item_a :: backlog_item where
  "item_a = demo_item ''a''"

definition item_b :: backlog_item where
  "item_b = demo_item ''b''"

lemma items: "bi_id item_a = ''a''" "bi_id item_b = ''b''" "bi_status item_a = QUEUED" "bi_status item_b = QUEUED"
  by (simp_all add: item_a_def item_b_def demo_item_def)

lemma valid_items: "valid_item item_a" "valid_item item_b"
  by (simp_all add: item_a_def item_b_def demo_item_def) code_simp+

lemma manifest_read: "manifest_items demo_backlog = Inr [item_a, item_b]"
  unfolding demo_backlog_def item_a_def [symmetric] item_b_def [symmetric]
  using check_items_back [of "[item_a, item_b]" "[]" 0] by (simp add: manifest_items_back valid_items items del: check_items.simps)

lemma overlays: "rg_items r = None \<Longrightarrow> overlay_items (Inr demo_backlog) r = Inr [item_a, item_b]"
  "rg_items r = Some (stored_items bs) \<Longrightarrow> list_all valid_item bs \<Longrightarrow>
     overlay_items (Inr demo_backlog) r = Inr (map (overlaid (rev (map (\<lambda>b. (bi_id b, b)) bs))) [item_a, item_b])"
  by (simp_all add: overlay_items_def stored_items_def persisted_back manifest_read overlaid_def)

definition item_c :: backlog_item where
  "item_c = item_a\<lparr>bi_status := IN_PROGRESS, bi_updated := JStr (iso_utc 4)\<rparr>"

lemma item_c: "bi_id item_c = ''a''" "bi_status item_c = IN_PROGRESS" "valid_item item_c"
  by (simp_all add: item_c_def items valid_items)

lemma loaded: "rg_items r = Some (stored_items [item_c, item_b]) \<Longrightarrow> load_manifest env0 (at_tick r es n) = (Ok [item_c, item_b], at_tick r es (n + 1))"
  by (simp add: load_manifest_def prog calm overlays item_c valid_items items overlaid_def shift_sum_def cong: stops)
     (simp add: item_c_def item_a_def item_b_def demo_item_def)

section \<open>Resuming, claiming, routing\<close>

lemma started: "backlog_start = at_tick (ss_registry backlog_start) [] 0"
  by (simp add: at_tick_def backlog_start_def shift_with_def)

lemma start: "rg_items (ss_registry backlog_start) = None" "rg_execution (ss_registry backlog_start) = None"
  by (simp_all add: backlog_start_def shift_with_def empty_registry_def)

lemma resumed: "resume_pending_verification ad0 env0 backlog_start = (Ok None, at_tick (ss_registry backlog_start) [] 2)"
  by (subst started, simp add: resume_pending_verification_def load_manifest_def persistent_def prog calm shift_sum_def start overlays
    executions_of_def pending_item_def execution_of_def empty_execution_def pending_phases_def numeral_2_eq_2 cong: stops)

definition reg1 :: registry_doc where
  "reg1 = (ss_registry backlog_start)\<lparr>rg_items := Some (stored_items [item_c, item_b]),
     rg_runner := Some \<lparr>rn_updated = Some 4, rn_claimed = 1, rn_completed = 0, rn_errors = 0\<rparr>\<rparr>"

definition led1 :: "entry list" where
  "led1 = [BacklogEntry \<lparr>bl_id = ''a'', bl_old = ''queued'', bl_new = ''in_progress'', bl_reason = None, bl_at = 4\<rparr>]"

lemma claimed: "claim_next_item env0 (at_tick (ss_registry backlog_start) [] 2) = (Ok ([item_c, item_b], Some item_c), at_tick reg1 led1 6)"
  by (simp add: claim_next_item_def prog calm calm_transaction claimed_next_def start overlays select_next_item_def get_queued_items_def items
     with_status_def item_moved_def Let_def cong: stops)
     (simp add: item_c_def reg1_def led1_def runner_of_def runner_counted_def backlog_start_def shift_with_def empty_registry_def items)

definition disp :: dispatcher where
  "disp = empty_dispatcher\<lparr>dp_selected := Some ''p40'', dp_decision := Some ''route_to_p40'', dp_workflow := Some ''layered-review'',
     dp_repair := Some False, dp_routed_at := Some 10\<rparr>"

lemma selected: "dp_selected disp = Some ''p40''"
  by (simp add: disp_def)

lemma reg1: "rg_items reg1 = Some (stored_items [item_c, item_b])" "rg_dispatch reg1 = Some empty_dispatcher"
   "rg_models reg1 = Some [plain_model ''p40'' ''active'']" "rg_execution reg1 = None"
   "reg1\<lparr>rg_models := Some [plain_model ''p40'' ''active'']\<rparr> = reg1"
  by (simp_all add: reg1_def backlog_start_def shift_with_def empty_registry_def)

lemma routed: "delegate_to_dispatcher item_c (dispatch_route ad0) ''layered-review'' env0 (at_tick reg1 led1 6) =
  (Ok (reg1\<lparr>rg_dispatch := Some disp\<rparr>), at_tick (reg1\<lparr>rg_dispatch := Some disp\<rparr>) led1 13)"
  by (simp add: delegate_to_dispatcher_def dispatch_route_def route_coding_request_def prog calm loaded reg1 item_c items env0_simps calm_shift_update
     ad0_simps delegated_def gtx_workflow_def get_workflow_contract_def layered_review_def direct_escalation_def default_contract_def
     cong: stops)
     (simp add: routed_def snapshot_def choose_route_def goal_key_def p40_count_def dispatch_of_def strike_limit_def reg1 disp_def
     empty_dispatcher_def calm)

section \<open>Executing\<close>

text \<open>What the checkpoints hold does not matter for the rest of the run.\<close>

definition checkpoints_with :: "pystr \<Rightarrow> pystr \<Rightarrow> (item_execution \<Rightarrow> item_execution) \<Rightarrow> int \<Rightarrow> registry_doc \<Rightarrow> (pystr \<times> item_execution) list option" where
  "checkpoints_with i phase upd now r = Some (AList.update i
     (upd ((execution_of (executions_of r) i)\<lparr>xc_phase := Some phase, xc_updated := Some now\<rparr>)) (executions_of r))"

lemma calm_checkpoint: "checkpoint i phase upd env0 (at_tick r es n) =
    (Ok (), at_tick (r\<lparr>rg_execution := checkpoints_with i phase upd (int (n + 2)) r\<rparr>) es (n + 4))"
  by (simp add: checkpoint_def prog calm_shift_update checkpointed_def Let_def checkpoints_with_def)

definition calm_tree :: worktree_snapshot where
  "calm_tree = \<lparr>ws_head = ''h'', ws_fingerprint = [CHR ''h'', CHR 0x00, CHR ''h'', CHR 0x00], ws_files = [''h'']\<rparr>"

lemma calm_snapshot: "git_snapshot ad0 wt env0 (at_tick r es n) = (Ok calm_tree, at_tick r es (n + 5))"
proof -
  have h: "strip ''h'' = ''h''" "splitlines ''h'' = [''h'']" by code_simp+
  show ?thesis
    by (simp add: git_snapshot_def git_output_def start_process_def prog calm ad0_simps Let_def h status_files_def calm_tree_def eval_nat_numeral cong: stops)
qed

definition q0 :: execution_request where
  "q0 = request_for ad0 item_c ''/w'' ''p40''"

lemma q0: "xr_model q0 = ''p40''" "xr_worktree q0 = ''/w''" "xr_workflow q0 = ''layered-review''" "xr_id q0 = ''a''"
  by (simp_all add: q0_def request_for_def ad0_simps item_c)

lemma yes: "vf_passed yes" "vf_evidence yes = []" "vf_kind yes = ''approved''" "vf_reviewer yes = Some ''codex''" "mutated_verdict yes \<longleftrightarrow> False"
  by (simp_all add: yes_def verdict_def mutated_verdict_def)

lemma executed: "\<exists>x ev w. execute_item ad0 [item_c, item_b] q0 (Injected (\<lambda>_ _. Ok good_worker)) item_c 1 env0 (at_tick r es n) =
    conclude ad0 [item_c, item_b] q0 w yes yes ev item_c 1 env0 (at_tick (r\<lparr>rg_execution := x\<rparr>) es (29 + n)) \<and> wr_success w"
  by (intro exI, rule conjI, simp add: execute_item_def Let_def run_executor_def run_tests_def self_review_phase_def review_phase_def
     run_review_with_failover_def run_reviewer_def prog calm calm_checkpoint calm_snapshot ad0_simps q0 checked_worker_def good_worker_def
     yes verdict_def same_tree_def reviewed_worker_def mutated_verdict_def starts_with_def cong: stops, simp)

section \<open>Recording\<close>

definition told :: "attempt_report \<Rightarrow> int \<Rightarrow> registry_doc \<Rightarrow> dispatcher" where
  "told a t r = (counted a (dispatch_of r))\<lparr>dp_selected := Some (ar_model a),
     dp_decision := Some (if has_text (recorded_decision a) then the (recorded_decision a) else ''attempt_in_progress''), dp_attempt_at := Some t\<rparr>"

lemma calm_attempt:
  assumes "check_attempt a = None" "ar_workflow a \<noteq> gtx_workflow" "ar_model a \<noteq> ''copilot''" "rg_items g \<noteq> None" "models_of r \<noteq> []"
  shows "record_attempt_result a (Some g) env0 (at_tick r es n) = (let r' = r\<lparr>rg_dispatch := Some (told a (int n) r)\<rparr> in
    (Ok r', at_tick r' (es @ [AttemptEntry (attempt_entry_of a (int n) es)]) (n + 4)))"
proof -
  have "attempted a (int n) None sup now r es = Inr (r\<lparr>rg_dispatch := Some (told a (int n) r)\<rparr>,
      es @ [AttemptEntry (attempt_entry_of a (int n) es)])" for sup now
    using assms(3,5) by (simp add: attempted_def told_def Let_def)
  moreover have "g \<noteq> empty_registry" using assms(4) by (auto simp: empty_registry_def)
  ultimately show ?thesis
    using assms by (simp add: record_attempt_result_def given_or_stored_def prog calm calm_shift_update Let_def cong: stops)
qed

text \<open>The reports of the run pass the dispatcher's checks.\<close>

lemma candidate_ok: "check_attempt (candidate_report q0 ''success'' yes ev d) = None"
  "ar_workflow (candidate_report q0 ''success'' yes ev d) \<noteq> gtx_workflow" "ar_model (candidate_report q0 ''success'' yes ev d) \<noteq> ''copilot''"
  by (simp_all add: check_attempt_def candidate_report_def q0 routine_reviewers_def yes_def verdict_def has_text_def gtx_workflow_def Let_def)

lemma candidate_noted:
  assumes "rg_items r \<noteq> None" "models_of r \<noteq> []"
  shows "\<exists>d e. record_candidate q0 ''success'' yes ev dec env0 (at_tick r es n) =
    (Ok (r\<lparr>rg_dispatch := d\<rparr>), at_tick (r\<lparr>rg_dispatch := d\<rparr>) (es @ [AttemptEntry e]) (n + 5))"
  using assms by (simp add: record_candidate_def prog calm calm_attempt candidate_ok Let_def ac_simps) (intro exI conjI, (rule refl)+)

lemma final_noted:
  assumes "rg_items r \<noteq> None" "models_of r \<noteq> []"
  shows "\<exists>d e. record_final_verification (final_report q0 yes ev) (Some r) env0 (at_tick r es n) =
    (Ok (r\<lparr>rg_dispatch := d\<rparr>), at_tick (r\<lparr>rg_dispatch := d\<rparr>) (es @ [AttemptEntry e]) (n + 4))"
proof -
  have "record_attempt_result a (Some r) env0 (at_tick r es n) = (let r' = r\<lparr>rg_dispatch := Some (told a (int n) r)\<rparr> in
      (Ok r', at_tick r' (es @ [AttemptEntry (attempt_entry_of a (int n) es)]) (n + 4)))"
    if "a = (final_report q0 yes ev)\<lparr>ar_model := ''codex'', ar_reviewer := Some ''codex'', ar_decision := Some ''accepted'',
      ar_final := True, ar_role := ''final_verification''\<rparr>" for a
    using assms by (intro calm_attempt) (simp_all add: that check_attempt_def final_report_def q0 gtx_workflow_def Let_def)
  then show ?thesis
    by (simp add: record_final_verification_def Let_def final_report_def yes) (intro exI conjI, (rule refl)+)
qed

lemma settled: "\<exists>t x y e. settle_item [item_c, item_b] ''a'' COMPLETED reason ph cls ev env0 (at_tick r es n) =
   (Ok (), at_tick (r\<lparr>rg_items := Some (stored_items [item_c\<lparr>bi_status := COMPLETED, bi_updated := t\<rparr>, item_b]), rg_runner := x, rg_execution := y\<rparr>)
     (es @ [BacklogEntry e]) (8 + n))"
  by (simp add: settle_item_def record_outcome_def transition_item_state_def prog calm calm_shift_update calm_checkpoint item_c items Let_def
     with_status_def item_moved_def cong: stops) (intro exI, rule refl)


lemma concluded:
  assumes "wr_success w" "rg_items r \<noteq> None" "models_of r \<noteq> []"
  shows "\<exists>out s t. conclude ad0 [item_c, item_b] q0 w yes yes ev item_c 1 env0 (at_tick r es n) = (Ok out, s) \<and>
    rg_items (ss_registry s) = Some (stored_items [item_c\<lparr>bi_status := COMPLETED, bi_updated := t\<rparr>, item_b])"
proof -
  define x where "x = checkpoints_with ''a'' ''final_verification_complete'' (\<lambda>x. x\<lparr>xc_final := Some yes\<rparr>) (3 + int n) r"
  define r1 where "r1 = r\<lparr>rg_execution := x\<rparr>"
  have r1: "rg_items r1 \<noteq> None" "models_of r1 \<noteq> []" using assms by (simp_all add: r1_def models_of_def)
  obtain d e where a: "record_candidate q0 ''success'' yes ev ''needs_fresh_codex_verification'' env0 (at_tick r1 es (5 + n)) =
      (Ok (r1\<lparr>rg_dispatch := d\<rparr>), at_tick (r1\<lparr>rg_dispatch := d\<rparr>) (es @ [AttemptEntry e]) (10 + n))"
    using candidate_noted [OF r1, of ev "''needs_fresh_codex_verification''" es "5 + n"] by (auto simp: ac_simps)
  define r2 where "r2 = r1\<lparr>rg_dispatch := d\<rparr>"
  have r2: "rg_items r2 \<noteq> None" "models_of r2 \<noteq> []" using r1 by (simp_all add: r2_def models_of_def)
  obtain d' e' where b: "record_final_verification (final_report q0 yes ev) (Some r2) env0 (at_tick r2 (es @ [AttemptEntry e]) (10 + n)) =
      (Ok (r2\<lparr>rg_dispatch := d'\<rparr>), at_tick (r2\<lparr>rg_dispatch := d'\<rparr>) ((es @ [AttemptEntry e]) @ [AttemptEntry e']) (14 + n))"
    using final_noted [OF r2, of ev "es @ [AttemptEntry e]" "10 + n"] by (auto simp: ac_simps)
  obtain t y z f where c: "settle_item [item_c, item_b] ''a'' COMPLETED ''success'' ''completed'' ''success'' ev env0
      (at_tick (r2\<lparr>rg_dispatch := d'\<rparr>) ((es @ [AttemptEntry e]) @ [AttemptEntry e']) (14 + n)) =
    (Ok (), at_tick (r2\<lparr>rg_dispatch := d', rg_items := Some (stored_items [item_c\<lparr>bi_status := COMPLETED, bi_updated := t\<rparr>, item_b]),
       rg_runner := y, rg_execution := z\<rparr>) (((es @ [AttemptEntry e]) @ [AttemptEntry e']) @ [BacklogEntry f]) (8 + (14 + n)))"
    using settled by blast
  show ?thesis
    using a b c assms(1)
    by (simp add: conclude_def Let_def prog calm calm_checkpoint run_reviewer_def ad0_simps yes classification_of_def item_c phase_of_def
      x_def [symmetric] r1_def [symmetric] r2_def [symmetric] at_tick cong: stops) blast
qed

section \<open>The whole run\<close>

lemma attempts_start: "attempts_so_far (execution_of [] i) = 0"
  by (simp add: attempts_so_far_def execution_of_def empty_execution_def)

lemma run_completes: "\<exists>out s t. run_next ad0 env0 backlog_start = (Ok out, s) \<and>
    rg_items (ss_registry s) = Some (stored_items [item_c\<lparr>bi_status := COMPLETED, bi_updated := t\<rparr>, item_b])"
proof -
  define r0 where "r0 = reg1\<lparr>rg_dispatch := Some disp, rg_execution := checkpoints_with ''a'' ''executing''
    (\<lambda>x. put_status IN_PROGRESS (x\<lparr>xc_attempts := Some 1, xc_model := Some (xr_model q0), xc_workflow := Some (xr_workflow q0),
       xc_request := Some q0, xc_pid := Some (ad_pid ad0)\<rparr>)) 17 (reg1\<lparr>rg_dispatch := Some disp\<rparr>)\<rparr>"
  obtain x ev w where ex: "execute_item ad0 [item_c, item_b] q0 (Injected (\<lambda>_ _. Ok good_worker)) item_c 1 env0 (at_tick r0 led1 19) =
      conclude ad0 [item_c, item_b] q0 w yes yes ev item_c 1 env0 (at_tick (r0\<lparr>rg_execution := x\<rparr>) led1 (29 + 19))" "wr_success w"
    using executed by blast
  obtain out s t where "conclude ad0 [item_c, item_b] q0 w yes yes ev item_c 1 env0 (at_tick (r0\<lparr>rg_execution := x\<rparr>) led1 (29 + 19)) = (Ok out, s)"
    "rg_items (ss_registry s) = Some (stored_items [item_c\<lparr>bi_status := COMPLETED, bi_updated := t\<rparr>, item_b])"
    using concluded [OF ex(2), of "r0\<lparr>rg_execution := x\<rparr>" ev led1 "29 + 19"] by (auto simp: r0_def models_of_def reg1)
  then show ?thesis
    using ex(1) by (simp add: run_next_def run_next_once_def dispatch_next_def prog resumed claimed routed item_c items request_of_def worktree_for_def
     selected_or_def dispatch_of_def selected ad0_simps calm q0_def [symmetric] q0 persistent_def executions_of_def reg1 attempts_start Let_def
     begin_execution_def calm_checkpoint r0_def [unfolded ad0_simps q0, symmetric] cong: stops) blast
qed

section \<open>A stale list\<close>

text \<open>A caller that settles two items with the list it read once undoes the first: \<open>transition_item_state\<close> stores the whole list.\<close>

lemma stale_list_reverts: "\<exists>t. rg_items (ss_registry (snd (io_then (record_outcome [item_c, item_b] ''a'' COMPLETED None)
      (record_outcome [item_c, item_b] ''b'' BLOCKED_ITEM None) env0 (at_tick reg1 led1 6)))) =
    Some (stored_items [item_c, item_b\<lparr>bi_status := BLOCKED_ITEM, bi_updated := t\<rparr>])"
  by (simp add: record_outcome_def transition_item_state_def prog calm calm_shift_update item_c items Let_def with_status_def item_moved_def
    at_tick cong: stops) blast

end
