(* ===== verification/AdapterProps.thy ===== *)
theory AdapterProps
  imports AdapterRun
begin

text \<open>
  Properties of the execution adapter: the gates fail closed, the queue never holds two items in progress, and an
  item is completed only on a reviewed candidate and an accepted final verification, whatever fails or dies.
\<close>

section \<open>Gates and workers change neither file\<close>

lemma quiet_outside [io_intros]: "io_obeys any_senv untouched (outside f)"
  by (simp add: io_obeys_def untouched_def outside_def)

lemma quiet_load [io_intros]: "io_obeys any_senv untouched load_manifest" "io_obeys any_senv untouched persistent"
  unfolding load_manifest_def persistent_def by (intro io_intros)+

lemma quiet_process [io_intros]:
  "io_obeys any_senv untouched (start_process a argv cwd prompt)" "io_obeys any_senv untouched (exn_shown a e)"
  "io_obeys any_senv untouched m \<Longrightarrow> io_obeys any_senv untouched (ended p m)"
  unfolding start_process_def exn_shown_def ended_def by (intro io_intros | assumption)+

lemma quiet_end [io_intros]: "(\<And>rc out err. io_obeys any_senv untouched (f rc out err)) \<Longrightarrow>
    io_obeys any_senv untouched (case e of Exited rc out err \<Rightarrow> f rc out err)"
  by (cases e) simp

lemma quiet_git [io_intros]: "io_obeys any_senv untouched (git_output a wt args)" "io_obeys any_senv untouched (untracked_bytes a wt fs)"
proof -
  show "io_obeys any_senv untouched (git_output a wt args)" unfolding git_output_def by (intro io_intros)
  show "io_obeys any_senv untouched (untracked_bytes a wt fs)" by (induction fs) (auto intro!: io_intros)
qed

lemma quiet_snapshot [io_intros]: "io_obeys any_senv untouched (git_snapshot a wt)" "io_obeys any_senv untouched (worktree_for a b)"
proof -
  show "io_obeys any_senv untouched (git_snapshot a wt)" unfolding git_snapshot_def Let_def by (intro io_intros)
  show "io_obeys any_senv untouched (worktree_for a b)"
    unfolding worktree_for_def create_worktree_def Let_def
    by (cases "ad_worktree a") (simp_all only: worktree_factory.case, (intro io_intros)+)
qed

lemma quiet_list [io_intros]:
  "io_obeys any_senv untouched m \<Longrightarrow> (\<And>x xs. io_obeys any_senv untouched (f x xs)) \<Longrightarrow>
   io_obeys any_senv untouched (case l of [] \<Rightarrow> m | x # xs \<Rightarrow> f x xs)"
  by (cases l) simp_all

lemma quiet_codex [io_intros]: "io_obeys any_senv untouched (codex_exec_argv a command wt gate)"
  unfolding codex_exec_argv_def Let_def by (intro io_intros)

lemma quiet_executor [io_intros]: "io_obeys any_senv untouched (run_executor a x q)" "io_obeys any_senv untouched (run_tests a q)"
proof -
  have "io_obeys any_senv untouched (run_p40_worker a q)" unfolding run_p40_worker_def Let_def by (intro io_intros)
  moreover have "io_obeys any_senv untouched (run_codex_worker a q)" unfolding run_codex_worker_def Let_def by (intro io_intros)
  ultimately show "io_obeys any_senv untouched (run_executor a x q)"
    unfolding run_executor_def by (cases x) (simp_all add: quiet_outside)
  have "io_obeys any_senv untouched (run_repository_tests a q)" unfolding run_repository_tests_def by (intro io_intros)
  then show "io_obeys any_senv untouched (run_tests a q)" unfolding run_tests_def by (cases "ad_tests a") (simp_all add: quiet_outside)
qed

lemma quiet_watched [io_intros]:
  "io_obeys any_senv untouched m \<Longrightarrow> (\<And>x. io_obeys any_senv untouched (k x)) \<Longrightarrow> io_obeys any_senv untouched (watched a who wt m k)"
  unfolding watched_def by (intro io_intros | assumption)+

lemma quiet_reviewer [io_intros]: "io_obeys any_senv untouched (run_reviewer a r q w v)"
proof -
  have "io_obeys any_senv untouched (run_codex_gate a gate q w v)" for gate
    unfolding run_codex_gate_def Let_def by (intro io_intros)
  moreover have "io_obeys any_senv untouched (run_air_review a q w v)"
    unfolding run_air_review_def Let_def by (intro io_intros)
  moreover have "io_obeys any_senv untouched (run_p40_self_review a q w v)"
    unfolding run_p40_self_review_def Let_def by (intro io_intros)
  ultimately show ?thesis
    unfolding run_reviewer_def by (cases r) (simp_all add: quiet_outside untouched.io_obeys_ret)
qed

lemma quiet_gates [io_intros]:
  "io_obeys any_senv untouched (run_review_with_failover a q w t)" "io_obeys any_senv untouched (self_review_phase a q w t)"
  "io_obeys any_senv untouched (review_phase a q w t mutated)" "io_obeys any_senv untouched (request_of a b routing)"
  "io_obeys any_senv untouched (request_from_record a b x)"
  unfolding run_review_with_failover_def self_review_phase_def review_phase_def request_of_def request_from_record_def
  by (intro io_intros)+

lemma quiet_guarded [io_intros]: "io_obeys any_senv untouched m \<Longrightarrow> io_obeys any_senv untouched (guarded_gate a gate m)"
  unfolding guarded_gate_def by (intro io_intros | assumption)+

lemma route_framed: "io_obeys any_senv (framed given) (dispatch_route a q given)"
  unfolding dispatch_route_def
  by (intro io_intros framed_quiet [OF quiet_load(1)] framed_quiet [OF quiet_outside])

interpretation adapter_route: item_dispatcher "dispatch_route a" for a
  by unfold_locales (rule route_framed)

section \<open>What each call of the adapter keeps\<close>

definition keeps_request :: "pystr \<Rightarrow> (item_execution \<Rightarrow> item_execution) \<Rightarrow> bool" where
  "keeps_request i upd = (\<forall>x. xc_phase (upd x) = xc_phase x \<and>
     (\<forall>q. xc_request (upd x) = Some q \<longrightarrow> xc_request x = Some q \<or> xr_id q = i))"

lemma execution_of_ok: "executions_ok m es \<Longrightarrow> execution_ok i es (execution_of (case m of None \<Rightarrow> [] | Some xs \<Rightarrow> xs) i)"
  by (auto simp: executions_ok_def execution_of_def execution_ok_def empty_execution_def split: option.splits)

lemma checkpointed_ok:
  assumes "executions_ok (rg_execution r) es" "checkpointed i phase upd now r es = Inr (r', es')" "keeps_request i upd"
    "phase = ''final_verification_pending'' \<longrightarrow> candidate_recorded i es"
  shows "executions_ok (rg_execution r') es \<and> rg_items r' = rg_items r \<and> es' = es"
proof -
  let ?x = "execution_of (executions_of r) i"
  have "execution_ok i es ?x" using execution_of_ok [OF assms(1)] by (simp add: executions_of_def)
  then have "execution_ok i es (upd (?x\<lparr>xc_phase := Some phase, xc_updated := Some now\<rparr>))"
    using assms(3,4) by (fastforce simp: keeps_request_def execution_ok_def)
  then show ?thesis
    using assms(1,2)
    by (auto simp: checkpointed_def Let_def executions_ok_def executions_of_def update_conv split: option.splits if_splits)
qed

text \<open>An attempt that is recorded is the last entry of the ledger.\<close>

definition recorded_last :: "attempt_report \<Rightarrow> (entry list \<Rightarrow> bool) \<Rightarrow> entry list \<Rightarrow> bool" where
  "recorded_last a K es = (check_attempt a = None \<and> (\<exists>es0 t. K es0 \<and> es = es0 @ [AttemptEntry (attempt_entry_of a t es0)]))"

lemma candidate_checked:
  assumes "check_attempt (candidate_report q ''success'' review evidence decision) = None" "vf_passed review"
  shows "candidate_entry (xr_id q) (attempt_entry_of (candidate_report q ''success'' review evidence decision) t es)"
  using assms
  by (auto simp: candidate_entry_def attempt_entry_of_def candidate_report_def check_attempt_def Let_def routine_reviewers_def
    has_text_def split: if_splits option.splits)

locale settling_final = settling V for V +
  assumes V_final: "candidate_recorded i es \<Longrightarrow> accepted_entry i e \<Longrightarrow> V i (es @ [AttemptEntry e])"
begin

lemma safe_checkpoint:
  assumes "grows K" "keeps_request i upd" "\<And>es. K es \<Longrightarrow> phase = ''final_verification_pending'' \<Longrightarrow> candidate_recorded i es"
  shows "safe V K (checkpoint i phase upd) (\<lambda>_ _. True)"
  unfolding checkpoint_def
proof (rule safe_then)
  show "safe V K (update_state (checkpointed i phase upd)) (\<lambda>_ _. True)"
  proof (rule safe_update)
    fix now r es r' es' assume "docs_ok V r es" "K es" "checkpointed i phase upd now r es = Inr (r', es')"
    then show "docs_ok V r' es \<and> docs_ok V r' es' \<and> K es' \<and> True"
      using checkpointed_ok [of r es i phase upd now r' es'] assms by (auto simp: docs_ok_def)
  qed
qed (auto intro: safe_ret)

lemma safe_given: "(\<And>es. K es \<Longrightarrow> docs_ok V given es) \<Longrightarrow> safe V K (given_or_stored (Some given)) (\<lambda>r es. docs_ok V r es)"
  by (auto simp: given_or_stored_def intro!: safe_registry safe_ret)

lemma safe_attempted:
  assumes "grows K" "\<And>es. K es \<Longrightarrow> docs_ok V given es" "check_attempt a = None"
  shows "safe V K (update_state (attempted a t ctl given)) (\<lambda>r es. docs_ok V r es \<and> recorded_last a K es)"
proof (rule safe_update)
  fix now r es r' es' assume ok: "docs_ok V r es" "K es" "attempted a t ctl given now r es = Inr (r', es')"
  then have "docs_ok V r' es" using attempted_frame [OF ok(3)] assms(2) by (blast intro: docs_kept)
  moreover have "es' = es @ [AttemptEntry (attempt_entry_of a t es)]" using ok(3) by (simp add: attempted_def Let_def)
  ultimately show "docs_ok V r' es \<and> docs_ok V r' es' \<and> K es' \<and> docs_ok V r' es' \<and> recorded_last a K es'"
    using assms(1,3) ok(2) by (auto simp: docs_grows grows_def recorded_last_def)
qed

lemma safe_attempt:
  assumes "grows K" "\<And>es. K es \<Longrightarrow> docs_ok V given es"
  shows "safe V K (record_attempt_result a (Some given)) (\<lambda>r es. docs_ok V r es \<and> recorded_last a K es)"
  unfolding record_attempt_result_def
proof (rule safe_bind [OF safe_given [OF assms(2)]], assumption, rule safe_bind [OF safe_quiet [OF quiet_reads(2)]])
  fix r t
  let ?K = "\<lambda>es. (K es \<and> docs_ok V r es) \<and> True"
  have K: "grows ?K" using assms(1) by (simp add: grows_conj grows_known)
  have last: "recorded_last a ?K es \<Longrightarrow> recorded_last a K es" for es by (auto simp: recorded_last_def)
  show "safe V ?K (case check_attempt a of Some msg \<Rightarrow> io_raise (ValueErr msg)
      | None \<Rightarrow> if ar_workflow a = gtx_workflow
          then io_bind (record_result (director_result a)) (\<lambda>c. update_state (attempted a t (Some c) r))
          else update_state (attempted a t None r)) (\<lambda>r es. docs_ok V r es \<and> recorded_last a K es)"
  proof (cases "check_attempt a")
    case None
    have plain: "safe V ?K (update_state (attempted a t ctl r)) (\<lambda>r es. docs_ok V r es \<and> recorded_last a K es)" for ctl
      by (rule safe_weaken [OF safe_attempted [OF K _ None]]) (auto intro: last)
    have "safe V ?K (record_result (director_result a)) (\<lambda>_ _. True)"
      by (rule safe_framed [OF framed_result [of r] K]) simp
    then show ?thesis using None plain by (auto intro: safe_bind)
  qed (simp add: safe_raise)
qed

lemma safe_candidate:
  assumes "grows K"
  shows "safe V K (record_candidate q cls review evidence decision)
    (\<lambda>r es. docs_ok V r es \<and> (cls = ''success'' \<and> vf_passed review \<longrightarrow> candidate_recorded (xr_id q) es))"
  unfolding record_candidate_def
proof (rule safe_bind [OF safe_registry])
  fix r
  let ?a = "candidate_report q cls review evidence decision" and ?K = "\<lambda>es. K es \<and> docs_ok V r es"
  have "safe V ?K (record_attempt_result ?a (Some r)) (\<lambda>r es. docs_ok V r es \<and> recorded_last ?a ?K es)"
    by (rule safe_attempt) (simp_all add: assms grows_conj grows_known)
  then show "safe V ?K (record_attempt_result ?a (Some r))
      (\<lambda>r es. docs_ok V r es \<and> (cls = ''success'' \<and> vf_passed review \<longrightarrow> candidate_recorded (xr_id q) es))"
  proof (rule safe_weaken)
    fix r' es assume "docs_ok V r' es \<and> recorded_last ?a ?K es"
    then show "docs_ok V r' es \<and> (cls = ''success'' \<and> vf_passed review \<longrightarrow> candidate_recorded (xr_id q) es)"
      using candidate_checked [of q review evidence decision]
      by (auto simp: recorded_last_def candidate_recorded_def)
  qed
qed

lemma safe_final:
  assumes "grows K" "\<And>es. K es \<Longrightarrow> docs_ok V r es \<and> candidate_recorded (xr_id q) es"
  shows "safe V K (record_final_verification (final_report q final evidence) (Some r))
    (\<lambda>r es. docs_ok V r es \<and> (vf_passed final \<longrightarrow> V (xr_id q) es))"
proof -
  let ?a = "(final_report q final evidence)\<lparr>ar_model := ''codex'', ar_reviewer := Some ''codex'',
     ar_decision := Some (if ar_outcome (final_report q final evidence) = Some ''approved'' then ''accepted'' else ''rejected''),
     ar_final := True, ar_role := ''final_verification''\<rparr>"
  have "safe V K (record_attempt_result ?a (Some r)) (\<lambda>r es. docs_ok V r es \<and> recorded_last ?a K es)"
    by (rule safe_attempt) (simp_all add: assms)
  then have "safe V K (record_attempt_result ?a (Some r)) (\<lambda>r es. docs_ok V r es \<and> (vf_passed final \<longrightarrow> V (xr_id q) es))"
  proof (rule safe_weaken)
    fix r' es assume rec: "docs_ok V r' es \<and> recorded_last ?a K es"
    have "accepted_entry (xr_id q) (attempt_entry_of ?a t es0)" if "vf_passed final" for t es0
      using that by (simp add: accepted_entry_def attempt_entry_of_def recorded_decision_def final_report_def)
    then show "docs_ok V r' es \<and> (vf_passed final \<longrightarrow> V (xr_id q) es)"
      using rec assms(2) by (auto simp: recorded_last_def intro: V_final)
  qed
  then show ?thesis by (simp add: record_final_verification_def)
qed

lemma safe_settle:
  assumes "grows K" "\<And>es. K es \<Longrightarrow> good_list V bs es \<and> st \<noteq> IN_PROGRESS \<and> (st = COMPLETED \<longrightarrow> V i es)"
    "\<And>es. K es \<Longrightarrow> phase = ''final_verification_pending'' \<Longrightarrow> candidate_recorded i es"
  shows "safe V K (settle_item bs i st reason phase cls evidence) (\<lambda>_ _. True)"
  unfolding settle_item_def
  by (rule safe_then [OF safe_outcome [OF assms(1,2)]], assumption, rule safe_checkpoint)
     (use assms in \<open>auto simp: keeps_request_def put_status_def grows_def good_list_grows\<close>)

lemma safe_request_from:
  assumes "\<forall>q. xc_request x = Some q \<longrightarrow> xr_id q = bi_id b"
  shows "safe V K (request_from_record a b x) (\<lambda>q _. xr_id q = bi_id b)"
  unfolding request_from_record_def
  by (cases "xc_request x")
     (use assms in \<open>auto intro!: safe_ret safe_bind [OF safe_quiet [OF quiet_snapshot(2)]] simp: request_for_def\<close>)

lemma safe_request: "safe V K (request_of a b routing) (\<lambda>q _. xr_id q = bi_id b)"
  unfolding request_of_def
  by (rule safe_bind [OF safe_quiet [OF quiet_snapshot(2)]]) (auto intro!: safe_ret simp: request_for_def)

lemma safe_persistent: "safe V K persistent (\<lambda>m es. \<forall>i. execution_ok i es (execution_of m i))"
  unfolding persistent_def
  by (rule safe_bind [OF safe_registry], rule safe_ret)
     (auto simp: docs_ok_def executions_of_def intro: execution_of_ok)

lemma next_status_ok: "next_status a r evidence = (st, ev) \<Longrightarrow> st \<noteq> IN_PROGRESS \<and> st \<noteq> COMPLETED"
  by (auto simp: next_status_def Let_def split: if_splits)

lemma phase_of_ok [simp]: "phase_of st \<noteq> ''final_verification_pending''"
  by (cases st) (simp_all add: phase_of_def)

lemma safe_settle_final:
  assumes K: "grows K" and known: "\<And>es. K es \<Longrightarrow> good_list V bs es \<and> candidate_recorded (bi_id b) es \<and> docs_ok V r es"
    and q: "xr_id q = bi_id b"
  shows "safe V K (settle_final a bs b x q final r evidence reason cls) (\<lambda>_ _. True)"
  unfolding settle_final_def
proof (rule safe_bind [OF safe_final [OF K]])
  show "docs_ok V r es \<and> candidate_recorded (xr_id q) es" if "K es" for es using known [OF that] q by simp
  fix fr
  let ?L = "\<lambda>es. K es \<and> docs_ok V fr es \<and> (vf_passed final \<longrightarrow> V (xr_id q) es)"
  obtain st ev where st: "(if vf_passed final then (COMPLETED, evidence) else next_status a fr evidence) = (st, ev)" by (metis surj_pair)
  have "safe V ?L (settle_item bs (bi_id b) st reason (phase_of st) cls ev) (\<lambda>_ _. True)"
  proof (rule safe_settle)
    show "grows ?L" using K by (auto simp: grows_def docs_grows V_grows)
    show "good_list V bs es \<and> st \<noteq> IN_PROGRESS \<and> (st = COMPLETED \<longrightarrow> V (bi_id b) es)" if "?L es" for es
      using that known st q by (auto split: if_splits dest: next_status_ok)
  qed simp
  then show "safe V ?L (let (st, evidence') = (if vf_passed final then (COMPLETED, evidence) else next_status a fr evidence) in
       io_then (settle_item bs (bi_id b) st reason (phase_of st) cls evidence')
         (io_ret (outcome_of b st (attempts_so_far x) (xr_model q) evidence'))) (\<lambda>_ _. True)"
    unfolding st by (auto intro!: safe_then safe_ret)
qed

lemma safe_resume_final:
  assumes K: "grows K" and known: "\<And>es. K es \<Longrightarrow> good_list V bs es \<and> candidate_recorded (bi_id b) es"
    and q: "\<forall>q. xc_request x = Some q \<longrightarrow> xr_id q = bi_id b"
  shows "safe V K (resume_final_verification_pending a bs b x) (\<lambda>_ _. True)"
  unfolding resume_final_verification_pending_def Let_def
proof (rule safe_bind_known [OF safe_request_from [OF q]], rule safe_bind_quiet [OF quiet_guarded [OF quiet_reviewer]])
  fix q :: execution_request and final assume id: "xr_id q = bi_id b"
  have check: "safe V K (checkpoint (bi_id b) ''final_verification_pending'' upd) (\<lambda>_ _. True)" if "keeps_request (bi_id b) upd" for upd
    by (rule safe_checkpoint [OF K that]) (use known in auto)
  have fin: "safe V K (io_bind get_registry (\<lambda>r. settle_final a bs b x q final r ev reason cls)) (\<lambda>_ _. True)" for ev reason cls
    by (rule safe_bind [OF safe_registry], rule safe_settle_final [OF _ _ id])
       (use known in \<open>auto intro!: grows_conj K grows_known\<close>)
  let ?ev = "evidence_of x @ vf_evidence final"
  let ?kept = "\<lambda>x. put_status BLOCKED_ITEM (x\<lparr>xc_class := Some ''success'', xc_evidence := Some ?ev\<rparr>)"
  show "safe V K (io_then (checkpoint (bi_id b) ''final_verification_pending'' (\<lambda>x. (?kept x)\<lparr>xc_final := Some final\<rparr>))
     (if \<not> vf_passed final \<and> vf_kind final \<noteq> ''rejected_code''
      then io_then (checkpoint (bi_id b) ''final_verification_pending'' ?kept)
        (io_ret (pending_outcome b x (?ev @ [''candidate preserved pending Codex final verification''])))
      else io_bind get_registry (\<lambda>r. settle_final a bs b x q final r ?ev (if vf_passed final then ''success'' else ''rejected_code'') ''success'')))
    (\<lambda>_ _. True)"
    by (auto intro!: safe_then_true [OF check] fin safe_ret simp: keeps_request_def put_status_def simp del: if_split split: if_split_asm)
qed

lemma safe_resume_review:
  assumes K: "grows K" and known: "\<And>es. K es \<Longrightarrow> good_list V bs es"
    and q: "\<forall>q. xc_request x = Some q \<longrightarrow> xr_id q = bi_id b"
  shows "safe V K (resume_review_pending a bs b x) (\<lambda>_ _. True)"
  unfolding resume_review_pending_def Let_def
proof (rule safe_bind_known [OF safe_request_from [OF q]], rule safe_bind_quiet [OF quiet_guarded [OF quiet_gates(1)]], goal_cases)
  case (1 q review)
  note id = this
  have check: "safe V L (checkpoint (bi_id b) phase upd) (\<lambda>_ _. True)"
    if "keeps_request (bi_id b) upd" "grows L" "\<And>es. L es \<Longrightarrow> phase = ''final_verification_pending'' \<Longrightarrow> candidate_recorded (bi_id b) es" for phase upd L
    by (rule safe_checkpoint [OF that(2,1)]) (use that(3) in auto)
  have rejected: "safe V (\<lambda>es. K es \<and> docs_ok V rec es) (case next_status a rec ev of (st, ev') \<Rightarrow>
      io_then (settle_item bs (bi_id b) st cls (phase_of st) cls ev') (io_ret (outcome_of b st (attempts_so_far x) (xr_model q) ev'))) (\<lambda>_ _. True)"
    for rec ev cls
  proof -
    obtain st ev' where st: "next_status a rec ev = (st, ev')" by (metis surj_pair)
    show ?thesis
      unfolding st prod.case
      by (rule safe_then_true [OF safe_settle])
         (use known next_status_ok [OF st] in \<open>auto intro!: grows_conj K grows_known safe_ret\<close>)
  qed
  let ?L = "\<lambda>rec es. K es \<and> docs_ok V rec es \<and> candidate_recorded (xr_id q) es"
  have L: "grows (?L rec)" for rec by (intro grows_conj K grows_known)
  have checked: "safe V (?L rec) (checkpoint (bi_id b) phase upd) (\<lambda>_ _. True)" if "keeps_request (bi_id b) upd" for phase upd rec
    by (rule check [OF that L]) (use id in auto)
  have fin: "safe V (?L rec) (settle_final a bs b x q final rec ev reason cls) (\<lambda>_ _. True)" for final rec ev reason cls
    by (rule safe_settle_final [OF L _ id]) (use known id in auto)
  have upd: "keeps_request (bi_id b) (\<lambda>x. put_status st (f x)) = keeps_request (bi_id b) f" for st f
    by (simp add: keeps_request_def put_status_def)
  show ?case
  proof (cases "vf_passed review")
    case True
    then show ?thesis
      by (auto intro!: safe_then_true [OF check [OF _ K]] safe_bind [OF safe_candidate [OF K]] safe_then_true [OF checked]
          safe_bind_quiet [OF quiet_guarded [OF quiet_reviewer]] safe_ret fin simp: upd)
         (simp_all add: keeps_request_def id)
  next
    case False
    then show ?thesis
      by (auto intro!: safe_then_true [OF check [OF _ K]] safe_bind [OF safe_candidate [OF K]] rejected safe_ret simp: upd)
         (simp_all add: keeps_request_def)
  qed
qed

lemma safe_resume: "grows K \<Longrightarrow> safe V K (resume_pending_verification a) (\<lambda>_ _. True)"
  unfolding resume_pending_verification_def Let_def
proof (rule safe_bind [OF safe_load], rule safe_bind [OF safe_persistent], goal_cases)
  case (1 bs m)
  let ?K = "\<lambda>es. (K es \<and> good_list V bs es) \<and> (\<forall>i. execution_ok i es (execution_of m i))"
  show ?case
  proof (cases "pending_item m bs")
    case (Some b)
    let ?x = "execution_of m (bi_id b)"
    have K: "grows ?K"
      using 1 by (auto simp: grows_def good_list_grows execution_ok_def candidate_grows)
    have phase: "xc_phase ?x = Some ''review_pending'' \<or> xc_phase ?x = Some ''final_verification_pending''"
      using Some by (auto simp: pending_item_def find_Some_iff pending_phases_def)
    have "safe V ?K (if xc_phase ?x = Some ''review_pending'' then resume_review_pending a bs b ?x
         else resume_final_verification_pending a bs b ?x) (\<lambda>_ _. True)"
    proof (cases "\<forall>q. xc_request ?x = Some q \<longrightarrow> xr_id q = bi_id b")
      case True
      have "safe V ?K (resume_review_pending a bs b ?x) (\<lambda>_ _. True)"
        by (rule safe_resume_review [OF K _ True]) simp
      moreover have "safe V ?K (resume_final_verification_pending a bs b ?x) (\<lambda>_ _. True)"
        if "xc_phase ?x = Some ''final_verification_pending''"
        by (rule safe_resume_final [OF K _ True]) (use that in \<open>auto simp: execution_ok_def\<close>)
      ultimately show ?thesis using phase by auto
    next
      case False
      then have "\<not> ?K es" for es by (auto simp: execution_ok_def)
      then show ?thesis unfolding safe_def by blast
    qed
    then show ?thesis using Some by (auto intro!: safe_bind safe_ret)
  qed (simp add: safe_ret)
qed

lemma safe_keep:
  assumes K: "grows K" and known: "\<And>es. K es \<Longrightarrow> good_list V bs es" and id: "xr_id q = bi_id b"
  shows "safe V K (keep_for_review bs q w t sv review evidence b n) (\<lambda>_ _. True)"
  unfolding keep_for_review_def
  by (rule safe_then [OF safe_outcome [OF K]], use known in simp, rule safe_then_true [OF safe_checkpoint])
     (auto intro!: grows_conj K grows_known safe_ret simp: keeps_request_def put_status_def id)

lemma safe_conclude:
  assumes K: "grows K" and known: "\<And>es. K es \<Longrightarrow> good_list V bs es" and id: "xr_id q = bi_id b"
  shows "safe V K (conclude a bs q w t review evidence b n) (\<lambda>_ _. True)"
proof -
  let ?cls = "classification_of w t review" and ?good = "wr_success w \<and> vf_passed t \<and> vf_passed review"
  have first: "safe V K (if ?good
       then io_bind (run_reviewer a (ad_final a) q w review) (\<lambda>final.
         io_then (checkpoint (bi_id b) ''final_verification_complete'' (\<lambda>x. x\<lparr>xc_final := Some final\<rparr>)) (io_ret final))
       else io_ret (verdict False [''final verification gate not reached''] ''rejected_code'' None))
     (\<lambda>final _. vf_passed final \<longrightarrow> ?good)"
    by (auto intro!: safe_bind_quiet [OF quiet_reviewer] safe_then_true [OF safe_checkpoint [OF K]] safe_ret
      simp: keeps_request_def verdict_def)
  have good: "?cls = ''success''" if ?good using that by (simp add: classification_of_def)
  show ?thesis
    unfolding conclude_def Let_def
  proof (rule safe_bind_known [OF first], rule safe_bind [OF safe_candidate [OF K]], goal_cases)
    case (1 final rec)
    let ?pending = "?good \<and> \<not> vf_passed final \<and> vf_kind final \<noteq> ''rejected_code''"
    let ?K = "\<lambda>es. K es \<and> docs_ok V rec es \<and> (?cls = ''success'' \<and> vf_passed review \<longrightarrow> candidate_recorded (xr_id q) es)"
    have G: "grows ?K" using K by (auto simp: grows_def docs_grows candidate_grows)
    have second: "safe V ?K (if ?good \<and> \<not> ?pending then record_final_verification (final_report q final ev) (Some rec) else io_ret rec)
        (\<lambda>r es. docs_ok V r es \<and> (vf_passed final \<longrightarrow> V (xr_id q) es))" for ev
    proof (cases "?good \<and> \<not> ?pending")
      case True
      have "safe V ?K (record_final_verification (final_report q final ev) (Some rec))
          (\<lambda>r es. docs_ok V r es \<and> (vf_passed final \<longrightarrow> V (xr_id q) es))"
        by (rule safe_final [OF G]) (use True good in auto)
      then show ?thesis unfolding if_P [OF True] .
    next
      case False
      then show ?thesis using 1 by (auto intro!: safe_ret)
    qed
    show ?case
    proof (rule safe_bind [OF second], goal_cases)
      case (1 fr)
      let ?ev = "if ?good then evidence @ vf_evidence final else evidence"
      let ?settled = "if ?good \<and> vf_passed final then (COMPLETED, ?ev)
         else if ?pending then (BLOCKED_ITEM, ?ev @ [''candidate preserved pending Codex final verification''])
         else if infrastructure_down ?ev
         then (BLOCKED_ITEM, ?ev @ [''verification infrastructure is unavailable; item is blocked''])
         else next_status a fr ?ev"
      obtain st ev where st: "?settled = (st, ev)" by (rule prod.exhaust)
      let ?phase = "if st = COMPLETED \<or> st = QUEUED then phase_of st else if ?pending then ''final_verification_pending'' else ''blocked''"
      have ok: "st \<noteq> IN_PROGRESS" "st = COMPLETED \<longrightarrow> ?good \<and> vf_passed final"
        using st by (auto split: if_splits dest: next_status_ok)
      let ?L = "\<lambda>es. ?K es \<and> docs_ok V fr es \<and> (vf_passed final \<longrightarrow> V (xr_id q) es)"
      have L: "grows ?L" using G by (auto simp: grows_def docs_grows V_grows)
      have "safe V ?L (settle_item bs (bi_id b) st ?cls ?phase ?cls ev) (\<lambda>_ _. True)"
      proof (rule safe_settle [OF L])
        show "good_list V bs es \<and> st \<noteq> IN_PROGRESS \<and> (st = COMPLETED \<longrightarrow> V (bi_id b) es)" if "?L es" for es
          using that known ok id by auto
        show "candidate_recorded (bi_id b) es" if "?L es" "?phase = ''final_verification_pending''" for es
          using that good id by (auto split: if_splits)
      qed
      then show ?case unfolding st prod.case by (auto intro!: safe_then_true safe_ret)
    qed
  qed
qed

lemma safe_execute:
  assumes K: "grows K" and known: "\<And>es. K es \<Longrightarrow> good_list V bs es" and id: "xr_id q = bi_id b"
  shows "safe V K (execute_item a bs q ex b n) (\<lambda>_ _. True)"
proof -
  have check: "safe V K (checkpoint (bi_id b) phase upd) (\<lambda>_ _. True)"
    if "keeps_request (bi_id b) upd" "phase \<noteq> ''final_verification_pending''" for phase upd
    by (rule safe_checkpoint [OF K that(1)]) (use that(2) in simp)
  have tests: "io_obeys any_senv untouched (if c then run_tests a q else io_ret v)" for c v
    by (auto intro: io_intros)
  have last: "safe V K (if c then keep_for_review bs q w t sv review ev b n else conclude a bs q w t review ev b n) (\<lambda>_ _. True)"
    for c w t sv review ev
    using safe_keep [OF K known id] safe_conclude [OF K known id] by simp
  have maybe: "safe V K (if c then checkpoint (bi_id b) ''self_review_complete'' upd else io_ret ()) (\<lambda>_ _. True)"
    if "keeps_request (bi_id b) upd" for c upd
    using check [OF that] by (auto intro: safe_ret)
  show ?thesis
    unfolding execute_item_def Let_def split_def
    by (intro safe_bind_quiet [OF quiet_executor(1)] safe_then_true [OF check] safe_bind_quiet [OF tests]
        safe_bind_quiet [OF quiet_gates(2)] safe_then_true [OF maybe] safe_bind_quiet [OF quiet_gates(3)] last)
       (simp_all add: keeps_request_def)
qed

lemma safe_in_progress:
  assumes K: "grows K" and known: "\<And>es. K es \<Longrightarrow> good_list V bs es"
  shows "safe V K (in_progress_outcome a bs) (\<lambda>_ _. True)"
proof -
  have recover: "safe V K (recover_interrupted bs b x) (\<lambda>_ _. True)" for b x
    unfolding recover_interrupted_def Let_def
    by (rule safe_then [OF safe_outcome [OF K]], use known in simp, rule safe_then_true [OF safe_checkpoint])
       (auto intro!: grows_conj K grows_known safe_ret simp: keeps_request_def put_status_def)
  have alive: "io_obeys any_senv untouched (case p of None \<Rightarrow> io_ret False | Some pid \<Rightarrow> outside (f pid))" for p :: "int option" and f
    by (cases p) (auto intro: io_intros)
  show ?thesis
    unfolding in_progress_outcome_def Let_def
    by (auto intro!: safe_ret safe_bind_quiet [OF quiet_load(2)] safe_bind_quiet [OF alive] safe_bind [OF recover] split: option.splits)
qed

end

sublocale settling_final \<subseteq> routed: settling_queue V "dispatch_route a" for a
  by unfold_locales (rule route_framed)

context settling_final
begin

lemma safe_next_once:
  assumes K: "grows K"
  shows "safe V K (run_next_once a) (\<lambda>_ _. True)"
  unfolding run_next_once_def
proof (rule safe_bind [OF routed.safe_dispatch [OF K]], goal_cases)
  case (1 x)
  obtain bs d where x: "x = (bs, d)" by (cases x)
  let ?K = "\<lambda>es. K es \<and> good_list V bs es"
  have G: "grows ?K" by (intro grows_conj K grows_known)
  have known: "good_list V bs es" if "?K es" for es using that by simp
  have blocked: "safe V ?K (record_outcome bs i BLOCKED_ITEM reason) (\<lambda>_ _. True)" for i reason
    by (rule safe_weaken [OF safe_outcome [OF G]]) auto
  have run: "safe V ?K (io_bind (request_of a b routing) (\<lambda>q. case map_of (ad_executors a) (xr_model q) of
           None \<Rightarrow> let reason = ''no executor configured for selected model '' @ xr_model q in
             io_then (record_outcome bs (bi_id b) BLOCKED_ITEM (Some reason))
               (io_then (checkpoint (bi_id b) ''executor_missing'' (\<lambda>x. put_status BLOCKED_ITEM
                   (x\<lparr>xc_model := Some (xr_model q), xc_reason := Some reason\<rparr>)))
                 (io_ret (Some (outcome_of b BLOCKED_ITEM 0 (xr_model q) [reason]))))
         | Some ex \<Rightarrow> io_bind persistent (\<lambda>m. let n = attempts_so_far (execution_of m (bi_id b)) + 1 in
             io_then (begin_execution a (bi_id b) n q)
               (io_bind (execute_item a bs q ex b n) (\<lambda>out. io_ret (Some out)))))) (\<lambda>_ _. True)" for b routing
  proof (rule safe_bind_known [OF safe_request], goal_cases)
    case (1 q)
    then show ?case
      unfolding begin_execution_def Let_def
      by (auto intro!: safe_then_true [OF blocked] safe_then_true [OF safe_checkpoint [OF G]] safe_bind_quiet [OF quiet_load(2)]
          safe_bind [OF safe_execute [OF G known]] safe_ret simp: keeps_request_def put_status_def split: option.splits)
  qed
  have "safe V ?K (in_progress_outcome a bs) (\<lambda>_ _. True)" by (rule safe_in_progress [OF G known])
  then show ?case
    unfolding x prod.case using run
    by (auto intro!: safe_ret safe_raise split: option.splits sum.splits)
qed

lemma safe_unexpected: "grows K \<Longrightarrow> safe V K (handle_unexpected_exception a e) (\<lambda>_ _. True)"
  unfolding handle_unexpected_exception_def Let_def
proof (rule safe_bind [OF safe_load], goal_cases)
  case (1 bs)
  let ?K = "\<lambda>es. K es \<and> good_list V bs es"
  have G: "grows ?K" by (intro grows_conj 1 grows_known)
  have report: "safe V ?K (io_try
           (io_bind (record_candidate q cls v evidence ''rejected'') (\<lambda>recorded. io_ret (next_status a recorded evidence)))
           (\<lambda>_. True)
           (\<lambda>e2. io_bind (exn_message e2) (\<lambda>msg2. io_ret (BLOCKED_ITEM, evidence @ [''could not persist dispatcher outcome: '' @ msg2]))))
         (\<lambda>sv _. fst sv \<noteq> IN_PROGRESS \<and> fst sv \<noteq> COMPLETED)" for q cls v evidence
    by (rule safe_try)
       (auto intro!: safe_bind [OF safe_candidate [OF G]] safe_ret safe_bind_quiet [OF quiet_reads(4)] simp: next_status_ok [OF surjective_pairing])
  have settle_item: "safe V ?K (record_outcome bs i st reason) (\<lambda>_ _. True)" if "st \<noteq> IN_PROGRESS \<and> st \<noteq> COMPLETED" for i st reason
    by (rule safe_weaken [OF safe_outcome [OF G]]) (use that in auto)
  show ?case
  proof (cases "active_item bs")
    case (Some b)
    show ?thesis
      unfolding Some option.case split_def
      by (rule safe_bind_quiet [OF quiet_load(2)], rule safe_bind_quiet [OF quiet_process(2)], rule safe_bind_known [OF report],
          rule safe_then_true [OF settle_item], assumption, rule safe_then_true [OF safe_checkpoint [OF G]])
         (auto intro: safe_ret simp: keeps_request_def put_status_def)
  qed (simp add: safe_raise)
qed

lemma safe_pending: "grows K \<Longrightarrow> safe V K (handle_pending_exception a e) (\<lambda>_ _. True)"
  unfolding handle_pending_exception_def Let_def
proof (rule safe_bind_quiet [OF quiet_load(1)], rule safe_bind [OF safe_persistent], goal_cases)
  case (1 bs m)
  let ?K = "\<lambda>es. K es \<and> (\<forall>i. execution_ok i es (execution_of m i))"
  have G: "grows ?K" using 1 by (auto simp: grows_def execution_ok_def candidate_grows)
  show ?case
  proof (cases "pending_item m bs")
    case None
    then show ?thesis by (simp add: safe_unexpected [OF G])
  next
    case (Some b)
    let ?x = "execution_of m (bi_id b)"
    have "safe V ?K (checkpoint (bi_id b) (case xc_phase ?x of None \<Rightarrow> [] | Some p \<Rightarrow> p)
           (\<lambda>x. put_status BLOCKED_ITEM (x\<lparr>xc_evidence := Some ev, xc_error := Some msg\<rparr>))) (\<lambda>_ _. True)" for ev msg
      by (rule safe_checkpoint [OF G]) (auto simp: keeps_request_def put_status_def execution_ok_def split: option.splits)
    then show ?thesis using Some
      by (auto intro!: safe_bind_quiet [OF quiet_process(2)] safe_bind_quiet [OF quiet_reads(4)] safe_then_true safe_try safe_ret)
  qed
qed

lemma safe_next: "safe V (\<lambda>_. True) (run_next a) (\<lambda>_ _. True)"
proof -
  have K: "grows (\<lambda>_. True)" by (simp add: grows_def)
  show ?thesis
    unfolding run_next_def
    by (intro safe_try safe_bind_known [OF safe_resume [OF K]] safe_bind_known [OF safe_pending [OF K]] safe_bind_known [OF safe_unexpected [OF K]])
       (auto intro!: safe_ret safe_next_once K split: option.splits)
qed

end

section \<open>Calls\<close>

text \<open>A run of the adapter, a dispatch by hand, and an outcome recorded by hand on a fresh reading of the queue.\<close>

datatype backlog_call = BRun adapter | BDispatch pystr | BSettle pystr backlog_status "pystr option"

fun run_backlog_call :: "backlog_call \<Rightarrow> unit shift" where
  "run_backlog_call (BRun a) = io_then (run_next a) (io_ret ())"
| "run_backlog_call (BDispatch w) = io_then (dispatch_next route_coding_request w) (io_ret ())"
| "run_backlog_call (BSettle i st reason) = io_then (io_bind load_manifest (\<lambda>bs. record_outcome bs i st reason)) (io_ret ())"

text \<open>A call that raises or is killed is followed by the next.\<close>

fun run_backlog :: "backlog_call list \<Rightarrow> senv \<Rightarrow> sfile \<Rightarrow> sfile" where
  "run_backlog [] env s = s"
| "run_backlog (c # cs) env s = run_backlog cs env (snd (run_backlog_call c env s))"

lemma safe_run:
  assumes "safe V (\<lambda>_. True) m R" "good_manifests V env" "docs_ok V (ss_registry s) (ss_ledger s)"
  shows "docs_ok V (ss_registry (snd (m env s))) (ss_ledger (snd (m env s)))"
proof -
  obtain x s' where run: "m env s = (x, s')" by (metis surj_pair)
  have "io_wp (good_manifests V) m (\<lambda>a s'. docs_ok V (ss_registry s') (ss_ledger s') \<and> True \<and> R a (ss_ledger s'))
     (\<lambda>_ s'. docs_ok V (ss_registry s') (ss_ledger s') \<and> True) (\<lambda>s'. docs_ok V (ss_registry s') (ss_ledger s') \<and> True) s"
    using assms(1,3) by (simp add: safe_def)
  from io_wp_run [OF this assms(2) run] show ?thesis by (cases x) (simp_all add: run)
qed

lemma run_backlog_ok:
  assumes "\<And>c. c \<in> set cs \<Longrightarrow> safe V (\<lambda>_. True) (run_backlog_call c) (\<lambda>_ _. True)" "good_manifests V env"
    "docs_ok V (ss_registry s) (ss_ledger s)"
  shows "docs_ok V (ss_registry (run_backlog cs env s)) (ss_ledger (run_backlog cs env s))"
  using assms
proof (induction cs arbitrary: s)
  case (Cons c cs)
  have "docs_ok V (ss_registry (snd (run_backlog_call c env s))) (ss_ledger (snd (run_backlog_call c env s)))"
    by (rule safe_run [OF Cons.prems(1)]) (use Cons.prems in simp_all)
  then show ?case using Cons by simp
qed simp

lemma safe_discard: "safe V K m R \<Longrightarrow> safe V K (io_then m (io_ret ())) (\<lambda>_ _. True)"
  by (rule safe_then) (auto intro: safe_ret)

interpretation anything: settling_final "\<lambda>_ _. True"
  by unfold_locales simp_all

interpretation by_hand: settling_queue "\<lambda>_ _. True" route_coding_request
  by unfold_locales

interpretation proven: settling_final verified
  by unfold_locales (auto intro: verified_grows verified_final)

definition settles :: "backlog_call \<Rightarrow> bool" where
  "settles c = (case c of BSettle i st reason \<Rightarrow> st \<noteq> IN_PROGRESS | _ \<Rightarrow> True)"

lemma call_safe: "settles c \<Longrightarrow> safe (\<lambda>_ _. True) (\<lambda>_. True) (run_backlog_call c) (\<lambda>_ _. True)"
proof (induction c rule: run_backlog_call.induct)
  case (1 a)
  then show ?case by (simp add: safe_discard [OF anything.safe_next])
next
  case (2 w)
  then show ?case by (simp add: safe_discard [OF by_hand.safe_dispatch] anything.grows_known)
next
  case (3 i st reason)
  have "safe (\<lambda>_ _. True) (\<lambda>_. True) (io_bind load_manifest (\<lambda>bs. record_outcome bs i st reason)) (\<lambda>_ _. True)"
    by (rule safe_bind [OF safe_load], rule safe_weaken [OF anything.safe_outcome])
       (use 3 in \<open>auto simp: settles_def intro: anything.grows_conj anything.grows_known\<close>)
  then show ?case by (simp add: safe_discard)
qed

lemma docs_start: "rg_items r = None \<Longrightarrow> rg_execution r = None \<Longrightarrow> docs_ok V r es"
  by (simp add: docs_ok_def good_items_def executions_ok_def)


lemma env0_announces: "\<forall>n doc bs. se_manifest env0 n = Inr doc \<longrightarrow> manifest_items doc = Inr bs \<longrightarrow> (\<forall>b\<in>set bs. bi_status b \<notin> {IN_PROGRESS, COMPLETED})"
  by (auto simp: env0_simps manifest_read items)


text \<open>C5. An item that runs of the adapter have completed has, in the ledger, a successful candidate that
  Codex or Air Review approved and after it a final verification that Codex accepted: under every sequence of
  runs, each with its own workers and reviewers, whatever fails, raises or is killed between or inside them.\<close>

theorem completed_items_are_verified:
  assumes "\<forall>n doc bs. se_manifest env n = Inr doc \<longrightarrow> manifest_items doc = Inr bs \<longrightarrow>
      (\<forall>b\<in>set bs. bi_status b \<notin> {IN_PROGRESS, COMPLETED})"
    "rg_items (ss_registry s) = None" "rg_execution (ss_registry s) = None"
    "rg_items (ss_registry (run_backlog (map BRun as) env s)) = Some (stored_items bs)" "b \<in> set bs" "bi_status b = COMPLETED"
  shows "\<exists>before c between e after. ss_ledger (run_backlog (map BRun as) env s) =
      before @ AttemptEntry c # between @ AttemptEntry e # after \<and>
    ae_goal c = bi_id b \<and> ae_kind c = ''success'' \<and> ae_outcome c = Some ''approved'' \<and>
      ae_reviewer c \<in> {Some ''codex'', Some ''air-review''} \<and>
    ae_goal e = bi_id b \<and> ae_model e = ''codex'' \<and> ae_role e = ''final_verification'' \<and> ae_reviewer e = Some ''codex'' \<and>
      ae_decision e = Some ''accepted''"
proof -
  have "docs_ok verified (ss_registry (run_backlog (map BRun as) env s)) (ss_ledger (run_backlog (map BRun as) env s))"
  proof (rule run_backlog_ok)
    show "safe verified (\<lambda>_. True) (run_backlog_call c) (\<lambda>_ _. True)" if "c \<in> set (map BRun as)" for c
      using that by (auto intro: safe_discard [OF proven.safe_next])
    show "good_manifests verified env"
      using assms(1) by (auto simp: good_manifests_def good_manifest_def announced_def list_all_iff)
  qed (rule docs_start [OF assms(2,3)])
  then have "verified (bi_id b) (ss_ledger (run_backlog (map BRun as) env s))"
    using assms(4,5,6) by (auto simp: docs_ok_def good_items_def good_list_def stored_items_inj)
  then show ?thesis unfolding verified_def candidate_entry_def accepted_entry_def by blast
qed

lemma completed_items_are_verified_witness: "\<exists>before c between e after. ss_ledger (run_backlog [BRun ad0] env0 backlog_start) =
      before @ AttemptEntry c # between @ AttemptEntry e # after \<and> ae_goal c = ''a'' \<and> ae_outcome c = Some ''approved'' \<and>
      ae_goal e = ''a'' \<and> ae_decision e = Some ''accepted''"
proof -
  obtain out s t where "run_next ad0 env0 backlog_start = (Ok out, s)"
    "rg_items (ss_registry s) = Some (stored_items [item_c\<lparr>bi_status := COMPLETED, bi_updated := t\<rparr>, item_b])"
    using run_completes by blast
  then have "rg_items (ss_registry (run_backlog (map BRun [ad0]) env0 backlog_start)) =
      Some (stored_items [item_c\<lparr>bi_status := COMPLETED, bi_updated := t\<rparr>, item_b])"
    by (simp add: prog)
  from completed_items_are_verified [OF env0_announces start this, of "item_c\<lparr>bi_status := COMPLETED, bi_updated := t\<rparr>"]
  show ?thesis unfolding list.map by (simp add: item_c) blast
qed

end
