(* ===== verification/GateProps.thy ===== *)
theory GateProps
  imports AdapterDemo
begin

text \<open>
  What the approval of a review gate rests on: the process of a configured reviewer that ended without an error,
  answered with a verdict, and left the worktree as it was.
\<close>

lemma ended_Ok:
  assumes "ended p m env s = (Ok x, s')"
  obtains e where "x = Inr e" "m env s = (Ok e, s')" | y msg where "x = Inl (y, msg)"
  using assms by (auto simp: ended_def io_try_def bind_Ok ret_Ok split: prod.splits outcome.splits if_splits)

lemma started_Ok: "start_process a argv cwd prompt env s = (Ok e, s') \<longleftrightarrow> ad_process a (ss_tick s) argv cwd prompt = Ok e \<and> s' = s\<lparr>ss_tick := ss_tick s + 1\<rparr>"
  by (auto simp: start_process_def outside_def)

lemma sum_Ok: "shift_sum x env s = (Ok a, s') \<longleftrightarrow> x = Inr a \<and> s' = s"
  by (auto simp: shift_sum_def io_ret_def io_raise_def split: sum.splits)

lemma payload_Inr: "gate_payload a out = Inr (d, p) \<longleftrightarrow> ad_loads a (strip out) = Some (JObj d) \<and> dget d ''passed'' = JBool p"
  by (auto simp: gate_payload_def split: option.splits json.splits)

lemma parsed_approval: "parse_codex_result a out gate = Inr v \<Longrightarrow> vf_passed v \<Longrightarrow> \<exists>d. gate_payload a out = Inr (d, True)"
  "parse_air_review_result a out = Inr v \<Longrightarrow> vf_passed v \<Longrightarrow> \<exists>d. gate_payload a out = Inr (d, True)"
  by (auto simp: parse_codex_result_def parse_air_review_result_def unavailable_def verdict_def sum_bind_def split: sum.splits)

text \<open>The watched process of an approval.\<close>

lemma watched_approval:
  assumes "watched a who wt m k env s = (Ok v, s')" "vf_passed v"
    "\<And>y msg s1 s2 v. k (Inl (y, msg)) env s1 = (Ok v, s2) \<Longrightarrow> \<not> vf_passed v" "\<And>x s1 s2 v. k x env s1 = (Ok v, s2) \<Longrightarrow> s2 = s1"
  obtains tree0 s1 e s2 tree1 where "git_snapshot a wt env s = (Ok tree0, s1)" "m env s1 = (Ok e, s2)"
    "git_snapshot a wt env s2 = (Ok tree1, s')" "same_tree tree0 tree1" "ws_head tree0 \<noteq> []" "k (Inr e) env s' = (Ok v, s')"
proof -
  obtain tree0 s1 x s2 tree1 s3 where run: "git_snapshot a wt env s = (Ok tree0, s1)" "ended launch_failure m env s1 = (Ok x, s2)"
    "git_snapshot a wt env s2 = (Ok tree1, s3)" "(case review_mutation who tree0 tree1 of Some v \<Rightarrow> io_ret v | None \<Rightarrow> k x) env s3 = (Ok v, s')"
    using assms(1) unfolding watched_def bind_Ok by blast
  have tree: "same_tree tree0 tree1 \<and> ws_head tree0 \<noteq> []" and k: "k x env s3 = (Ok v, s')"
    using run(4) assms(2) by (auto simp: review_mutation_def verdict_def ret_Ok split: if_splits)
  from run(2) show thesis
  proof (cases rule: ended_Ok)
    case (1 e)
    then show ?thesis using that run tree k assms(4) [OF k] by blast
  next
    case (2 y msg)
    then show ?thesis using assms(2,3) k by blast
  qed
qed

lemma codex_argv_Ok:
  assumes "codex_exec_argv a command wt (Some gate) env s = (Ok argv, s')"
  obtains p ps where "shlex_split command = Inr (p # ps)" "hd argv = p" "ss_tick s \<le> ss_tick s'"
proof -
  obtain ws where ws: "shlex_split command = Inr ws"
    using assms unfolding codex_exec_argv_def bind_Ok sum_Ok by blast
  show thesis
  proof (cases ws)
    case Nil
    then show ?thesis using assms ws by (simp add: codex_exec_argv_def bind_Ok sum_Ok io_raise_def)
  next
    case (Cons p ps)
    then have "hd argv = p \<and> ss_tick s \<le> ss_tick s'"
      using assms ws by (auto simp: codex_exec_argv_def bind_Ok sum_Ok ret_Ok outside_def Let_def split: if_splits)
    then show ?thesis using that ws Cons by blast
  qed
qed

lemma or_text_cases: "has_text (or_text x y) \<Longrightarrow> or_text x y = x \<or> or_text x y = y"
  by (simp add: or_text_def)

text \<open>What an approval of the process shows: \<open>W\<close> is the worktree, \<open>c\<close> the command line of a configured reviewer.\<close>

definition gate_commands :: "pystr list" where
  "gate_commands = [''CODEX_REVIEW_COMMAND'', ''CODEX_FINAL_VERIFY_COMMAND'', ''CODEX_COMMAND'', ''AIR_REVIEW_COMMAND'']"

definition approved_by_process :: "adapter \<Rightarrow> senv \<Rightarrow> pystr \<Rightarrow> sfile \<Rightarrow> sfile \<Rightarrow> bool" where
  "approved_by_process a env wt s s' = (\<exists>variable\<in>set gate_commands. \<exists>c words argv prompt n out err d tree0 s1 tree1 s2.
     ad_getenv a variable = Some c \<and> c \<noteq> [] \<and> shlex_split c = Inr words \<and> hd argv = hd words \<and>
     git_snapshot a wt env s = (Ok tree0, s1) \<and> ss_tick s1 \<le> n \<and> n < ss_tick s2 \<and>
     ad_process a n argv wt prompt = Ok (Exited 0 out err) \<and> ad_loads a (strip out) = Some (JObj d) \<and> dget d ''passed'' = JBool True \<and>
     git_snapshot a wt env s2 = (Ok tree1, s') \<and> same_tree tree0 tree1 \<and> ws_head tree0 \<noteq> [])"

lemma codex_approval:
  assumes "run_codex_gate a gate q w v env s = (Ok r, s')" "vf_passed r"
  shows "approved_by_process a env (xr_worktree q) s s'"
proof -
  let ?variable = "if gate = ''review'' then ''CODEX_REVIEW_COMMAND'' else ''CODEX_FINAL_VERIFY_COMMAND''"
  let ?command = "or_text (ad_getenv a ?variable) (ad_getenv a ''CODEX_COMMAND'')"
  have given: "has_text ?command"
  proof (rule ccontr)
    assume "\<not> has_text ?command"
    then show False using assms
      by (simp only: run_codex_gate_def Let_def not_False_eq_True if_True ret_Ok) (simp add: unavailable_def verdict_def)
  qed
  then obtain c where c: "?command = Some c" "c \<noteq> []" by (auto simp: has_text_def split: option.splits)
  have "ad_getenv a ?variable = Some c \<or> ad_getenv a ''CODEX_COMMAND'' = Some c"
    using or_text_cases [OF given] unfolding c(1) by (rule disj_forward) (erule sym)+
  moreover have "?variable \<in> set gate_commands" "''CODEX_COMMAND'' \<in> set gate_commands" by (simp_all add: gate_commands_def)
  ultimately obtain var where var: "var \<in> set gate_commands" "ad_getenv a var = Some c" by blast
  let ?m = "io_bind (codex_exec_argv a c (xr_worktree q) (Some gate)) (\<lambda>argv. start_process a argv (xr_worktree q) (Some (gate_prompt gate q w v)))"
  let ?k = "\<lambda>x. case x of
       Inl (y, msg) \<Rightarrow> io_ret (unavailable [if y = Expired then ''Codex '' @ gate @ '' timed out''
         else ''Codex '' @ gate @ '' process could not be started: '' @ msg] (Some ''codex''))
     | Inr (Exited rc out err) \<Rightarrow> if rc \<noteq> 0 then io_ret (unavailable [''Codex '' @ gate @ '' process failed'', tail_text 1000 err] (Some ''codex''))
         else shift_sum (parse_codex_result a out gate)"
  have run: "watched a ''codex'' (xr_worktree q) ?m ?k env s = (Ok r, s')"
    using assms(1) given c by (simp only: run_codex_gate_def Let_def not_True_eq_False if_False option.sel)
  obtain tree0 s1 e s2 tree1 where w: "git_snapshot a (xr_worktree q) env s = (Ok tree0, s1)" "?m env s1 = (Ok e, s2)"
    "git_snapshot a (xr_worktree q) env s2 = (Ok tree1, s')" "same_tree tree0 tree1" "ws_head tree0 \<noteq> []" "?k (Inr e) env s' = (Ok r, s')"
    using run assms(2) by (rule watched_approval)
      (auto simp: ret_Ok sum_Ok unavailable_def verdict_def split: sum.splits process_end.splits if_splits)
  obtain rc out err where e: "e = Exited rc out err" by (cases e)
  have rc: "rc = 0" "parse_codex_result a out gate = Inr r"
    using w(6) assms(2) by (auto simp: e ret_Ok sum_Ok unavailable_def verdict_def split: if_splits)
  from parsed_approval(1) [OF rc(2) assms(2)] obtain d where d: "ad_loads a (strip out) = Some (JObj d)" "dget d ''passed'' = JBool True"
    by (auto simp: payload_Inr)
  obtain argv s3 where argv: "codex_exec_argv a c (xr_worktree q) (Some gate) env s1 = (Ok argv, s3)"
    "start_process a argv (xr_worktree q) (Some (gate_prompt gate q w v)) env s3 = (Ok e, s2)"
    using w(2) by (auto simp: bind_Ok)
  from argv(1) obtain p ps where p: "shlex_split c = Inr (p # ps)" "hd argv = p" "ss_tick s1 \<le> ss_tick s3" by (rule codex_argv_Ok)
  have n: "ad_process a (ss_tick s3) argv (xr_worktree q) (Some (gate_prompt gate q w v)) = Ok (Exited 0 out err)" "ss_tick s3 < ss_tick s2"
    using argv(2) by (auto simp: started_Ok e rc(1))
  have "hd argv = hd (p # ps)" by (simp add: p(2))
  then show ?thesis unfolding approved_by_process_def using var c(2) p(1) w(1) p(3) n d w(3,4,5) by blast
qed

lemma air_approval:
  assumes "run_air_review a q w t env s = (Ok r, s')" "vf_passed r"
  shows "approved_by_process a env (xr_worktree q) s s'"
proof -
  have given: "has_text (ad_getenv a ''AIR_REVIEW_COMMAND'')"
  proof (rule ccontr)
    assume "\<not> has_text (ad_getenv a ''AIR_REVIEW_COMMAND'')"
    then show False using assms by (simp add: run_air_review_def Let_def ret_Ok unavailable_def verdict_def)
  qed
  then obtain c where c: "ad_getenv a ''AIR_REVIEW_COMMAND'' = Some c" "c \<noteq> []" by (auto simp: has_text_def split: option.splits)
  have var: "''AIR_REVIEW_COMMAND'' \<in> set gate_commands" by (simp add: gate_commands_def)
  let ?m = "io_bind (shift_sum (shlex_split c)) (\<lambda>argv. start_process a argv (xr_worktree q) (Some (air_prompt q t)))"
  let ?k = "\<lambda>x. case x of
       Inl (y, msg) \<Rightarrow> io_ret (unavailable [''Air Review failover unavailable: '' @ msg] (Some ''air-review''))
     | Inr (Exited rc out err) \<Rightarrow> if rc \<noteq> 0 then io_ret (unavailable [''Air Review failover process failed'', tail_text 1000 err] (Some ''air-review''))
         else shift_sum (parse_air_review_result a out)"
  have run: "watched a ''air-review'' (xr_worktree q) ?m ?k env s = (Ok r, s')"
    using assms(1) given c by (simp only: run_air_review_def Let_def not_True_eq_False if_False option.sel)
  obtain tree0 s1 e s2 tree1 where w: "git_snapshot a (xr_worktree q) env s = (Ok tree0, s1)" "?m env s1 = (Ok e, s2)"
    "git_snapshot a (xr_worktree q) env s2 = (Ok tree1, s')" "same_tree tree0 tree1" "ws_head tree0 \<noteq> []" "?k (Inr e) env s' = (Ok r, s')"
    using run assms(2) by (rule watched_approval)
      (auto simp: ret_Ok sum_Ok unavailable_def verdict_def split: sum.splits process_end.splits if_splits)
  obtain rc out err where e: "e = Exited rc out err" by (cases e)
  have rc: "rc = 0" "parse_air_review_result a out = Inr r"
    using w(6) assms(2) by (auto simp: e ret_Ok sum_Ok unavailable_def verdict_def split: if_splits)
  from parsed_approval(2) [OF rc(2) assms(2)] obtain d where d: "ad_loads a (strip out) = Some (JObj d)" "dget d ''passed'' = JBool True"
    by (auto simp: payload_Inr)
  obtain argv where argv: "shlex_split c = Inr argv"
    "start_process a argv (xr_worktree q) (Some (air_prompt q t)) env s1 = (Ok e, s2)"
    using w(2) by (auto simp: bind_Ok sum_Ok)
  have n: "ad_process a (ss_tick s1) argv (xr_worktree q) (Some (air_prompt q t)) = Ok (Exited 0 out err)" "ss_tick s1 < ss_tick s2"
    using argv(2) by (auto simp: started_Ok e rc(1))
  show ?thesis unfolding approved_by_process_def using var c argv(1) w(1) order_refl n d w(3,4,5) by blast
qed

text \<open>C12. Whenever one of the adapter's own reviewers (Codex as reviewer or final verifier, or Air Review) gives a
  passing verdict, a command line was configured for it, its process ended with exit code 0 between two snapshots
  of the worktree that agree and have a HEAD, and what it wrote is a JSON object whose \<open>passed\<close> is true.  Everything else
  (no command, a timeout, an error, other output, a changed worktree or one git cannot read) does not pass.\<close>

theorem gate_fails_closed:
  assumes "run_reviewer a r q w v env s = (Ok x, s')" "r \<in> {CodexReview, CodexFinal, AirReview}" "vf_passed x"
  shows "\<exists>variable\<in>{''CODEX_REVIEW_COMMAND'', ''CODEX_FINAL_VERIFY_COMMAND'', ''CODEX_COMMAND'', ''AIR_REVIEW_COMMAND''}.
    \<exists>c words argv prompt n out err d tree0 s1 tree1 s2.
      ad_getenv a variable = Some c \<and> c \<noteq> [] \<and> shlex_split c = Inr words \<and> hd argv = hd words \<and>
      git_snapshot a (xr_worktree q) env s = (Ok tree0, s1) \<and> ss_tick s1 \<le> n \<and> n < ss_tick s2 \<and>
      ad_process a n argv (xr_worktree q) prompt = Ok (Exited 0 out err) \<and>
      ad_loads a (strip out) = Some (JObj d) \<and> dget d ''passed'' = JBool True \<and>
      git_snapshot a (xr_worktree q) env s2 = (Ok tree1, s') \<and> same_tree tree0 tree1 \<and> ws_head tree0 \<noteq> []"
proof -
  have "approved_by_process a env (xr_worktree q) s s'"
    using assms by (auto simp: run_reviewer_def intro: codex_approval air_approval)
  then show ?thesis unfolding approved_by_process_def gate_commands_def list.set .
qed

definition codex_adapter :: adapter where
  "codex_adapter = (codex_gates (demo_adapter yes yes yes))\<lparr>ad_getenv := \<lambda>v. if v = ''CODEX_COMMAND'' then Some ''codex -q'' else None,
     ad_process := \<lambda>_ argv _ _. Ok (Exited 0 (if hd argv = ''git'' then ''h'' else ''{}'') []),
     ad_loads := \<lambda>_. Some (JObj [(''passed'', JBool True)])\<rparr>"

definition codex_request :: execution_request where
  "codex_request = request_for codex_adapter (demo_item ''a'') ''/w'' ''p40''"

lemma codex_passes: "fst (run_reviewer codex_adapter CodexFinal codex_request good_worker yes (backlog_senv (\<lambda>_. Fine)) backlog_start) =
    Ok (verdict True [] ''approved'' (Some ''codex''))"
  by code_simp

lemma gate_fails_closed_witness: "\<exists>n argv tree0 tree1 s1 s2 s'. hd argv = ''codex'' \<and>
    git_snapshot codex_adapter ''/w'' (backlog_senv (\<lambda>_. Fine)) backlog_start = (Ok tree0, s1) \<and> ss_tick s1 \<le> n \<and> n < ss_tick s2 \<and>
    git_snapshot codex_adapter ''/w'' (backlog_senv (\<lambda>_. Fine)) s2 = (Ok tree1, s') \<and> same_tree tree0 tree1"
proof -
  let ?run = "run_reviewer codex_adapter CodexFinal codex_request good_worker yes (backlog_senv (\<lambda>_. Fine)) backlog_start"
  have run: "?run = (Ok (verdict True [] ''approved'' (Some ''codex'')), snd ?run)"
    using codex_passes by (metis prod.collapse)
  have words: "shlex_split ''codex -q'' = Inr [''codex'', ''-q'']" by code_simp
  have env: "ad_getenv codex_adapter v = Some c \<longleftrightarrow> v = ''CODEX_COMMAND'' \<and> c = ''codex -q''" for v c
    by (simp add: codex_adapter_def eq_commute)
  have wt: "xr_worktree codex_request = ''/w''" by (simp add: codex_request_def request_for_def)
  from gate_fails_closed [OF run] show ?thesis
    by (simp only: wt env) (force simp: verdict_def words)
qed

end
