(* ===== verification/Handlers.thy ===== *)
theory Handlers
  imports Daemon PyLibrary
begin

text \<open>
  The task handlers of gtx_broker/scheduler/handlers.py.  A handler is a program over its \<open>last_result\<close>; every
  process, HTTP request and look at the file system is a moment of its own at which the environment says what
  happens.  A task is the dictionary the scheduler hands out.  Logging is left out.
\<close>

section \<open>The world of a handler\<close>

record image_facts =
  im_file :: bool
  im_link :: bool
  im_size :: int
  im_decodes :: bool

text \<open>Environment variables, processes (command line, directory, standard input), HTTP requests with a decoded JSON
  answer, \<open>json.loads\<close>, \<open>json.dumps\<close>, \<open>str\<close>, \<open>float\<close> of a text, \<open>expanduser\<close>, directories, images, MIME types, the
  files of a worktree, SHA-256, the temporary schema file and the texts of exceptions.\<close>

record handler_env =
  he_getenv :: "pystr \<Rightarrow> pystr option"
  he_process :: "nat \<Rightarrow> pystr list \<Rightarrow> pystr \<Rightarrow> pystr option \<Rightarrow> pyfloat option \<Rightarrow> process_end outcome"
  he_http :: "nat \<Rightarrow> pystr \<Rightarrow> json option \<Rightarrow> json outcome"
  he_loads :: "pystr \<Rightarrow> json option"
  he_dumps :: "json \<Rightarrow> pystr"
  he_str :: "json \<Rightarrow> pystr"
  he_float :: "pystr \<Rightarrow> pyfloat option"
  he_expand :: "pystr \<Rightarrow> pystr"
  he_is_dir :: "nat \<Rightarrow> pystr \<Rightarrow> bool"
  he_listing :: "nat \<Rightarrow> pystr \<Rightarrow> (pystr \<times> bool) list outcome"
  he_image :: "nat \<Rightarrow> pystr \<Rightarrow> image_facts outcome"
  he_base64 :: "nat \<Rightarrow> pystr \<Rightarrow> pystr outcome"
  he_mime :: "pystr \<Rightarrow> pystr option"
  he_file :: "nat \<Rightarrow> pystr \<Rightarrow> pystr \<Rightarrow> pystr option outcome"
  he_sha :: "pystr \<Rightarrow> pystr"
  he_schema :: "nat \<Rightarrow> json \<Rightarrow> pystr outcome"
  he_unlink :: "nat \<Rightarrow> pystr \<Rightarrow> unit outcome"
  he_text :: "exn \<Rightarrow> pystr"

record handler_state =
  hn_tick :: nat
  hn_last :: "json option"

type_synonym 'a handling = "(handler_env, handler_state, 'a) prog"

definition call :: "(handler_env \<Rightarrow> nat \<Rightarrow> 'a outcome) \<Rightarrow> 'a handling" where
  "call f env s = (f env (hn_tick s), s\<lparr>hn_tick := hn_tick s + 1\<rparr>)"

definition set_last :: "json option \<Rightarrow> unit handling" where
  "set_last j env s = (Ok (), s\<lparr>hn_last := j\<rparr>)"

definition exn_str :: "handler_env \<Rightarrow> exn \<Rightarrow> pystr" where
  "exn_str env e = (case e of ValueErr m \<Rightarrow> m | _ \<Rightarrow> he_text env e)"

definition json_str :: "handler_env \<Rightarrow> json \<Rightarrow> pystr" where
  "json_str env j = (case j of JStr s \<Rightarrow> s | _ \<Rightarrow> he_str env j)"

definition invalid_output :: "exn \<Rightarrow> bool" where
  "invalid_output e = (is_value_error e \<or> e = KeyErr \<or> e = TypeErr)"

text \<open>\<open>task.get("payload") or {}\<close>\<close>

definition task_payload :: "pydict \<Rightarrow> exn + pydict" where
  "task_payload t = (case dget t ''payload'' of JObj d \<Rightarrow> Inr d | j \<Rightarrow> if truthy j then Inl AttributeErr else Inr [])"

section \<open>Vision\<close>

record vision =
  vh_endpoint :: pystr
  vh_model :: pystr
  vh_max_bytes :: int

definition supported_mime_types :: "pystr list" where
  "supported_mime_types = [''image/jpeg'', ''image/png'', ''image/webp'', ''image/gif'', ''image/bmp'']"

definition image_suffixes :: "pystr list" where
  "image_suffixes = [''.jpg'', ''.jpeg'', ''.png'', ''.webp'', ''.gif'', ''.bmp'']"

definition supported_schemas :: "pystr list" where
  "supported_schemas = [''receipt'', ''image_description'']"

definition nl :: pystr where
  "nl = [CHR 0x0A]"

definition receipt_prompt :: pystr where
  "receipt_prompt = ''Extract this receipt image into JSON with exactly these keys:'' @ nl @
     ''merchant, date, currency, totals, line_items.'' @ nl @
     ''Use totals as an object with subtotal, vat, total, and savings numeric values or null.'' @ nl @
     ''Use line_items as an array of objects with description, quantity, and price.'' @ nl @
     ''Do not infer quantities. Treat discounts and savings as line items only when visibly'' @ nl @
     ''shown, with negative prices when appropriate. Return JSON only.''"

definition image_description_prompt :: pystr where
  "image_description_prompt = ''Describe this image as JSON with exactly these keys:'' @ nl @
     ''description, objects, text, confidence.'' @ nl @
     ''Use description for a concise literal description. Use objects as an array of objects'' @ nl @
     ''with label and attributes. Use text as an array of text strings that are visibly'' @ nl @
     ''present. Use confidence as a number from 0 to 1, or null when uncertain. Do not'' @ nl @
     ''invent details and return JSON only.''"

definition prompt_for_schema :: "pystr \<Rightarrow> pystr" where
  "prompt_for_schema schema = (if schema = ''image_description'' then image_description_prompt else receipt_prompt)"

definition schema_for_payload :: "pydict \<Rightarrow> pystr option" where
  "schema_for_payload p = (case dget_or p ''schema'' (dget_or p ''output_schema'' (JStr ''receipt'')) of
     JStr s \<Rightarrow> if s \<in> set supported_schemas then Some s else None | _ \<Rightarrow> None)"

text \<open>The image of a task: the path it names, or the first image in the directory it names.\<close>

definition first_image :: "pystr \<Rightarrow> (pystr \<times> bool) list \<Rightarrow> pystr option" where
  "first_image dir found = (case sort (map fst (filter (\<lambda>(n, file). file \<and> lower (path_suffix n) \<in> set image_suffixes) found)) of
     [] \<Rightarrow> None | n # _ \<Rightarrow> Some (dir @ ''/'' @ n))"

definition image_path :: "pydict \<Rightarrow> pystr option handling" where
  "image_path t = io_bind (checked_sum (\<lambda>_. task_payload t)) (\<lambda>p.
     let candidate = py_or (dget t ''input_path'') (py_or (dget p ''input_path'') (dget p ''image_path'')) in
     if \<not> truthy candidate then io_ret None
     else io_bind (ask_env (\<lambda>env. he_expand env (json_str env candidate))) (\<lambda>path.
       io_bind (call (\<lambda>env n. Ok (he_is_dir env n path))) (\<lambda>dir.
       if dir then io_bind (call (\<lambda>env n. he_listing env n path)) (\<lambda>found. io_ret (first_image path found))
       else io_ret (Some path))))"

definition validate_image :: "vision \<Rightarrow> pystr \<Rightarrow> pystr option handling" where
  "validate_image v path = io_bind (call (\<lambda>env n. he_image env n path)) (\<lambda>im. io_bind (ask_env (\<lambda>env. he_mime env (path_name path))) (\<lambda>mime.
     io_ret (if \<not> im_file im then Some ''image does not exist''
       else if im_link im then Some ''symlink images are not allowed''
       else if vh_max_bytes v < im_size im then Some ''image exceeds configured size limit''
       else if mime \<notin> Some ` set supported_mime_types
         then Some (''unsupported image type: '' @ (case mime of None \<Rightarrow> ''unknown'' | Some m \<Rightarrow> if m = [] then ''unknown'' else m))
       else if \<not> im_decodes im then Some ''image content is unreadable'' else None)))"

text \<open>Whether the endpoint offers the model, by the id, the name or an alias of one of its models.\<close>

definition item_offers :: "pystr set \<Rightarrow> json \<Rightarrow> exn + bool" where
  "item_offers names j = (case j of JObj d \<Rightarrow> sum_bind (listed (dget_or d ''aliases'' (JArr []))) (\<lambda>aliases.
       Inr (list_ex (\<lambda>a. case a of JStr n \<Rightarrow> n \<in> names \<or> path_name n \<in> names | _ \<Rightarrow> False) (dget d ''id'' # dget d ''name'' # aliases)))
     | _ \<Rightarrow> Inr False)"

fun any_offers :: "pystr set \<Rightarrow> json list \<Rightarrow> exn + bool" where
  "any_offers names [] = Inr False"
| "any_offers names (j # js) = sum_bind (item_offers names j) (\<lambda>b. if b then Inr True else any_offers names js)"

definition model_available :: "vision \<Rightarrow> bool handling" where
  "model_available v = io_bind (io_try (io_bind (call (\<lambda>env n. he_http env n (vh_endpoint v @ ''/models'') None)) (\<lambda>j. io_ret (Some j)))
       (\<lambda>e. os_error e \<or> e = JsonErr) (\<lambda>_. io_ret None)) (\<lambda>answer. case answer of None \<Rightarrow> io_ret False
     | Some j \<Rightarrow> checked_sum (\<lambda>_. sum_bind (case j of JObj d \<Rightarrow> listed (dget_or d ''data'' (JArr [])) | _ \<Rightarrow> Inr [])
         (any_offers {vh_model v, path_name (vh_model v)})))"

fun part_texts :: "json list \<Rightarrow> exn + pystr" where
  "part_texts [] = Inr []"
| "part_texts (j # js) = (case j of JObj d \<Rightarrow> (case dget_or d ''text'' (JStr []) of
       JStr s \<Rightarrow> sum_bind (part_texts js) (\<lambda>r. Inr (s @ r)) | _ \<Rightarrow> Inl TypeErr)
     | _ \<Rightarrow> part_texts js)"

text \<open>\<open>data["choices"][0]["message"]["content"]\<close>, its parts joined, stripped.\<close>

definition answer_text :: "json \<Rightarrow> exn + pystr" where
  "answer_text data = sum_bind (at_key data ''choices'') (\<lambda>cs. sum_bind (at_zero cs) (\<lambda>c. sum_bind (at_key c ''message'') (\<lambda>m.
     sum_bind (at_key m ''content'') (\<lambda>content. sum_bind (case content of JArr parts \<Rightarrow> sum_bind (part_texts parts) (\<lambda>s. Inr (JStr s)) | _ \<Rightarrow> Inr content)
       (\<lambda>text. case text of JStr s \<Rightarrow> if strip s = [] then Inl (ValueErr ''empty vision response'') else Inr (strip s)
         | _ \<Rightarrow> Inl (ValueErr ''empty vision response''))))))"

definition call_endpoint :: "vision \<Rightarrow> pystr \<Rightarrow> json \<Rightarrow> pystr handling" where
  "call_endpoint v path prompt = io_bind (ask_env (\<lambda>env. he_mime env (path_name path))) (\<lambda>mime.
     io_bind (call (\<lambda>env n. he_base64 env n path)) (\<lambda>encoded.
     let body = JObj [(''model'', JStr (vh_model v)),
         (''messages'', JArr [JObj [(''role'', JStr ''user''), (''content'', JArr [
            JObj [(''type'', JStr ''text''), (''text'', prompt)],
            JObj [(''type'', JStr ''image_url''), (''image_url'', JObj [(''url'',
              JStr (''data:'' @ (case mime of None \<Rightarrow> ''None'' | Some m \<Rightarrow> m) @ '';base64,'' @ encoded))])]])]]),
         (''temperature'', JInt 0), (''max_tokens'', JInt 1200)] in
     io_bind (call (\<lambda>env n. he_http env n (vh_endpoint v @ ''/chat/completions'') (Some body))) (\<lambda>data.
       checked_sum (\<lambda>_. answer_text data))))"

text \<open>The text between the fences of a Markdown code block, and from the first opening to the last closing brace.\<close>

definition unfenced :: "pystr \<Rightarrow> pystr" where
  "unfenced raw = (let t = strip raw; ls = splitlines t;
       ls1 = (case ls of [] \<Rightarrow> [] | l # r \<Rightarrow> if starts_with ''```'' l then r else l # r);
       ls2 = (if ls1 \<noteq> [] \<and> strip (last ls1) = ''```'' then butlast ls1 else ls1) in
     if starts_with ''```'' t then strip (join nl ls2) else t)"

definition braced :: "pystr \<Rightarrow> pystr option" where
  "braced t = (let u = rev (dropWhile (\<lambda>c. c \<noteq> CHR 0x7D) (rev (dropWhile (\<lambda>c. c \<noteq> CHR 0x7B) t))) in if u = [] then None else Some u)"

definition parse_output :: "handler_env \<Rightarrow> pystr \<Rightarrow> exn + pydict" where
  "parse_output env raw = (let t = unfenced raw in
     sum_bind (case he_loads env t of Some j \<Rightarrow> Inr j
       | None \<Rightarrow> (case braced t of None \<Rightarrow> Inl (ValueErr ''response is not JSON'')
           | Some u \<Rightarrow> (case he_loads env u of Some j \<Rightarrow> Inr j | None \<Rightarrow> Inl JsonErr)))
       (\<lambda>j. case j of JObj d \<Rightarrow> Inr d | _ \<Rightarrow> Inl (ValueErr ''vision response must be an object'')))"

section \<open>Validating what a vision model answered\<close>

text \<open>A JSON number that is finite, or null.  \<open>math.isfinite\<close> converts an integer to a float, which fails beyond the floats.\<close>

definition float_bound :: int where
  "float_bound = 2 ^ 1024 - 2 ^ 970"

definition finite_number :: "json \<Rightarrow> exn + bool" where
  "finite_number j = (case j of JInt i \<Rightarrow> if \<bar>i\<bar> < float_bound then Inr True else Inl OverflowErr
     | JFloat f \<Rightarrow> Inr (case f of Fin _ \<Rightarrow> True | _ \<Rightarrow> False) | _ \<Rightarrow> Inr False)"

fun numeric_fields :: "(pystr \<Rightarrow> pystr) \<Rightarrow> pydict \<Rightarrow> pystr list \<Rightarrow> exn + pystr option" where
  "numeric_fields msg d [] = Inr None"
| "numeric_fields msg d (n # ns) = (if dget d n = JNull then numeric_fields msg d ns
     else sum_bind (finite_number (dget d n)) (\<lambda>ok. if ok then numeric_fields msg d ns else Inr (Some (msg n))))"

fun check_line_items :: "nat \<Rightarrow> json list \<Rightarrow> exn + pystr option" where
  "check_line_items i [] = Inr None"
| "check_line_items i (j # js) = (let here = ''line_items['' @ show_nat i @ '']'' in
     case j of JObj d \<Rightarrow> (case dget d ''description'' of JStr _ \<Rightarrow>
         sum_bind (numeric_fields (\<lambda>n. here @ ''.'' @ n @ '' must be numeric or null'') d [''quantity'', ''price'']) (\<lambda>err. case err of
           Some e \<Rightarrow> Inr (Some e) | None \<Rightarrow> check_line_items (i + 1) js)
       | _ \<Rightarrow> Inr (Some (here @ '' has no description'')))
     | _ \<Rightarrow> Inr (Some (here @ '' has no description'')))"

definition missing_keys :: "pystr list \<Rightarrow> pydict \<Rightarrow> pystr option" where
  "missing_keys required d = (let missing = sort (filter (\<lambda>k. k \<notin> fst ` set d) required) in
     if missing = [] then None else Some (''missing fields: '' @ list_repr missing))"

definition nonempty_text :: "json \<Rightarrow> bool" where
  "nonempty_text j = (case j of JStr s \<Rightarrow> strip s \<noteq> [] | _ \<Rightarrow> False)"

definition validate_receipt :: "pydict \<Rightarrow> exn + pystr option" where
  "validate_receipt d = (case missing_keys [''merchant'', ''date'', ''currency'', ''totals'', ''line_items''] d of
     Some e \<Rightarrow> Inr (Some e)
   | None \<Rightarrow>
     if \<not> nonempty_text (dget d ''merchant'') then Inr (Some ''merchant must be a non-empty string'')
     else if (case dget d ''date'' of JStr _ \<Rightarrow> False | JNull \<Rightarrow> False | _ \<Rightarrow> True) then Inr (Some ''date must be a string or null'')
     else if (case dget d ''currency'' of JStr s \<Rightarrow> length s \<noteq> 3 | JNull \<Rightarrow> False | _ \<Rightarrow> True)
       then Inr (Some ''currency must be a three-letter code or null'')
     else (case dget d ''totals'' of JObj totals \<Rightarrow>
         sum_bind (numeric_fields (\<lambda>n. ''totals.'' @ n @ '' must be numeric or null'') totals [''subtotal'', ''vat'', ''total'', ''savings'']) (\<lambda>err.
           case err of Some e \<Rightarrow> Inr (Some e)
           | None \<Rightarrow> (case dget d ''line_items'' of JArr js \<Rightarrow> check_line_items 0 js | _ \<Rightarrow> Inr (Some ''line_items must be an array'')))
       | _ \<Rightarrow> Inr (Some ''totals must be an object'')))"

fun check_objects :: "nat \<Rightarrow> json list \<Rightarrow> pystr option" where
  "check_objects i [] = None"
| "check_objects i (j # js) = (let here = ''objects['' @ show_nat i @ '']'' in
     case j of JObj d \<Rightarrow> (case dget d ''label'' of JStr s \<Rightarrow>
         if strip s = [] then Some (here @ ''.label must be non-empty'')
         else if ''attributes'' \<in> fst ` set d \<and> (case dget d ''attributes'' of JObj _ \<Rightarrow> False | _ \<Rightarrow> True)
           then Some (here @ ''.attributes must be an object'')
         else check_objects (i + 1) js
       | _ \<Rightarrow> Some (here @ '' needs a label''))
     | _ \<Rightarrow> Some (here @ '' needs a label''))"

definition is_json_text :: "json \<Rightarrow> bool" where
  "is_json_text j = (case j of JStr _ \<Rightarrow> True | _ \<Rightarrow> False)"

definition confident :: "json \<Rightarrow> exn + bool" where
  "confident j = (if j = JNull then Inr True else sum_bind (finite_number j) (\<lambda>ok. Inr (ok \<and> (case j of
     JInt i \<Rightarrow> 0 \<le> i \<and> i \<le> 1 | JFloat (Fin q) \<Rightarrow> 0 \<le> q \<and> q \<le> 1 | _ \<Rightarrow> False))))"

definition validate_image_description :: "pydict \<Rightarrow> exn + pystr option" where
  "validate_image_description d = (case missing_keys [''description'', ''objects'', ''text'', ''confidence''] d of
     Some e \<Rightarrow> Inr (Some e)
   | None \<Rightarrow>
     if \<not> nonempty_text (dget d ''description'') then Inr (Some ''description must be a non-empty string'')
     else (case (dget d ''objects'', dget d ''text'') of
         (JArr objects, JArr texts) \<Rightarrow> (case check_objects 0 objects of Some e \<Rightarrow> Inr (Some e)
           | None \<Rightarrow> if \<not> list_all is_json_text texts then Inr (Some ''text entries must be strings'')
             else sum_bind (confident (dget d ''confidence'')) (\<lambda>ok. Inr (if ok then None
               else Some ''confidence must be a number from 0 to 1 or null'')))
       | (JArr _, _) \<Rightarrow> Inr (Some ''text must be an array'')
       | _ \<Rightarrow> Inr (Some ''objects must be an array'')))"

definition validate_vision :: "pystr \<Rightarrow> pydict \<Rightarrow> exn + pystr option" where
  "validate_vision schema d = (if schema = ''image_description'' then validate_image_description d
     else if schema \<noteq> ''receipt'' then Inr (Some (''unsupported output schema: '' @ schema))
     else validate_receipt d)"

section \<open>One vision task\<close>

definition vision_answer :: "vision \<Rightarrow> pystr \<Rightarrow> json \<Rightarrow> (run_result + pydict) handling" where
  "vision_answer v path prompt = io_try
     (io_bind (call_endpoint v path prompt) (\<lambda>raw. io_bind (checked_sum (\<lambda>env. parse_output env raw)) (\<lambda>d. io_ret (Inr d))))
     (\<lambda>e. e = UrlErr \<or> invalid_output e) (\<lambda>e. io_ret (Inl (if e = UrlErr then Retry else Failure)))"

definition execute_vision :: "vision \<Rightarrow> pydict \<Rightarrow> run_result handling" where
  "execute_vision v t = io_then (set_last None) (io_bind (image_path t) (\<lambda>found. case found of None \<Rightarrow> io_ret Failure
     | Some path \<Rightarrow> io_bind (validate_image v path) (\<lambda>err. if err \<noteq> None then io_ret Failure
       else io_bind (checked_sum (\<lambda>_. task_payload t)) (\<lambda>p. case schema_for_payload p of None \<Rightarrow> io_ret Failure
         | Some schema \<Rightarrow> io_bind (model_available v) (\<lambda>there. if \<not> there then io_ret WorkerGone
           else io_bind (vision_answer v path (py_or (dget p ''prompt'') (JStr (prompt_for_schema schema)))) (\<lambda>answer. case answer of
             Inl r \<Rightarrow> io_ret r
           | Inr d \<Rightarrow> io_bind (checked_sum (\<lambda>_. validate_vision schema d)) (\<lambda>err. if err \<noteq> None then io_ret Failure
               else io_then (set_last (Some (JObj d)))
                 (io_ret (if dget p ''requires_review'' = JBool True then NeedsReview else Success)))))))))"

section \<open>Processes of the coding and review handlers\<close>

text \<open>A command from a payload or the environment: a line to split, or a sequence of words.\<close>

definition command_words :: "json \<Rightarrow> exn + json list" where
  "command_words j = (case j of JStr s \<Rightarrow> sum_bind (shlex_split s) (\<lambda>ws. Inr (map JStr ws)) | _ \<Rightarrow> listed j)"

fun word_texts :: "json list \<Rightarrow> exn + pystr list" where
  "word_texts [] = Inr []"
| "word_texts (j # js) = (case j of JStr s \<Rightarrow> sum_bind (word_texts js) (\<lambda>ws. Inr (s # ws)) | _ \<Rightarrow> Inl TypeErr)"

definition run_words :: "json list \<Rightarrow> pystr \<Rightarrow> pystr option \<Rightarrow> pyfloat option \<Rightarrow> process_end handling" where
  "run_words ws cwd input limit = io_bind (checked_sum (\<lambda>_. word_texts ws)) (\<lambda>argv. call (\<lambda>env n. he_process env n argv cwd input limit))"

text \<open>A git command with \<open>check=True\<close>.\<close>

definition git_text :: "pystr list \<Rightarrow> pystr \<Rightarrow> pystr handling" where
  "git_text args wt = io_bind (call (\<lambda>env n. he_process env n (''git'' # args) wt None None)) (\<lambda>e. case e of
     Exited rc out err \<Rightarrow> if rc = 0 then io_ret out else io_raise ProcessErr)"

section \<open>Coding\<close>

definition git_status :: "pystr \<Rightarrow> pystr list handling" where
  "git_status wt = io_bind (git_text [''status'', ''--porcelain'', ''--untracked-files=all''] wt) (\<lambda>out.
     io_ret (filter (\<lambda>l. strip l \<noteq> []) (splitlines out)))"

definition git_head :: "pystr \<Rightarrow> pystr handling" where
  "git_head wt = io_try (io_bind (git_text [''rev-parse'', ''HEAD''] wt) (\<lambda>out. io_ret (strip out))) (\<lambda>e. e = ProcessErr) (\<lambda>_. io_ret [])"

definition git_changed_files :: "pystr \<Rightarrow> pystr \<Rightarrow> pystr \<Rightarrow> pystr list handling" where
  "git_changed_files wt tree0 tree1 = io_bind (git_text (if tree0 \<noteq> [] then [''diff'', ''--name-only'', tree0 @ ''..'' @ tree1]
       else [''show'', ''--format='', ''--name-only'', tree1]) wt) (\<lambda>out.
     io_ret (filter (\<lambda>l. l \<noteq> []) (map strip (splitlines out))))"

text \<open>\<open>float(x)\<close>\<close>

definition to_float :: "handler_env \<Rightarrow> json \<Rightarrow> exn + pyfloat" where
  "to_float env j = (case j of JInt i \<Rightarrow> if \<bar>i\<bar> < float_bound then Inr (Fin (of_int i)) else Inl OverflowErr
     | JFloat f \<Rightarrow> Inr f | JBool b \<Rightarrow> Inr (Fin (if b then 1 else 0))
     | JStr s \<Rightarrow> (case he_float env s of Some f \<Rightarrow> Inr f | None \<Rightarrow> Inl (ValueErr ''could not convert string to float''))
     | _ \<Rightarrow> Inl TypeErr)"

definition coding_timeout :: "pyfloat option \<Rightarrow> json \<Rightarrow> pydict \<Rightarrow> handler_env \<Rightarrow> exn + pyfloat" where
  "coding_timeout own profile p env = (let given = dget_or p ''timeout'' (dget p ''timeout_seconds''); slow = (profile = JStr ''slow-coder'') in
     if given \<noteq> JNull then to_float env given
     else (case own of Some f \<Rightarrow> Inr f
       | None \<Rightarrow> to_float env (JStr (case he_getenv env (if slow then ''SLOW_CODER_TIMEOUT'' else ''P40_CODING_TIMEOUT'') of
           Some t \<Rightarrow> t | None \<Rightarrow> if slow then ''3600'' else ''1800''))))"

text \<open>What the executor and the tests did, and the worktree around them.\<close>

record coding_run =
  cr_exit :: int
  cr_out :: pystr
  cr_err :: pystr
  cr_passed :: bool
  cr_tests :: pystr
  cr_status0 :: "pystr list"
  cr_status1 :: "pystr list"
  cr_commit0 :: pystr
  cr_commit1 :: pystr

definition run_test_command :: "json \<Rightarrow> pystr \<Rightarrow> pyfloat \<Rightarrow> int \<Rightarrow> (bool \<times> pystr) handling" where
  "run_test_command command wt limit rc = (if rc = 0 \<and> truthy command
     then io_bind (checked_sum (\<lambda>_. command_words command)) (\<lambda>ws. io_bind (run_words ws wt None (Some limit)) (\<lambda>e. case e of
       Exited rc' out err \<Rightarrow> io_ret (rc' = 0, tail_text 12000 (out @ err))))
     else io_ret (True, []))"

definition run_coder :: "json list \<Rightarrow> pystr \<Rightarrow> pystr \<Rightarrow> pyfloat \<Rightarrow> bool \<Rightarrow> json \<Rightarrow> coding_run handling" where
  "run_coder ws wt instruction limit track tests = io_bind (git_status wt) (\<lambda>st0.
     io_bind (if track then git_head wt else io_ret []) (\<lambda>c0.
     io_bind (run_words ws wt (Some instruction) (Some limit)) (\<lambda>e. case e of Exited rc out err \<Rightarrow>
       io_bind (run_test_command tests wt limit rc) (\<lambda>(ok, shown).
       io_bind (git_status wt) (\<lambda>st1. io_bind (if track then git_head wt else io_ret []) (\<lambda>c1.
         io_ret \<lparr>cr_exit = rc, cr_out = out, cr_err = err, cr_passed = ok, cr_tests = shown, cr_status0 = st0, cr_status1 = st1,
           cr_commit0 = c0, cr_commit1 = c1\<rparr>))))))"

definition coding_report :: "coding_run \<Rightarrow> pystr list \<Rightarrow> pystr list \<Rightarrow> pydict" where
  "coding_report r changed committed = [(''status'', JStr (if cr_exit r = 0 \<and> cr_passed r then ''success'' else ''failed'')),
     (''exit_code'', JInt (cr_exit r)), (''changed_files'', JArr (map JStr changed)), (''committed_files'', JArr (map JStr committed)),
     (''before_commit'', JStr (cr_commit0 r)), (''after_commit'', JStr (cr_commit1 r)), (''stdout'', JStr (tail_text 12000 (cr_out r))),
     (''stderr'', JStr (tail_text 12000 (cr_err r))), (''tests_passed'', JBool (cr_passed r)), (''test_output'', JStr (cr_tests r))]"

text \<open>\<open>manifest.get("review_policy")\<close> of a manifest that is an object, and \<open>dict\<close> of it: a sequence must consist of pairs,
  whose keys are texts in the model.\<close>

definition review_policy :: "pydict \<Rightarrow> json" where
  "review_policy p = (case dget p ''manifest'' of JObj m \<Rightarrow> dget m ''review_policy'' | _ \<Rightarrow> JNull)"

definition pair_of :: "json \<Rightarrow> exn + pystr \<times> json" where
  "pair_of j = (case j of JArr [JStr k, v] \<Rightarrow> Inr (k, v) | JStr [a, b] \<Rightarrow> Inr ([a], JStr [b]) | JObj [(a, _), (b, _)] \<Rightarrow> Inr (a, JStr b)
     | JArr [_, _] \<Rightarrow> Inl TypeErr | JArr _ \<Rightarrow> Inl (ValueErr []) | JStr _ \<Rightarrow> Inl (ValueErr []) | JObj _ \<Rightarrow> Inl (ValueErr []) | _ \<Rightarrow> Inl TypeErr)"

fun dict_of_pairs :: "json list \<Rightarrow> pydict \<Rightarrow> exn + pydict" where
  "dict_of_pairs [] d = Inr d"
| "dict_of_pairs (j # js) d = sum_bind (pair_of j) (\<lambda>(k, v). dict_of_pairs js (dput d k v))"

definition dict_of :: "json \<Rightarrow> exn + pydict" where
  "dict_of j = (case j of JObj d \<Rightarrow> Inr d | _ \<Rightarrow> sum_bind (listed j) (\<lambda>js. dict_of_pairs js []))"

text \<open>After the run: the verdict on the worktree.\<close>

definition judge_coding :: "pydict \<Rightarrow> pystr \<Rightarrow> coding_run \<Rightarrow> run_result handling" where
  "judge_coding p wt r = (let new = filter (\<lambda>l. l \<notin> set (cr_status0 r)) (cr_status1 r) in
     io_bind (if cr_commit0 r \<noteq> cr_commit1 r then git_changed_files wt (cr_commit0 r) (cr_commit1 r) else io_ret []) (\<lambda>committed.
     let changed = sort (remdups (new @ committed)); report = coding_report r changed committed in
     io_then (set_last (Some (JObj report)))
     (if cr_exit r \<noteq> 0 \<or> \<not> cr_passed r then io_ret Failure
      else io_bind (if truthy (dget_or p ''require_commit'' (JBool True)) then git_status wt else io_ret []) (\<lambda>dirty.
        if dirty \<noteq> [] then io_then (set_last (Some (JObj (dput report ''status'' (JStr ''failed_dirty_worktree''))))) (io_ret Failure)
        else if changed = [] \<and> \<not> truthy (dget_or p ''allow_no_change'' (JBool False))
          then io_then (set_last (Some (JObj (dput report ''status'' (JStr ''failed_no_change''))))) (io_ret Failure)
        else if truthy (review_policy p)
          then io_then (set_last (Some (JObj (dput report ''status'' (JStr ''awaiting_review'')))))
            (io_bind (checked_sum (\<lambda>_. dict_of (review_policy p))) (\<lambda>d.
               io_then (set_last (Some (JObj (dput (dput report ''status'' (JStr ''awaiting_review'')) ''review_policy'' (JObj d)))))
                 (io_ret NeedsReview)))
        else io_ret Success))))"

definition execute_coding :: "pyfloat option \<Rightarrow> pydict \<Rightarrow> run_result handling" where
  "execute_coding own t = io_then (set_last None) (io_bind (checked_sum (\<lambda>_. task_payload t)) (\<lambda>p.
     let profile = py_or (dget t ''worker_profile'') (py_or (dget p ''worker_profile'') (JStr ''p40-coding''));
         worktree = py_or (dget p ''worktree_path'') (dget p ''repository_path'') in
     io_bind (ask_env (\<lambda>env. py_or (dget p ''executor_command'')
        (text_json (he_getenv env (if profile = JStr ''slow-coder'' then ''SLOW_CODER_COMMAND'' else ''P40_CODING_COMMAND''))))) (\<lambda>command.
     if \<not> truthy worktree \<or> \<not> truthy command then io_ret WorkerGone
     else io_bind (ask_env (\<lambda>env. he_expand env (json_str env worktree))) (\<lambda>wt.
     io_bind (call (\<lambda>env n. Ok (he_is_dir env n wt))) (\<lambda>dir. if \<not> dir then io_ret Failure
     else io_bind (checked_sum (\<lambda>_. command_words command)) (\<lambda>ws. if ws = [] then io_ret WorkerGone
     else io_bind (ask_env (\<lambda>env. json_str env (py_or (dget p ''instruction'') (py_or (dget p ''goal'') (JStr ''Implement the task.''))))) (\<lambda>instruction.
     io_bind (checked_sum (coding_timeout own profile p)) (\<lambda>limit.
     io_bind (io_try (io_bind (run_coder ws wt instruction limit (truthy (dget_or p ''require_commit'' (JBool True))) (dget p ''test_command''))
          (\<lambda>r. io_ret (Some r)))
        (\<lambda>e. os_error e \<or> e = Expired)
        (\<lambda>e. io_bind (ask_env (\<lambda>env. exn_str env e)) (\<lambda>msg.
           io_then (set_last (Some (JObj [(''error'', JStr msg), (''status'', JStr ''executor_error'')]))) (io_ret None)))) (\<lambda>run. case run of
       None \<Rightarrow> io_ret Retry
     | Some r \<Rightarrow> judge_coding p wt r)))))))))"

definition validate_coding :: "json \<Rightarrow> pystr option" where
  "validate_coding j = (case j of JObj d \<Rightarrow> if dget d ''status'' = JStr ''success'' then None else Some ''coding task did not succeed''
     | _ \<Rightarrow> Some ''coding output must be an object'')"

section \<open>Review\<close>

definition review_commands :: "pydict \<Rightarrow> pydict \<Rightarrow> handler_env \<Rightarrow> (pystr \<times> json) list" where
  "review_commands t p env = (let
       var = (\<lambda>v. text_json (he_getenv env v)); selected = py_or (dget t ''worker_profile'') (dget t ''review_worker'') in
     if selected = JStr ''air-review''
     then [(''air-review'', py_or (dget p ''air_review_command'') (py_or (dget p ''review_command'') (var ''AIR_REVIEW_COMMAND'')))]
     else [(''codex-review'', py_or (dget p ''codex_review_command'') (py_or (dget p ''review_command'')
              (py_or (var ''CODEX_REVIEW_COMMAND'') (var ''CODEX_COMMAND'')))),
           (''air-review'', py_or (dget p ''air_review_command'') (var ''AIR_REVIEW_COMMAND''))])"

fun untracked_content :: "pystr \<Rightarrow> pystr list \<Rightarrow> pystr handling" where
  "untracked_content wt [] = io_ret []"
| "untracked_content wt (f # fs) = io_bind (call (\<lambda>env n. he_file env n wt f)) (\<lambda>c. io_bind (untracked_content wt fs) (\<lambda>r.
     io_ret ((case c of None \<Rightarrow> [] | Some b \<Rightarrow> f @ [CHR 0x00] @ b) @ r)))"

definition review_snapshot :: "pystr \<Rightarrow> (pystr \<times> pystr) option handling" where
  "review_snapshot wt = io_try
     (io_bind (git_text [''rev-parse'', ''HEAD''] wt) (\<lambda>out. let head = strip out in
      io_bind (git_text [''diff'', ''--binary'', ''HEAD''] wt) (\<lambda>diff.
      io_bind (git_text [''ls-files'', ''--others'', ''--exclude-standard''] wt) (\<lambda>others.
      io_bind (untracked_content wt (sort (splitlines others))) (\<lambda>bytes.
      io_bind (ask_env (\<lambda>env. he_sha env (head @ [CHR 0x00] @ diff @ [CHR 0x00] @ bytes))) (\<lambda>digest. io_ret (Some (head, digest))))))))
     (\<lambda>e. os_error e \<or> e = ProcessErr) (\<lambda>_. io_ret None)"

definition no_review :: "pystr \<Rightarrow> pydict \<Rightarrow> pystr \<Rightarrow> json" where
  "no_review worker extra evidence = JObj ([(''reviewer'', JStr worker), (''status'', JStr ''unavailable''),
     (''failure_kind'', JStr ''review_unavailable'')] @ extra @ [(''evidence'', JArr [JStr evidence])])"

definition rejected_review :: "pystr \<Rightarrow> pystr \<Rightarrow> pydict \<Rightarrow> pystr \<Rightarrow> json" where
  "rejected_review worker kind extra evidence = JObj ([(''reviewer'', JStr worker), (''status'', JStr ''rejected''), (''failure_kind'', JStr kind),
     (''passed'', JBool False), (''findings'', JArr [])] @ extra @ [(''evidence'', JArr [JStr evidence])])"

definition review_schema :: json where
  "review_schema = (let texts = JObj [(''type'', JStr ''array''), (''items'', JObj [(''type'', JStr ''string'')])] in
     JObj [(''type'', JStr ''object''), (''properties'', JObj [(''passed'', JObj [(''type'', JStr ''boolean'')]), (''findings'', texts), (''evidence'', texts)]),
       (''required'', JArr [JStr ''passed'', JStr ''findings'', JStr ''evidence'']), (''additionalProperties'', JBool False)])"

definition review_instruction :: pystr where
  "review_instruction = ''Inspect the current worktree without making changes. '' @ ''Return only JSON matching the supplied output schema. '' @
     ''Do not run pytest or other commands that require a '' @ ''writable temporary directory. Only inspect files under '' @
     ''the current worktree; do not search parent directories.''"

text \<open>The command line, the standard input and the schema file; Codex itself gets its options, a schema and an instruction.\<close>

definition review_call :: "pydict \<Rightarrow> pystr \<Rightarrow> pystr \<Rightarrow> json list \<Rightarrow> (json list \<times> json \<times> pystr option) handling" where
  "review_call t wt worker argv = (if worker \<noteq> ''codex-review'' then io_ret (argv, JObj t, None)
     else io_bind (checked_sum (\<lambda>_. word_texts [hd argv])) (\<lambda>words. if path_name (hd words) \<noteq> ''codex'' then io_ret (argv, JObj t, None)
       else io_bind (call (\<lambda>env n. he_schema env n review_schema)) (\<lambda>schema. io_ret
         ((if JStr ''exec'' \<in> set (tl argv) then argv else hd argv # JStr ''exec'' # tl argv) @
            map JStr [''--ephemeral'', ''--cd'', wt, ''--output-schema'', schema],
          JObj (dput t ''instruction'' (JStr review_instruction)), Some schema))))"

definition mutated_review :: "pystr \<Rightarrow> run_result \<times> json" where
  "mutated_review worker = (Failure, rejected_review worker ''review_mutated'' []
     (worker @ '' review modified the worktree; reviewer execution is read-only''))"

fun check_findings :: "json list \<Rightarrow> pystr option" where
  "check_findings [] = None"
| "check_findings (j # js) = (case j of JStr _ \<Rightarrow> check_findings js
     | JObj d \<Rightarrow> if truthy (dget d ''id'') \<and> truthy (dget d ''severity'') then check_findings js
         else Some ''each finding needs id and severity''
     | _ \<Rightarrow> Some ''each finding needs id and severity'')"

definition validate_review :: "pydict \<Rightarrow> pystr option" where
  "validate_review d = (case dget d ''passed'' of JBool _ \<Rightarrow> (case dget d ''findings'' of JArr js \<Rightarrow> check_findings js
       | _ \<Rightarrow> Some ''review output findings must be an array'')
     | _ \<Rightarrow> Some ''review output passed must be boolean'')"

text \<open>\<open>dict.setdefault\<close>\<close>

definition dput_new :: "pydict \<Rightarrow> pystr \<Rightarrow> json \<Rightarrow> pydict" where
  "dput_new d k v = (if k \<in> fst ` set d then d else d @ [(k, v)])"

definition review_verdict :: "pystr \<Rightarrow> pydict \<Rightarrow> run_result \<times> json" where
  "review_verdict worker d = (case validate_review d of
     Some err \<Rightarrow> (Failure, JObj (dput (dput (dput (dput (dput (dput d ''reviewer'' (JStr worker)) ''status'' (JStr ''rejected''))
         ''failure_kind'' (JStr ''invalid_review_output'')) ''passed'' (JBool False)) ''error'' (JStr err))
         ''evidence'' (JArr [JStr (worker @ '' review output failed validation: '' @ err)])))
   | None \<Rightarrow> let passed = (dget d ''passed'' = JBool True) in
       (if passed then Success else Failure, JObj (dput (dput (dput_new (dput d ''reviewer'' (JStr worker)) ''evidence'' (JArr []))
         ''status'' (JStr (if passed then ''approved'' else ''rejected''))) ''failure_kind'' (JStr (if passed then ''approved'' else ''rejected_code'')))))"

text \<open>The process between two snapshots; \<open>tree0\<close> is the first.\<close>

definition reviewed_process :: "pystr \<Rightarrow> pystr \<Rightarrow> pystr \<times> pystr \<Rightarrow> json list \<Rightarrow> json \<Rightarrow> pyfloat \<Rightarrow> (run_result \<times> json) handling" where
  "reviewed_process worker wt tree0 argv input limit = io_bind (ask_env (\<lambda>env. he_dumps env input)) (\<lambda>shown.
     io_bind (run_words argv wt (Some shown) (Some limit)) (\<lambda>e. case e of Exited rc out err \<Rightarrow>
     io_bind (review_snapshot wt) (\<lambda>tree1.
       if tree1 \<noteq> Some tree0 then io_ret (mutated_review worker)
       else if rc \<noteq> 0 then io_ret (WorkerGone, no_review worker [(''exit_code'', JInt rc), (''error'', JStr (tail_text 1000 err))]
         (worker @ '' reviewer exited with status '' @ show_int rc))
       else io_bind (checked_sum (\<lambda>env. parse_output env out)) (\<lambda>d. io_ret (review_verdict worker d)))))"

definition failed_launch :: "pystr \<Rightarrow> pystr \<Rightarrow> pystr \<times> pystr \<Rightarrow> exn \<Rightarrow> (run_result \<times> json) handling" where
  "failed_launch worker wt tree0 e = io_bind (review_snapshot wt) (\<lambda>tree1. io_bind (ask_env (\<lambda>env. exn_str env e)) (\<lambda>msg.
     io_ret (if tree1 \<noteq> Some tree0 then mutated_review worker
       else (WorkerGone, no_review worker [(''error'', JStr msg), (''timeout'', JBool (e = Expired))] (worker @ '' reviewer unavailable: '' @ msg)))))"

definition invalid_review :: "pystr \<Rightarrow> exn \<Rightarrow> (run_result \<times> json) handling" where
  "invalid_review worker e = io_bind (ask_env (\<lambda>env. exn_str env e)) (\<lambda>msg. io_ret (Failure,
     rejected_review worker ''invalid_review_output'' [(''error'', JStr msg)] (worker @ '' review output was invalid: '' @ msg)))"

text \<open>A first snapshot that cannot be decoded counts as invalid output.\<close>

definition first_snapshot :: "pystr \<Rightarrow> pystr \<Rightarrow> ((run_result \<times> json) + pystr \<times> pystr) handling" where
  "first_snapshot worker wt = io_try (io_bind (review_snapshot wt) (\<lambda>tree. io_ret (case tree of
       None \<Rightarrow> Inl (Failure, rejected_review worker ''review_mutation_check_failed'' [] ''Unable to fingerprint the worktree before review'')
     | Some tree0 \<Rightarrow> Inr tree0))) invalid_output (\<lambda>e. io_bind (invalid_review worker e) (\<lambda>r. io_ret (Inl r)))"

definition execute_command :: "pyfloat \<Rightarrow> pydict \<Rightarrow> pystr \<Rightarrow> pystr \<Rightarrow> json \<Rightarrow> (run_result \<times> json) handling" where
  "execute_command limit t wt worker command = (if \<not> truthy command
     then io_ret (WorkerGone, no_review worker [] (worker @ '' command is not configured''))
     else io_bind (checked_sum (\<lambda>_. command_words command)) (\<lambda>argv0. if argv0 = []
     then io_ret (WorkerGone, no_review worker [] (worker @ '' command is empty''))
     else io_bind (review_call t wt worker argv0) (\<lambda>(argv, input, schema). finally_do
       (io_bind (first_snapshot worker wt) (\<lambda>tree. case tree of
          Inl r \<Rightarrow> io_ret r
        | Inr tree0 \<Rightarrow> io_try (reviewed_process worker wt tree0 argv input limit) (\<lambda>e. os_error e \<or> e = Expired \<or> invalid_output e)
            (\<lambda>e. if invalid_output e then invalid_review worker e else failed_launch worker wt tree0 e)))
       (case schema of None \<Rightarrow> io_ret () | Some path \<Rightarrow> call (\<lambda>env n. he_unlink env n path)))))"

definition review_summary :: "json list \<Rightarrow> pydict" where
  "review_summary attempts = [(''review_attempts'', JArr attempts), (''fallback_used'', JBool (1 < length attempts))]"

text \<open>One reviewer after the other, until one gives a verdict.\<close>

fun try_reviewers :: "pyfloat \<Rightarrow> pydict \<Rightarrow> pystr \<Rightarrow> json list \<Rightarrow> (pystr \<times> json) list \<Rightarrow> run_result handling" where
  "try_reviewers limit t wt attempts [] = io_then (set_last (Some (JObj ([(''status'', JStr ''unavailable''),
     (''failure_kind'', JStr ''review_unavailable'')] @ review_summary attempts)))) (io_ret WorkerGone)"
| "try_reviewers limit t wt attempts ((worker, command) # rest) = io_bind (execute_command limit t wt worker command) (\<lambda>(r, out).
     let attempts' = attempts @ [out] in
     if r = Success \<or> r = Failure
     then io_then (set_last (Some (JObj (case out of JObj d \<Rightarrow> fold (\<lambda>(k, v) m. dput m k v) (review_summary attempts') d | _ \<Rightarrow> []))))
       (io_ret r)
     else if r \<noteq> WorkerGone then io_ret r else try_reviewers limit t wt attempts' rest)"

definition execute_review :: "pyfloat \<Rightarrow> pydict \<Rightarrow> run_result handling" where
  "execute_review limit t = io_then (set_last None) (io_bind (checked_sum (\<lambda>_. task_payload t)) (\<lambda>p.
     let worktree = py_or (dget p ''worktree_path'') (dget p ''repository_path'') in
     if \<not> truthy worktree then io_ret WorkerGone
     else io_bind (ask_env (\<lambda>env. he_expand env (json_str env worktree))) (\<lambda>wt.
     io_bind (call (\<lambda>env n. Ok (he_is_dir env n wt))) (\<lambda>dir. if \<not> dir then io_ret Failure
     else io_bind (ask_env (review_commands t p)) (try_reviewers limit t wt [])))))"

section \<open>Choosing a handler\<close>

datatype handler = VisionHandler | CodingHandler | ReviewHandler

fun handler_type :: "handler \<Rightarrow> pystr" where
  "handler_type VisionHandler = ''vision''"
| "handler_type CodingHandler = ''coding''"
| "handler_type ReviewHandler = ''review''"

definition all_handlers :: "handler list" where
  "all_handlers = [VisionHandler, CodingHandler, ReviewHandler]"

definition review_task :: "pydict \<Rightarrow> bool" where
  "review_task t = (truthy (dget t ''review_tag'') \<or> truthy (dget t ''review_worker''))"

fun can_handle :: "handler \<Rightarrow> pydict \<Rightarrow> bool" where
  "can_handle VisionHandler t = (dget t ''kind'' = JStr ''vision'')"
| "can_handle CodingHandler t = (dget t ''kind'' = JStr ''coding'')"
| "can_handle ReviewHandler t = (dget t ''kind'' = JStr ''review'' \<or> review_task t)"

definition get_handler_for_task :: "pydict \<Rightarrow> handler option" where
  "get_handler_for_task t = (if review_task t then Some ReviewHandler
     else if \<not> truthy (dget t ''kind'') then None
     else find (\<lambda>h. JStr (handler_type h) = dget t ''kind'') all_handlers)"

text \<open>The handlers with their configuration, and what they run.\<close>

record handler_set =
  hs_vision :: vision
  hs_coding :: "pyfloat option"
  hs_review :: pyfloat

fun execute_handler :: "handler_set \<Rightarrow> handler \<Rightarrow> pydict \<Rightarrow> run_result handling" where
  "execute_handler hs VisionHandler t = execute_vision (hs_vision hs) t"
| "execute_handler hs CodingHandler t = execute_coding (hs_coding hs) t"
| "execute_handler hs ReviewHandler t = execute_review (hs_review hs) t"

end
