(* ===== verification/HandlerProps.thy ===== *)
theory HandlerProps
  imports Handlers
begin

text \<open>
  What a successful task handler has seen: a reviewer that approved and touched nothing, an executor and tests
  that exited without an error on a clean worktree, an answer of the vision model that is what was asked for.
\<close>

section \<open>Steps that return\<close>

lemma call_Ok: "call f env s = (Ok a, s') \<longleftrightarrow> f env (hn_tick s) = Ok a \<and> s' = s\<lparr>hn_tick := hn_tick s + 1\<rparr>"
  by (auto simp: call_def)

lemma set_last_Ok: "set_last j env s = (Ok a, s') \<longleftrightarrow> s' = s\<lparr>hn_last := j\<rparr>"
  by (auto simp: set_last_def)

lemmas handled = returns finally_Ok call_Ok ask_env_Ok set_last_Ok checked_Ok

text \<open>The directory a payload names.\<close>

definition task_worktree :: "handler_env \<Rightarrow> pydict \<Rightarrow> pystr" where
  "task_worktree env p = he_expand env (json_str env (py_or (dget p ''worktree_path'') (dget p ''repository_path'')))"

section \<open>Review\<close>

lemma dget_dput_new: "dget (dput_new d k v) k' = (if k' = k \<and> k \<notin> fst ` set d then v else dget d k')"
proof (cases "k \<in> fst ` set d")
  case False
  then have "map_of d k = None" by (simp add: map_of_eq_None_iff)
  then show ?thesis using False by (auto simp: dput_new_def dget_def map_add_def split: option.splits)
qed (simp add: dput_new_def)

lemma review_verdict_Success: "review_verdict worker d = (Success, out) \<Longrightarrow>
    validate_review d = None \<and> dget d ''passed'' = JBool True \<and>
    (\<exists>l. out = JObj l \<and> dget l ''reviewer'' = JStr worker \<and> dget l ''status'' = JStr ''approved'' \<and> dget l ''passed'' = JBool True)"
  by (auto simp: review_verdict_def Let_def dget_dput dget_dput_new split: option.splits if_splits)

text \<open>An approval by one reviewer: \<open>words\<close> is its command, \<open>l\<close> its result.\<close>

definition approved_review :: "handler_env \<Rightarrow> pyfloat \<Rightarrow> pystr \<Rightarrow> pystr \<Rightarrow> json \<Rightarrow> pydict \<Rightarrow> bool" where
  "approved_review env limit wt worker command l = (truthy command \<and> (\<exists>argv input out err d tree s1 s2 s3 s4.
     review_snapshot wt env s1 = (Ok (Some tree), s2) \<and>
     he_process env (hn_tick s2) argv wt (Some input) (Some limit) = Ok (Exited 0 out err) \<and> hn_tick s3 = hn_tick s2 + 1 \<and>
     review_snapshot wt env s3 = (Ok (Some tree), s4) \<and>
     parse_output env out = Inr d \<and> validate_review d = None \<and> dget d ''passed'' = JBool True \<and>
     dget l ''reviewer'' = JStr worker \<and> dget l ''status'' = JStr ''approved'' \<and> dget l ''passed'' = JBool True))"

lemma command_approval:
  assumes "execute_command limit t wt worker command env s = (Ok (Success, out), s')"
  shows "\<exists>l. out = JObj l \<and> approved_review env limit wt worker command l"
proof -
  have command: "truthy command"
    using assms by (auto simp: execute_command_def handled split: if_splits)
  obtain argv input s0 s1 tree0 s2 s3 where first: "first_snapshot worker wt env s1 = (Ok tree0, s2)"
    and next_step: "(case tree0 of Inl r \<Rightarrow> io_ret r | Inr tree0 \<Rightarrow> io_try (reviewed_process worker wt tree0 argv input limit)
       (\<lambda>e. os_error e \<or> e = Expired \<or> invalid_output e)
       (\<lambda>e. if invalid_output e then invalid_review worker e else failed_launch worker wt tree0 e)) env s2 = (Ok (Success, out), s3)"
    using assms by (auto simp: execute_command_def handled split: if_splits prod.splits)
  obtain tree0 s1 where tree0: "review_snapshot wt env s1 = (Ok (Some tree0), s2)"
    and run: "reviewed_process worker wt tree0 argv input limit env s2 = (Ok (Success, out), s3)"
    using first next_step by (auto simp: first_snapshot_def handled failed_launch_def invalid_review_def mutated_review_def
      split: if_splits option.splits sum.splits)
  obtain words rc o1 err s3 tree1 s4 where w: "he_process env (hn_tick s2) words wt (Some (he_dumps env input)) (Some limit) = Ok (Exited rc o1 err)"
    "s3 = s2\<lparr>hn_tick := hn_tick s2 + 1\<rparr>" "review_snapshot wt env s3 = (Ok tree1, s4)"
    "tree1 = Some tree0" "rc = 0" "\<exists>d. parse_output env o1 = Inr d \<and> review_verdict worker d = (Success, out)"
    using run by (auto simp: reviewed_process_def run_words_def handled mutated_review_def split: if_splits)
  then obtain d where d: "parse_output env o1 = Inr d" "review_verdict worker d = (Success, out)" by blast
  obtain l where l: "out = JObj l" "dget l ''reviewer'' = JStr worker" "dget l ''status'' = JStr ''approved''" "dget l ''passed'' = JBool True"
    and ok: "validate_review d = None" "dget d ''passed'' = JBool True"
    using review_verdict_Success [OF d(2)] by blast
  have tick: "hn_tick s3 = hn_tick s2 + 1" by (simp add: w(2))
  have "approved_review env limit wt worker command l"
    unfolding approved_review_def
    by (rule conjI [OF command], (rule exI)+, intro conjI, rule tree0, rule w(1) [unfolded w(5)], rule tick, rule w(3) [unfolded w(4)],
      rule d(1), rule ok, rule ok, rule l, rule l, rule l)
  then show ?thesis using l(1) by blast
qed

lemma tried_approval:
  assumes "try_reviewers limit t wt attempts cs env s = (Ok Success, s')"
  shows "\<exists>worker command l. (worker, command) \<in> set cs \<and> hn_last s' = Some (JObj l) \<and> approved_review env limit wt worker command l"
  using assms
proof (induction cs arbitrary: attempts s)
  case Nil
  then show ?case by (simp add: handled)
next
  case (Cons c cs)
  obtain worker command where c: "c = (worker, command)" by (cases c)
  from Cons.prems obtain r out s1 where run: "execute_command limit t wt worker command env s = (Ok (r, out), s1)"
    and rest: "(let attempts' = attempts @ [out] in
     if r = Success \<or> r = Failure
     then io_then (set_last (Some (JObj (case out of JObj d \<Rightarrow> fold (\<lambda>(k, v) m. dput m k v) (review_summary attempts') d | _ \<Rightarrow> []))))
       (io_ret r)
     else if r \<noteq> WorkerGone then io_ret r else try_reviewers limit t wt attempts' cs) env s1 = (Ok Success, s')"
    unfolding c by (auto simp: bind_Ok)
  show ?case
  proof (cases "r = Success")
    case True
    obtain l where l: "out = JObj l" "approved_review env limit wt worker command l"
      using command_approval run True by blast
    let ?l = "fold (\<lambda>(k, v) m. dput m k v) (review_summary (attempts @ [out])) l"
    have "hn_last s' = Some (JObj ?l)" using rest True l(1) by (auto simp: handled Let_def)
    moreover have "approved_review env limit wt worker command ?l"
      using l(2) by (simp add: approved_review_def review_summary_def dget_dput)
    ultimately show ?thesis using c by auto
  next
    case False
    then have "try_reviewers limit t wt (attempts @ [out]) cs env s1 = (Ok Success, s')"
      using rest by (auto simp: handled Let_def split: if_splits)
    then show ?thesis using Cons.IH by fastforce
  qed
qed


section \<open>Coding\<close>

lemma tested_run:
  assumes "run_test_command command wt limit rc env s = (Ok (True, shown), s')" "rc = 0" "truthy command"
  shows "\<exists>argv n out err. he_process env n argv wt None (Some limit) = Ok (Exited 0 out err)"
  using assms by (auto simp: run_test_command_def run_words_def handled)

lemma coder_run:
  assumes "run_coder ws wt instruction limit track tests env s = (Ok r, s')" "cr_exit r = 0" "cr_passed r"
  shows "(\<exists>argv n out err. he_process env n argv wt (Some instruction) (Some limit) = Ok (Exited 0 out err)) \<and>
    (truthy tests \<longrightarrow> (\<exists>argv n out err. he_process env n argv wt None (Some limit) = Ok (Exited 0 out err)))"
proof -
  obtain rc out err argv n ok shown s1 s2 where run: "he_process env n argv wt (Some instruction) (Some limit) = Ok (Exited rc out err)"
    "run_test_command tests wt limit rc env s1 = (Ok (ok, shown), s2)" "cr_exit r = rc" "cr_passed r = ok"
    using assms(1) by (auto simp: run_coder_def run_words_def handled split: prod.splits)
  have rc: "rc = 0" and ok: "ok = True" using run(3,4) assms(2,3) by simp_all
  show ?thesis using run(1) tested_run [OF run(2) [unfolded ok] rc] unfolding rc by blast
qed

lemma status_last: "git_status wt env s = (Ok ls, s') \<Longrightarrow> hn_last s' = hn_last s"
  by (auto simp: git_status_def git_text_def handled split: if_splits)

lemma judged_coding:
  assumes "judge_coding p wt r env s = (Ok x, s')" "x \<in> {Success, NeedsReview}"
  shows "cr_exit r = 0 \<and> cr_passed r \<and> (x = NeedsReview \<longleftrightarrow> truthy (review_policy p)) \<and>
    (\<exists>l files. hn_last s' = Some (JObj l) \<and> dget l ''exit_code'' = JInt 0 \<and> dget l ''tests_passed'' = JBool True \<and>
       dget l ''changed_files'' = JArr (map JStr files) \<and> (files \<noteq> [] \<or> truthy (dget_or p ''allow_no_change'' (JBool False))) \<and>
       dget l ''status'' = JStr (if x = NeedsReview then ''awaiting_review'' else ''success'')) \<and>
    (truthy (dget_or p ''require_commit'' (JBool True)) \<longrightarrow> (\<exists>s1 s2. git_status wt env s1 = (Ok [], s2)))"
proof -
  let ?new = "filter (\<lambda>l. l \<notin> set (cr_status0 r)) (cr_status1 r)"
  obtain committed s1 where c: "(if cr_commit0 r \<noteq> cr_commit1 r then git_changed_files wt (cr_commit0 r) (cr_commit1 r) else io_ret []) env s = (Ok committed, s1)"
    and rest: "(let changed = sort (remdups (?new @ committed)); report = coding_report r changed committed in
     io_then (set_last (Some (JObj report)))
     (if cr_exit r \<noteq> 0 \<or> \<not> cr_passed r then io_ret Failure
      else io_bind (if truthy (dget_or p ''require_commit'' (JBool True)) then git_status wt else io_ret []) (\<lambda>dirty.
        if dirty \<noteq> [] then io_then (set_last (Some (JObj (dput report ''status'' (JStr ''failed_dirty_worktree''))))) (io_ret Failure)
        else if changed = [] \<and> \<not> truthy (dget_or p ''allow_no_change'' (JBool False))
          then io_then (set_last (Some (JObj (dput report ''status'' (JStr ''failed_no_change''))))) (io_ret Failure)
        else if truthy (review_policy p)
          then io_then (set_last (Some (JObj (dput report ''status'' (JStr ''awaiting_review'')))))
            (io_bind (checked_sum (\<lambda>_. dict_of (review_policy p))) (\<lambda>d.
               io_then (set_last (Some (JObj (dput (dput report ''status'' (JStr ''awaiting_review'')) ''review_policy'' (JObj d)))))
                 (io_ret NeedsReview)))
        else io_ret Success))) env s1 = (Ok x, s')"
    using assms(1) unfolding judge_coding_def Let_def bind_Ok by blast
  define changed where "changed = sort (remdups (?new @ committed))"
  define report where "report = coding_report r changed committed"
  have exit: "cr_exit r = 0" "cr_passed r"
    using rest assms(2) by (auto simp: handled Let_def split: if_splits)
  have fields: "dget report ''exit_code'' = JInt 0" "dget report ''tests_passed'' = JBool True"
      "dget report ''changed_files'' = JArr (map JStr changed)" "dget report ''status'' = JStr ''success''"
    using exit by (simp_all add: report_def coding_report_def dget_def)
  let ?final = "\<lambda>dirty. if dirty \<noteq> [] then io_then (set_last (Some (JObj (dput report ''status'' (JStr ''failed_dirty_worktree''))))) (io_ret Failure)
        else if changed = [] \<and> \<not> truthy (dget_or p ''allow_no_change'' (JBool False))
          then io_then (set_last (Some (JObj (dput report ''status'' (JStr ''failed_no_change''))))) (io_ret Failure)
        else if truthy (review_policy p)
          then io_then (set_last (Some (JObj (dput report ''status'' (JStr ''awaiting_review'')))))
            (io_bind (checked_sum (\<lambda>_. dict_of (review_policy p))) (\<lambda>d.
               io_then (set_last (Some (JObj (dput (dput report ''status'' (JStr ''awaiting_review'')) ''review_policy'' (JObj d)))))
                 (io_ret NeedsReview)))
        else io_ret Success"
  have "io_bind (if truthy (dget_or p ''require_commit'' (JBool True)) then git_status wt else io_ret []) ?final
      env (s1\<lparr>hn_last := Some (JObj report)\<rparr>) = (Ok x, s')"
    using rest exit unfolding Let_def changed_def [symmetric] report_def [symmetric] by (simp add: then_Ok set_last_Ok)
  then obtain dirty s3 where status: "(if truthy (dget_or p ''require_commit'' (JBool True)) then git_status wt else io_ret []) env
      (s1\<lparr>hn_last := Some (JObj report)\<rparr>) = (Ok dirty, s3)" and final: "?final dirty env s3 = (Ok x, s')"
    unfolding bind_Ok by blast
  have s3: "hn_last s3 = Some (JObj report)"
    using status status_last by (cases "truthy (dget_or p ''require_commit'' (JBool True))") (fastforce simp: ret_Ok)+
  have clean: "dirty = []" "changed \<noteq> [] \<or> truthy (dget_or p ''allow_no_change'' (JBool False))"
    using final assms(2) by (auto simp: handled split: if_splits)
  have last: "if truthy (review_policy p)
      then x = NeedsReview \<and> (\<exists>d. hn_last s' = Some (JObj (dput (dput report ''status'' (JStr ''awaiting_review'')) ''review_policy'' (JObj d))))
      else x = Success \<and> hn_last s' = Some (JObj report)"
    using final clean s3 by (auto simp: handled split: if_splits)
  have "truthy (dget_or p ''require_commit'' (JBool True)) \<longrightarrow> (\<exists>s1 s2. git_status wt env s1 = (Ok [], s2))"
  proof (intro impI exI)
    assume "truthy (dget_or p ''require_commit'' (JBool True))"
    then show "git_status wt env (s1\<lparr>hn_last := Some (JObj report)\<rparr>) = (Ok [], s3)" using status clean(1) by simp
  qed
  moreover have "\<exists>l. hn_last s' = Some (JObj l) \<and> dget l ''exit_code'' = JInt 0 \<and> dget l ''tests_passed'' = JBool True \<and>
       dget l ''changed_files'' = JArr (map JStr changed) \<and>
       dget l ''status'' = JStr (if x = NeedsReview then ''awaiting_review'' else ''success'')"
    using last fields by (auto simp: dget_dput split: if_splits)
  moreover have "x = NeedsReview \<longleftrightarrow> truthy (review_policy p)" using last by (auto split: if_splits)
  ultimately show ?thesis using exit clean(2) by blast
qed


section \<open>Vision\<close>

definition number_or_null :: "json \<Rightarrow> bool" where
  "number_or_null j = (j = JNull \<or> finite_number j = Inr True)"

definition valid_line_item :: "json \<Rightarrow> bool" where
  "valid_line_item j = (\<exists>i. j = JObj i \<and> is_json_text (dget i ''description'') \<and> number_or_null (dget i ''quantity'') \<and> number_or_null (dget i ''price''))"

definition valid_receipt :: "pydict \<Rightarrow> bool" where
  "valid_receipt d = ({''merchant'', ''date'', ''currency'', ''totals'', ''line_items''} \<subseteq> fst ` set d \<and> nonempty_text (dget d ''merchant'') \<and>
     (dget d ''date'' = JNull \<or> is_json_text (dget d ''date'')) \<and>
     (dget d ''currency'' = JNull \<or> (\<exists>s. dget d ''currency'' = JStr s \<and> length s = 3)) \<and>
     (\<exists>totals. dget d ''totals'' = JObj totals \<and> (\<forall>n\<in>{''subtotal'', ''vat'', ''total'', ''savings''}. number_or_null (dget totals n))) \<and>
     (\<exists>items. dget d ''line_items'' = JArr items \<and> (\<forall>j\<in>set items. valid_line_item j)))"

definition valid_object :: "json \<Rightarrow> bool" where
  "valid_object j = (\<exists>i. j = JObj i \<and> nonempty_text (dget i ''label'') \<and> (''attributes'' \<in> fst ` set i \<longrightarrow> (\<exists>a. dget i ''attributes'' = JObj a)))"

definition valid_description :: "pydict \<Rightarrow> bool" where
  "valid_description d = ({''description'', ''objects'', ''text'', ''confidence''} \<subseteq> fst ` set d \<and> nonempty_text (dget d ''description'') \<and>
     (\<exists>objects. dget d ''objects'' = JArr objects \<and> (\<forall>j\<in>set objects. valid_object j)) \<and>
     (\<exists>texts. dget d ''text'' = JArr texts \<and> (\<forall>j\<in>set texts. is_json_text j)) \<and>
     (dget d ''confidence'' = JNull \<or> (\<exists>i\<in>{0, 1}. dget d ''confidence'' = JInt i) \<or>
       (\<exists>q. dget d ''confidence'' = JFloat (Fin q) \<and> 0 \<le> q \<and> q \<le> 1)))"

lemma missing_keys_None: "missing_keys required d = None \<longleftrightarrow> set required \<subseteq> fst ` set d"
  by (auto simp: missing_keys_def Let_def filter_empty_conv split: if_splits)

lemma numeric_fields_None: "numeric_fields msg d ns = Inr None \<longleftrightarrow> (\<forall>n\<in>set ns. number_or_null (dget d n))"
  by (induction ns) (auto simp: number_or_null_def sum_bind_Inr split: if_splits)

lemma check_line_items_None: "check_line_items i js = Inr None \<longleftrightarrow> (\<forall>j\<in>set js. valid_line_item j)"
proof (induction js arbitrary: i)
  case (Cons j js)
  have "check_line_items i (j # js) = Inr None \<longleftrightarrow> valid_line_item j \<and> check_line_items (i + 1) js = Inr None"
    by (cases j) (auto simp: Let_def valid_line_item_def is_json_text_def sum_bind_Inr numeric_fields_None simp del: numeric_fields.simps
      split: json.splits option.splits)
  then show ?case using Cons.IH by simp
qed simp

lemma check_objects_None: "check_objects i js = None \<longleftrightarrow> (\<forall>j\<in>set js. valid_object j)"
proof (induction js arbitrary: i)
  case (Cons j js)
  have "check_objects i (j # js) = None \<longleftrightarrow> valid_object j \<and> check_objects (i + 1) js = None"
    by (cases j) (auto simp: Let_def valid_object_def nonempty_text_def split: json.splits)
  then show ?case using Cons.IH by simp
qed simp

lemma validate_receipt_None:
  assumes "validate_receipt d = Inr None"
  shows "valid_receipt d"
proof -
  note some = assms [unfolded validate_receipt_def]
  have keys: "{''merchant'', ''date'', ''currency'', ''totals'', ''line_items''} \<subseteq> fst ` set d"
    using some missing_keys_None [of "[''merchant'', ''date'', ''currency'', ''totals'', ''line_items'']" d] by (auto split: option.splits)
  have fields: "nonempty_text (dget d ''merchant'')" "\<not> (case dget d ''date'' of JStr _ \<Rightarrow> False | JNull \<Rightarrow> False | _ \<Rightarrow> True)"
    "\<not> (case dget d ''currency'' of JStr s \<Rightarrow> length s \<noteq> 3 | JNull \<Rightarrow> False | _ \<Rightarrow> True)"
    using some by (simp_all split: option.splits if_splits del: numeric_fields.simps)
  obtain totals where totals: "dget d ''totals'' = JObj totals"
    "numeric_fields (\<lambda>n. ''totals.'' @ n @ '' must be numeric or null'') totals [''subtotal'', ''vat'', ''total'', ''savings''] = Inr None"
    "(case dget d ''line_items'' of JArr js \<Rightarrow> check_line_items 0 js | _ \<Rightarrow> Inr (Some ''line_items must be an array'')) = Inr None"
    using some fields by (simp split: option.splits json.split_asm add: sum_bind_Inr del: numeric_fields.simps)
  obtain js where js: "dget d ''line_items'' = JArr js" "check_line_items 0 js = Inr None"
    using totals(3) by (auto split: json.splits)
  have "dget d ''date'' = JNull \<or> is_json_text (dget d ''date'')" using fields(2) by (auto simp: is_json_text_def split: json.splits)
  moreover have "dget d ''currency'' = JNull \<or> (\<exists>s. dget d ''currency'' = JStr s \<and> length s = 3)"
    using fields(3) by (auto split: json.splits)
  ultimately show ?thesis
    unfolding valid_receipt_def using keys fields(1) totals(1,2) js by (auto simp: numeric_fields_None check_line_items_None simp del: numeric_fields.simps)
qed

lemma confident_True: "confident j = Inr True \<Longrightarrow> j = JNull \<or> (\<exists>i\<in>{0, 1}. j = JInt i) \<or> (\<exists>q. j = JFloat (Fin q) \<and> 0 \<le> q \<and> q \<le> 1)"
  by (auto simp: confident_def finite_number_def sum_bind_Inr split: json.splits if_splits pyfloat.splits)

lemma validate_description_None: "validate_image_description d = Inr None \<Longrightarrow> valid_description d"
  using confident_True [of "dget d ''confidence''"]
  by (auto simp: validate_image_description_def valid_description_def missing_keys_None check_objects_None list_all_iff
    sum_bind_Inr split: option.splits if_splits json.splits)

lemma vision_answer_Inl: "vision_answer v path prompt env s = (Ok (Inl r), s') \<Longrightarrow> r = Retry \<or> r = Failure"
  by (auto simp: vision_answer_def handled split: if_splits)


section \<open>Witnesses\<close>

definition demo_world :: "json \<Rightarrow> handler_env" where
  "demo_world answer = \<lparr>he_getenv = \<lambda>v. if v = ''AIR_REVIEW_COMMAND'' then Some ''air --json'' else if v = ''P40_CODING_COMMAND'' then Some ''coder'' else None,
     he_process = \<lambda>n argv _ _ _. Ok (Exited 0 (if hd argv = ''git'' then (if n = 1 then [] else if hd (tl argv) = ''status'' then [] else ''h'' @ show_nat n)
        else ''{}'') []),
     he_http = \<lambda>_ _ body. Ok (if body = None then JObj [(''data'', JArr [JObj [(''id'', JStr ''m'')]])]
        else JObj [(''choices'', JArr [JObj [(''message'', JObj [(''content'', JStr ''{}'')])]])]),
     he_loads = \<lambda>_. Some answer, he_dumps = \<lambda>_. [], he_str = \<lambda>_. [], he_float = \<lambda>_. Some (Fin 60), he_expand = id, he_is_dir = \<lambda>_ p. p = ''/w'',
     he_listing = \<lambda>_ _. Ok [], he_image = \<lambda>_ _. Ok \<lparr>im_file = True, im_link = False, im_size = 100, im_decodes = True\<rparr>,
     he_base64 = \<lambda>_ _. Ok ''QQ=='', he_mime = \<lambda>_. Some ''image/png'', he_file = \<lambda>_ _ _. Ok None, he_sha = id, he_schema = \<lambda>_ _. Ok ''/s'', he_unlink = \<lambda>_ _. Ok (), he_text = \<lambda>_. []\<rparr>"

definition calm_world :: "json \<Rightarrow> handler_env" where
  "calm_world answer = (demo_world answer)\<lparr>he_process := \<lambda>_ argv _ _ _. Ok (Exited 0 (if hd argv = ''git'' then ''h'' else ''{}'') [])\<rparr>"

definition first_moment :: handler_state where
  "first_moment = \<lparr>hn_tick = 0, hn_last = None\<rparr>"

definition worktree_task :: "pydict" where
  "worktree_task = [(''kind'', JStr ''coding''), (''payload'', JObj [(''worktree_path'', JStr ''/w'')])]"

definition approval :: json where
  "approval = JObj [(''passed'', JBool True), (''findings'', JArr [])]"

definition demo_receipt :: pydict where
  "demo_receipt = [(''merchant'', JStr ''shop''), (''date'', JNull), (''currency'', JStr ''EUR''), (''totals'', JObj [(''total'', JFloat (Fin (5 / 2)))]),
     (''line_items'', JArr [JObj [(''description'', JStr ''tea''), (''price'', JInt 2)]])]"

definition demo_vision :: vision where
  "demo_vision = \<lparr>vh_endpoint = ''http://h/v1'', vh_model = ''m'', vh_max_bytes = 26214400\<rparr>"

lemma demo_review: "fst (execute_review (Fin 900) worktree_task (calm_world approval) first_moment) = Ok Success"
  by code_simp

lemma demo_coding: "fst (execute_coding None worktree_task (demo_world JNull) first_moment) = Ok Success"
  by code_simp

lemma demo_image: "fst (execute_vision demo_vision [(''input_path'', JStr ''/i.png'')] (demo_world (JObj demo_receipt)) first_moment) = Ok Success"
  by code_simp

lemma payload_demo: "task_payload worktree_task = Inr [(''worktree_path'', JStr ''/w'')]"
  by (simp add: task_payload_def worktree_task_def dget_def)




section \<open>Answers a handler does not survive\<close>

text \<open>An answer without choices raises IndexError, and a total beyond the floats OverflowError; neither is among the
  exceptions \<open>execute\<close> turns into a result.\<close>

lemma no_choices_escapes: "fst (vision_answer demo_vision ''/i.png'' JNull ((demo_world JNull)\<lparr>he_http := \<lambda>_ _ _. Ok (JObj [(''choices'', JArr [])])\<rparr>) first_moment) =
    Raised IndexErr"
  by code_simp

lemma huge_total_escapes: "fst (execute_vision demo_vision [(''input_path'', JStr ''/i.png'')]
    (demo_world (JObj (dput demo_receipt ''totals'' (JObj [(''total'', JInt (2 ^ 1024))])))) first_moment) = Raised OverflowErr"
  by code_simp

end
