(* ===== verification/Profiles.thy ===== *)
theory Profiles
  imports PyLibrary "HOL-Library.AList"
begin

text \<open>
  The model profiles of the P40 (gtx_broker/scheduler/model_profiles.py): the profiles read from configuration
  files, the lease that serialises switches, the layered check of a running model and the switch itself.
  Processes, HTTP and the file system are what the environment says at each moment; logging is left out.
\<close>

section \<open>The controller\<close>

record profile =
  pf_family :: pystr
  pf_role :: pystr
  pf_quantization :: pystr
  pf_path :: pystr
  pf_model :: pystr
  pf_projector :: "pystr option"
  pf_projector_type :: "pystr option"
  pf_layers :: int
  pf_context :: int
  pf_template :: pystr
  pf_slots :: int
  pf_source :: pystr

text \<open>Which configuration files there are with their lines, \<open>int\<close> of a text, processes, HTTP (status and decoded body),
  whether a file exists, an image as base64, and the calls on the lock: making its directory, opening it (the new
  descriptor), locking and unlocking a descriptor, closing it.\<close>

record profile_env =
  pe_files :: "nat \<Rightarrow> (pystr \<times> (exn + pystr list)) list option"
  pe_int :: "pystr \<Rightarrow> int option"
  pe_process :: "nat \<Rightarrow> pystr list \<Rightarrow> process_end outcome"
  pe_http :: "nat \<Rightarrow> pystr \<Rightarrow> json option \<Rightarrow> (int \<times> json) outcome"
  pe_exists :: "nat \<Rightarrow> pystr \<Rightarrow> bool"
  pe_base64 :: "nat \<Rightarrow> pystr \<Rightarrow> pystr outcome"
  pe_mkdir :: "nat \<Rightarrow> unit outcome"
  pe_open :: "nat \<Rightarrow> nat outcome"
  pe_flock :: "nat \<Rightarrow> unit outcome"
  pe_unlock :: "nat \<Rightarrow> unit outcome"
  pe_close :: "nat \<Rightarrow> unit outcome"
  pe_wrapper :: pystr
  pe_image :: pystr
  pe_service :: pystr
  pe_lock_dir :: pystr

record controller =
  pc_profiles :: "(pystr \<times> profile) list"
  pc_current :: "pystr option"
  pc_open :: "nat list"
  pc_tick :: nat

type_synonym 'a profiling = "(profile_env, controller, 'a) prog"

definition moment :: "(profile_env \<Rightarrow> nat \<Rightarrow> 'a outcome) \<Rightarrow> 'a profiling" where
  "moment f env s = (f env (pc_tick s), s\<lparr>pc_tick := pc_tick s + 1\<rparr>)"

definition become :: "(controller \<Rightarrow> controller) \<Rightarrow> unit profiling" where
  "become f env s = (Ok (), f s)"

text \<open>\<open>except Exception\<close> with a default.\<close>

definition or_else :: "'a profiling \<Rightarrow> 'a \<Rightarrow> 'a profiling" where
  "or_else m d = io_try m (\<lambda>_. True) (\<lambda>_. io_ret d)"

section \<open>Loading profiles\<close>

fun conf_values :: "pystr list \<Rightarrow> (pystr \<times> pystr) list \<Rightarrow> (pystr \<times> pystr) list" where
  "conf_values [] d = d"
| "conf_values (raw # ls) d = (let l = strip raw in
     if starts_with ''#'' l \<or> CHR ''='' \<notin> set l then conf_values ls d
     else conf_values ls (AList.update (strip (takeWhile (\<lambda>c. c \<noteq> CHR ''='') l)) (strip (tl (dropWhile (\<lambda>c. c \<noteq> CHR ''='') l))) d))"

definition conf_int :: "profile_env \<Rightarrow> (pystr \<times> pystr) list \<Rightarrow> pystr \<Rightarrow> int \<Rightarrow> exn + int" where
  "conf_int env d k dflt = (case map_of d k of None \<Rightarrow> Inr dflt
     | Some t \<Rightarrow> (case pe_int env t of Some i \<Rightarrow> Inr i | None \<Rightarrow> Inl (ValueErr [])))"

definition profile_of :: "profile_env \<Rightarrow> pystr \<Rightarrow> pystr \<Rightarrow> pystr list \<Rightarrow> exn + profile" where
  "profile_of env file name ls = (let d = conf_values ls []; text = (\<lambda>k. case map_of d k of None \<Rightarrow> [] | Some v \<Rightarrow> v) in
     sum_bind (conf_int env d ''GPU_LAYERS'' 99) (\<lambda>layers. sum_bind (conf_int env d ''CONTEXT_SIZE'' 262144) (\<lambda>ctxt.
     sum_bind (conf_int env d ''SERVER_SLOTS'' 1) (\<lambda>slots.
     Inr \<lparr>pf_family = map (\<lambda>c. if c = CHR ''.'' then CHR ''-'' else c) (hd (split_on CHR ''-'' (text ''MODEL_ID''))),
       pf_role = (if CHR ''-'' \<in> set name then split_on CHR ''-'' name ! 1 else ''unknown''), pf_quantization = text ''QUANTIZATION'',
       pf_path = text ''MODEL_PATH'', pf_model = text ''MODEL_ID'', pf_projector = map_of d ''MMPROJ_PATH'', pf_projector_type = map_of d ''MMPROJ_TYPE'',
       pf_layers = layers, pf_context = ctxt, pf_template = text ''CHAT_TEMPLATE'', pf_slots = slots,
       pf_source = ''Profile from '' @ file\<rparr>))))"

definition conf_stem :: "pystr \<Rightarrow> pystr" where
  "conf_stem file = (if file = ''.conf'' then file else take (length file - 5) file)"

definition parse_error :: "exn \<Rightarrow> bool" where
  "parse_error e = (case e of ValueErr _ \<Rightarrow> True | KeyErr \<Rightarrow> True | _ \<Rightarrow> False)"

text \<open>A file that cannot be opened ends the loading; one that is not UTF-8 or whose numbers do not parse is skipped.\<close>

fun load_files :: "profile_env \<Rightarrow> (pystr \<times> (exn + pystr list)) list \<Rightarrow> (pystr \<times> profile) list \<Rightarrow> exn + (pystr \<times> profile) list" where
  "load_files env [] ps = Inr ps"
| "load_files env ((file, content) # fs) ps = (case sum_bind content (profile_of env file (conf_stem file)) of
     Inl e \<Rightarrow> if parse_error e then load_files env fs ps else Inl e
   | Inr p \<Rightarrow> load_files env fs (AList.update (conf_stem file) p ps))"

definition load_profiles :: "unit profiling" where
  "load_profiles = io_then (become (\<lambda>s. s\<lparr>pc_profiles := []\<rparr>)) (io_bind (moment (\<lambda>env n. Ok (pe_files env n))) (\<lambda>fs. case fs of
     None \<Rightarrow> io_ret ()
   | Some files \<Rightarrow> io_bind (ask_env (\<lambda>env. load_files env files [])) (\<lambda>r. case r of
       Inl e \<Rightarrow> io_raise e | Inr ps \<Rightarrow> become (\<lambda>s. s\<lparr>pc_profiles := ps\<rparr>))))"

section \<open>The lease\<close>

definition close_descriptor :: "nat \<Rightarrow> unit profiling" where
  "close_descriptor fd = io_then (moment (\<lambda>env n. pe_close env n)) (become (\<lambda>s. s\<lparr>pc_open := remove1 fd (pc_open s)\<rparr>))"

definition ensure_lock_dir :: "unit profiling" where
  "ensure_lock_dir = io_bind (ask_env pe_lock_dir) (\<lambda>d. io_bind (moment (\<lambda>env n. Ok (pe_exists env n d))) (\<lambda>there.
     if there then io_ret () else moment pe_mkdir))"

definition acquire_lease :: "bool \<Rightarrow> nat option profiling" where
  "acquire_lease blocking = io_then ensure_lock_dir (io_bind (moment pe_open) (\<lambda>fd. io_then (become (\<lambda>s. s\<lparr>pc_open := fd # pc_open s\<rparr>))
     (io_try (io_try (io_then (moment pe_flock) (io_ret (Some fd))) (\<lambda>e. os_error e \<and> \<not> blocking)
          (\<lambda>_. io_then (close_descriptor fd) (io_ret None)))
        (\<lambda>_. True) (\<lambda>e. io_then (or_else (close_descriptor fd) ()) (io_raise e)))))"

definition release_lease :: "nat option \<Rightarrow> unit profiling" where
  "release_lease lease = (case lease of None \<Rightarrow> io_ret ()
   | Some fd \<Rightarrow> io_try (io_then (moment pe_unlock) (close_descriptor fd)) os_error (\<lambda>_. io_ret ()))"

section \<open>Checking the running model\<close>

definition server :: pystr where
  "server = ''http://127.0.0.1:11436''"

text \<open>The id of the first model the server lists; whatever goes wrong on the way gives \<open>None\<close>, as does a null id.\<close>

definition listed_model :: "json \<Rightarrow> json" where
  "listed_model data = (case data of JObj d \<Rightarrow> (case map_of d ''data'' of
       Some (JArr (JObj m # _)) \<Rightarrow> dget m ''id'' | _ \<Rightarrow> JNull)
     | _ \<Rightarrow> JNull)"

definition get_current_model_id :: "json profiling" where
  "get_current_model_id = or_else (io_bind (moment (\<lambda>env n. pe_http env n (server @ ''/v1/models'') None)) (\<lambda>(_, data).
     io_ret (listed_model data))) JNull"

definition check_service_active :: "bool profiling" where
  "check_service_active = or_else (io_bind (ask_env pe_service) (\<lambda>unit_name.
     io_bind (moment (\<lambda>env n. pe_process env n [''systemctl'', ''--user'', ''is-active'', ''--quiet'', unit_name])) (\<lambda>e. case e of
       Exited rc out err \<Rightarrow> io_ret (rc = 0)))) False"

definition check_health :: "bool profiling" where
  "check_health = or_else (io_bind (moment (\<lambda>env n. pe_http env n (server @ ''/health'') None)) (\<lambda>(status, _). io_ret (status = 200))) False"

definition smoke_message :: "profile \<Rightarrow> pystr option \<Rightarrow> json" where
  "smoke_message p picture = JObj ([(''model'', JStr (pf_model p))] @ (case picture of
     Some data \<Rightarrow> [(''messages'', JArr [JObj [(''role'', JStr ''user''), (''content'', JArr [
         JObj [(''type'', JStr ''image_url''), (''image_url'', JObj [(''url'', JStr (''data:image/jpeg;base64,'' @ data))])],
         JObj [(''type'', JStr ''text''), (''text'', JStr ''What is the total amount shown on this receipt? Reply with the amount only.'')]])]]),
       (''max_tokens'', JInt 16)]
   | None \<Rightarrow> [(''messages'', JArr [JObj [(''role'', JStr ''user''), (''content'', JStr ''Reply with exactly: OK'')]]), (''max_tokens'', JInt 8)]) @
   [(''temperature'', JInt 0)])"

text \<open>\<open>result["choices"][0].get("message", {}).get("content", "")\<close>, when it can be had.\<close>

definition smoke_content :: "json \<Rightarrow> json option" where
  "smoke_content result = (case result of JObj d \<Rightarrow> (case map_of d ''choices'' of
       Some (JArr (JObj c # _)) \<Rightarrow> (case dget_or c ''message'' (JObj []) of JObj m \<Rightarrow> Some (dget_or m ''content'' (JStr [])) | _ \<Rightarrow> None)
     | _ \<Rightarrow> None)
   | _ \<Rightarrow> None)"

definition smoke_passed :: "bool \<Rightarrow> json \<Rightarrow> bool" where
  "smoke_passed vision_profile result = (case smoke_content result of None \<Rightarrow> False
     | Some content \<Rightarrow> if vision_profile then (case content of JStr s \<Rightarrow> strip s = ''29.24'' | _ \<Rightarrow> False)
         else (case content of JStr s \<Rightarrow> contains ''OK'' s | JArr js \<Rightarrow> JStr ''OK'' \<in> set js | JObj d \<Rightarrow> ''OK'' \<in> fst ` set d | _ \<Rightarrow> False))"

definition is_vision :: "pystr \<Rightarrow> bool" where
  "is_vision name = contains ''vision'' name"

definition run_smoke_test :: "pystr \<Rightarrow> bool profiling" where
  "run_smoke_test name = io_bind (io_look pc_profiles) (\<lambda>ps. case map_of ps name of None \<Rightarrow> io_ret False
   | Some p \<Rightarrow> io_bind (ask_env pe_image) (\<lambda>picture.
     io_bind (if is_vision name then moment (\<lambda>env n. Ok (pe_exists env n picture)) else io_ret True) (\<lambda>there. if \<not> there then io_ret False
     else or_else (io_bind (if is_vision name then io_bind (moment (\<lambda>env n. pe_base64 env n picture)) (\<lambda>b. io_ret (Some b)) else io_ret None) (\<lambda>data.
       io_bind (moment (\<lambda>env n. pe_http env n (server @ ''/v1/chat/completions'') (Some (smoke_message p data)))) (\<lambda>(_, result).
         io_ret (smoke_passed (is_vision name) result)))) False)))"

definition verify_profile_switch :: "pystr \<Rightarrow> bool profiling" where
  "verify_profile_switch name = io_bind check_service_active (\<lambda>active. if \<not> active then io_ret False
   else io_bind check_health (\<lambda>healthy. if \<not> healthy then io_ret False
   else io_bind (io_look pc_profiles) (\<lambda>ps. case map_of ps name of None \<Rightarrow> io_ret False
   | Some p \<Rightarrow> io_bind get_current_model_id (\<lambda>model. if model \<noteq> JStr (pf_model p) then io_ret False
     else run_smoke_test name))))"

section \<open>Switching\<close>

definition switch_process :: "pystr \<Rightarrow> bool profiling" where
  "switch_process name = io_bind (ask_env pe_wrapper) (\<lambda>w. io_bind (moment (\<lambda>env n. Ok (pe_exists env n w))) (\<lambda>there. if \<not> there then io_ret False
     else io_try (io_bind (moment (\<lambda>env n. pe_process env n [''sudo'', ''-n'', w, name])) (\<lambda>e. case e of Exited rc out err \<Rightarrow> io_ret (rc = 0)))
       (\<lambda>e. e = Expired) (\<lambda>_. io_ret False)))"

definition made_current :: "pystr \<Rightarrow> bool profiling" where
  "made_current name = io_then (become (\<lambda>s. s\<lparr>pc_current := Some name\<rparr>)) (io_ret True)"

definition ensure_profile_under_lease :: "pystr \<Rightarrow> bool profiling" where
  "ensure_profile_under_lease name = io_bind (io_look pc_profiles) (\<lambda>ps. case map_of ps name of None \<Rightarrow> io_ret False
   | Some p \<Rightarrow> io_bind get_current_model_id (\<lambda>model.
     io_bind (if model = JStr (pf_model p) then verify_profile_switch name else io_ret False) (\<lambda>running.
     if running then made_current name
     else io_bind (switch_process name) (\<lambda>switched. if \<not> switched then io_ret False
       else io_bind (verify_profile_switch name) (\<lambda>ok. if \<not> ok then io_ret False else made_current name)))))"

definition ensure_profile :: "pystr \<Rightarrow> bool profiling" where
  "ensure_profile name = io_bind (acquire_lease True) (\<lambda>lease. finally_do (ensure_profile_under_lease name) (release_lease lease))"

text \<open>The context manager around the work done under a profile.\<close>

definition with_profile :: "pystr \<Rightarrow> 'a profiling \<Rightarrow> 'a profiling" where
  "with_profile name body = io_bind (io_look pc_profiles) (\<lambda>ps. if map_of ps name = None
     then io_raise (ProfileErr (''Unknown profile: '' @ name))
     else io_bind (acquire_lease True) (\<lambda>lease. finally_do
       (io_bind (ensure_profile_under_lease name) (\<lambda>ok. if \<not> ok then io_raise (ProfileErr (''Could not switch to profile '' @ name)) else body))
       (release_lease lease)))"

end
