(* ===== verification/ProfileProps.thy ===== *)
theory ProfileProps
  imports Profiles
begin

text \<open>
  What a profile promises: work under it starts only on a checked server while the lease is held, and the lease
  is given back however the work ends.
\<close>

section \<open>Steps that return\<close>

lemma moment_Ok: "moment f env s = (Ok a, s') \<longleftrightarrow> f env (pc_tick s) = Ok a \<and> s' = s\<lparr>pc_tick := pc_tick s + 1\<rparr>"
  by (auto simp: moment_def)

lemma become_Ok: "become f env s = (Ok a, s') \<longleftrightarrow> s' = f s"
  by (auto simp: become_def)

lemma or_else_Ok: "or_else m d env s = (Ok a, s') \<longleftrightarrow> m env s = (Ok a, s') \<or> (\<exists>e. m env s = (Raised e, s') \<and> a = d)"
  by (auto simp: or_else_def try_Ok ret_Ok)

lemmas profiled = bind_Ok then_Ok ret_Ok raise_Ok end_Ok moment_Ok ask_env_Ok become_Ok look_Ok or_else_Ok

section \<open>Only the clock moves\<close>

text \<open>The checks ask and remember nothing.\<close>

definition clock_only :: "controller \<Rightarrow> controller \<Rightarrow> bool" where
  "clock_only s s' = (pc_tick s \<le> pc_tick s' \<and> pc_profiles s' = pc_profiles s \<and> pc_current s' = pc_current s \<and> pc_open s' = pc_open s)"

interpretation clock: effect_law "\<lambda>_. True" clock_only
  by unfold_locales (auto simp: clock_only_def)

lemma clock_moment [io_intros]: "io_obeys (\<lambda>_. True) clock_only (moment f)"
  by (simp add: io_obeys_def moment_def clock_only_def)

lemma clock_setting [io_intros]: "io_obeys (\<lambda>_. True) clock_only (ask_env f)"
  by (simp add: io_obeys_def ask_env_def clock_only_def)

lemma clock_or_else [io_intros]: "io_obeys (\<lambda>_. True) clock_only m \<Longrightarrow> io_obeys (\<lambda>_. True) clock_only (or_else m d)"
  unfolding or_else_def by (intro clock.io_obeys_try clock.io_obeys_ret)

lemma clock_end [io_intros]: "(\<And>rc out err. io_obeys F clock_only (f rc out err)) \<Longrightarrow> io_obeys F clock_only (case e of Exited rc out err \<Rightarrow> f rc out err)"
  by (cases e) simp

lemma clock_checks:
  "io_obeys (\<lambda>_. True) clock_only get_current_model_id" "io_obeys (\<lambda>_. True) clock_only check_service_active"
  "io_obeys (\<lambda>_. True) clock_only check_health" "io_obeys (\<lambda>_. True) clock_only (run_smoke_test name)"
  "io_obeys (\<lambda>_. True) clock_only (switch_process name)"
  unfolding get_current_model_id_def check_service_active_def check_health_def run_smoke_test_def switch_process_def
  by (intro io_intros | rule clock_end)+

lemma clock_verify: "io_obeys (\<lambda>_. True) clock_only (verify_profile_switch name)"
  unfolding verify_profile_switch_def by (intro io_intros clock_checks)

lemmas clock_changes = clock_checks [THEN io_obeysD, OF TrueI] clock_verify [THEN io_obeysD, OF TrueI]

section \<open>A checked server\<close>

text \<open>The four answers a check rests on, at four moments one after the other.\<close>

definition checked_server :: "profile_env \<Rightarrow> pystr \<Rightarrow> profile \<Rightarrow> nat \<Rightarrow> nat \<Rightarrow> bool" where
  "checked_server env name p from to = (\<exists>t1 t2 t3 t4 out err b2 h3 b3 picture h4 b4. from \<le> t1 \<and> t1 < t2 \<and> t2 < t3 \<and> t3 < t4 \<and> t4 < to \<and>
     pe_process env t1 [''systemctl'', ''--user'', ''is-active'', ''--quiet'', pe_service env] = Ok (Exited 0 out err) \<and>
     pe_http env t2 (server @ ''/health'') None = Ok (200, b2) \<and>
     pe_http env t3 (server @ ''/v1/models'') None = Ok (h3, b3) \<and> listed_model b3 = JStr (pf_model p) \<and>
     pe_http env t4 (server @ ''/v1/chat/completions'') (Some (smoke_message p picture)) = Ok (h4, b4) \<and> smoke_passed (is_vision name) b4 \<and>
     (picture \<noteq> None \<longleftrightarrow> is_vision name))"

lemma active_True: "check_service_active env s = (Ok True, s') \<Longrightarrow>
    (\<exists>out err. pe_process env (pc_tick s) [''systemctl'', ''--user'', ''is-active'', ''--quiet'', pe_service env] = Ok (Exited 0 out err)) \<and> pc_tick s' = pc_tick s + 1"
  by (auto simp: check_service_active_def profiled)

lemma health_True: "check_health env s = (Ok True, s') \<Longrightarrow>
    (\<exists>b. pe_http env (pc_tick s) (server @ ''/health'') None = Ok (200, b)) \<and> pc_tick s' = pc_tick s + 1"
  by (auto simp: check_health_def profiled)

lemma model_JStr: "get_current_model_id env s = (Ok (JStr m), s') \<Longrightarrow>
    (\<exists>h b. pe_http env (pc_tick s) (server @ ''/v1/models'') None = Ok (h, b) \<and> listed_model b = JStr m) \<and> pc_tick s' = pc_tick s + 1"
  by (auto simp: get_current_model_id_def profiled)

lemma smoke_True:
  assumes "run_smoke_test name env s = (Ok True, s')" "map_of (pc_profiles s) name = Some p"
  shows "\<exists>t picture h b. pc_tick s \<le> t \<and> t < pc_tick s' \<and> smoke_passed (is_vision name) b \<and> (picture \<noteq> None \<longleftrightarrow> is_vision name) \<and>
    pe_http env t (server @ ''/v1/chat/completions'') (Some (smoke_message p picture)) = Ok (h, b)"
proof (cases "is_vision name")
  case True
  then show ?thesis using assms by (auto simp: run_smoke_test_def profiled split: if_splits) (metis le_add2 lessI option.distinct(1) plus_1_eq_Suc Suc_leD le_refl)
next
  case False
  then show ?thesis using assms by (auto simp: run_smoke_test_def profiled split: if_splits)
qed

lemma verify_True:
  assumes "verify_profile_switch name env s = (Ok True, s')" "map_of (pc_profiles s) name = Some p"
  shows "checked_server env name p (pc_tick s) (pc_tick s')"
proof -
  obtain s1 s2 s3 where s: "check_service_active env s = (Ok True, s1)" "check_health env s1 = (Ok True, s2)"
    "get_current_model_id env s2 = (Ok (JStr (pf_model p)), s3)" "run_smoke_test name env s3 = (Ok True, s')"
    using assms(1) assms(2) clock_changes(2,3) unfolding verify_profile_switch_def clock_only_def
    by (fastforce simp: profiled split: if_splits option.splits)
  have "map_of (pc_profiles s3) name = Some p"
    using clock_changes(2) [OF s(1)] clock_changes(3) [OF s(2)] clock_changes(1) [OF s(3)] assms(2) by (simp add: clock_only_def)
  from active_True [OF s(1)] health_True [OF s(2)] model_JStr [OF s(3)] smoke_True [OF s(4) this] show ?thesis
    unfolding checked_server_def
    by (elim exE conjE) (intro exI conjI; (assumption | simp))
qed

lemma checked_longer: "checked_server env name p from to \<Longrightarrow> from' \<le> from \<Longrightarrow> to \<le> to' \<Longrightarrow> checked_server env name p from' to'"
  unfolding checked_server_def by (elim exE conjE) (intro exI conjI; (assumption | simp))

lemma under_lease_True:
  assumes "ensure_profile_under_lease name env s = (Ok True, s')"
  shows "\<exists>p. map_of (pc_profiles s) name = Some p \<and> checked_server env name p (pc_tick s) (pc_tick s') \<and>
    pc_current s' = Some name \<and> pc_open s' = pc_open s"
proof -
  obtain p model s1 running s2 where p: "map_of (pc_profiles s) name = Some p"
    and model: "get_current_model_id env s = (Ok model, s1)"
    and running: "(if model = JStr (pf_model p) then verify_profile_switch name else io_ret False) env s1 = (Ok running, s2)"
    and rest: "(if running then made_current name else io_bind (switch_process name) (\<lambda>switched. if \<not> switched then io_ret False
       else io_bind (verify_profile_switch name) (\<lambda>ok. if \<not> ok then io_ret False else made_current name))) env s2 = (Ok True, s')"
    using assms by (auto simp: ensure_profile_under_lease_def bind_Ok look_Ok option_Ok ret_Ok)
  note s1 = clock_changes(1) [OF model]
  have s2: "clock_only s1 s2"
    using running clock_changes(6) by (cases "model = JStr (pf_model p)") (auto simp: ret_Ok intro: clock.G_refl)
  show ?thesis
  proof (cases running)
    case True
    then have "verify_profile_switch name env s1 = (Ok True, s2)" using running by (auto simp: ret_Ok split: if_splits)
    from verify_True [OF this, of p] show ?thesis
      using p s1 s2 rest True by (auto simp: clock_only_def made_current_def profiled elim!: checked_longer)
  next
    case False
    then obtain s3 s4 where s3: "switch_process name env s2 = (Ok True, s3)" and s4: "verify_profile_switch name env s3 = (Ok True, s4)"
      and s': "made_current name env s4 = (Ok True, s')"
      using rest by (auto simp: bind_Ok ret_Ok split: if_splits)
    note s3' = clock_changes(5) [OF s3] and s4' = clock_changes(6) [OF s4]
    have "pc_tick s \<le> pc_tick s3 \<and> map_of (pc_profiles s3) name = Some p" using p s1 s2 s3' by (auto simp: clock_only_def)
    with verify_True [OF s4, of p] show ?thesis
      using p s1 s2 s3' s4' s' by (auto simp: clock_only_def made_current_def profiled elim!: checked_longer)
  qed
qed

lemma lock_dir_Ok: "ensure_lock_dir env s = (Ok u, s') \<Longrightarrow> s' = s\<lparr>pc_tick := pc_tick s'\<rparr> \<and> pc_tick s \<le> pc_tick s'"
  by (auto simp: ensure_lock_dir_def profiled split: if_splits)

lemma acquired_lease:
  assumes "acquire_lease True env s = (Ok lease, s')"
  shows "\<exists>fd t. lease = Some fd \<and> pc_tick s \<le> t \<and> Suc t < pc_tick s' \<and> pe_open env t = Ok fd \<and> pe_flock env (Suc t) = Ok () \<and>
    pc_profiles s' = pc_profiles s \<and> pc_open s' = fd # pc_open s"
proof -
  obtain u s1 fd where s1: "ensure_lock_dir env s = (Ok u, s1)"
    and fd: "lease = Some fd" "pe_open env (pc_tick s1) = Ok fd" "pe_flock env (Suc (pc_tick s1)) = Ok ()"
      "s' = s1\<lparr>pc_open := fd # pc_open s1, pc_tick := Suc (Suc (pc_tick s1))\<rparr>"
    using assms by (auto simp: acquire_lease_def profiled try_Ok)
  have s: "s1 = s\<lparr>pc_tick := pc_tick s1\<rparr>" "pc_tick s \<le> pc_tick s1" using lock_dir_Ok [OF s1] by simp_all
  have "pc_profiles s1 = pc_profiles s" "pc_open s1 = pc_open s" by (subst s(1), simp)+
  then show ?thesis using fd s(2) by (intro exI [of _ fd] exI [of _ "pc_tick s1"]) simp
qed


section \<open>Giving the lease back\<close>

definition same_descriptors :: "controller \<Rightarrow> controller \<Rightarrow> bool" where
  "same_descriptors s s' = (pc_open s' = pc_open s)"

interpretation descriptors: effect_law "\<lambda>_. True" same_descriptors
  by unfold_locales (auto simp: same_descriptors_def)

lemma clock_descriptors: "io_obeys F clock_only m \<Longrightarrow> io_obeys F same_descriptors m"
  by (simp add: io_obeys_def clock_only_def same_descriptors_def)

lemma made_current_descriptors: "io_obeys (\<lambda>_. True) same_descriptors (made_current name)"
  by (simp add: io_obeys_def made_current_def same_descriptors_def become_def io_then_def io_bind_def io_ret_def)

lemma under_lease_descriptors: "io_obeys (\<lambda>_. True) same_descriptors (ensure_profile_under_lease name)"
  unfolding ensure_profile_under_lease_def
  by (intro io_intros clock_checks [THEN clock_descriptors] clock_verify [THEN clock_descriptors] made_current_descriptors)

lemma finally_runs:
  assumes "finally_do m f env s = (r, s')" "r \<noteq> Died"
  shows "\<exists>r1 s1. m env s = (r1, s1) \<and> r1 \<noteq> Died \<and> snd (f env s1) = s' \<and> fst (f env s1) \<noteq> Died"
  using assms by (auto simp: finally_do_def io_bind_def io_then_def io_try_def io_ret_def io_raise_def split: prod.splits outcome.splits sum.splits)

text \<open>Unlocking and closing work.\<close>

definition gives_back :: "profile_env \<Rightarrow> bool" where
  "gives_back env = (\<forall>n. pe_unlock env n = Ok () \<and> pe_close env n = Ok ())"

lemma acquire_balance:
  assumes "gives_back env" "acquire_lease True env s = (r, s')"
  shows "case r of Ok lease \<Rightarrow> (\<exists>fd. lease = Some fd \<and> pc_open s' = fd # pc_open s) | Raised e \<Rightarrow> pc_open s' = pc_open s | Died \<Rightarrow> True"
  using assms by (auto simp: gives_back_def acquire_lease_def ensure_lock_dir_def close_descriptor_def or_else_def moment_def ask_env_def become_def
    io_try_def io_bind_def io_then_def io_ret_def io_raise_def split: prod.splits outcome.splits if_splits)

lemma release_balance: "gives_back env \<Longrightarrow> pc_open (snd (release_lease (Some fd) env s)) = remove1 fd (pc_open s)"
  by (simp add: gives_back_def release_lease_def close_descriptor_def moment_def become_def io_try_def io_bind_def io_then_def)

text \<open>C39. Where unlocking and closing work, and the work itself leaves the open descriptors as they were, the descriptor of the
  lease is closed again however the work under the profile ends - returning, raising, or never started - unless the
  process is killed.\<close>

theorem lease_is_given_back:
  assumes "gives_back env" "\<And>s. pc_open (snd (work env s)) = pc_open s" "with_profile name work env s = (r, s')" "r \<noteq> Died"
  shows "pc_open s' = pc_open s"
proof (cases "map_of (pc_profiles s) name = None")
  case True
  then show ?thesis using assms(3) by (auto simp: with_profile_def io_bind_def io_look_def io_raise_def)
next
  case False
  obtain q s0 where q: "acquire_lease True env s = (q, s0)" by fastforce
  let ?m = "io_bind (ensure_profile_under_lease name) (\<lambda>ok. if \<not> ok then io_raise (ProfileErr (''Could not switch to profile '' @ name)) else work)"
  have run: "(case q of Ok lease \<Rightarrow> finally_do ?m (release_lease lease) env s0 = (r, s') | Raised e \<Rightarrow> r = Raised e \<and> s' = s0 | Died \<Rightarrow> r = Died)"
    using assms(3) q False by (auto simp: with_profile_def io_bind_def io_look_def split: outcome.splits)
  obtain r1 s1 where s1: "ensure_profile_under_lease name env s0 = (r1, s1)" by fastforce
  have "pc_open s1 = pc_open s0" using io_obeysD [OF under_lease_descriptors TrueI s1] by (simp add: same_descriptors_def)
  then have m: "pc_open (snd (?m env s0)) = pc_open s0"
    using s1 assms(2) by (cases r1) (simp_all add: io_bind_def io_raise_def)
  show ?thesis
  proof (cases q)
    case (Ok lease)
    then obtain fd where fd: "lease = Some fd" "pc_open s0 = fd # pc_open s" using acquire_balance [OF assms(1) q] by auto
    have "finally_do ?m (release_lease lease) env s0 = (r, s')" using run unfolding Ok by simp
    from finally_runs [OF this assms(4)] obtain r1 s1 where "?m env s0 = (r1, s1)" "snd (release_lease lease env s1) = s'" by blast
    then show ?thesis using m fd release_balance [OF assms(1), of fd s1] by simp
  next
    case (Raised e)
    then show ?thesis using run acquire_balance [OF assms(1) q] by simp
  next
    case Died
    then show ?thesis using run assms(4) by simp
  qed
qed

section \<open>A switch\<close>

text \<open>The server runs another model until the wrapper was called; its vision model reads the test receipt.\<close>

definition demo_server :: "exn option \<Rightarrow> profile_env" where
  "demo_server stuck = \<lparr>pe_files = (\<lambda>n. Some [(''p40-vision.conf'', Inr [''# vision'', ''MODEL_ID = gemma.3-vision'', ''SERVER_SLOTS=2''])]),
     pe_int = (\<lambda>t. if t = ''2'' then Some 2 else None),
     pe_process = (\<lambda>n argv. Ok (Exited 0 [] [])),
     pe_http = (\<lambda>n url body. if url = server @ ''/health'' then Ok (200, JNull)
       else if url = server @ ''/v1/models'' then Ok (200, JObj [(''data'', JArr [JObj [(''id'', JStr (if n < 8 then ''coder'' else ''gemma.3-vision''))]])])
       else Ok (200, JObj [(''choices'', JArr [JObj [(''message'', JObj [(''content'', JStr '' 29.24'')])]])])),
     pe_exists = (\<lambda>n path. True), pe_base64 = (\<lambda>n path. Ok ''aGk=''),
     pe_mkdir = (\<lambda>n. Ok ()), pe_open = (\<lambda>n. Ok 5), pe_flock = (\<lambda>n. Ok ()),
     pe_unlock = (\<lambda>n. case stuck of None \<Rightarrow> Ok () | Some e \<Rightarrow> Raised e), pe_close = (\<lambda>n. Ok ()),
     pe_wrapper = ''/w'', pe_image = ''/r.jpg'', pe_service = ''llama'', pe_lock_dir = ''/l''\<rparr>"

definition started_controller :: controller where
  "started_controller = snd (load_profiles (demo_server None) \<lparr>pc_profiles = [], pc_current = None, pc_open = [], pc_tick = 0\<rparr>)"

lemma started_profile: "map_option pf_slots (map_of (pc_profiles started_controller) ''p40-vision'') = Some 2" "pc_open started_controller = []"
  by code_simp+

lemma demo_switch: "fst (with_profile ''p40-vision'' (io_ret (7 :: nat)) (demo_server None) started_controller) = Ok 7"
  by code_simp


lemma demo_failed_work:
  "fst (with_profile ''p40-vision'' (io_raise (ValueErr []) :: unit profiling) (demo_server None) started_controller) = Raised (ValueErr [])"
  by code_simp

lemma lease_is_given_back_witness:
  "pc_open (snd (with_profile ''p40-vision'' (io_raise (ValueErr []) :: unit profiling) (demo_server None) started_controller)) = []"
proof -
  obtain s' where run: "with_profile ''p40-vision'' (io_raise (ValueErr []) :: unit profiling) (demo_server None) started_controller = (Raised (ValueErr []), s')"
    using demo_failed_work by (cases "with_profile ''p40-vision'' (io_raise (ValueErr []) :: unit profiling) (demo_server None) started_controller") simp
  have "pc_open s' = pc_open started_controller"
    by (rule lease_is_given_back [OF _ _ run]) (simp_all add: gives_back_def demo_server_def io_raise_def)
  then show ?thesis by (simp add: run started_profile)
qed

text \<open>An unlock that raises leaves the descriptor, and with it the lock, open: \<open>os.close\<close> stands after it in the same \<open>try\<close>.\<close>

lemma failed_unlock_keeps_descriptor: "ensure_profile ''p40-vision'' (demo_server (Some OsErr)) started_controller =
    (Ok True, started_controller\<lparr>pc_current := Some ''p40-vision'', pc_open := [5], pc_tick := 14\<rparr>)"
  by code_simp

end
