(* ===== verification/Inodes.thy ===== *)
theory Inodes
  imports PyLibrary "HOL-Library.AList"
begin

text \<open>
  System calls on a tree of inodes that others change meanwhile.  A descriptor is the number of its inode; every call
  first lets the others act, may fail, and then works on the inodes as they are at this moment.
\<close>

section \<open>Inodes\<close>

text \<open>A folder knows its parent and its entries; whatever is neither file, folder nor link is \<open>Special\<close>.\<close>

datatype inode = Regular pystr | Folder nat "(pystr \<times> nat) list" | Symlink | Special

type_synonym inodes = "nat \<Rightarrow> inode option"

definition folder_at :: "inodes \<Rightarrow> nat \<Rightarrow> bool" where
  "folder_at d i = (case d i of Some (Folder _ _) \<Rightarrow> True | _ \<Rightarrow> False)"

definition entry_of :: "inodes \<Rightarrow> nat \<Rightarrow> pystr \<Rightarrow> nat option" where
  "entry_of d i name = (case d i of Some (Folder up es) \<Rightarrow>
       if name = ''..'' then Some up else if name = ''.'' then Some i else map_of es name
     | _ \<Rightarrow> None)"

text \<open>What others did before a call, whether it fails, the number of a new inode, and the inode the kernel finds at an
  absolute path whose last component is not followed.\<close>

record os_env =
  os_other :: "nat \<Rightarrow> inodes \<Rightarrow> inodes"
  os_fault :: "nat \<Rightarrow> exn option"
  os_fresh :: "nat \<Rightarrow> inodes \<Rightarrow> nat"
  os_lookup :: "nat \<Rightarrow> inodes \<Rightarrow> pystr \<Rightarrow> nat option"

record os_state =
  os_nodes :: inodes
  os_open :: "nat list"
  os_touched :: "nat list"
  os_tick :: nat

type_synonym ('e, 'a) os_prog = "('e os_env_scheme, os_state, 'a) prog"

definition os_call :: "('e os_env_scheme \<Rightarrow> nat \<Rightarrow> inodes \<Rightarrow> 'a outcome \<times> inodes) \<Rightarrow> ('e, 'a) os_prog" where
  "os_call f env s = (let n = os_tick s; d = os_other env n (os_nodes s);
       (r, d') = (case os_fault env n of Some e \<Rightarrow> (Raised e, d) | None \<Rightarrow> f env n d)
     in (r, s\<lparr>os_nodes := d', os_tick := n + 1\<rparr>))"

text \<open>A call through a descriptor leaves a trace of the inode it is about.\<close>

definition call_at :: "nat \<Rightarrow> ('e os_env_scheme \<Rightarrow> nat \<Rightarrow> inodes \<Rightarrow> 'a outcome \<times> inodes) \<Rightarrow> ('e, 'a) os_prog" where
  "call_at i f env s = os_call f env (s\<lparr>os_touched := i # os_touched s\<rparr>)"

section \<open>Calls\<close>

definition opened :: "('e, nat) os_prog \<Rightarrow> ('e, nat) os_prog" where
  "opened m = io_bind m (\<lambda>i env s. (Ok i, s\<lparr>os_open := i # os_open s\<rparr>))"

definition close_fd :: "nat \<Rightarrow> ('e, unit) os_prog" where
  "close_fd i env s = (Ok (), s\<lparr>os_open := remove1 i (os_open s)\<rparr>)"

text \<open>\<open>O_DIRECTORY | O_NOFOLLOW\<close>, at a path and below a descriptor; \<open>O_NOFOLLOW\<close>.\<close>

definition open_path :: "pystr \<Rightarrow> ('e, nat) os_prog" where
  "open_path path = opened (os_call (\<lambda>env n d. (case os_lookup env n d path of
     Some i \<Rightarrow> if folder_at d i then Ok i else Raised OsErr | None \<Rightarrow> Raised OsErr, d)))"

definition open_dir :: "nat \<Rightarrow> pystr \<Rightarrow> ('e, nat) os_prog" where
  "open_dir i name = opened (call_at i (\<lambda>env n d. (case entry_of d i name of
     Some j \<Rightarrow> if folder_at d j then Ok j else Raised OsErr | None \<Rightarrow> Raised OsErr, d)))"

definition open_file :: "nat \<Rightarrow> pystr \<Rightarrow> ('e, nat) os_prog" where
  "open_file i name = opened (call_at i (\<lambda>env n d. (case entry_of d i name of
     Some j \<Rightarrow> if d j = None \<or> d j = Some Symlink then Raised OsErr else Ok j | None \<Rightarrow> Raised OsErr, d)))"

definition fstat :: "nat \<Rightarrow> ('e, inode) os_prog" where
  "fstat i = call_at i (\<lambda>env n d. (case d i of Some x \<Rightarrow> Ok x | None \<Rightarrow> Raised OsErr, d))"

definition list_names :: "nat \<Rightarrow> ('e, pystr list) os_prog" where
  "list_names i = call_at i (\<lambda>env n d. (case d i of Some (Folder up es) \<Rightarrow> Ok (filter (\<lambda>n. n \<notin> {''.'', ''..''}) (map fst es)) | _ \<Rightarrow> Raised OsErr, d))"

definition read_bytes :: "nat \<Rightarrow> nat option \<Rightarrow> ('e, pystr) os_prog" where
  "read_bytes i most = call_at i (\<lambda>env n d. (case d i of
     Some (Regular b) \<Rightarrow> Ok (case most of None \<Rightarrow> b | Some k \<Rightarrow> take k b) | _ \<Rightarrow> Raised OsErr, d))"

definition add_node :: "inode \<Rightarrow> nat \<Rightarrow> pystr \<Rightarrow> 'e os_env_scheme \<Rightarrow> nat \<Rightarrow> inodes \<Rightarrow> nat outcome \<times> inodes" where
  "add_node x i name env n d = (case d i of
     Some (Folder up es) \<Rightarrow> if entry_of d i name \<noteq> None then (Raised ExistsErr, d)
       else let k = os_fresh env n d in if d k \<noteq> None then (Raised OsErr, d)
       else (Ok k, d(i \<mapsto> Folder up ((name, k) # es), k \<mapsto> x))
   | _ \<Rightarrow> (Raised OsErr, d))"

definition mkdir_at :: "nat \<Rightarrow> pystr \<Rightarrow> ('e, nat) os_prog" where
  "mkdir_at i name = call_at i (add_node (Folder i []) i name)"

text \<open>\<open>O_CREAT | O_EXCL\<close>\<close>

definition create_file :: "nat \<Rightarrow> pystr \<Rightarrow> ('e, nat) os_prog" where
  "create_file i name = opened (call_at i (add_node (Regular []) i name))"

definition write_bytes :: "nat \<Rightarrow> pystr \<Rightarrow> ('e, unit) os_prog" where
  "write_bytes i b = call_at i (\<lambda>env n d. case d i of Some (Regular _) \<Rightarrow> (Ok (), d(i \<mapsto> Regular b)) | _ \<Rightarrow> (Raised OsErr, d))"

definition fsync :: "('e, unit) os_prog" where
  "fsync = os_call (\<lambda>env n d. (Ok (), d))"

text \<open>\<open>os.replace\<close> within a folder; two names of one file stay as they are.\<close>

definition replace_entry :: "nat \<Rightarrow> pystr \<Rightarrow> pystr \<Rightarrow> ('e, unit) os_prog" where
  "replace_entry i a b = call_at i (\<lambda>env n d. case d i of
     Some (Folder up es) \<Rightarrow> (case map_of es a of
         None \<Rightarrow> (Raised OsErr, d)
       | Some k \<Rightarrow> if b \<in> {''.'', ''..''} \<or> (case map_of es b of Some j \<Rightarrow> folder_at d j | None \<Rightarrow> False) then (Raised OsErr, d)
           else if map_of es b = Some k then (Ok (), d)
           else (Ok (), d(i \<mapsto> Folder up (AList.update b k (AList.delete a es)))))
   | _ \<Rightarrow> (Raised OsErr, d))"

section \<open>Paths\<close>

text \<open>\<open>Path(s).parts\<close> of a relative path, \<open>absolute_path\<close>, and paths as texts.\<close>

definition path_parts :: "pystr \<Rightarrow> pystr list" where
  "path_parts s = filter (\<lambda>p. p \<noteq> [] \<and> p \<noteq> ''.'') (split_on CHR ''/'' s)"

definition absolute_path :: "pystr \<Rightarrow> bool" where
  "absolute_path s = starts_with ''/'' s"

definition show_parts :: "pystr list \<Rightarrow> pystr" where
  "show_parts ps = (if ps = [] then ''.'' else join ''/'' ps)"

definition show_absolute :: "pystr list \<Rightarrow> pystr" where
  "show_absolute ps = CHR ''/'' # join ''/'' ps"

section \<open>Staying inside\<close>

text \<open>
  A set of inodes is closed when no entry of a folder in it leads out; the parent of a folder may be outside.  The
  contract of the others, for a set \<open>V\<close> of inodes inside and a set \<open>P\<close> of inodes they do not touch, is that they keep
  \<open>V\<close> closed and leave \<open>P\<close> alone; new inodes count as inside.
\<close>

definition closed_under :: "nat set \<Rightarrow> inodes \<Rightarrow> bool" where
  "closed_under V d = (\<forall>i\<in>V. \<forall>up es. d i = Some (Folder up es) \<longrightarrow> (\<forall>x\<in>set es. snd x \<in> V))"

definition heeds :: "nat set \<Rightarrow> nat set \<Rightarrow> 'e os_env_scheme \<Rightarrow> bool" where
  "heeds V P env = (\<forall>n d. os_fresh env n d \<in> V \<and>
     (closed_under V d \<longrightarrow> closed_under V (os_other env n d)) \<and> (\<forall>i\<in>P. os_other env n d i = d i))"

text \<open>What a program may do: touch only inodes inside, and change nothing outside that others leave alone.\<close>

definition unchanged :: "nat set \<Rightarrow> os_state \<Rightarrow> os_state \<Rightarrow> bool" where
  "unchanged K s s' = (\<forall>i\<in>K. os_nodes s' i = os_nodes s i)"

definition confined :: "nat set \<Rightarrow> nat set \<Rightarrow> os_state \<Rightarrow> os_state \<Rightarrow> bool" where
  "confined V P s s' = (unchanged (P - V) s s' \<and> set (os_touched s') \<subseteq> set (os_touched s) \<union> V)"

section \<open>Programs with a result\<close>

text \<open>\<open>io_gives F I G m Q\<close>: where \<open>I\<close> holds, \<open>m\<close> keeps it, changes the state only as \<open>G\<close> allows, and returns only what satisfies \<open>Q\<close>.\<close>

definition io_gives :: "('e \<Rightarrow> bool) \<Rightarrow> ('s \<Rightarrow> bool) \<Rightarrow> ('s \<Rightarrow> 's \<Rightarrow> bool) \<Rightarrow> ('e, 's, 'a) prog \<Rightarrow> ('a \<Rightarrow> bool) \<Rightarrow> bool" where
  "io_gives F I G m Q = (\<forall>env s r s'. F env \<longrightarrow> I s \<longrightarrow> m env s = (r, s') \<longrightarrow> I s' \<and> G s s' \<and> (\<forall>a. r = Ok a \<longrightarrow> Q a))"

lemma io_givesI: "(\<And>env s r s'. F env \<Longrightarrow> I s \<Longrightarrow> m env s = (r, s') \<Longrightarrow> I s' \<and> G s s' \<and> (\<forall>a. r = Ok a \<longrightarrow> Q a)) \<Longrightarrow> io_gives F I G m Q"
  by (simp add: io_gives_def)

lemma io_givesD: "io_gives F I G m Q \<Longrightarrow> F env \<Longrightarrow> I s \<Longrightarrow> m env s = (r, s') \<Longrightarrow> I s' \<and> G s s' \<and> (\<forall>a. r = Ok a \<longrightarrow> Q a)"
  by (simp add: io_gives_def)

lemma io_gives_weaken: "io_gives F I G m Q \<Longrightarrow> (\<And>a. Q a \<Longrightarrow> R a) \<Longrightarrow> (\<And>s s'. G s s' \<Longrightarrow> H s s') \<Longrightarrow> io_gives F I H m R"
  unfolding io_gives_def by blast

named_theorems gives_intros \<open>one rule per construct for a program with a result\<close>

context effect_law
begin

lemma gives_ret [gives_intros]: "Q a \<Longrightarrow> io_gives F I G (io_ret a) Q"
  by (simp add: io_gives_def io_ret_def G_refl)

lemma gives_raise [gives_intros]: "io_gives F I G (io_raise e) Q"
  by (simp add: io_gives_def io_raise_def G_refl)

lemma gives_look [gives_intros]: "(\<And>s. Q (f s)) \<Longrightarrow> io_gives F I G (io_look f) Q"
  by (simp add: io_gives_def io_look_def G_refl)

lemma gives_ask [gives_intros]: "(\<And>env. Q (f env)) \<Longrightarrow> io_gives F I G (ask_env f) Q"
  by (simp add: io_gives_def ask_env_def G_refl)

lemma gives_sum [gives_intros]: "(\<And>a. Q a) \<Longrightarrow> io_gives F I G (checked_sum f) Q"
  by (auto simp: io_gives_def checked_sum_def G_refl split: sum.splits)

lemma gives_bind:
  assumes "io_gives F I G m R" "\<And>a. R a \<Longrightarrow> io_gives F I G (f a) Q"
  shows "io_gives F I G (io_bind m f) Q"
proof (rule io_givesI)
  fix env s r s' assume F: "F env" and I: "I s" and run: "io_bind m f env s = (r, s')"
  obtain r1 s1 where m: "m env s = (r1, s1)" by fastforce
  note m' = io_givesD [OF assms(1) F I m]
  show "I s' \<and> G s s' \<and> (\<forall>a. r = Ok a \<longrightarrow> Q a)"
  proof (cases r1)
    case (Ok a)
    then have f: "f a env s1 = (r, s')" using run m by (simp add: io_bind_def)
    have "R a" "I s1" "G s s1" using m' Ok by auto
    with io_givesD [OF assms(2) F _ f] show ?thesis using G_trans by blast
  next
    case (Raised e)
    then show ?thesis using run m m' by (auto simp: io_bind_def)
  next
    case Died
    then show ?thesis using run m m' by (auto simp: io_bind_def)
  qed
qed

lemma gives_then: "io_gives F I G m (\<lambda>_. True) \<Longrightarrow> io_gives F I G n Q \<Longrightarrow> io_gives F I G (io_then m n) Q"
  unfolding io_then_def by (rule gives_bind)

lemma gives_try:
  assumes "io_gives F I G m Q" "\<And>e. io_gives F I G (h e) Q"
  shows "io_gives F I G (io_try m p h) Q"
proof (rule io_givesI)
  fix env s r s' assume F: "F env" and I: "I s" and run: "io_try m p h env s = (r, s')"
  obtain r1 s1 where m: "m env s = (r1, s1)" by fastforce
  note m' = io_givesD [OF assms(1) F I m]
  show "I s' \<and> G s s' \<and> (\<forall>a. r = Ok a \<longrightarrow> Q a)"
  proof (cases "\<exists>e. r1 = Raised e \<and> p e")
    case True
    then obtain e where h: "h e env s1 = (r, s')" using run m by (auto simp: io_try_def)
    show ?thesis using io_givesD [OF assms(2) F _ h] m' G_trans by blast
  next
    case False
    then show ?thesis using run m m' by (cases r1) (auto simp: io_try_def)
  qed
qed

lemma gives_finally:
  assumes "io_gives F I G m Q" "io_gives F I G f (\<lambda>_. True)"
  shows "io_gives F I G (finally_do m f) Q"
  unfolding finally_do_def
proof (rule gives_bind)
  show "io_gives F I G (io_try (io_bind m (\<lambda>a. io_ret (Inr a))) (\<lambda>_. True) (\<lambda>e. io_ret (Inl e))) (\<lambda>r. case r of Inl e \<Rightarrow> True | Inr a \<Rightarrow> Q a)"
    by (rule gives_try, rule gives_bind [OF assms(1)], rule gives_ret, simp, rule gives_ret, simp)
  show "io_gives F I G (io_then f (case r of Inl e \<Rightarrow> io_raise e | Inr a \<Rightarrow> io_ret a)) Q"
    if "case r of Inl e \<Rightarrow> True | Inr a \<Rightarrow> Q a" for r
    using that by (cases r) (auto intro!: gives_then assms(2) gives_raise gives_ret)
qed

lemma gives_if [gives_intros]: "(b \<Longrightarrow> io_gives F I G m Q) \<Longrightarrow> (\<not> b \<Longrightarrow> io_gives F I G n Q) \<Longrightarrow> io_gives F I G (if b then m else n) Q"
  by simp

end

interpretation kept: effect_law F "unchanged K" for F K
  by unfold_locales (auto simp: unchanged_def)

interpretation inside: effect_law F "confined V P" for F V P
  by unfold_locales (auto simp: confined_def unchanged_def)

section \<open>The calls stay inside\<close>

definition closed_state :: "nat set \<Rightarrow> os_state \<Rightarrow> bool" where
  "closed_state V s = closed_under V (os_nodes s)"

text \<open>A call on an inode inside that keeps the set closed, changes inodes inside only, and returns what is inside.\<close>

lemma call_inside:
  assumes "i \<in> V"
    and "\<And>env n d r d'. heeds V P env \<Longrightarrow> closed_under V d \<Longrightarrow> f env n d = (r, d') \<Longrightarrow>
      closed_under V d' \<and> (\<forall>j. j \<notin> V \<longrightarrow> d' j = d j) \<and> (\<forall>a. r = Ok a \<longrightarrow> Q a)"
  shows "io_gives (heeds V P) (closed_state V) (confined V P) (call_at i f) Q"
proof (rule io_givesI)
  fix env s r s' assume env: "heeds V P env" and s: "closed_state V s" and run: "call_at i f env s = (r, s')"
  let ?n = "os_tick s"
  let ?d = "os_other env ?n (os_nodes s)"
  have d: "closed_under V ?d" "\<forall>j\<in>P. ?d j = os_nodes s j" using env s by (auto simp: heeds_def closed_state_def)
  obtain r1 d1 where f: "f env ?n ?d = (r1, d1)" by fastforce
  note f' = assms(2) [OF env d(1) f]
  show "closed_state V s' \<and> confined V P s s' \<and> (\<forall>a. r = Ok a \<longrightarrow> Q a)"
  proof (cases "os_fault env ?n")
    case None
    then show ?thesis using run f f' d assms(1) by (auto simp: call_at_def os_call_def Let_def closed_state_def confined_def unchanged_def)
  next
    case (Some e)
    then show ?thesis using run d assms(1) by (auto simp: call_at_def os_call_def Let_def closed_state_def confined_def unchanged_def)
  qed
qed

lemma entry_inside: "closed_under V d \<Longrightarrow> i \<in> V \<Longrightarrow> name \<noteq> ''..'' \<Longrightarrow> entry_of d i name = Some j \<Longrightarrow> j \<in> V"
  unfolding closed_under_def entry_of_def by (auto split: option.splits inode.splits if_splits dest!: map_of_SomeD) fastforce

lemma opened_inside:
  assumes "io_gives F I (confined V P) m Q" "\<And>s f. I (s\<lparr>os_open := f\<rparr>) = I s"
  shows "io_gives F I (confined V P) (opened m) Q"
  unfolding opened_def
  by (rule inside.gives_bind [OF assms(1)]) (use assms(2) in \<open>auto simp: io_gives_def confined_def unchanged_def\<close>)

lemma closed_state_open: "closed_state V (s\<lparr>os_open := f\<rparr>) = closed_state V s"
  by (simp add: closed_state_def)

lemma close_inside: "io_gives (heeds V P) (closed_state V) (confined V P) (close_fd i) (\<lambda>_. True)"
  by (simp add: io_gives_def close_fd_def closed_state_def confined_def unchanged_def)

lemma open_dir_inside: "i \<in> V \<Longrightarrow> name \<noteq> ''..'' \<Longrightarrow> io_gives (heeds V P) (closed_state V) (confined V P) (open_dir i name) (\<lambda>j. j \<in> V)"
  unfolding open_dir_def by (intro opened_inside closed_state_open call_inside) (auto dest: entry_inside split: option.splits if_splits)

lemma open_file_inside: "i \<in> V \<Longrightarrow> name \<noteq> ''..'' \<Longrightarrow> io_gives (heeds V P) (closed_state V) (confined V P) (open_file i name) (\<lambda>j. j \<in> V)"
  unfolding open_file_def by (intro opened_inside closed_state_open call_inside) (auto dest: entry_inside split: option.splits if_splits)

lemma reading_inside: "i \<in> V \<Longrightarrow> (\<And>env n d. snd (f env n d) = d) \<Longrightarrow> io_gives (heeds V P) (closed_state V) (confined V P) (call_at i f) (\<lambda>_. True)"
  by (rule call_inside) (simp, metis snd_conv)

lemma names_inside: "i \<in> V \<Longrightarrow> io_gives (heeds V P) (closed_state V) (confined V P) (list_names i) (\<lambda>ns. ''..'' \<notin> set ns)"
  unfolding list_names_def by (rule call_inside) (auto split: option.splits inode.splits)

lemma stat_inside: "i \<in> V \<Longrightarrow> io_gives (heeds V P) (closed_state V) (confined V P) (fstat i) (\<lambda>_. True)"
  unfolding fstat_def by (rule reading_inside) simp_all

lemma read_inside: "i \<in> V \<Longrightarrow> io_gives (heeds V P) (closed_state V) (confined V P) (read_bytes i k) (\<lambda>_. True)"
  unfolding read_bytes_def by (rule reading_inside) simp_all

lemma plain_inside:
  assumes "\<And>env n d. snd (f env n d) = d" "\<And>env n d a. G env \<Longrightarrow> fst (f env n d) = Ok a \<Longrightarrow> Q a" "\<And>env. G env \<Longrightarrow> heeds V P env"
  shows "io_gives G (closed_state V) (confined V P) (os_call f) Q"
proof (rule io_givesI)
  fix env s r s' assume G: "G env" and s: "closed_state V s" and run: "os_call f env s = (r, s')"
  let ?d = "os_other env (os_tick s) (os_nodes s)"
  have "closed_under V ?d" "\<forall>j\<in>P. ?d j = os_nodes s j" using assms(3) [OF G] s by (auto simp: heeds_def closed_state_def)
  moreover obtain r1 where "f env (os_tick s) ?d = (r1, ?d)" using assms(1) [of env "os_tick s" ?d] by (cases "f env (os_tick s) ?d") simp
  moreover have "r1 = Ok a \<Longrightarrow> Q a" for a using assms(2) [OF G, of "os_tick s" ?d] calculation(3) by simp
  ultimately show "closed_state V s' \<and> confined V P s s' \<and> (\<forall>a. r = Ok a \<longrightarrow> Q a)"
    using run by (auto simp: os_call_def Let_def closed_state_def confined_def unchanged_def split: option.splits)
qed

lemma gives_env: "io_gives F I G m Q \<Longrightarrow> (\<And>env. F' env \<Longrightarrow> F env) \<Longrightarrow> io_gives F' I G m Q"
  unfolding io_gives_def by blast

lemma added_inside:
  assumes "i \<in> V" "\<And>up es. x \<noteq> Folder up es \<or> es = []"
  shows "io_gives (heeds V P) (closed_state V) (confined V P) (call_at i (add_node x i name)) (\<lambda>j. j \<in> V)"
proof (rule call_inside [OF assms(1)])
  fix env n d r d' assume *: "heeds V P env" "closed_under V d" "add_node x i name env n d = (r, d')"
  have fresh: "os_fresh env n d \<in> V" using *(1) by (simp add: heeds_def)
  show "closed_under V d' \<and> (\<forall>j. j \<notin> V \<longrightarrow> d' j = d j) \<and> (\<forall>a. r = Ok a \<longrightarrow> a \<in> V)"
    using *(2,3) fresh assms unfolding closed_under_def
    by (fastforce simp: add_node_def Let_def split: option.splits inode.splits if_splits)
qed

lemma mkdir_inside: "i \<in> V \<Longrightarrow> io_gives (heeds V P) (closed_state V) (confined V P) (mkdir_at i name) (\<lambda>_. True)"
  unfolding mkdir_at_def by (rule io_gives_weaken [OF added_inside]) auto

lemma create_inside: "i \<in> V \<Longrightarrow> io_gives (heeds V P) (closed_state V) (confined V P) (create_file i name) (\<lambda>j. j \<in> V)"
  unfolding create_file_def by (intro opened_inside closed_state_open added_inside) auto

lemma write_inside: "i \<in> V \<Longrightarrow> io_gives (heeds V P) (closed_state V) (confined V P) (write_bytes i b) (\<lambda>_. True)"
  unfolding write_bytes_def by (rule call_inside) (auto simp: closed_under_def split: option.splits inode.splits)

lemma delete_update_sub: "snd ` set (AList.update b k (AList.delete a es)) \<subseteq> insert k (snd ` set es)"
proof -
  have "set (AList.update b k xs) \<subseteq> insert (b, k) (set xs)" for xs
    by (induction xs) auto
  moreover have "set (AList.delete a es) \<subseteq> set es" by (simp add: AList.delete_eq)
  ultimately show ?thesis by fastforce
qed

lemma replace_inside: "i \<in> V \<Longrightarrow> io_gives (heeds V P) (closed_state V) (confined V P) (replace_entry i a b) (\<lambda>_. True)"
  unfolding replace_entry_def
proof (rule call_inside)
  fix env :: "'a os_env_scheme" and n d r d'
  assume i: "i \<in> V" and d: "closed_under V d" and run: "(case d i of
     Some (Folder up es) \<Rightarrow> (case map_of es a of
         None \<Rightarrow> (Raised OsErr, d)
       | Some k \<Rightarrow> if b \<in> {''.'', ''..''} \<or> (case map_of es b of Some j \<Rightarrow> folder_at d j | None \<Rightarrow> False) then (Raised OsErr, d)
           else if map_of es b = Some k then (Ok (), d)
           else (Ok (), d(i \<mapsto> Folder up (AList.update b k (AList.delete a es)))))
   | _ \<Rightarrow> (Raised OsErr, d)) = (r, d')"
  show "closed_under V d' \<and> (\<forall>j. j \<notin> V \<longrightarrow> d' j = d j) \<and> (\<forall>u. r = Ok u \<longrightarrow> True)"
  proof (cases "d' = d")
    case False
    then obtain up es k where es: "d i = Some (Folder up es)" "map_of es a = Some k" "d' = d(i \<mapsto> Folder up (AList.update b k (AList.delete a es)))"
      using run by (auto split: option.splits inode.splits if_splits)
    have "snd ` set es \<subseteq> V" using d i es(1) by (fastforce simp: closed_under_def)
    moreover have "k \<in> snd ` set es" using es(2) by (force dest: map_of_SomeD)
    ultimately have "snd ` set (AList.update b k (AList.delete a es)) \<subseteq> V" using delete_update_sub [of b k a es] by blast
    then show ?thesis using d i es(3) by (fastforce simp: closed_under_def)
  qed (use d in simp)
qed

end
