(* ===== verification/Vault.thy ===== *)
theory Vault
  imports Inodes
begin

text \<open>
  The vault of notes (src/gtx_broker/vault_readers.py): reading anywhere below its root, writing below one directory,
  through descriptors that follow no link.  Paths are lists of names; the calls are those of \<open>Inodes\<close>.
\<close>

section \<open>The vault\<close>

text \<open>\<open>Path.resolve\<close>, \<open>is_symlink\<close> and \<open>exists\<close> of the inodes at a moment, UTF-8, codecs, SHA-256, the modification
  time in ISO form, UUIDs, texts of exceptions and the recursion limit.\<close>

record vault_env = os_env +
  vt_resolve :: "nat \<Rightarrow> inodes \<Rightarrow> pystr \<Rightarrow> pystr list outcome"
  vt_is_link :: "nat \<Rightarrow> inodes \<Rightarrow> pystr list \<Rightarrow> bool"
  vt_exists :: "nat \<Rightarrow> inodes \<Rightarrow> pystr list \<Rightarrow> bool"
  vt_decode :: "pystr \<Rightarrow> pystr option"
  vt_encode :: "pystr \<Rightarrow> pystr \<Rightarrow> pystr option"
  vt_sha :: "pystr \<Rightarrow> pystr"
  vt_mtime :: "nat \<Rightarrow> nat \<Rightarrow> pystr"
  vt_uuid :: "nat \<Rightarrow> pystr"
  vt_text :: "exn \<Rightarrow> pystr"
  vt_depth :: nat

type_synonym 'a vaulting = "(vault_env, os_state, 'a) prog"

record vault =
  vl_root :: "pystr list"
  vl_write_dir :: pystr
  vl_write_parts :: "pystr list"
  vl_write_resolved :: "pystr list"

record vault_result =
  vr_success :: bool
  vr_path :: pystr
  vr_content :: "pystr option"
  vr_error :: "pystr option"
  vr_bytes :: nat

record file_metadata =
  fm_path :: pystr
  fm_relative :: pystr
  fm_size :: nat
  fm_modified :: pystr
  fm_markdown :: bool
  fm_hash :: pystr

definition succeeded :: "pystr \<Rightarrow> pystr option \<Rightarrow> nat \<Rightarrow> vault_result" where
  "succeeded p c n = \<lparr>vr_success = True, vr_path = p, vr_content = c, vr_error = None, vr_bytes = n\<rparr>"

definition refused_op :: "pystr \<Rightarrow> pystr \<Rightarrow> vault_result" where
  "refused_op p err = \<lparr>vr_success = False, vr_path = p, vr_content = None, vr_error = Some err, vr_bytes = 0\<rparr>"

definition vault_error :: "vault_env \<Rightarrow> exn \<Rightarrow> pystr" where
  "vault_error env e = (case e of ValueErr m \<Rightarrow> m | SecurityErr m \<Rightarrow> m | NotFoundErr m \<Rightarrow> m | _ \<Rightarrow> vt_text env e)"

text \<open>The handlers of \<open>read_file\<close> and \<open>write_file\<close>.\<close>

definition as_refusal :: "pystr \<Rightarrow> pystr \<Rightarrow> exn \<Rightarrow> vault_result vaulting" where
  "as_refusal what path e = io_bind (ask_env (\<lambda>env. vault_error env e)) (\<lambda>m.
     io_ret (refused_op path (case e of SecurityErr _ \<Rightarrow> m | _ \<Rightarrow> what @ m)))"

section \<open>Descriptors\<close>

text \<open>From a folder down, one component after the other; the descriptor of the folder before is closed at each step.\<close>

definition step_down :: "bool \<Rightarrow> nat \<Rightarrow> pystr \<Rightarrow> nat vaulting" where
  "step_down create fd part = (if part \<in> {[], ''.'', ''..''} then io_raise (SecurityErr (''Unsafe vault path component: '' @ py_repr part))
     else io_then (if create then io_try (io_then (mkdir_at fd part) (io_ret ())) (\<lambda>e. e = ExistsErr) (\<lambda>_. io_ret ()) else io_ret ())
       (io_bind (open_dir fd part) (\<lambda>child. io_then (close_fd fd) (io_ret child))))"

fun descend :: "bool \<Rightarrow> nat \<Rightarrow> pystr list \<Rightarrow> nat vaulting" where
  "descend create fd [] = io_ret fd"
| "descend create fd (part # parts) = io_bind (io_try (step_down create fd part) (\<lambda>_. True) (\<lambda>e. io_then (close_fd fd) (io_raise e)))
     (\<lambda>child. descend create child parts)"

definition open_directory_chain :: "pystr list \<Rightarrow> bool \<Rightarrow> pystr list \<Rightarrow> nat vaulting" where
  "open_directory_chain base create parts = io_bind (open_path (show_absolute base)) (\<lambda>fd. descend create fd parts)"

definition open_relative_file :: "vault \<Rightarrow> pystr \<Rightarrow> nat vaulting" where
  "open_relative_file v path = (let parts = path_parts path in
     if absolute_path path \<or> ''..'' \<in> set parts \<or> parts = [] then io_raise (SecurityErr (''Unsafe vault file path: '' @ path))
     else io_bind (open_directory_chain (vl_root v) False (butlast parts)) (\<lambda>parent.
       finally_do (open_file parent (last parts)) (close_fd parent)))"

section \<open>Paths\<close>

definition relative_to :: "pystr list \<Rightarrow> pystr list \<Rightarrow> bool" where
  "relative_to p base = (take (length base) p = base)"

definition resolve :: "pystr \<Rightarrow> pystr list vaulting" where
  "resolve p = os_call (\<lambda>env n d. (vt_resolve env n d p, d))"

definition canonicalize_path :: "vault \<Rightarrow> pystr \<Rightarrow> pystr list vaulting" where
  "canonicalize_path v path = (if absolute_path path then io_raise (SecurityErr (''Absolute paths are not allowed: '' @ path))
     else io_bind (resolve (show_absolute (vl_root v @ path_parts path))) (\<lambda>candidate.
       if relative_to candidate (vl_root v) then io_ret candidate
       else io_raise (SecurityErr (''Path '' @ path @ '' resolves outside vault: '' @ show_absolute candidate))))"

definition check_link :: "vault \<Rightarrow> pystr \<Rightarrow> pystr list \<Rightarrow> unit vaulting" where
  "check_link v what p = io_bind (os_call (\<lambda>env n d. (Ok (vt_is_link env n d p), d))) (\<lambda>link. if \<not> link then io_ret ()
     else io_bind (resolve (show_absolute p)) (\<lambda>real. if relative_to real (vl_root v) then io_ret ()
       else io_raise (SecurityErr (what @ show_absolute p @ '' resolves outside vault: '' @ show_absolute real))))"

fun check_links :: "vault \<Rightarrow> pystr \<Rightarrow> pystr list list \<Rightarrow> unit vaulting" where
  "check_links v what [] = io_ret ()"
| "check_links v what (p # ps) = io_then (check_link v what p) (check_links v what ps)"

definition validate_no_symlink_escape :: "vault \<Rightarrow> pystr list \<Rightarrow> unit vaulting" where
  "validate_no_symlink_escape v p = io_then (check_link v ''Symlink '' p)
     (check_links v ''Symlink parent '' (map (\<lambda>k. take k p) (rev [0..<length p])))"

definition get_relative_path :: "vault \<Rightarrow> pystr list \<Rightarrow> pystr" where
  "get_relative_path v p = show_parts (drop (length (vl_root v)) p)"

section \<open>Opening a vault\<close>

definition open_vault :: "pystr \<Rightarrow> pystr \<Rightarrow> vault vaulting" where
  "open_vault vault_path write_dir = io_bind (resolve vault_path) (\<lambda>base.
     let parts = path_parts write_dir in
     if strip write_dir = [] \<or> parts = [] then io_raise (ValueErr ''broker write directory must be non-empty'')
     else io_bind (os_call (\<lambda>env n d. (Ok (vt_exists env n d base), d))) (\<lambda>there.
     if \<not> there then io_raise (NotFoundErr (''Vault does not exist: '' @ vault_path))
     else io_bind (resolve (if absolute_path write_dir then write_dir else show_absolute (base @ parts))) (\<lambda>resolved.
     if \<not> relative_to resolved base
       then io_raise (ValueErr (''Write directory '' @ write_dir @ '' resolves outside vault: '' @ show_absolute resolved))
     else io_bind (open_directory_chain base True parts) (\<lambda>fd. io_then (close_fd fd)
       (io_ret \<lparr>vl_root = base, vl_write_dir = write_dir, vl_write_parts = parts, vl_write_resolved = resolved\<rparr>)))))"

section \<open>Reading\<close>

definition size_limit :: int where
  "size_limit = 1024 * 1024"

definition decoded :: "pystr \<Rightarrow> pystr vaulting" where
  "decoded b = checked_sum (\<lambda>env. case vt_decode env b of Some c \<Rightarrow> Inr c | None \<Rightarrow> Inl (ValueErr ''invalid UTF-8''))"

definition read_opened :: "vault \<Rightarrow> pystr \<Rightarrow> pystr list \<Rightarrow> nat \<Rightarrow> vault_result vaulting" where
  "read_opened v path p fd = io_bind (fstat fd) (\<lambda>x. case x of
     Regular b \<Rightarrow> if size_limit < int (length b)
         then io_then (close_fd fd) (io_ret (refused_op (get_relative_path v p) (''File too large: '' @ show_nat (length b) @ '' bytes (max 1MB)'')))
         else io_bind (finally_do (io_bind (read_bytes fd (Some (length b + 1))) decoded) (close_fd fd)) (\<lambda>content.
           io_ret (succeeded (get_relative_path v p) (Some content) (length b)))
   | _ \<Rightarrow> io_then (close_fd fd) (io_ret (refused_op (get_relative_path v p) (''Path is a directory: '' @ path))))"

definition read_file :: "vault \<Rightarrow> pystr \<Rightarrow> vault_result vaulting" where
  "read_file v path = io_try (io_bind (canonicalize_path v path) (\<lambda>p. io_then (validate_no_symlink_escape v p)
     (io_bind (open_relative_file v path) (read_opened v path p)))) (\<lambda>_. True) (as_refusal ''Read error: '' path)"

text \<open>The loop that reads a file chunk by chunk is one call.\<close>

definition metadata_opened :: "vault \<Rightarrow> pystr list \<Rightarrow> nat \<Rightarrow> file_metadata option vaulting" where
  "metadata_opened v p fd = io_bind (fstat fd) (\<lambda>x. case x of
     Regular b \<Rightarrow> io_bind (finally_do (read_bytes fd None) (close_fd fd)) (\<lambda>bytes. io_bind (io_look os_tick) (\<lambda>now. io_bind (ask_env (\<lambda>env.
       \<lparr>fm_path = show_absolute p, fm_relative = get_relative_path v p, fm_size = length b, fm_modified = vt_mtime env now fd,
         fm_markdown = p \<noteq> [] \<and> lower (path_suffix (last p)) \<in> {''.md'', ''.markdown'', ''.mdown''}, fm_hash = vt_sha env bytes\<rparr>))
       (\<lambda>m. io_ret (Some m))))
   | _ \<Rightarrow> io_then (close_fd fd) (io_ret None))"

definition get_file_metadata :: "vault \<Rightarrow> pystr \<Rightarrow> file_metadata option vaulting" where
  "get_file_metadata v path = io_try (io_bind (canonicalize_path v path) (\<lambda>p.
     io_bind (open_relative_file v path) (metadata_opened v p))) (\<lambda>_. True) (\<lambda>_. io_ret None)"

section \<open>Listing\<close>

definition passed_over :: "exn \<Rightarrow> bool" where
  "passed_over e = (os_error e \<and> e \<noteq> PermErr)"

text \<open>Whether a name can be opened as a folder or, failing that, as a file.\<close>

definition child_opens :: "nat \<Rightarrow> pystr \<Rightarrow> bool vaulting" where
  "child_opens fd name = io_try (io_bind (open_dir fd name) (\<lambda>c. io_then (close_fd c) (io_ret True))) passed_over
     (\<lambda>_. io_try (io_bind (open_file fd name) (\<lambda>c. io_then (close_fd c) (io_ret True))) passed_over (\<lambda>_. io_ret False))"

fun list_children :: "nat \<Rightarrow> pystr list \<Rightarrow> pystr list \<Rightarrow> pystr list vaulting" where
  "list_children fd parts [] = io_ret []"
| "list_children fd parts (name # names) = io_bind (child_opens fd name) (\<lambda>ok. io_bind (list_children fd parts names) (\<lambda>r.
     io_ret (if ok then show_parts (parts @ [name]) # r else r)))"

definition unless_forbidden :: "pystr list vaulting \<Rightarrow> pystr list vaulting" where
  "unless_forbidden m = io_try m (\<lambda>e. e \<noteq> PermErr) (\<lambda>_. io_ret [])"

definition list_directory :: "vault \<Rightarrow> pystr \<Rightarrow> pystr list vaulting" where
  "list_directory v path = (let parts = path_parts path in if absolute_path path \<or> ''..'' \<in> set parts then io_ret []
     else unless_forbidden (io_bind (open_directory_chain (vl_root v) False parts) (\<lambda>fd.
       finally_do (io_bind (list_names fd) (\<lambda>names. io_bind (list_children fd parts names) (\<lambda>r. io_ret (sort r)))) (close_fd fd))))"

section \<open>Searching\<close>

text \<open>\<open>fnmatch\<close>: stars, question marks and classes of character ranges; a class that is not closed is a bracket.\<close>

datatype glob = AnyText | OneChar | Is char | OneOf bool "(char \<times> char) list"

definition class_body :: "pystr \<Rightarrow> (pystr \<times> pystr) option" where
  "class_body s = (let j = (if starts_with ''!'' s then 1 else 0); k = (if starts_with '']'' (drop j s) then j + 1 else j);
       rest = dropWhile (\<lambda>c. c \<noteq> CHR '']'') (drop k s) in
     if rest = [] then None else Some (take k s @ takeWhile (\<lambda>c. c \<noteq> CHR '']'') (drop k s), tl rest))"

fun class_ranges :: "pystr \<Rightarrow> (char \<times> char) list" where
  "class_ranges (x # y # z # cs) = (if y = CHR ''-'' then (x, z) # class_ranges cs else (x, x) # class_ranges (y # z # cs))"
| "class_ranges (x # cs) = (x, x) # class_ranges cs"
| "class_ranges [] = []"

lemma rest_shorter:
  assumes "dropWhile P (drop k s) \<noteq> []"
  shows "length (tl (dropWhile P (drop k s))) < length s"
proof -
  have "length (dropWhile P (drop k s)) \<le> length s"
    by (rule order_trans [OF length_dropWhile_le]) simp
  then show ?thesis using assms by (cases "dropWhile P (drop k s)") simp_all
qed

lemma class_body_shorter:
  assumes "class_body s = Some (b, r)"
  shows "length r < length s"
proof -
  define j :: nat where "j = (if starts_with ''!'' s then 1 else 0)"
  define k where "k = (if starts_with '']'' (drop j s) then j + 1 else j)"
  have "dropWhile (\<lambda>c. c \<noteq> CHR '']'') (drop k s) \<noteq> []" "r = tl (dropWhile (\<lambda>c. c \<noteq> CHR '']'') (drop k s))"
    using assms unfolding class_body_def Let_def j_def [symmetric] k_def [symmetric] by (simp_all split: if_splits)
  then show ?thesis using rest_shorter by blast
qed

function parse_glob :: "pystr \<Rightarrow> glob list" where
  "parse_glob [] = []"
| "parse_glob (c # cs) = (if c = CHR ''*'' then AnyText # parse_glob cs
     else if c = CHR ''?'' then OneChar # parse_glob cs
     else if c = CHR ''['' then (case class_body cs of
         None \<Rightarrow> Is c # parse_glob cs
       | Some (b, rest) \<Rightarrow> (if starts_with ''!'' b then OneOf False (class_ranges (tl b)) else OneOf True (class_ranges b)) # parse_glob rest)
     else Is c # parse_glob cs)"
  by pat_completeness auto

termination parse_glob
  by (relation "measure length") (auto dest: class_body_shorter)

fun glob_match :: "glob list \<Rightarrow> pystr \<Rightarrow> bool" where
  "glob_match [] s = (s = [])"
| "glob_match (AnyText # g) s = list_ex (\<lambda>k. glob_match g (drop k s)) [0..<length s + 1]"
| "glob_match (OneChar # g) s = (s \<noteq> [] \<and> glob_match g (tl s))"
| "glob_match (Is c # g) s = (s \<noteq> [] \<and> hd s = c \<and> glob_match g (tl s))"
| "glob_match (OneOf b rs # g) s = (s \<noteq> [] \<and> (list_ex (\<lambda>(x, y). x \<le> hd s \<and> hd s \<le> y) rs \<longleftrightarrow> b) \<and> glob_match g (tl s))"

definition fnmatch :: "pystr \<Rightarrow> pystr \<Rightarrow> bool" where
  "fnmatch name pattern = glob_match (parse_glob pattern) name"

text \<open>Whether a file is what a search wants.\<close>

definition wanted :: "pystr \<Rightarrow> pystr option \<Rightarrow> pystr list \<Rightarrow> pystr \<Rightarrow> bool" where
  "wanted pattern ext upper name = ((fnmatch (show_parts (upper @ [name])) pattern \<or> fnmatch name pattern) \<and>
     (\<not> has_text ext \<or> Some (lower (path_suffix name)) = ext))"

definition child_folder :: "nat \<Rightarrow> pystr \<Rightarrow> nat option vaulting" where
  "child_folder fd name = io_try (io_bind (open_dir fd name) (\<lambda>c. io_ret (Some c))) passed_over (\<lambda>_. io_ret None)"

definition child_is_file :: "nat \<Rightarrow> pystr \<Rightarrow> bool vaulting" where
  "child_is_file fd name = io_try (io_bind (open_file fd name) (\<lambda>f. io_bind (fstat f) (\<lambda>x. io_then (close_fd f)
     (io_ret (case x of Regular _ \<Rightarrow> True | _ \<Rightarrow> False))))) passed_over (\<lambda>_. io_ret False)"

fun walk_names :: "(nat \<Rightarrow> pystr list \<Rightarrow> pystr list vaulting) \<Rightarrow> (pystr list \<Rightarrow> pystr \<Rightarrow> bool) \<Rightarrow> nat \<Rightarrow> pystr list \<Rightarrow> pystr list \<Rightarrow> pystr list vaulting" where
  "walk_names inner want fd upper [] = io_ret []"
| "walk_names inner want fd upper (name # names) = io_bind (child_folder fd name) (\<lambda>child.
     io_bind (case child of Some c \<Rightarrow> finally_do (inner c (upper @ [name])) (close_fd c)
       | None \<Rightarrow> io_bind (child_is_file fd name) (\<lambda>ok. io_ret (if ok \<and> want upper name then [show_parts (upper @ [name])] else []))) (\<lambda>found.
     io_bind (walk_names inner want fd upper names) (\<lambda>r. io_ret (found @ r))))"

fun walk_folder :: "nat \<Rightarrow> (pystr list \<Rightarrow> pystr \<Rightarrow> bool) \<Rightarrow> nat \<Rightarrow> pystr list \<Rightarrow> pystr list vaulting" where
  "walk_folder 0 want fd upper = io_raise RecursionErr"
| "walk_folder (Suc k) want fd upper = io_bind (list_names fd) (walk_names (walk_folder k want) want fd upper)"

definition search_files :: "vault \<Rightarrow> pystr \<Rightarrow> pystr option \<Rightarrow> pystr list vaulting" where
  "search_files v pattern ext = (if absolute_path pattern \<or> ''..'' \<in> set (path_parts pattern) then io_ret []
     else unless_forbidden (io_bind (open_directory_chain (vl_root v) False []) (\<lambda>fd. finally_do
       (io_bind (ask_env vt_depth) (\<lambda>k. io_bind (walk_folder k (wanted pattern ext) fd []) (\<lambda>r. io_ret (sort r)))) (close_fd fd))))"

section \<open>Writing\<close>

definition outside_write_dir :: "vault \<Rightarrow> pystr \<Rightarrow> bool" where
  "outside_write_dir v path = (let parts = path_parts path in absolute_path path \<or> ''..'' \<in> set parts \<or>
     take (length (vl_write_parts v)) parts \<noteq> vl_write_parts v \<or> length parts \<le> length (vl_write_parts v))"

text \<open>A temporary file in the folder, written, synchronised and moved over the name.\<close>

definition write_entry :: "nat \<Rightarrow> pystr \<Rightarrow> pystr \<Rightarrow> pystr \<Rightarrow> unit vaulting" where
  "write_entry parent name encoding content = io_bind (io_look os_tick) (\<lambda>now. io_bind (ask_env (\<lambda>env. ''.'' @ name @ ''.'' @ vt_uuid env now @ ''.tmp'')) (\<lambda>tmp.
     io_bind (create_file parent tmp) (\<lambda>f. io_then
       (finally_do (io_bind (checked_sum (\<lambda>env. case vt_encode env encoding content of Some b \<Rightarrow> Inr b | None \<Rightarrow> Inl (ValueErr ''cannot encode'')))
          (\<lambda>b. io_then (write_bytes f b) fsync)) (close_fd f))
       (replace_entry parent tmp name))))"

definition write_file :: "vault \<Rightarrow> pystr \<Rightarrow> pystr \<Rightarrow> pystr \<Rightarrow> vault_result vaulting" where
  "write_file v path content encoding = io_try (io_bind (canonicalize_path v path) (\<lambda>p.
     if \<not> relative_to p (vl_write_resolved v)
     then io_ret (refused_op path (''Path '' @ path @ '' is outside broker write directory '' @ vl_write_dir v))
     else io_then (validate_no_symlink_escape v p)
       (if outside_write_dir v path then io_raise (SecurityErr (''Path '' @ path @ '' is outside broker write directory''))
        else io_bind (open_directory_chain (vl_root v) True (butlast (path_parts path))) (\<lambda>parent. io_then
          (finally_do (write_entry parent (last (path_parts path)) encoding content) (close_fd parent))
          (io_bind (ask_env (\<lambda>env. case vt_encode env encoding content of Some b \<Rightarrow> length b | None \<Rightarrow> 0)) (\<lambda>n.
            io_ret (succeeded (get_relative_path v p) None n)))))))
     (\<lambda>_. True) (as_refusal ''Write error: '' path)"

section \<open>Notes\<close>

definition read_note :: "vault \<Rightarrow> pystr \<Rightarrow> vault_result vaulting" where
  "read_note v path = read_file v path"

definition write_note :: "vault \<Rightarrow> pystr \<Rightarrow> pystr \<Rightarrow> vault_result vaulting" where
  "write_note v path content = write_file v path content ''utf-8''"

definition search_vault :: "vault \<Rightarrow> pystr \<Rightarrow> pystr option \<Rightarrow> pystr list vaulting" where
  "search_vault v pattern ext = search_files v pattern ext"

definition list_notes :: "vault \<Rightarrow> pystr \<Rightarrow> pystr list vaulting" where
  "list_notes v dir = io_bind (list_directory v dir) (\<lambda>es. io_ret (filter (\<lambda>e.
     ends_with ''.md'' e \<or> ends_with ''.markdown'' e \<or> ends_with ''.mdown'' e) es))"

definition get_note_metadata :: "vault \<Rightarrow> pystr \<Rightarrow> file_metadata option vaulting" where
  "get_note_metadata v path = get_file_metadata v path"

end
