(* ===== verification/VaultProps.thy ===== *)
theory VaultProps
  imports Vault
begin

text \<open>
  What the vault promises: whatever others do inside it and whatever path a caller gives, only inodes inside the vault are
  touched, and only inodes inside the write directory change.
\<close>

section \<open>Inside the vault\<close>

text \<open>The contract of the world for a set \<open>V\<close>; with a vault, its root is found inside.\<close>

definition vault_world :: "nat set \<Rightarrow> nat set \<Rightarrow> vault option \<Rightarrow> vault_env \<Rightarrow> bool" where
  "vault_world V P wv env = (heeds V P env \<and> (case wv of None \<Rightarrow> True
     | Some v \<Rightarrow> \<forall>n d i. os_lookup env n d (show_absolute (vl_root v)) = Some i \<longrightarrow> i \<in> V))"

definition stays :: "nat set \<Rightarrow> nat set \<Rightarrow> vault option \<Rightarrow> 'a vaulting \<Rightarrow> ('a \<Rightarrow> bool) \<Rightarrow> bool" where
  "stays V P wv m Q = io_gives (vault_world V P wv) (closed_state V) (confined V P) m Q"

lemma stays_call: "io_gives (heeds V P) (closed_state V) (confined V P) m Q \<Longrightarrow> stays V P wv m Q"
  unfolding stays_def by (erule gives_env) (simp add: vault_world_def)

lemma stays_open: "stays V P (Some v) (open_path (show_absolute (vl_root v))) (\<lambda>i. i \<in> V)"
  unfolding stays_def open_path_def
  by (intro opened_inside closed_state_open plain_inside) (auto simp: vault_world_def split: option.splits if_splits)

lemma stays_ret: "Q a \<Longrightarrow> stays V P wv (io_ret a) Q"
  unfolding stays_def by (rule inside.gives_ret)

lemma stays_raise: "stays V P wv (io_raise e) Q"
  unfolding stays_def by (rule inside.gives_raise)

lemma stays_bind: "stays V P wv m R \<Longrightarrow> (\<And>a. R a \<Longrightarrow> stays V P wv (f a) Q) \<Longrightarrow> stays V P wv (io_bind m f) Q"
  unfolding stays_def by (rule inside.gives_bind)

lemma stays_bind_any: "stays V P wv m (\<lambda>_. True) \<Longrightarrow> (\<And>a. stays V P wv (f a) Q) \<Longrightarrow> stays V P wv (io_bind m f) Q"
  by (rule stays_bind) auto

lemma stays_then: "stays V P wv m (\<lambda>_. True) \<Longrightarrow> stays V P wv n Q \<Longrightarrow> stays V P wv (io_then m n) Q"
  unfolding stays_def by (rule inside.gives_then)

lemma stays_try: "stays V P wv m Q \<Longrightarrow> (\<And>e. stays V P wv (h e) Q) \<Longrightarrow> stays V P wv (io_try m p h) Q"
  unfolding stays_def by (rule inside.gives_try)

lemma stays_finally: "stays V P wv m Q \<Longrightarrow> stays V P wv f (\<lambda>_. True) \<Longrightarrow> stays V P wv (finally_do m f) Q"
  unfolding stays_def by (rule inside.gives_finally)

lemma stays_if: "(b \<Longrightarrow> stays V P wv m Q) \<Longrightarrow> (\<not> b \<Longrightarrow> stays V P wv n Q) \<Longrightarrow> stays V P wv (if b then m else n) Q"
  by simp

lemma stays_option: "stays V P wv m Q \<Longrightarrow> (\<And>a. x = Some a \<Longrightarrow> stays V P wv (f a) Q) \<Longrightarrow> stays V P wv (case x of None \<Rightarrow> m | Some a \<Rightarrow> f a) Q"
  by (cases x) simp_all

lemma stays_inode: "(\<And>b. stays V P wv (f b) Q) \<Longrightarrow> stays V P wv n Q \<Longrightarrow>
    stays V P wv (case x of Regular b \<Rightarrow> f b | _ \<Rightarrow> n) Q"
  by (cases x) simp_all

lemma stays_let: "stays V P wv (f x) Q \<Longrightarrow> stays V P wv (let y = x in f y) Q"
  by simp

lemma stays_plain: "(\<And>env n d. snd (f env n d) = d) \<Longrightarrow> stays V P wv (os_call f) (\<lambda>_. True)"
  unfolding stays_def by (rule plain_inside) (simp_all add: vault_world_def)

lemma stays_ask: "stays V P wv (ask_env f) (\<lambda>_. True)" "stays V P wv (checked_sum g) (\<lambda>_. True)" "stays V P wv (io_look h) (\<lambda>_. True)"
  unfolding stays_def by (simp_all add: inside.gives_ask inside.gives_sum inside.gives_look)

lemma stays_resolve: "stays V P wv (resolve p) (\<lambda>_. True)"
  unfolding resolve_def by (rule stays_plain) simp

lemmas stays_calls = open_dir_inside [THEN stays_call] open_file_inside [THEN stays_call] mkdir_inside [THEN stays_call]
  create_inside [THEN stays_call] write_inside [THEN stays_call] replace_inside [THEN stays_call] names_inside [THEN stays_call]
  stat_inside [THEN stays_call] read_inside [THEN stays_call] close_inside [THEN stays_call]

lemmas stays_rules = stays_ret stays_raise stays_then stays_try stays_finally stays_if stays_option stays_inode stays_let stays_ask stays_resolve

subsection \<open>Descending\<close>

lemma stays_step: "fd \<in> V \<Longrightarrow> stays V P wv (step_down create fd part) (\<lambda>i. i \<in> V)"
  unfolding step_down_def
  by (intro stays_if stays_raise stays_then stays_try stays_ret stays_calls stays_bind [where R = "\<lambda>i. i \<in> V"]) auto

lemma stays_descend: "fd \<in> V \<Longrightarrow> stays V P wv (descend create fd parts) (\<lambda>i. i \<in> V)"
  by (induction parts arbitrary: fd)
    (auto intro!: stays_ret stays_bind [where R = "\<lambda>i. i \<in> V"] stays_try stays_step stays_then stays_calls stays_raise)

lemma stays_chain: "stays V P (Some v) (open_directory_chain (vl_root v) create parts) (\<lambda>i. i \<in> V)"
  unfolding open_directory_chain_def by (rule stays_bind [OF stays_open stays_descend])

subsection \<open>Reading and listing\<close>

lemma stays_refusal: "stays V P wv (as_refusal what path e) (\<lambda>_. True)"
  unfolding as_refusal_def by (intro stays_bind_any stays_rules) simp

lemma stays_links: "stays V P wv (check_link v what p) (\<lambda>_. True)" "stays V P wv (check_links v what ps) (\<lambda>_. True)"
proof -
  show one: "stays V P wv (check_link v what p) (\<lambda>_. True)" for p
    unfolding check_link_def by (intro stays_bind_any stays_rules stays_plain) simp_all
  show "stays V P wv (check_links v what ps) (\<lambda>_. True)"
    by (induction ps) (auto intro!: stays_rules one)
qed

lemma stays_validate: "stays V P wv (validate_no_symlink_escape v p) (\<lambda>_. True)"
  unfolding validate_no_symlink_escape_def by (intro stays_then stays_links)

lemma stays_canonicalize: "stays V P wv (canonicalize_path v path) (\<lambda>_. True)"
  unfolding canonicalize_path_def by (intro stays_bind_any stays_rules) simp_all

lemma last_not_up: "parts \<noteq> [] \<Longrightarrow> ''..'' \<notin> set parts \<Longrightarrow> last parts \<noteq> ''..''"
  using last_in_set by metis

lemma stays_relative: "stays V P (Some v) (open_relative_file v path) (\<lambda>i. i \<in> V)"
  unfolding open_relative_file_def
  by (intro stays_let stays_if stays_raise stays_bind [OF stays_chain] stays_finally stays_calls) (auto dest: last_not_up)

lemma stays_read_opened: "fd \<in> V \<Longrightarrow> stays V P wv (read_opened v path p fd) (\<lambda>_. True)"
  unfolding read_opened_def decoded_def by (intro stays_bind_any stays_rules stays_calls) simp_all

lemma stays_metadata_opened: "fd \<in> V \<Longrightarrow> stays V P wv (metadata_opened v p fd) (\<lambda>_. True)"
  unfolding metadata_opened_def by (intro stays_bind_any stays_rules stays_calls) simp_all

lemma stays_child_opens: "fd \<in> V \<Longrightarrow> name \<noteq> ''..'' \<Longrightarrow> stays V P wv (child_opens fd name) (\<lambda>_. True)"
  unfolding child_opens_def
  by (intro stays_try; intro stays_bind [where R = "\<lambda>i. i \<in> V"] stays_then stays_calls stays_ret stays_try) simp_all

lemma stays_list_children: "fd \<in> V \<Longrightarrow> ''..'' \<notin> set names \<Longrightarrow> stays V P wv (list_children fd parts names) (\<lambda>_. True)"
  by (induction names) (auto intro!: stays_bind_any stays_ret stays_child_opens)

lemma stays_unless: "stays V P wv m (\<lambda>_. True) \<Longrightarrow> stays V P wv (unless_forbidden m) (\<lambda>_. True)"
  unfolding unless_forbidden_def by (intro stays_try stays_ret) simp_all

lemma stays_list: "stays V P (Some v) (list_directory v path) (\<lambda>_. True)"
  unfolding list_directory_def
  by (intro stays_let stays_if stays_ret stays_unless stays_bind [OF stays_chain] stays_finally stays_calls
      stays_bind [where R = "\<lambda>ns. ''..'' \<notin> set ns"] stays_bind_any stays_list_children) simp_all

lemma stays_child_folder: "fd \<in> V \<Longrightarrow> name \<noteq> ''..'' \<Longrightarrow> stays V P wv (child_folder fd name) (\<lambda>c. case c of None \<Rightarrow> True | Some i \<Rightarrow> i \<in> V)"
  unfolding child_folder_def
  by (intro stays_try stays_bind [where R = "\<lambda>i. i \<in> V"] stays_calls stays_ret) simp_all

lemma stays_child_is_file: "fd \<in> V \<Longrightarrow> name \<noteq> ''..'' \<Longrightarrow> stays V P wv (child_is_file fd name) (\<lambda>_. True)"
  unfolding child_is_file_def
  by (intro stays_try stays_ret stays_bind [where R = "\<lambda>i. i \<in> V"]; (intro stays_bind_any stays_then stays_calls stays_ret)?) simp_all

lemma stays_walk_names:
  assumes "\<And>c ps. c \<in> V \<Longrightarrow> stays V P wv (inner c ps) (\<lambda>_. True)" "fd \<in> V"
  shows "''..'' \<notin> set names \<Longrightarrow> stays V P wv (walk_names inner want fd upper names) (\<lambda>_. True)"
proof (induction names)
  case (Cons name names)
  have child: "stays V P wv (child_folder fd name) (\<lambda>c. case c of None \<Rightarrow> True | Some i \<Rightarrow> i \<in> V)"
    using Cons.prems by (intro stays_child_folder [OF assms(2)]) auto
  have plain: "stays V P wv (child_is_file fd name) (\<lambda>_. True)" using Cons.prems by (intro stays_child_is_file [OF assms(2)]) auto
  have rest: "stays V P wv (walk_names inner want fd upper names) (\<lambda>_. True)" using Cons by simp
  show ?case unfolding walk_names.simps
    by (rule stays_bind [OF child], rule stays_bind_any, rule stays_option)
      (auto intro!: stays_bind_any [OF plain] stays_bind_any [OF rest] stays_ret stays_finally assms(1) stays_calls)
qed (auto intro: stays_ret)

lemma stays_walk: "fd \<in> V \<Longrightarrow> stays V P wv (walk_folder k want fd upper) (\<lambda>_. True)"
proof (induction k arbitrary: fd upper)
  case (Suc k)
  show ?case unfolding walk_folder.simps
    by (rule stays_bind [where R = "\<lambda>ns. ''..'' \<notin> set ns"], rule stays_calls, rule Suc.prems, rule stays_walk_names [OF Suc.IH Suc.prems])
qed (auto intro: stays_raise)

lemma stays_search: "stays V P (Some v) (search_files v pattern ext) (\<lambda>_. True)"
  unfolding search_files_def
  by (intro stays_if stays_ret stays_unless stays_bind [OF stays_chain] stays_finally stays_calls stays_bind_any stays_ask stays_walk) simp_all

subsection \<open>Writing\<close>

lemma stays_write_entry: "fd \<in> V \<Longrightarrow> stays V P wv (write_entry fd name encoding content) (\<lambda>_. True)"
  unfolding write_entry_def fsync_def
  by (intro stays_bind_any [OF stays_ask(3)] stays_bind_any [OF stays_ask(1)] stays_bind [where R = "\<lambda>i. i \<in> V"] stays_then stays_finally
      stays_bind_any [OF stays_ask(2)] stays_plain stays_calls) simp_all

text \<open>The operations of a vault.\<close>

datatype vault_op = ReadNote pystr | NoteMetadata pystr | ListNotes pystr | SearchVault pystr "pystr option" | WriteNote pystr pystr

fun run_vault :: "vault \<Rightarrow> vault_op \<Rightarrow> unit vaulting" where
  "run_vault v (ReadNote path) = io_then (read_note v path) (io_ret ())"
| "run_vault v (NoteMetadata path) = io_then (get_note_metadata v path) (io_ret ())"
| "run_vault v (ListNotes dir) = io_then (list_notes v dir) (io_ret ())"
| "run_vault v (SearchVault pattern ext) = io_then (search_vault v pattern ext) (io_ret ())"
| "run_vault v (WriteNote path content) = io_then (write_note v path content) (io_ret ())"

lemma stays_read_file: "stays V P (Some v) (read_file v path) (\<lambda>_. True)"
  unfolding read_file_def
  by (intro stays_try stays_refusal stays_then stays_validate stays_bind_any [OF stays_canonicalize] stays_bind [OF stays_relative] stays_read_opened)

lemma stays_metadata: "stays V P (Some v) (get_file_metadata v path) (\<lambda>_. True)"
  unfolding get_file_metadata_def
  by (intro stays_try stays_ret stays_bind_any [OF stays_canonicalize] stays_bind [OF stays_relative] stays_metadata_opened; simp)

lemma stays_write_file: "stays V P (Some v) (write_file v path content encoding) (\<lambda>_. True)"
  unfolding write_file_def
  by (intro stays_try stays_refusal stays_bind_any [OF stays_canonicalize] stays_if stays_ret stays_then stays_validate stays_raise
      stays_bind [OF stays_chain] stays_finally stays_write_entry stays_calls stays_bind_any [OF stays_ask(1)]) simp_all

lemma stays_op: "stays V P (Some v) (run_vault v op) (\<lambda>_. True)"
  by (cases op) (auto simp: read_note_def get_note_metadata_def list_notes_def search_vault_def write_note_def
    intro!: stays_then stays_bind_any stays_ret stays_read_file stays_metadata stays_list stays_search stays_write_file)

text \<open>A session: one operation after the other, whatever each of them raises.\<close>

primrec run_session :: "vault \<Rightarrow> vault_op list \<Rightarrow> unit vaulting" where
  "run_session v [] = io_ret ()"
| "run_session v (op # ops) = io_then (io_try (run_vault v op) (\<lambda>_. True) (\<lambda>_. io_ret ())) (run_session v ops)"

lemma stays_session: "stays V P (Some v) (run_session v ops) (\<lambda>_. True)"
  by (induction ops) (auto intro!: stays_then stays_try stays_op stays_ret)

text \<open>C14. Where the inodes \<open>V\<close> of the vault are closed, whatever others do inside and whatever paths a caller gives, a
  session touches only inodes of the vault through its descriptors, changes none outside it, and keeps it closed.\<close>

theorem vault_touches_only_itself:
  assumes "closed_under V (os_nodes s)" "vault_world V P (Some v) env" "run_session v ops env s = (r, s')"
  shows "set (os_touched s') \<subseteq> set (os_touched s) \<union> V \<and> (\<forall>i\<in>P - V. os_nodes s' i = os_nodes s i) \<and> closed_under V (os_nodes s')"
proof -
  have "io_gives (vault_world V P (Some v)) (closed_state V) (confined V P) (run_session v ops) (\<lambda>_. True)"
    using stays_session [of V P v ops] by (simp add: stays_def)
  from io_givesD [OF this assms(2) _ assms(3)] show ?thesis
    using assms(1) by (simp add: closed_state_def confined_def unchanged_def)
qed

section \<open>Inside the write directory\<close>

text \<open>The folders from an inode down to \<open>w\<close>, along a list of names.\<close>

fun leads :: "inodes \<Rightarrow> nat \<Rightarrow> pystr list \<Rightarrow> nat list \<Rightarrow> nat \<Rightarrow> bool" where
  "leads d i [] cs w = (cs = [] \<and> i = w)"
| "leads d i (p # ps) cs w = (\<exists>rest j up es. cs = i # rest \<and> d i = Some (Folder up es) \<and> map_of es p = Some j \<and> leads d j ps rest w)"

text \<open>The state while the folders \<open>C\<close> are as they were in \<open>d0\<close> and the inodes \<open>W\<close> are closed.\<close>

definition fixed_above :: "nat set \<Rightarrow> nat set \<Rightarrow> inodes \<Rightarrow> os_state \<Rightarrow> bool" where
  "fixed_above W C d0 s = (closed_state W s \<and> (\<forall>c\<in>C. os_nodes s c = d0 c))"

definition narrow :: "nat set \<Rightarrow> nat set \<Rightarrow> nat set \<Rightarrow> inodes \<Rightarrow> (vault_env \<Rightarrow> bool) \<Rightarrow> 'a vaulting \<Rightarrow> ('a \<Rightarrow> bool) \<Rightarrow> bool" where
  "narrow W P C d0 F m Q = io_gives (\<lambda>env. heeds W P env \<and> F env) (fixed_above W C d0) (unchanged (P - W)) m Q"

lemma narrow_stays:
  assumes "stays W P None m Q" "C \<subseteq> P - W"
  shows "narrow W P C d0 F m Q"
  unfolding narrow_def
proof (rule io_givesI)
  fix env s r s' assume F: "heeds W P env \<and> F env" and s: "fixed_above W C d0 s" and run: "m env s = (r, s')"
  have "closed_state W s' \<and> confined W P s s' \<and> (\<forall>a. r = Ok a \<longrightarrow> Q a)"
    using io_givesD [OF assms(1) [unfolded stays_def] _ _ run] F s by (simp add: vault_world_def fixed_above_def)
  then show "fixed_above W C d0 s' \<and> unchanged (P - W) s s' \<and> (\<forall>a. r = Ok a \<longrightarrow> Q a)"
    using s assms(2) by (auto simp: fixed_above_def confined_def unchanged_def)
qed

lemma narrow_call:
  assumes "\<And>env n d. F env \<Longrightarrow> \<forall>c\<in>C. d c = d0 c \<Longrightarrow> snd (f env n d) = d \<and> (\<forall>a. fst (f env n d) = Ok a \<longrightarrow> Q a)" "C \<subseteq> P - W"
  shows "narrow W P C d0 F (os_call f) Q" "narrow W P C d0 F (call_at i f) Q"
proof -
  have step: "fixed_above W C d0 s' \<and> unchanged (P - W) s s' \<and> (\<forall>a. r = Ok a \<longrightarrow> Q a)"
    if env: "heeds W P env" "F env" and s: "fixed_above W C d0 s" and run: "os_call f env (s\<lparr>os_touched := ts\<rparr>) = (r, s')" for env s r s' ts
  proof -
    let ?d = "os_other env (os_tick s) (os_nodes s)"
    have d: "closed_under W ?d" "\<forall>j\<in>P. ?d j = os_nodes s j" "\<forall>c\<in>C. ?d c = d0 c"
      using env s assms(2) by (auto simp: heeds_def fixed_above_def closed_state_def)
    obtain r1 where "f env (os_tick s) ?d = (r1, ?d)" "\<forall>a. r1 = Ok a \<longrightarrow> Q a"
      using assms(1) [OF env(2) d(3), of "os_tick s"] by (cases "f env (os_tick s) ?d") auto
    then show ?thesis using run d by (auto simp: os_call_def Let_def fixed_above_def closed_state_def unchanged_def split: option.splits)
  qed
  show "narrow W P C d0 F (call_at i f) Q"
    unfolding narrow_def by (rule io_givesI) (auto simp: call_at_def dest!: step)
  show "narrow W P C d0 F (os_call f) Q"
    unfolding narrow_def
  proof (rule io_givesI)
    fix env s r s' assume "heeds W P env \<and> F env" "fixed_above W C d0 s" "os_call f env s = (r, s')"
    then show "fixed_above W C d0 s' \<and> unchanged (P - W) s s' \<and> (\<forall>a. r = Ok a \<longrightarrow> Q a)"
      using step [of env s "os_touched s" r s'] by simp
  qed
qed

lemma narrow_bind: "narrow W P C d0 F m R \<Longrightarrow> (\<And>a. R a \<Longrightarrow> narrow W P C d0 F (f a) Q) \<Longrightarrow> narrow W P C d0 F (io_bind m f) Q"
  unfolding narrow_def by (rule kept.gives_bind)

lemma narrow_bind_any: "narrow W P C d0 F m (\<lambda>_. True) \<Longrightarrow> (\<And>a. narrow W P C d0 F (f a) Q) \<Longrightarrow> narrow W P C d0 F (io_bind m f) Q"
  by (rule narrow_bind) auto

lemma narrow_then: "narrow W P C d0 F m (\<lambda>_. True) \<Longrightarrow> narrow W P C d0 F n Q \<Longrightarrow> narrow W P C d0 F (io_then m n) Q"
  unfolding narrow_def by (rule kept.gives_then)

lemma narrow_try: "narrow W P C d0 F m Q \<Longrightarrow> (\<And>e. narrow W P C d0 F (h e) Q) \<Longrightarrow> narrow W P C d0 F (io_try m p h) Q"
  unfolding narrow_def by (rule kept.gives_try)

lemma narrow_finally: "narrow W P C d0 F m Q \<Longrightarrow> narrow W P C d0 F f (\<lambda>_. True) \<Longrightarrow> narrow W P C d0 F (finally_do m f) Q"
  unfolding narrow_def by (rule kept.gives_finally)

lemma narrow_if: "(b \<Longrightarrow> narrow W P C d0 F m Q) \<Longrightarrow> (\<not> b \<Longrightarrow> narrow W P C d0 F n Q) \<Longrightarrow> narrow W P C d0 F (if b then m else n) Q"
  by simp

lemma narrow_ret: "Q a \<Longrightarrow> narrow W P C d0 F (io_ret a) Q"
  unfolding narrow_def by (rule kept.gives_ret)

lemma narrow_raise: "narrow W P C d0 F (io_raise e) Q"
  unfolding narrow_def by (rule kept.gives_raise)

lemma narrow_opened: "narrow W P C d0 F m Q \<Longrightarrow> narrow W P C d0 F (opened m) Q"
  unfolding opened_def by (erule narrow_bind) (simp add: narrow_def io_gives_def fixed_above_def closed_state_def unchanged_def)

lemma narrow_close: "narrow W P C d0 F (close_fd i) (\<lambda>_. True)"
  by (simp add: narrow_def io_gives_def close_fd_def fixed_above_def closed_state_def unchanged_def)

text \<open>A step along the fixed folders creates nothing and arrives where they lead.\<close>

lemma narrow_step:
  assumes "i \<in> C" "d0 i = Some (Folder up es)" "map_of es p = Some j" "C \<subseteq> P - W"
  shows "narrow W P C d0 F (step_down create i p) (\<lambda>k. k = j)"
proof (cases "p \<in> {[], ''.'', ''..''}")
  case True
  then show ?thesis by (auto simp: step_down_def narrow_raise)
next
  case False
  have entry: "entry_of d i p = Some j \<and> d i = Some (Folder up es)" if "\<forall>c\<in>C. d c = d0 c" for d
    using that assms(1-3) False by (simp add: entry_of_def)
  have make: "narrow W P C d0 F (mkdir_at i p) (\<lambda>_. True)"
    unfolding mkdir_at_def by (rule narrow_call(2) [OF _ assms(4)]) (auto simp: add_node_def dest!: entry)
  have open_it: "narrow W P C d0 F (open_dir i p) (\<lambda>k. k = j)"
    unfolding open_dir_def by (rule narrow_opened, rule narrow_call(2) [OF _ assms(4)]) (auto dest!: entry split: if_splits)
  show ?thesis unfolding step_down_def
    by (intro narrow_if narrow_raise narrow_then narrow_try make narrow_ret narrow_bind [OF open_it] narrow_close) simp_all
qed

lemma narrow_descend: "leads d0 i ps cs j \<Longrightarrow> set cs \<subseteq> C \<Longrightarrow> C \<subseteq> P - W \<Longrightarrow> narrow W P C d0 F (descend create i ps) (\<lambda>k. k = j)"
proof (induction ps arbitrary: i cs)
  case (Cons p ps)
  then obtain rest j' up es where *: "cs = i # rest" "d0 i = Some (Folder up es)" "map_of es p = Some j'" "leads d0 j' ps rest j" by auto
  have step: "narrow W P C d0 F (step_down create i p) (\<lambda>k. k = j')"
    using * Cons.prems by (intro narrow_step) auto
  have rest: "narrow W P C d0 F (descend create j' ps) (\<lambda>k. k = j)" using Cons.IH [OF *(4)] Cons.prems * by simp
  show ?case unfolding descend.simps
    by (rule narrow_bind [where R = "\<lambda>k. k = j'"]) (auto intro!: narrow_try step rest narrow_then narrow_close narrow_raise)
qed (auto intro: narrow_ret)

lemma descend_append: "descend create i (ps @ qs) = io_bind (descend create i ps) (\<lambda>j. descend create j qs)"
proof (induction ps arbitrary: i)
  case Nil
  then show ?case by (rule ext) (simp add: io_bind_def io_ret_def)
next
  case (Cons p ps)
  have assoc: "io_bind (io_bind m f) g = io_bind m (\<lambda>a. io_bind (f a) g)" for m :: "'b vaulting" and f :: "'b \<Rightarrow> 'c vaulting" and g :: "'c \<Rightarrow> 'd vaulting"
    by (intro ext) (auto simp: io_bind_def split: prod.splits outcome.splits)
  show ?case by (simp add: assoc Cons.IH)
qed

text \<open>The world of a write: new inodes count as inside the write directory, and the root of the vault is a given inode.\<close>

definition rooted_at :: "nat \<Rightarrow> vault \<Rightarrow> vault_env \<Rightarrow> bool" where
  "rooted_at i v env = (\<forall>n d j. os_lookup env n d (show_absolute (vl_root v)) = Some j \<longrightarrow> j = i)"

lemma narrow_chain:
  assumes "leads d0 i (vl_write_parts v) cs w" "set cs \<subseteq> C" "C \<subseteq> P - W" "w \<in> W"
  shows "narrow W P C d0 (rooted_at i v) (open_directory_chain (vl_root v) create (vl_write_parts v @ rest)) (\<lambda>k. k \<in> W)"
  unfolding open_directory_chain_def
proof (rule narrow_bind [where R = "\<lambda>k. k = i"])
  show "narrow W P C d0 (rooted_at i v) (open_path (show_absolute (vl_root v))) (\<lambda>k. k = i)"
    unfolding open_path_def by (rule narrow_opened, rule narrow_call(1) [OF _ assms(3)]) (auto simp: rooted_at_def split: option.splits if_splits)
  fix k assume "k = i"
  then show "narrow W P C d0 (rooted_at i v) (descend create k (vl_write_parts v @ rest)) (\<lambda>k. k \<in> W)"
    unfolding descend_append
    by (simp, intro narrow_bind [OF narrow_descend [OF assms(1-3)]]) (simp add: narrow_stays [OF stays_descend [OF assms(4)] assms(3)])
qed

subsection \<open>Calls that change nothing\<close>

lemma narrow_plain: "C \<subseteq> P - W \<Longrightarrow> (\<And>env n d. snd (f env n d) = d) \<Longrightarrow> narrow W P C d0 F (os_call f) (\<lambda>_. True)"
  by (rule narrow_call) auto

lemma narrow_reading: "C \<subseteq> P - W \<Longrightarrow> (\<And>env n d. snd (f env n d) = d) \<Longrightarrow> narrow W P C d0 F (call_at i f) (\<lambda>_. True)"
  by (rule narrow_call) auto

lemma narrow_reads:
  assumes "C \<subseteq> P - W"
  shows "narrow W P C d0 F (open_path p) (\<lambda>_. True)" "narrow W P C d0 F (open_dir i name) (\<lambda>_. True)" "narrow W P C d0 F (open_file i name) (\<lambda>_. True)"
    "narrow W P C d0 F (fstat i) (\<lambda>_. True)" "narrow W P C d0 F (list_names i) (\<lambda>_. True)" "narrow W P C d0 F (read_bytes i k) (\<lambda>_. True)"
    "narrow W P C d0 F (resolve t) (\<lambda>_. True)"
  unfolding open_path_def open_dir_def open_file_def fstat_def list_names_def read_bytes_def resolve_def
  by (intro narrow_opened narrow_plain [OF assms] narrow_reading [OF assms]; simp)+

lemma narrow_ask: "narrow W P C d0 F (ask_env f) (\<lambda>_. True)" "narrow W P C d0 F (checked_sum g) (\<lambda>_. True)" "narrow W P C d0 F (io_look h) (\<lambda>_. True)"
  unfolding narrow_def by (simp_all add: kept.gives_ask kept.gives_sum kept.gives_look)

lemma narrow_option: "narrow W P C d0 F m Q \<Longrightarrow> (\<And>a. x = Some a \<Longrightarrow> narrow W P C d0 F (f a) Q) \<Longrightarrow>
    narrow W P C d0 F (case x of None \<Rightarrow> m | Some a \<Rightarrow> f a) Q"
  by (cases x) simp_all

lemma narrow_inode: "(\<And>b. narrow W P C d0 F (f b) Q) \<Longrightarrow> narrow W P C d0 F n Q \<Longrightarrow>
    narrow W P C d0 F (case x of Regular b \<Rightarrow> f b | _ \<Rightarrow> n) Q"
  by (cases x) simp_all

lemma narrow_any: "narrow W P C d0 F m Q \<Longrightarrow> narrow W P C d0 F m (\<lambda>_. True)"
  unfolding narrow_def by (erule io_gives_weaken) simp_all

lemma narrow_let: "narrow W P C d0 F (f x) Q \<Longrightarrow> narrow W P C d0 F (let y = x in f y) Q"
  by simp

lemma narrow_true: "narrow W P C d0 F (io_ret a) (\<lambda>_. True)"
  by (rule narrow_ret) simp

lemmas narrow_rules = narrow_true narrow_raise narrow_then narrow_try narrow_finally narrow_if narrow_option narrow_inode narrow_let
  narrow_ask narrow_close narrow_bind_any

lemma quiet_descend: "C \<subseteq> P - W \<Longrightarrow> narrow W P C d0 F (descend False i ps) (\<lambda>_. True)"
  by (induction ps arbitrary: i) (auto simp: step_down_def intro!: narrow_rules narrow_reads)

lemma quiet_paths:
  assumes "C \<subseteq> P - W"
  shows "narrow W P C d0 F (open_directory_chain start False ps) (\<lambda>_. True)" "narrow W P C d0 F (open_relative_file v path) (\<lambda>_. True)"
    "narrow W P C d0 F (canonicalize_path v path) (\<lambda>_. True)" "narrow W P C d0 F (validate_no_symlink_escape v q) (\<lambda>_. True)"
    "narrow W P C d0 F (as_refusal what path e) (\<lambda>_. True)"
proof -
  show chain: "narrow W P C d0 F (open_directory_chain start False ps) (\<lambda>_. True)" for start ps
    unfolding open_directory_chain_def by (intro narrow_bind_any narrow_reads quiet_descend assms)
  show "narrow W P C d0 F (open_relative_file v path) (\<lambda>_. True)"
    unfolding open_relative_file_def by (intro narrow_rules narrow_reads chain assms)
  show "narrow W P C d0 F (canonicalize_path v path) (\<lambda>_. True)"
    unfolding canonicalize_path_def by (intro narrow_rules narrow_reads assms)
  have link: "narrow W P C d0 F (check_link v what q) (\<lambda>_. True)" for what q
    unfolding check_link_def by (intro narrow_rules narrow_reads narrow_plain assms) simp
  have "narrow W P C d0 F (check_links v what qs) (\<lambda>_. True)" for what qs
    by (induction qs) (auto intro!: narrow_rules link)
  then show "narrow W P C d0 F (validate_no_symlink_escape v q) (\<lambda>_. True)"
    unfolding validate_no_symlink_escape_def by (intro narrow_rules link)
  show "narrow W P C d0 F (as_refusal what path e) (\<lambda>_. True)"
    unfolding as_refusal_def by (intro narrow_rules)
qed

lemma quiet_read_ops:
  assumes "C \<subseteq> P - W"
  shows "narrow W P C d0 F (read_file v path) (\<lambda>_. True)" "narrow W P C d0 F (get_file_metadata v path) (\<lambda>_. True)"
    "narrow W P C d0 F (list_directory v path) (\<lambda>_. True)"
proof -
  show "narrow W P C d0 F (read_file v path) (\<lambda>_. True)"
    unfolding read_file_def read_opened_def decoded_def by (intro narrow_rules narrow_reads quiet_paths assms)
  show "narrow W P C d0 F (get_file_metadata v path) (\<lambda>_. True)"
    unfolding get_file_metadata_def metadata_opened_def by (intro narrow_rules narrow_reads quiet_paths assms)
  have child: "narrow W P C d0 F (child_opens fd name) (\<lambda>_. True)" for fd name
    unfolding child_opens_def by (intro narrow_rules narrow_reads assms)
  have "narrow W P C d0 F (list_children fd parts names) (\<lambda>_. True)" for fd parts names
    by (induction names) (auto intro!: narrow_rules child)
  then show "narrow W P C d0 F (list_directory v path) (\<lambda>_. True)"
    unfolding list_directory_def unless_forbidden_def by (intro narrow_rules narrow_reads quiet_paths assms)
qed

lemma quiet_search:
  assumes "C \<subseteq> P - W"
  shows "narrow W P C d0 F (search_files v pattern ext) (\<lambda>_. True)"
proof -
  have child: "narrow W P C d0 F (child_folder fd name) (\<lambda>_. True)" "narrow W P C d0 F (child_is_file fd name) (\<lambda>_. True)" for fd name
    unfolding child_folder_def child_is_file_def by (intro narrow_rules narrow_reads assms)+
  have names: "narrow W P C d0 F (walk_names inner want fd upper names) (\<lambda>_. True)"
    if "\<And>c ps. narrow W P C d0 F (inner c ps) (\<lambda>_. True)" for inner want fd upper names
    by (induction names) (auto intro!: narrow_rules child that)
  have "narrow W P C d0 F (walk_folder k want fd upper) (\<lambda>_. True)" for k want fd upper
    by (induction k arbitrary: fd upper) (auto intro!: narrow_rules narrow_reads assms names)
  then show ?thesis
    unfolding search_files_def unless_forbidden_def by (intro narrow_rules narrow_reads quiet_paths assms)
qed

subsection \<open>Writes\<close>

lemma inside_path:
  assumes "\<not> outside_write_dir v path"
  shows "\<exists>rest. butlast (path_parts path) = vl_write_parts v @ rest"
proof -
  let ?n = "length (vl_write_parts v)"
  have "take ?n (path_parts path) = vl_write_parts v" "?n < length (path_parts path)"
    using assms by (auto simp: outside_write_dir_def Let_def)
  then have "take ?n (butlast (path_parts path)) = vl_write_parts v" by (simp add: take_butlast)
  then show ?thesis by (metis append_take_drop_id)
qed

lemma narrow_write:
  assumes "leads d0 i (vl_write_parts v) cs w" "set cs \<subseteq> C" "C \<subseteq> P - W" "w \<in> W"
  shows "narrow W P C d0 (rooted_at i v) (write_file v path content encoding) (\<lambda>_. True)"
proof -
  have entry: "k \<in> W \<Longrightarrow> narrow W P C d0 (rooted_at i v) (write_entry k name encoding content) (\<lambda>_. True)" for k name
    by (rule narrow_stays [OF stays_write_entry assms(3)])
  have chain: "narrow W P C d0 (rooted_at i v) (open_directory_chain (vl_root v) True (butlast (path_parts path))) (\<lambda>k. k \<in> W)"
    if "\<not> outside_write_dir v path" using inside_path [OF that] narrow_chain [OF assms] by auto
  show ?thesis unfolding write_file_def
    by (intro narrow_try quiet_paths assms narrow_bind_any [OF quiet_paths(3)] narrow_if narrow_true narrow_then narrow_raise
      narrow_bind [OF chain] narrow_finally entry narrow_close narrow_bind_any [OF narrow_ask(1)])
qed

lemma narrow_session:
  assumes "leads d0 i (vl_write_parts v) cs w" "set cs \<subseteq> C" "C \<subseteq> P - W" "w \<in> W"
  shows "narrow W P C d0 (rooted_at i v) (run_session v ops) (\<lambda>_. True)"
proof -
  have "narrow W P C d0 (rooted_at i v) (run_vault v op) (\<lambda>_. True)" for op
    by (cases op) (auto simp: read_note_def get_note_metadata_def list_notes_def search_vault_def write_note_def
      intro!: narrow_rules quiet_read_ops quiet_search narrow_write [OF assms] assms(3))
  then show ?thesis by (induction ops) (auto intro!: narrow_rules)
qed

text \<open>C13. Where the folders from the root of the vault to the write directory are in place and others leave them alone, a
  session changes no inode outside the write directory: not one that others leave alone is different afterwards,
  whatever is asked for and whatever others do below the write directory.\<close>

theorem writes_stay_in_write_dir:
  assumes "leads (os_nodes s) i (vl_write_parts v) cs w" "w \<in> W" "set cs \<subseteq> P - W" "closed_under W (os_nodes s)"
    "heeds W P env" "rooted_at i v env" "run_session v ops env s = (r, s')"
  shows "\<forall>k\<in>P - W. os_nodes s' k = os_nodes s k"
proof -
  have "narrow W P (set cs) (os_nodes s) (rooted_at i v) (run_session v ops) (\<lambda>_. True)"
    by (rule narrow_session [OF assms(1) subset_refl assms(3,2)])
  from io_givesD [OF this [unfolded narrow_def] _ _ assms(7)] show ?thesis
    using assms(4-6) by (simp add: fixed_above_def closed_state_def unchanged_def)
qed

section \<open>A vault\<close>

text \<open>The root 0 has the vault 1 and a secret 8; the vault has a note, a link and the folders AI and AI/B; new inodes are
  numbered from 100 on.\<close>

definition demo_nodes :: inodes where
  "demo_nodes = [0 \<mapsto> Folder 0 [(''v'', 1), (''secret'', 8)], 1 \<mapsto> Folder 0 [(''n.md'', 3), (''evil'', 9), (''AI'', 2)], 2 \<mapsto> Folder 1 [(''B'', 4)],
     3 \<mapsto> Regular ''note'', 4 \<mapsto> Folder 2 [], 8 \<mapsto> Regular ''secret'', 9 \<mapsto> Symlink]"

definition demo_inside :: "nat set" where
  "demo_inside = {1, 2, 3, 4, 9} \<union> {k. 100 \<le> k}"

definition demo_below :: "nat set" where
  "demo_below = {4} \<union> {k. 100 \<le> k}"

definition demo_world_of :: "(nat \<Rightarrow> exn option) \<Rightarrow> vault_env" where
  "demo_world_of faults = \<lparr>os_other = (\<lambda>_ d. d), os_fault = faults, os_fresh = (\<lambda>n _. 100 + n), os_lookup = (\<lambda>_ _ _. Some 1),
     vt_resolve = (\<lambda>_ _ t. Ok (path_parts t)), vt_is_link = (\<lambda>_ _ _. False), vt_exists = (\<lambda>_ _ _. True), vt_decode = Some, vt_encode = (\<lambda>_. Some),
     vt_sha = id, vt_mtime = (\<lambda>_ _. []), vt_uuid = (\<lambda>_. ''u''), vt_text = (\<lambda>_. ''failed''), vt_depth = 1000\<rparr>"

definition demo_vault :: vault where
  "demo_vault = \<lparr>vl_root = [''v''], vl_write_dir = ''AI/B'', vl_write_parts = [''AI'', ''B''], vl_write_resolved = [''v'', ''AI'', ''B'']\<rparr>"

definition vault_start :: os_state where
  "vault_start = \<lparr>os_nodes = demo_nodes, os_open = [], os_touched = [], os_tick = 0\<rparr>"

lemma vault_start_sel: "os_nodes vault_start = demo_nodes" "os_touched vault_start = []"
  by (simp_all add: vault_start_def)

definition demo_ops :: "vault_op list" where
  "demo_ops = [ReadNote ''n.md'', ReadNote ''evil'', ReadNote ''../secret'', SearchVault ''*.md'' None, WriteNote ''AI/B/x/y.md'' ''text'', WriteNote ''n.md'' ''bad'']"

definition content_read :: "vault_result outcome \<times> os_state \<Rightarrow> pystr option" where
  "content_read run = (case fst run of Ok r \<Rightarrow> vr_content r | _ \<Rightarrow> None)"

definition op_succeeded :: "vault_result outcome \<times> os_state \<Rightarrow> bool" where
  "op_succeeded run = (case fst run of Ok r \<Rightarrow> vr_success r | _ \<Rightarrow> False)"

lemma demo_reads: "content_read (read_note demo_vault ''n.md'' (demo_world_of (\<lambda>_. None)) vault_start) = Some ''note''"
  "\<not> op_succeeded (read_note demo_vault ''evil'' (demo_world_of (\<lambda>_. None)) vault_start)"
  "op_succeeded (write_note demo_vault ''AI/B/x/y.md'' ''text'' (demo_world_of (\<lambda>_. None)) vault_start)"
  by code_simp+

lemma demo_heeds: "heeds demo_inside UNIV (demo_world_of faults)" "heeds demo_below UNIV (demo_world_of faults)"
  by (simp_all add: heeds_def demo_world_of_def demo_inside_def demo_below_def)

lemma demo_closed: "closed_under demo_inside demo_nodes" "closed_under demo_below demo_nodes"
  by (auto simp: closed_under_def demo_nodes_def demo_inside_def demo_below_def split: if_splits)

lemma vault_touches_only_itself_witness:
  "set (os_touched (snd (run_session demo_vault demo_ops (demo_world_of (\<lambda>_. None)) vault_start))) \<subseteq> demo_inside \<and>
   os_nodes (snd (run_session demo_vault demo_ops (demo_world_of (\<lambda>_. None)) vault_start)) 8 = Some (Regular ''secret'')"
proof -
  obtain r s' where run: "run_session demo_vault demo_ops (demo_world_of (\<lambda>_. None)) vault_start = (r, s')" by fastforce
  have "vault_world demo_inside UNIV (Some demo_vault) (demo_world_of (\<lambda>_. None))"
    using demo_heeds(1) by (simp add: vault_world_def demo_world_of_def demo_inside_def)
  from vault_touches_only_itself [OF _ this run] demo_closed(1)
  have "set (os_touched s') \<subseteq> demo_inside" "\<forall>i\<in>UNIV - demo_inside. os_nodes s' i = demo_nodes i" by (simp_all add: vault_start_sel)
  moreover have "8 \<in> UNIV - demo_inside" "demo_nodes 8 = Some (Regular ''secret'')" by (simp_all add: demo_inside_def demo_nodes_def)
  ultimately show ?thesis by (simp add: run)
qed

lemma writes_stay_in_write_dir_witness:
  "os_nodes (snd (run_session demo_vault demo_ops (demo_world_of (\<lambda>_. None)) vault_start)) 3 = Some (Regular ''note'')"
proof -
  obtain r s' where run: "run_session demo_vault demo_ops (demo_world_of (\<lambda>_. None)) vault_start = (r, s')" by fastforce
  have "\<forall>k\<in>UNIV - demo_below. os_nodes s' k = os_nodes vault_start k"
  proof (rule writes_stay_in_write_dir [OF _ _ _ _ demo_heeds(2) _ run])
    show "leads (os_nodes vault_start) 1 (vl_write_parts demo_vault) [1, 2] 4"
      by (simp add: vault_start_def demo_nodes_def demo_vault_def)
    show "closed_under demo_below (os_nodes vault_start)" using demo_closed(2) by (simp add: vault_start_def)
    show "rooted_at 1 demo_vault (demo_world_of (\<lambda>_. None))" by (simp add: rooted_at_def demo_world_of_def)
  qed (simp_all add: demo_below_def)
  then have "os_nodes s' 3 = os_nodes vault_start 3" by (simp add: demo_below_def)
  then show ?thesis by (simp add: run vault_start_sel demo_nodes_def)
qed

text \<open>A write that fails after the temporary file was created leaves that file in the vault.\<close>

lemma failed_write_leaves_file: "map_of (case os_nodes (snd (write_note demo_vault ''AI/B/y.md'' ''text'' (demo_world_of (\<lambda>n. if n = 12 then Some OsErr else None)) vault_start)) 4
    of Some (Folder up es) \<Rightarrow> es | _ \<Rightarrow> []) ''.y.md.u.tmp'' \<noteq> None"
  by code_simp

end
