(* ===== verification/Readmes.thy ===== *)
theory Readmes
  imports Inodes RepositoryBoundary
begin

text \<open>
  The READMEs of repositories (src/gtx_broker/repo_readers.py): the registry, reading below local checkouts through
  descriptors that follow no link, reading from GitHub, and the cache.  HTTP, the directory scan and the clock are what
  the environment says at each moment; logging is left out.
\<close>

section \<open>Registry and reader\<close>

record readme =
  rm_repo :: pystr
  rm_location :: pystr
  rm_file :: pystr
  rm_content :: pystr
  rm_hash :: pystr
  rm_read :: pystr
  rm_local :: bool
  rm_error :: "pystr option"

record readme_registry =
  rg_repositories :: "(pystr \<times> pystr) list"
  rg_token :: "pystr option"
  rg_updated :: "pystr option"
  rg_error :: "pystr option"

datatype entry_kind = LinkEntry | FolderEntry | FileEntry | OtherEntry

text \<open>The time in microseconds and its ISO text, path queries, the scan of a directory with the kind of each entry, the
  text of a registry file as JSON, HTTP (status and JSON body, if it is JSON), UTF-8, base64, SHA-256, texts of
  exceptions and \<open>str\<close>, whether the error of the call before has errno 20 or 40, and the recursion limit.\<close>

record reader_env = os_env +
  re_time :: "nat \<Rightarrow> int"
  re_iso :: "int \<Rightarrow> pystr"
  re_is_link :: "nat \<Rightarrow> inodes \<Rightarrow> pystr \<Rightarrow> bool"
  re_is_dir :: "nat \<Rightarrow> inodes \<Rightarrow> pystr \<Rightarrow> bool"
  re_exists :: "nat \<Rightarrow> inodes \<Rightarrow> pystr \<Rightarrow> bool"
  re_scan :: "nat \<Rightarrow> inodes \<Rightarrow> pystr \<Rightarrow> (pystr \<times> entry_kind outcome) list outcome"
  re_file :: "nat \<Rightarrow> pystr \<Rightarrow> json outcome"
  re_get :: "nat \<Rightarrow> pystr \<Rightarrow> (pystr \<times> pystr) list \<Rightarrow> (pystr \<times> pystr) list \<Rightarrow> (int \<times> json option) outcome"
  re_decode :: "pystr \<Rightarrow> pystr option"
  re_base64 :: "pystr \<Rightarrow> pystr option"
  re_sha :: "pystr \<Rightarrow> pystr"
  re_text :: "exn \<Rightarrow> pystr"
  re_str :: "json \<Rightarrow> pystr"
  re_errno :: "nat \<Rightarrow> bool"
  re_depth :: nat

record reader_state =
  rs_os :: os_state
  rs_cache :: "(pystr \<times> readme \<times> int) list"

type_synonym 'a reading = "(reader_env, reader_state, 'a) prog"

definition on_os :: "(reader_env, os_state, 'a) prog \<Rightarrow> 'a reading" where
  "on_os m env s = (case m env (rs_os s) of (r, o') \<Rightarrow> (r, s\<lparr>rs_os := o'\<rparr>))"

definition asked :: "(reader_env \<Rightarrow> nat \<Rightarrow> inodes \<Rightarrow> 'a outcome) \<Rightarrow> 'a reading" where
  "asked f = on_os (os_call (\<lambda>env n d. (f env n d, d)))"

definition clock :: "int reading" where
  "clock = io_bind (io_look (\<lambda>s. os_tick (rs_os s))) (\<lambda>n. ask_env (\<lambda>env. re_time env n))"

definition iso_now :: "pystr reading" where
  "iso_now = io_bind clock (\<lambda>t. ask_env (\<lambda>env. re_iso env t))"

definition readme_message :: "reader_env \<Rightarrow> exn \<Rightarrow> pystr" where
  "readme_message env e = (case e of ValueErr m \<Rightarrow> m | _ \<Rightarrow> re_text env e)"

definition message_of :: "exn \<Rightarrow> pystr reading" where
  "message_of e = ask_env (\<lambda>env. readme_message env e)"

text \<open>\<open>_error_readme\<close> and a README that was read.\<close>

definition error_readme :: "pystr \<Rightarrow> pystr \<Rightarrow> bool \<Rightarrow> pystr \<Rightarrow> pystr \<Rightarrow> readme reading" where
  "error_readme name location own err file = io_bind iso_now (\<lambda>t. io_ret
     \<lparr>rm_repo = name, rm_location = location, rm_file = file, rm_content = [], rm_hash = [], rm_read = t, rm_local = own, rm_error = Some err\<rparr>)"

definition read_readme :: "pystr \<Rightarrow> pystr \<Rightarrow> bool \<Rightarrow> pystr \<Rightarrow> pystr \<Rightarrow> readme reading" where
  "read_readme name location own file content = io_bind iso_now (\<lambda>t. ask_env (\<lambda>env.
     \<lparr>rm_repo = name, rm_location = location, rm_file = file, rm_content = content, rm_hash = re_sha env content, rm_read = t,
       rm_local = own, rm_error = None\<rparr>))"

definition is_readme :: "pystr \<Rightarrow> bool" where
  "is_readme name = starts_with ''readme'' (lower name)"

definition remote_location :: "pystr \<Rightarrow> bool" where
  "remote_location l = list_ex (\<lambda>p. starts_with p l) [''http://'', ''https://'', ''git@'', ''ssh://'']"

section \<open>The registry\<close>

fun valid_repositories :: "pydict \<Rightarrow> exn + (pystr \<times> pystr) list" where
  "valid_repositories [] = Inr []"
| "valid_repositories ((name, location) # ds) = (if strip name = [] then Inl (ValueErr ''repository names must be non-empty strings'')
     else case location of
       JStr l \<Rightarrow> if strip l = [] then Inl (ValueErr (''repository location for '' @ py_repr name @ '' must be a non-empty string''))
         else sum_bind (valid_repositories ds) (\<lambda>r. Inr ((name, l) # r))
     | _ \<Rightarrow> Inl (ValueErr (''repository location for '' @ py_repr name @ '' must be a non-empty string'')))"

definition registry_of :: "json \<Rightarrow> exn + (pystr \<times> pystr) list" where
  "registry_of data = (case (case data of JObj d \<Rightarrow> dget_or d ''repositories'' data | _ \<Rightarrow> JNull) of
       JObj d \<Rightarrow> valid_repositories d
     | _ \<Rightarrow> Inl (ValueErr ''repository registry must contain an object of repositories''))"

definition registry_from_file :: "pystr \<Rightarrow> readme_registry reading" where
  "registry_from_file path = io_bind (asked (\<lambda>env n d. re_file env n path)) (\<lambda>data. io_bind (checked_sum (\<lambda>_. registry_of data)) (\<lambda>rs.
     io_bind iso_now (\<lambda>t. io_ret \<lparr>rg_repositories = rs, rg_token = None, rg_updated = Some t, rg_error = None\<rparr>)))"

definition default_registry :: "pystr \<Rightarrow> readme_registry" where
  "default_registry source = \<lparr>rg_repositories = map (\<lambda>n. (n, source @ ''/'' @ n))
       [''gtx-broker'', ''workstation'', ''telegram-chat-bot'', ''esp32-s3-monitor'', ''WeatherPanel''],
     rg_token = None, rg_updated = None, rg_error = None\<rparr>"

text \<open>The checkouts below a directory, in the order of their names.\<close>

fun local_checkouts :: "pystr \<Rightarrow> pystr list \<Rightarrow> (pystr \<times> pystr) list \<Rightarrow> (pystr \<times> pystr) list reading" where
  "local_checkouts dir [] rs = io_ret rs"
| "local_checkouts dir (n # ns) rs = (let p = dir @ ''/'' @ n in
     io_bind (asked (\<lambda>env k d. Ok (re_is_dir env k d p))) (\<lambda>folder.
     io_bind (if folder then asked (\<lambda>env k d. Ok (re_exists env k d (p @ ''/.git''))) else io_ret False) (\<lambda>git.
     local_checkouts dir ns (if git then AList.update n p rs else rs))))"

definition shown_json :: "reader_env \<Rightarrow> json \<Rightarrow> pystr" where
  "shown_json env j = (case j of JStr s \<Rightarrow> s | _ \<Rightarrow> re_str env j)"

text \<open>One repository of a page: its full name, or what its owner and name make, and where it is cloned from.\<close>

definition repository_entry :: "reader_env \<Rightarrow> json \<Rightarrow> exn + (pystr \<times> pystr) option" where
  "repository_entry env j = (case j of JObj d \<Rightarrow>
       sum_bind (if truthy (dget d ''full_name'') then Inr (dget d ''full_name'')
         else sum_bind (case dget d ''owner'' of JObj o' \<Rightarrow> Inr (dget o' ''login'') | j' \<Rightarrow> if truthy j' then Inl AttributeErr else Inr JNull) (\<lambda>owner.
           let short = dget d ''name'' in if truthy owner \<and> truthy short
             then Inr (JStr (shown_json env owner @ ''/'' @ shown_json env short)) else Inr short)) (\<lambda>name.
       Inr (case (name, py_or (dget d ''clone_url'') (dget d ''html_url'')) of (JStr n, JStr l) \<Rightarrow> Some (n, l) | _ \<Rightarrow> None))
     | _ \<Rightarrow> Inl AttributeErr)"

fun add_page :: "reader_env \<Rightarrow> json list \<Rightarrow> (pystr \<times> pystr) list \<Rightarrow> exn + (pystr \<times> pystr) list" where
  "add_page env [] rs = Inr rs"
| "add_page env (j # js) rs = sum_bind (repository_entry env j) (\<lambda>e. add_page env js (case e of None \<Rightarrow> rs
     | Some (n, l) \<Rightarrow> if n \<in> fst ` set rs then rs else rs @ [(n, l)]))"

definition json_body :: "json option \<Rightarrow> json reading" where
  "json_body b = (case b of Some j \<Rightarrow> io_ret j | None \<Rightarrow> io_raise JsonErr)"

definition api_headers :: "pystr \<Rightarrow> pystr \<Rightarrow> pystr \<Rightarrow> (pystr \<times> pystr) list" where
  "api_headers accept scheme token = [(''Accept'', accept), (''Authorization'', scheme @ '' '' @ token)]"

definition github_json :: pystr where
  "github_json = ''application/vnd.github+json''"

text \<open>The pages of the account, at most \<open>fuel\<close> of them; \<open>None\<close> when they do not end.\<close>

fun account_pages :: "nat \<Rightarrow> pystr \<Rightarrow> nat \<Rightarrow> (pystr \<times> pystr) list \<Rightarrow> ((pystr \<times> pystr) list \<times> pystr option) option reading" where
  "account_pages 0 token page rs = io_ret None"
| "account_pages (Suc fuel) token page rs = io_bind
     (io_try (io_bind (asked (\<lambda>env n d. re_get env n ''https://api.github.com/user/repos'' (api_headers github_json ''Bearer'' token)
          [(''per_page'', ''100''), (''page'', show_nat page)])) (\<lambda>a. io_ret (Inr a)))
        (\<lambda>e. e = UrlErr) (\<lambda>e. io_bind (message_of e) (\<lambda>m. io_ret (Inl m)))) (\<lambda>answer. case answer of
       Inl m \<Rightarrow> io_ret (Some (rs, Some (''GitHub repository discovery failed: '' @ m)))
     | Inr (status, body) \<Rightarrow> if status \<noteq> 200
         then io_ret (Some (rs, Some (''GitHub repository discovery failed: HTTP '' @ show_int status)))
         else io_bind (json_body body) (\<lambda>j. case j of
           JArr js \<Rightarrow> io_bind (checked_sum (\<lambda>env. add_page env js rs)) (\<lambda>rs'.
             if length js < 100 then io_ret (Some (rs', None)) else account_pages fuel token (page + 1) rs')
         | _ \<Rightarrow> io_ret (Some (rs, Some ''GitHub repository discovery returned an invalid response''))))"

definition discover_registry :: "nat \<Rightarrow> pystr \<Rightarrow> pystr option \<Rightarrow> readme_registry option reading" where
  "discover_registry fuel dir token = io_bind (asked (\<lambda>env n d. Ok (re_is_dir env n d dir))) (\<lambda>there.
     io_bind (if there then io_bind (asked (\<lambda>env n d. re_scan env n d dir)) (\<lambda>es. local_checkouts dir (sort (map fst es)) []) else io_ret []) (\<lambda>rs.
     io_bind (if has_text token then account_pages fuel (case token of Some t \<Rightarrow> t | None \<Rightarrow> []) 1 rs else io_ret (Some (rs, None))) (\<lambda>found.
     case found of None \<Rightarrow> io_ret None
     | Some (rs', err) \<Rightarrow> io_bind iso_now (\<lambda>t. io_ret (Some \<lparr>rg_repositories = rs', rg_token = token, rg_updated = Some t, rg_error = err\<rparr>)))))"

section \<open>Local checkouts\<close>

definition text_of :: "pystr \<Rightarrow> (reader_env, os_state, pystr) prog" where
  "text_of b = checked_sum (\<lambda>env. case re_decode env b of Some c \<Rightarrow> Inr c | None \<Rightarrow> Inl (ValueErr ''invalid UTF-8''))"

fun descend_into :: "nat \<Rightarrow> pystr list \<Rightarrow> (reader_env, os_state, nat) prog" where
  "descend_into fd [] = io_ret fd"
| "descend_into fd (part # parts) = io_bind
     (io_try (io_bind (open_dir fd part) (\<lambda>child. io_then (close_fd fd) (io_ret child))) (\<lambda>_. True) (\<lambda>e. io_then (close_fd fd) (io_raise e)))
     (\<lambda>child. descend_into child parts)"

definition open_directory_no_follow :: "pystr \<Rightarrow> (reader_env, os_state, nat) prog" where
  "open_directory_no_follow path = io_bind (open_path (if absolute_path path then ''/'' else ''.'')) (\<lambda>fd. descend_into fd (path_parts path))"

definition read_local_file_no_follow :: "pystr \<Rightarrow> pystr \<Rightarrow> pystr reading" where
  "read_local_file_no_follow dir name = on_os (io_bind (open_directory_no_follow dir) (\<lambda>fd.
     io_bind (finally_do (open_file fd name) (close_fd fd)) (\<lambda>f. finally_do
       (io_bind (fstat f) (\<lambda>x. case x of Regular _ \<Rightarrow> io_bind (read_bytes f None) text_of | _ \<Rightarrow> io_raise OsErr)) (close_fd f))))"

text \<open>The parts of a README path that a caller may name.\<close>

definition validate_readme_path :: "pystr \<Rightarrow> exn + pystr list" where
  "validate_readme_path path = (let parts = path_parts path in
     if path = [] \<or> absolute_path path \<or> parts = [] \<or> ''..'' \<in> set parts \<or> \<not> is_readme (last parts)
     then Inl (ValueErr (''Invalid README path: '' @ path)) else Inr parts)"

text \<open>Below a directory, entry after entry; what is wrong with one entry is a README with an error.\<close>

definition failed_entry :: "pystr \<Rightarrow> pystr \<Rightarrow> pystr \<Rightarrow> pystr \<Rightarrow> pystr \<Rightarrow> exn \<Rightarrow> readme list reading" where
  "failed_entry name location what shown path e = io_bind (message_of e) (\<lambda>m. io_bind
     (error_readme name location True ((if e = PermErr then ''Permission denied '' else ''Unable to '') @ what @ shown @ '': '' @ m) path) (\<lambda>r. io_ret [r]))"

definition failure_words :: "pystr \<Rightarrow> pystr \<Rightarrow> exn \<Rightarrow> pystr" where
  "failure_words gerund verb e = (if e = PermErr then gerund @ '' '' else verb @ '' '')"

definition read_entry :: "pystr \<Rightarrow> pystr \<Rightarrow> pystr \<Rightarrow> pystr \<Rightarrow> pystr \<Rightarrow> readme list reading" where
  "read_entry name location dir file path = io_bind
     (io_try (io_bind (read_local_file_no_follow dir file) (\<lambda>c. io_ret (Inr c))) os_error
        (\<lambda>e. io_bind (failed_entry name location (failure_words ''reading'' ''read'' e) path path e) (\<lambda>r. io_ret (Inl r)))) (\<lambda>got. case got of
       Inl r \<Rightarrow> io_ret r
     | Inr c \<Rightarrow> io_bind (read_readme name location True path c) (\<lambda>r. io_ret [r]))"

definition visit_entry :: "(pystr \<Rightarrow> pystr \<Rightarrow> readme list reading) \<Rightarrow> pystr \<Rightarrow> pystr \<Rightarrow> pystr \<Rightarrow> pystr \<Rightarrow> pystr \<times> entry_kind outcome \<Rightarrow> readme list reading" where
  "visit_entry inner name location dir relative entry = (case entry of (file, kind) \<Rightarrow>
     let path = (if relative = [] then file else relative @ ''/'' @ file) in
     io_try (io_bind (\<lambda>env s. (kind, s)) (\<lambda>k. case k of
         LinkEntry \<Rightarrow> if is_readme file
           then io_bind (error_readme name location True ''README resolves through a symlink'' path) (\<lambda>r. io_ret [r]) else io_ret []
       | FolderEntry \<Rightarrow> inner (dir @ ''/'' @ file) path
       | FileEntry \<Rightarrow> if is_readme file then read_entry name location dir file path else io_ret []
       | OtherEntry \<Rightarrow> io_ret []))
     os_error (\<lambda>e. failed_entry name location (failure_words ''inspecting'' ''inspect'' e) path path e))"

fun visit_entries :: "(pystr \<times> entry_kind outcome \<Rightarrow> readme list reading) \<Rightarrow> (pystr \<times> entry_kind outcome) list \<Rightarrow> readme list reading" where
  "visit_entries one [] = io_ret []"
| "visit_entries one (e # es) = io_bind (one e) (\<lambda>r. io_bind (visit_entries one es) (\<lambda>rs. io_ret (r @ rs)))"

fun visit_folder :: "nat \<Rightarrow> pystr \<Rightarrow> pystr \<Rightarrow> pystr \<Rightarrow> pystr \<Rightarrow> readme list reading" where
  "visit_folder 0 name location dir relative = io_raise RecursionErr"
| "visit_folder (Suc k) name location dir relative = io_bind
     (io_try (io_bind (asked (\<lambda>env n d. re_scan env n d dir)) (\<lambda>es. io_ret (Inr (sort_key (\<lambda>e. lower (fst e)) es)))) os_error
        (\<lambda>e. io_bind (failed_entry name location (failure_words ''reading directory'' ''read directory'' e) (if relative = [] then ''.'' else relative) relative e)
          (\<lambda>r. io_ret (Inl r)))) (\<lambda>scan. case scan of
       Inl r \<Rightarrow> io_ret r
     | Inr es \<Rightarrow> visit_entries (visit_entry (visit_folder k name location) name location dir relative) es)"

definition read_local_readmes :: "pystr \<Rightarrow> pystr \<Rightarrow> readme list reading" where
  "read_local_readmes name location = (let failed = (\<lambda>m. io_bind (error_readme name location True m []) (\<lambda>r. io_ret [r])) in
     io_bind (asked (\<lambda>env n d. Ok (re_is_link env n d location))) (\<lambda>link. if link then failed ''Repository path resolves through a symlink''
     else io_bind (asked (\<lambda>env n d. Ok (re_exists env n d location))) (\<lambda>there.
     io_bind (if there then asked (\<lambda>env n d. Ok (re_is_dir env n d location)) else io_ret False) (\<lambda>folder.
     if \<not> folder then failed (''Repository path does not exist: '' @ location)
     else io_bind (ask_env re_depth) (\<lambda>k. io_bind (visit_folder k name location location []) (\<lambda>rs.
       if rs = [] then failed ''No README file found'' else io_ret rs))))))"

text \<open>One README of a checkout: a named one, or README.md, or the first.\<close>

definition read_named :: "pystr \<Rightarrow> pystr \<Rightarrow> pystr \<Rightarrow> readme reading" where
  "read_named name location path = io_try (io_bind (checked_sum (\<lambda>_. validate_readme_path path)) (\<lambda>parts.
       io_bind (read_local_file_no_follow (join ''/'' (location # butlast parts)) (last parts)) (read_readme name location True path)))
     (\<lambda>e. os_error e \<or> is_value_error e)
     (\<lambda>e. io_bind (message_of e) (\<lambda>m. io_bind (io_look (\<lambda>s. os_tick (rs_os s))) (\<lambda>n. io_bind (ask_env (\<lambda>env. re_errno env n)) (\<lambda>link.
       error_readme name location True (if e = PermErr then ''Permission denied reading '' @ path @ '': '' @ m
         else if os_error e then (if link then ''README resolves through a symlink'' else ''Unable to read '' @ path @ '': '' @ m)
         else m) path))))"

definition read_local_readme :: "pystr \<Rightarrow> pystr \<Rightarrow> pystr option \<Rightarrow> readme reading" where
  "read_local_readme name location path = (case path of Some p \<Rightarrow> read_named name location p
     | None \<Rightarrow> io_bind (read_local_readmes name location) (\<lambda>rs. case find (\<lambda>r. rm_file r = ''README.md'') rs of
         Some r \<Rightarrow> io_ret r | None \<Rightarrow> (case rs of r # _ \<Rightarrow> io_ret r | [] \<Rightarrow> io_raise IndexErr)))"

section \<open>GitHub\<close>

text \<open>\<open>urllib.parse.quote\<close>: UTF-8, then percent signs.\<close>

definition hex_digit :: "nat \<Rightarrow> char" where
  "hex_digit k = ''0123456789ABCDEF'' ! k"

definition utf8_char :: "char \<Rightarrow> nat list" where
  "utf8_char c = (let k = (of_char c :: nat) in if k < 128 then [k] else [192 + k div 64, 128 + k mod 64])"

definition quote :: "pystr \<Rightarrow> pystr \<Rightarrow> pystr" where
  "quote s safe = concat (map (\<lambda>c. if is_alpha c \<or> c \<in> set digit_chars \<or> c \<in> set ''_.-~'' \<or> c \<in> set safe then [c]
     else concat (map (\<lambda>b. [CHR ''%'', hex_digit (b div 16), hex_digit (b mod 16)]) (utf8_char c))) s)"

text \<open>\<open>path.split("/", 1)\<close> into two.\<close>

definition split_owner :: "pystr \<Rightarrow> exn + pystr \<times> pystr" where
  "split_owner p = (if CHR ''/'' \<in> set p then Inr (takeWhile (\<lambda>c. c \<noteq> CHR ''/'') p, tl (dropWhile (\<lambda>c. c \<noteq> CHR ''/'') p))
     else Inl (ValueErr ''not enough values to unpack (expected 2, got 1)''))"

definition github_owner_repo :: "pystr \<Rightarrow> exn + pystr \<times> pystr" where
  "github_owner_repo address = sum_bind (if starts_with ''git@'' address
       then (if CHR '':'' \<in> set address then Inr (tl (dropWhile (\<lambda>c. c \<noteq> CHR '':'') address)) else Inl IndexErr)
       else (case urlparse address of Inl _ \<Rightarrow> Inl (ValueErr ''Invalid IPv6 URL'')
         | Inr u \<Rightarrow> Inr (if u_scheme u \<noteq> [] \<and> u_netloc u \<noteq> [] then u_path u else address))) (\<lambda>raw.
     let p = rstrip_char CHR ''/'' (lstrip_char CHR ''/'' raw) in split_owner (if ends_with ''.git'' p then take (length p - 4) p else p))"

definition http_get :: "pystr \<Rightarrow> (pystr \<times> pystr) list \<Rightarrow> (pystr \<times> pystr) list \<Rightarrow> (int \<times> json option) reading" where
  "http_get address headers params = asked (\<lambda>env n d. re_get env n address headers params)"

text \<open>\<open>base64.b64decode(payload["content"]).decode("utf-8")\<close>\<close>

definition payload_content :: "json \<Rightarrow> pystr reading" where
  "payload_content j = checked_sum (\<lambda>env. sum_bind (at_key j ''content'') (\<lambda>c. case c of
     JStr s \<Rightarrow> (case re_base64 env s of None \<Rightarrow> Inl (ValueErr ''invalid base64'')
       | Some b \<Rightarrow> (case re_decode env b of Some t \<Rightarrow> Inr t | None \<Rightarrow> Inl (ValueErr ''invalid UTF-8'')))
   | _ \<Rightarrow> Inl TypeErr))"

text \<open>\<open>j.get(k)\<close> of a decoded body.\<close>

definition get_key :: "json \<Rightarrow> pystr \<Rightarrow> json \<Rightarrow> json reading" where
  "get_key j k dflt = (case j of JObj d \<Rightarrow> io_ret (dget_or d k dflt) | _ \<Rightarrow> io_raise AttributeErr)"

text \<open>One entry of a tree: nothing, or a README with or without an error.\<close>

definition read_blob :: "pystr \<Rightarrow> pystr \<Rightarrow> (pystr \<times> pystr) list \<Rightarrow> pystr \<Rightarrow> json \<Rightarrow> readme reading" where
  "read_blob name location headers path address = (case address of
     JStr a \<Rightarrow> io_bind (http_get a headers []) (\<lambda>(status, body). if status \<noteq> 200
         then error_readme name location False (''GitHub README lookup failed: HTTP '' @ show_int status) path
         else io_bind (json_body body) (\<lambda>j. io_bind
           (io_try (io_bind (payload_content j) (\<lambda>c. io_ret (Inr c))) (\<lambda>e. e = KeyErr \<or> is_value_error e) (\<lambda>e. io_ret (Inl e))) (\<lambda>got. case got of
             Inr c \<Rightarrow> read_readme name location False path c
           | Inl e \<Rightarrow> io_bind (message_of e) (\<lambda>m. error_readme name location False (''Invalid GitHub README content: '' @ m) path))))
   | _ \<Rightarrow> error_readme name location False ''GitHub tree entry has no blob URL'' path)"

definition tree_entry :: "pystr \<Rightarrow> pystr \<Rightarrow> (pystr \<times> pystr) list \<Rightarrow> json \<Rightarrow> readme list reading" where
  "tree_entry name location headers item = io_bind (get_key item ''path'' (JStr [])) (\<lambda>path. io_bind (get_key item ''type'' JNull) (\<lambda>type.
     if type \<noteq> JStr ''blob'' then io_ret []
     else (case path of
       JStr p \<Rightarrow> if \<not> is_readme (path_name p) then io_ret []
         else io_bind (get_key item ''url'' JNull) (\<lambda>address. io_bind (read_blob name location headers p address) (\<lambda>r. io_ret [r]))
     | _ \<Rightarrow> io_raise TypeErr)))"

fun tree_entries :: "(json \<Rightarrow> readme list reading) \<Rightarrow> json list \<Rightarrow> readme list reading" where
  "tree_entries one [] = io_ret []"
| "tree_entries one (j # js) = io_bind (one j) (\<lambda>r. io_bind (tree_entries one js) (\<lambda>rs. io_ret (r @ rs)))"

definition read_remote_readmes :: "pystr option \<Rightarrow> pystr \<Rightarrow> pystr \<Rightarrow> readme list reading" where
  "read_remote_readmes token name location = (let failed = (\<lambda>m. io_bind (error_readme name location False m []) (\<lambda>r. io_ret [r])) in
     if \<not> has_text token then failed ''GitHub token not configured''
     else io_bind (checked_sum (\<lambda>_. github_owner_repo location)) (\<lambda>(owner, repo).
     let headers = api_headers github_json ''Bearer'' (case token of Some t \<Rightarrow> t | None \<Rightarrow> []);
         base = ''https://api.github.com/repos/'' @ owner @ ''/'' @ repo in
     io_bind (http_get base headers []) (\<lambda>(status, body). if status \<noteq> 200 then failed (''GitHub repository lookup failed: HTTP '' @ show_int status)
     else io_bind (json_body body) (\<lambda>j. io_bind (get_key j ''default_branch'' JNull) (\<lambda>branch. case branch of
       JStr b \<Rightarrow> if b = [] then failed ''GitHub repository has no default branch''
         else io_bind (http_get (base @ ''/git/trees/'' @ quote b []) headers [(''recursive'', ''1'')]) (\<lambda>(status', body').
           if status' \<noteq> 200 then failed (''GitHub tree lookup failed: HTTP '' @ show_int status')
           else io_bind (json_body body') (\<lambda>tree. io_bind (get_key tree ''truncated'' JNull) (\<lambda>cut.
             if cut = JBool True then failed ''GitHub repository tree is truncated; README discovery is incomplete''
             else io_bind (get_key tree ''tree'' (JArr [])) (\<lambda>items. io_bind (checked_sum (\<lambda>_. listed items)) (\<lambda>js.
               io_bind (tree_entries (tree_entry name location headers) js) (\<lambda>rs.
                 if rs = [] then failed ''No README file found'' else io_ret rs))))))
     | _ \<Rightarrow> failed ''GitHub repository has no default branch'')))))"

definition read_remote_named :: "pystr \<Rightarrow> pystr \<Rightarrow> (pystr \<times> pystr) list \<Rightarrow> pystr \<Rightarrow> pystr \<Rightarrow> readme reading" where
  "read_remote_named name location headers base path = (case validate_readme_path path of
     Inl e \<Rightarrow> io_bind (message_of e) (\<lambda>m. error_readme name location False m path)
   | Inr parts \<Rightarrow> io_try (io_bind (http_get (base @ ''/contents/'' @ quote (join ''/'' parts) ''/'') headers []) (\<lambda>(status, body).
       if status \<noteq> 200 then error_readme name location False (''GitHub README API error: '' @ show_int status) path
       else io_bind (json_body body) (\<lambda>j. io_bind (get_key j ''path'' JNull) (\<lambda>got.
         if got \<noteq> JStr path then error_readme name location False ''GitHub returned a different README path'' path
         else io_bind (payload_content j) (read_readme name location False path)))))
     (\<lambda>_. True) (\<lambda>e. io_bind (message_of e) (\<lambda>m. error_readme name location False (''Failed to fetch README '' @ path @ '': '' @ m) path)))"

definition read_remote_root :: "pystr \<Rightarrow> pystr \<Rightarrow> (pystr \<times> pystr) list \<Rightarrow> pystr \<Rightarrow> readme reading" where
  "read_remote_root name location headers base = io_try (io_bind (http_get (base @ ''/readme'') headers []) (\<lambda>(status, body).
       if status = 404 then error_readme name location False ''Repository not found'' []
       else if status \<noteq> 200 then error_readme name location False (''GitHub API error: '' @ show_int status) []
       else io_bind (json_body body) (\<lambda>j. io_bind (payload_content j) (read_readme name location False ''README.md''))))
     (\<lambda>_. True) (\<lambda>e. io_bind (message_of e) (\<lambda>m. error_readme name location False (''Failed to fetch README: '' @ m) []))"

definition read_remote_readme :: "pystr option \<Rightarrow> pystr \<Rightarrow> pystr \<Rightarrow> pystr option \<Rightarrow> readme reading" where
  "read_remote_readme token name location path = (if \<not> has_text token then error_readme name location False ''GitHub token not configured'' []
     else case github_owner_repo location of
       Inl e \<Rightarrow> io_bind (message_of e) (\<lambda>m. error_readme name location False (''Failed to parse GitHub URL: '' @ m) [])
     | Inr (owner, repo) \<Rightarrow>
         let headers = api_headers ''application/vnd.github.v3+json'' ''token'' (case token of Some t \<Rightarrow> t | None \<Rightarrow> []);
             base = ''https://api.github.com/repos/'' @ owner @ ''/'' @ repo in
         (case path of Some p \<Rightarrow> read_remote_named name location headers base p | None \<Rightarrow> read_remote_root name location headers base))"

section \<open>The reader\<close>

record readme_reader =
  rr_registry :: readme_registry
  rr_token :: "pystr option"

text \<open>Whatever goes wrong in one repository is one README with an error.\<close>

definition discover_repo_readmes :: "readme_reader \<Rightarrow> pystr \<Rightarrow> pystr \<Rightarrow> readme list reading" where
  "discover_repo_readmes r name location = (let remote = remote_location location in io_try
     (if remote then read_remote_readmes (rr_token r) name location else read_local_readmes name location)
     (\<lambda>_. True) (\<lambda>e. io_bind (message_of e) (\<lambda>m. io_bind (error_readme name location (\<not> remote) m []) (\<lambda>x. io_ret [x]))))"

fun discover_each :: "readme_reader \<Rightarrow> (pystr \<times> pystr) list \<Rightarrow> readme list reading" where
  "discover_each r [] = io_ret []"
| "discover_each r ((name, location) # rs) = io_bind (discover_repo_readmes r name location) (\<lambda>x.
     io_bind (discover_each r rs) (\<lambda>xs. io_ret (x @ xs)))"

definition discover_readmes :: "readme_reader \<Rightarrow> readme list reading" where
  "discover_readmes r = discover_each r (rg_repositories (rr_registry r))"

text \<open>One day, in microseconds.\<close>

definition cache_limit :: int where
  "cache_limit = 86400 * 1000000"

definition put_cache :: "pystr \<Rightarrow> readme \<Rightarrow> unit reading" where
  "put_cache k x = io_bind clock (\<lambda>t env s. (Ok (), s\<lparr>rs_cache := AList.update k (x, t) (rs_cache s)\<rparr>))"

definition fresh_cached :: "bool \<Rightarrow> pystr \<Rightarrow> readme option reading" where
  "fresh_cached force k = io_bind (io_look rs_cache) (\<lambda>c. case map_of c k of
     Some (x, t) \<Rightarrow> if force then io_ret None
       else io_bind clock (\<lambda>now. io_ret (if now - t < cache_limit then Some x else None))
   | None \<Rightarrow> io_ret None)"

definition read_repo_readme :: "readme_reader \<Rightarrow> pystr \<Rightarrow> pystr \<Rightarrow> bool \<Rightarrow> pystr option \<Rightarrow> readme reading" where
  "read_repo_readme r name location force path = (let
       key = name @ '':'' @ location @ '':'' @ (case path of None \<Rightarrow> ''<root>'' | Some p \<Rightarrow> p); remote = remote_location location in
     io_bind (fresh_cached force key) (\<lambda>hit. case hit of Some x \<Rightarrow> io_ret x
     | None \<Rightarrow> io_bind (io_try (if remote then read_remote_readme (rr_token r) name location path else read_local_readme name location path)
           (\<lambda>_. True) (\<lambda>e. io_bind (message_of e) (\<lambda>m. error_readme name location (\<not> remote) m []))) (\<lambda>x.
         io_then (put_cache key x) (io_ret x))))"

definition get_readme :: "readme_reader \<Rightarrow> pystr \<Rightarrow> bool \<Rightarrow> pystr option \<Rightarrow> readme option reading" where
  "get_readme r name force path = (case map_of (rg_repositories (rr_registry r)) name of None \<Rightarrow> io_ret None
   | Some location \<Rightarrow> io_bind (read_repo_readme r name location force path) (\<lambda>x. io_ret (Some x)))"

definition readme_ok :: "readme \<Rightarrow> bool" where
  "readme_ok x = (\<not> has_text (rm_error x))"

definition contents_of :: "readme list \<Rightarrow> (pystr \<times> pystr) list" where
  "contents_of xs = fold (\<lambda>x d. AList.update (rm_repo x @ '':'' @ rm_file x) (rm_content x) d) (filter readme_ok xs) []"

definition get_all_readmes :: "readme_reader \<Rightarrow> (pystr \<times> pystr) list reading" where
  "get_all_readmes r = io_bind (discover_readmes r) (\<lambda>xs. io_ret (contents_of xs))"

section \<open>The summary\<close>

definition preview :: "pystr \<Rightarrow> pystr" where
  "preview c = (if 500 < int (length c) then take 500 c @ ''...'' else c)"

definition summary_entry :: "bool \<Rightarrow> readme \<Rightarrow> json" where
  "summary_entry previews x = JObj (if \<not> readme_ok x
     then [(''repo'', JStr (rm_repo x)), (''status'', JStr ''error''), (''error'', text_json (rm_error x))]
     else [(''repo'', JStr (rm_repo x)), (''status'', JStr ''ok''), (''path'', JStr (rm_location x)), (''readme_file'', JStr (rm_file x)),
       (''size'', JInt (int (length (rm_content x))))] @ (if previews then [(''preview'', JStr (preview (rm_content x)))] else []))"

definition summary_of :: "(pystr \<times> pystr) list \<Rightarrow> bool \<Rightarrow> readme list \<Rightarrow> pystr \<Rightarrow> pydict" where
  "summary_of repos previews xs t = (let good = remdups (map rm_repo (filter readme_ok xs));
       bad = filter (\<lambda>n. n \<notin> set good) (remdups (map fst repos)); count = (\<lambda>k :: nat. JInt (int k)) in
     [(''timestamp'', JStr t), (''total_repos'', count (length repos)), (''total_readmes'', count (length xs)), (''successful'', count (length good)), (''failed'', count (length bad)),
      (''successful_readmes'', count (length (filter readme_ok xs))), (''failed_readmes'', count (length (filter (\<lambda>x. \<not> readme_ok x) xs))),
      (''readmes'', JArr (map (summary_entry previews) xs))])"

definition get_summary :: "readme_reader \<Rightarrow> bool \<Rightarrow> pydict reading" where
  "get_summary r previews = io_bind (discover_readmes r) (\<lambda>xs. io_bind iso_now (\<lambda>t. io_ret (summary_of (rg_repositories (rr_registry r)) previews xs t)))"

end
