(* ===== verification/ReadmeProps.thy ===== *)
theory ReadmeProps
  imports Readmes
begin

text \<open>
  What discovery promises: it never raises, and every repository is answered for.  Then two runs on which READMEs that
  are there do not appear.
\<close>

section \<open>READMEs of one repository\<close>

interpretation anyhow: effect_law F "\<lambda>_ _. True" for F
  by unfold_locales simp_all

definition yields :: "'a reading \<Rightarrow> ('a \<Rightarrow> bool) \<Rightarrow> bool" where
  "yields m Q = io_gives (\<lambda>_. True) (\<lambda>_. True) (\<lambda>_ _. True) m Q"

lemma yieldsI: "(\<And>env s a s'. m env s = (Ok a, s') \<Longrightarrow> Q a) \<Longrightarrow> yields m Q"
  by (auto simp: yields_def io_gives_def)

lemma yieldsD: "yields m Q \<Longrightarrow> m env s = (Ok a, s') \<Longrightarrow> Q a"
  unfolding yields_def using io_givesD [of "\<lambda>_. True" "\<lambda>_. True" "\<lambda>_ _. True" m Q env s] by blast

lemma yields_true: "yields m (\<lambda>_. True)"
  by (rule yieldsI) simp

lemma yields_ret: "Q a \<Longrightarrow> yields (io_ret a) Q"
  unfolding yields_def by (rule anyhow.gives_ret)

lemma yields_raise: "yields (io_raise e) Q"
  unfolding yields_def by (rule anyhow.gives_raise)

lemma yields_bind: "yields m R \<Longrightarrow> (\<And>a. R a \<Longrightarrow> yields (f a) Q) \<Longrightarrow> yields (io_bind m f) Q"
  unfolding yields_def by (rule anyhow.gives_bind)

lemma yields_bind_any: "(\<And>a. yields (f a) Q) \<Longrightarrow> yields (io_bind m f) Q"
  by (rule yields_bind [OF yields_true])

lemma yields_try: "yields m Q \<Longrightarrow> (\<And>e. yields (h e) Q) \<Longrightarrow> yields (io_try m p h) Q"
  unfolding yields_def by (rule anyhow.gives_try)

lemma yields_if: "yields m Q \<Longrightarrow> yields n Q \<Longrightarrow> yields (if b then m else n) Q"
  by simp

lemma yields_option: "yields m Q \<Longrightarrow> (\<And>a. yields (f a) Q) \<Longrightarrow> yields (case x of None \<Rightarrow> m | Some a \<Rightarrow> f a) Q"
  by (cases x) simp_all

lemma yields_pair: "(\<And>a b. yields (f a b) Q) \<Longrightarrow> yields (case x of (a, b) \<Rightarrow> f a b) Q"
  by (cases x) simp

lemma yields_text: "(\<And>t. yields (f t) Q) \<Longrightarrow> yields n Q \<Longrightarrow> yields (case j of JStr t \<Rightarrow> f t | _ \<Rightarrow> n) Q"
  by (cases j) simp_all

lemma yields_let: "yields (f x) Q \<Longrightarrow> yields (let y = x in f y) Q"
  by simp

text \<open>A README, and a list of READMEs, of one repository.\<close>

definition readme_from :: "pystr \<Rightarrow> pystr \<Rightarrow> readme \<Rightarrow> bool" where
  "readme_from name location x = (rm_repo x = name \<and> rm_location x = location)"

definition readmes_from :: "pystr \<Rightarrow> pystr \<Rightarrow> readme list \<Rightarrow> bool" where
  "readmes_from name location xs = (\<forall>x\<in>set xs. readme_from name location x)"

lemma yields_readme: "yields (error_readme name location own m f) (readme_from name location)" "yields (read_readme name location own f c) (readme_from name location)"
  by (auto intro!: yieldsI simp: error_readme_def read_readme_def iso_now_def readme_from_def bind_Ok ret_Ok ask_env_Ok)

lemma yields_single: "yields m (readme_from name location) \<Longrightarrow> yields (io_bind m (\<lambda>x. io_ret [x])) (readmes_from name location)"
  by (erule yields_bind) (simp add: yields_ret readmes_from_def)

lemma from_Nil: "readmes_from name location []"
  by (simp add: readmes_from_def)

lemmas yields_rules = yields_bind_any yields_single yields_readme yields_if yields_let yields_ret yields_raise from_Nil

lemma yields_failed: "yields (failed_entry name location what shown path e) (readmes_from name location)"
  unfolding failed_entry_def by (intro yields_rules)

lemma yields_read_entry: "yields (read_entry name location dir f path) (readmes_from name location)"
  unfolding read_entry_def
proof (rule yields_bind [where R = "\<lambda>got. case got of Inl r \<Rightarrow> readmes_from name location r | Inr c \<Rightarrow> True"])
  show "yields (io_try (io_bind (read_local_file_no_follow dir f) (\<lambda>c. io_ret (Inr c))) os_error
      (\<lambda>e. io_bind (failed_entry name location (failure_words ''reading'' ''read'' e) path path e) (\<lambda>r. io_ret (Inl r))))
      (\<lambda>got. case got of Inl r \<Rightarrow> readmes_from name location r | Inr c \<Rightarrow> True)"
    by (intro yields_try yields_bind_any yields_ret yields_bind [OF yields_failed]) simp_all
  fix got :: "readme list + pystr"
  assume "case got of Inl r \<Rightarrow> readmes_from name location r | Inr c \<Rightarrow> True"
  then show "yields (case got of Inl r \<Rightarrow> io_ret r | Inr c \<Rightarrow> io_bind (read_readme name location True path c) (\<lambda>r. io_ret [r])) (readmes_from name location)"
    by (cases got) (auto intro!: yields_rules)
qed

lemma yields_visit_entry:
  assumes "\<And>dir rel. yields (inner dir rel) (readmes_from name location)"
  shows "yields (visit_entry inner name location dir relative entry) (readmes_from name location)"
proof -
  have "yields (case k of LinkEntry \<Rightarrow> if is_readme f then io_bind (error_readme name location True ''README resolves through a symlink'' path) (\<lambda>r. io_ret [r]) else io_ret []
       | FolderEntry \<Rightarrow> inner (dir @ ''/'' @ f) path
       | FileEntry \<Rightarrow> if is_readme f then read_entry name location dir f path else io_ret []
       | OtherEntry \<Rightarrow> io_ret []) (readmes_from name location)" for k f path
    by (cases k) (auto intro!: yields_rules assms yields_read_entry)
  then show ?thesis unfolding visit_entry_def
    by (intro yields_pair yields_let yields_try yields_failed yields_bind_any)
qed

lemma yields_append:
  assumes "yields m (readmes_from name location)" "yields n (readmes_from name location)"
  shows "yields (io_bind m (\<lambda>r. io_bind n (\<lambda>rs. io_ret (r @ rs)))) (readmes_from name location)"
proof (rule yields_bind [OF assms(1)], rule yields_bind [OF assms(2)])
  fix r rs assume "readmes_from name location r" "readmes_from name location rs"
  then show "yields (io_ret (r @ rs)) (readmes_from name location)" by (intro yields_ret) (auto simp: readmes_from_def)
qed

lemma yields_visit: "yields (visit_folder k name location dir relative) (readmes_from name location)"
proof (induction k arbitrary: dir relative)
  case (Suc k)
  have entries: "yields (visit_entries (visit_entry (visit_folder k name location) name location dir relative) es) (readmes_from name location)" for es
    by (induction es) (simp_all add: yields_ret from_Nil yields_append yields_visit_entry Suc.IH)
  show ?case unfolding visit_folder.simps
  proof (rule yields_bind [where R = "\<lambda>got. case got of Inl r \<Rightarrow> readmes_from name location r | Inr es \<Rightarrow> True"])
    show "yields (io_try (io_bind (asked (\<lambda>env n d. re_scan env n d dir)) (\<lambda>es. io_ret (Inr (sort_key (\<lambda>e. lower (fst e)) es)))) os_error
        (\<lambda>e. io_bind (failed_entry name location (failure_words ''reading directory'' ''read directory'' e) (if relative = [] then ''.'' else relative) relative e)
          (\<lambda>r. io_ret (Inl r)))) (\<lambda>got. case got of Inl r \<Rightarrow> readmes_from name location r | Inr es \<Rightarrow> True)"
      by (intro yields_try yields_bind_any yields_ret yields_bind [OF yields_failed]) simp_all
    fix got :: "readme list + (pystr \<times> entry_kind outcome) list"
    assume "case got of Inl r \<Rightarrow> readmes_from name location r | Inr es \<Rightarrow> True"
    then show "yields (case got of Inl r \<Rightarrow> io_ret r
        | Inr es \<Rightarrow> visit_entries (visit_entry (visit_folder k name location) name location dir relative) es) (readmes_from name location)"
      by (cases got) (auto intro!: yields_rules entries)
  qed
qed (simp add: yields_raise)

section \<open>Every repository\<close>

text \<open>At least one README, all of the repository.\<close>

definition answered :: "pystr \<Rightarrow> pystr \<Rightarrow> readme list \<Rightarrow> bool" where
  "answered name location xs = (xs \<noteq> [] \<and> readmes_from name location xs)"

lemma yields_answer: "yields m (readme_from name location) \<Longrightarrow> yields (io_bind m (\<lambda>x. io_ret [x])) (answered name location)"
  by (erule yields_bind) (simp add: yields_ret readmes_from_def answered_def)

lemma yields_or_failed:
  assumes "yields m (readmes_from name location)"
  shows "yields (io_bind m (\<lambda>rs. if rs = [] then io_bind (error_readme name location own t []) (\<lambda>r. io_ret [r]) else io_ret rs)) (answered name location)"
proof (rule yields_bind [OF assms])
  fix rs assume "readmes_from name location rs"
  then show "yields (if rs = [] then io_bind (error_readme name location own t []) (\<lambda>r. io_ret [r]) else io_ret rs) (answered name location)"
    by (auto intro!: yields_answer yields_readme yields_ret simp: answered_def)
qed

lemma yields_local: "yields (read_local_readmes name location) (answered name location)"
  unfolding read_local_readmes_def Let_def
  by (intro yields_bind_any yields_if yields_answer yields_readme yields_or_failed yields_visit)

lemma yields_blob: "yields (read_blob name location headers path address) (readme_from name location)"
proof -
  have "yields (case got of Inr c \<Rightarrow> read_readme name location False path c
      | Inl e \<Rightarrow> io_bind (message_of e) (\<lambda>m. error_readme name location False (''Invalid GitHub README content: '' @ m) path)) (readme_from name location)"
    for got :: "exn + pystr"
    by (cases got) (auto intro!: yields_rules)
  then show ?thesis unfolding read_blob_def
    by (intro yields_text yields_readme yields_bind_any yields_pair yields_if)
qed

lemma yields_tree_entry: "yields (tree_entry name location headers item) (readmes_from name location)"
  unfolding tree_entry_def
  by (intro yields_bind_any yields_if yields_text yields_ret from_Nil yields_raise yields_single yields_blob)

lemma yields_tree: "yields (tree_entries (tree_entry name location headers) js) (readmes_from name location)"
  by (induction js) (simp_all add: yields_ret from_Nil yields_append yields_tree_entry)

lemma yields_remote: "yields (read_remote_readmes token name location) (answered name location)"
  unfolding read_remote_readmes_def Let_def
  by (intro yields_bind_any yields_if yields_answer yields_readme yields_pair yields_text yields_or_failed yields_tree)

lemma yields_repo: "yields (discover_repo_readmes r name location) (answered name location)"
  unfolding discover_repo_readmes_def Let_def
  by (intro yields_try yields_if yields_remote yields_local yields_bind_any yields_answer yields_readme)

lemma yields_each: "yields (discover_each r rs) (\<lambda>xs. \<forall>p\<in>set rs. \<exists>x\<in>set xs. readme_from (fst p) (snd p) x)"
proof (induction rs)
  case (Cons p rs)
  obtain n l where p: "p = (n, l)" by fastforce
  show ?case unfolding p discover_each.simps
  proof (rule yields_bind [OF yields_repo], rule yields_bind [OF Cons.IH])
    fix xs ys assume "answered n l xs" "\<forall>p\<in>set rs. \<exists>x\<in>set ys. readme_from (fst p) (snd p) x"
    then show "yields (io_ret (xs @ ys)) (\<lambda>xs. \<forall>p\<in>set ((n, l) # rs). \<exists>x\<in>set xs. readme_from (fst p) (snd p) x)"
      by (intro yields_ret) (cases xs; auto simp: answered_def readmes_from_def)
  qed
qed (simp add: yields_ret)

text \<open>A program that does not raise.\<close>

definition never_raises :: "'a reading \<Rightarrow> bool" where
  "never_raises m = (\<forall>env s e. fst (m env s) \<noteq> Raised e)"

lemma total_bind:
  assumes "never_raises m" "\<And>a. never_raises (f a)"
  shows "never_raises (io_bind m f)"
  unfolding never_raises_def
proof (intro allI)
  fix env s e
  obtain r s1 where m: "m env s = (r, s1)" by fastforce
  have "r \<noteq> Raised e" for e using assms(1) m unfolding never_raises_def by (metis fst_conv)
  then show "fst (io_bind m f env s) \<noteq> Raised e"
    using m assms(2) by (cases r) (auto simp: io_bind_def never_raises_def)
qed

lemma total_basic: "never_raises (io_ret a)" "never_raises (ask_env f)" "never_raises clock" "never_raises iso_now" "never_raises (message_of e)" "never_raises (error_readme name location own t path)"
  by (simp_all add: never_raises_def io_ret_def ask_env_def clock_def iso_now_def message_of_def error_readme_def io_bind_def io_look_def)

lemma total_try: "(\<And>e. never_raises (h e)) \<Longrightarrow> never_raises (io_try m (\<lambda>_. True) h)"
  by (auto simp: never_raises_def io_try_def split: prod.splits outcome.splits)

lemma total_each: "never_raises (discover_each r rs)"
  by (induction rs) (auto simp: discover_repo_readmes_def Let_def intro!: total_bind total_basic total_try)

text \<open>C40. Discovery never raises, whatever fails on disk, on the network or in a document; what it returns has, for every
  repository of the registry, a README or an error entry with its name and location.\<close>

theorem every_repository_is_answered:
  assumes "discover_readmes r env s = (res, s')" "res \<noteq> Died"
  shows "\<exists>xs. res = Ok xs \<and> (\<forall>(name, location)\<in>set (rg_repositories (rr_registry r)). \<exists>x\<in>set xs. rm_repo x = name \<and> rm_location x = location)"
proof -
  have "res \<noteq> Raised e" for e
    using total_each [of r "rg_repositories (rr_registry r)"] assms(1) unfolding never_raises_def discover_readmes_def by (metis fst_conv)
  then obtain xs where xs: "res = Ok xs" using assms(2) by (cases res) auto
  have "\<forall>p\<in>set (rg_repositories (rr_registry r)). \<exists>x\<in>set xs. readme_from (fst p) (snd p) x"
    by (rule yieldsD [OF yields_each]) (use assms(1) xs in \<open>auto simp: discover_readmes_def\<close>)
  then show ?thesis using xs by (fastforce simp: readme_from_def)
qed

section \<open>Enough pages\<close>

text \<open>Fuel runs out only behind that many full pages: an account of fewer than \<open>100 * fuel\<close> repositories is read to its end.\<close>

lemma asked_Ok: "asked f env s = (Ok a, s') \<Longrightarrow> (\<exists>d. f env (os_tick (rs_os s)) d = Ok a) \<and> os_tick (rs_os s') = os_tick (rs_os s) + 1"
  by (auto simp: asked_def on_os_def os_call_def Let_def split: prod.splits option.splits)

lemma pages_run_out:
  assumes "account_pages fuel token page rs env s = (Ok None, s')"
  shows "\<forall>k<fuel. \<exists>js. 100 \<le> length js \<and> re_get env (os_tick (rs_os s) + k) ''https://api.github.com/user/repos''
    (api_headers github_json ''Bearer'' token) [(''per_page'', ''100''), (''page'', show_nat (page + k))] = Ok (200, Some (JArr js))"
  using assms
proof (induction fuel arbitrary: page rs s)
  case (Suc fuel)
  obtain js rs' s1 where js: "asked (\<lambda>env n d. re_get env n ''https://api.github.com/user/repos'' (api_headers github_json ''Bearer'' token)
      [(''per_page'', ''100''), (''page'', show_nat page)]) env s = (Ok (200, Some (JArr js)), s1)" "100 \<le> length js"
    and rest: "account_pages fuel token (page + 1) rs' env s1 = (Ok None, s')"
    using Suc.prems
    by (auto simp: returns checked_Ok json_body_def message_of_def split: if_splits option.splits json.splits)
  show ?case
  proof (intro allI impI)
    fix k assume k: "k < Suc fuel"
    show "\<exists>js. 100 \<le> length js \<and> re_get env (os_tick (rs_os s) + k) ''https://api.github.com/user/repos''
        (api_headers github_json ''Bearer'' token) [(''per_page'', ''100''), (''page'', show_nat (page + k))] = Ok (200, Some (JArr js))"
    proof (cases k)
      case 0
      then show ?thesis using asked_Ok [OF js(1)] js(2) by auto
    next
      case (Suc j)
      then show ?thesis using Suc.IH [OF rest] asked_Ok [OF js(1)] k by auto
    qed
  qed
qed simp

section \<open>Two runs\<close>

text \<open>A checkout with two READMEs, and a repository on GitHub that is down at first.\<close>

definition demo_reader_env :: "pystr \<Rightarrow> reader_env" where
  "demo_reader_env bad = \<lparr>os_other = (\<lambda>_ d. d), os_fault = (\<lambda>_. None), os_fresh = (\<lambda>n _. n), os_lookup = (\<lambda>_ _ _. Some 0),
     re_time = int, re_iso = (\<lambda>_. []), re_is_link = (\<lambda>_ _ _. False), re_is_dir = (\<lambda>_ _ _. True), re_exists = (\<lambda>_ _ _. True),
     re_scan = (\<lambda>_ _ _. Ok [(''README.md'', Ok FileEntry), (''readme.txt'', Ok FileEntry)]), re_file = (\<lambda>_ _. Raised OsErr),
     re_get = (\<lambda>n _ _ _. if n = 0 then Raised UrlErr else Ok (200, Some (JObj [(''content'', JStr ''hello'')]))),
     re_decode = (\<lambda>b. if b = bad then None else Some b), re_base64 = Some, re_sha = id, re_text = (\<lambda>_. ''failed''), re_str = (\<lambda>_. []),
     re_errno = (\<lambda>_. False), re_depth = 3\<rparr>"

definition demo_readmes :: "reader_state" where
  "demo_readmes = \<lparr>rs_os = \<lparr>os_nodes = [0 \<mapsto> Folder 0 [(''r'', 1)], 1 \<mapsto> Folder 0 [(''README.md'', 2), (''readme.txt'', 3)], 2 \<mapsto> Regular ''one'',
     3 \<mapsto> Regular ''two''], os_open = [], os_touched = [], os_tick = 0\<rparr>, rs_cache = []\<rparr>"

definition demo_readme_reader :: readme_reader where
  "demo_readme_reader = \<lparr>rr_registry = \<lparr>rg_repositories = [(''r'', ''/r''), (''g'', ''https://github.com/o/g'')], rg_token = None, rg_updated = None, rg_error = None\<rparr>,
     rr_token = Some ''t''\<rparr>"

definition readmes_found :: "readme list outcome \<times> reader_state \<Rightarrow> (pystr \<times> pystr \<times> pystr option) list" where
  "readmes_found run = (case fst run of Ok xs \<Rightarrow> map (\<lambda>x. (rm_file x, rm_content x, rm_error x)) xs | _ \<Rightarrow> [])"

lemma both_readmes: "take 2 (readmes_found (discover_readmes demo_readme_reader (demo_reader_env []) demo_readmes)) =
    [(''README.md'', ''one'', None), (''readme.txt'', ''two'', None)]"
  by code_simp

text \<open>When one README is not UTF-8 the other is lost too: the loop catches only OSError.\<close>

lemma bad_readme_hides_others: "take 1 (readmes_found (discover_readmes demo_readme_reader (demo_reader_env ''two'') demo_readmes)) =
    [([], [], Some ''invalid UTF-8'')]"
  by code_simp

text \<open>A failed request is answered from the cache for a day.\<close>

lemma failure_is_cached: "(case get_readme demo_readme_reader ''g'' False None (demo_reader_env []) demo_readmes of (_, s) \<Rightarrow>
    (case get_readme demo_readme_reader ''g'' False None (demo_reader_env []) s of (Ok (Some x), _) \<Rightarrow> rm_error x | _ \<Rightarrow> None)) =
    Some ''Failed to fetch README: failed''"
  by code_simp

lemma every_repository_is_answered_witness: "\<exists>xs. fst (discover_readmes demo_readme_reader (demo_reader_env []) demo_readmes) = Ok xs \<and>
    (\<exists>x\<in>set xs. rm_repo x = ''r'' \<and> rm_location x = ''/r'') \<and> (\<exists>x\<in>set xs. rm_repo x = ''g'')"
proof -
  obtain res s' where run: "discover_readmes demo_readme_reader (demo_reader_env []) demo_readmes = (res, s')" by fastforce
  have "res \<noteq> Died" using both_readmes by (auto simp: run readmes_found_def)
  from every_repository_is_answered [OF run this] obtain xs where "res = Ok xs"
    "\<forall>(name, location)\<in>{(''r'', ''/r''), (''g'', ''https://github.com/o/g'')}. \<exists>x\<in>set xs. rm_repo x = name \<and> rm_location x = location"
    by (auto simp: demo_readme_reader_def)
  then show ?thesis by (auto simp: run)
qed

end
