(* ===== verification/Spec2Isabelle.thy ===== *)
theory Spec2Isabelle
  imports SchedulerProps LifecycleProps QueueProps StorageProps StoreRecovery DaemonProps Review
    ShiftProps ShiftRoutes GtxRuns AdapterProps GateProps HandlerProps ProfileProps VaultProps ReadmeProps
begin

text \<open>
  The GTX broker: a scheduler that shares two GPUs, a GTX 1650 and a P40, among chat, vision and coding
  tasks, the daemon that runs the tasks, and Second Shift, which decides who works on a coding goal after the
  P40 has failed and works off a backlog of coding items, one at a time.

  \<^bold>\<open>The program and how its parts interact.\<close>

  A client adds tasks to the SQLite database (src/gtx_broker/scheduler/scheduler.py) and puts the images of
  vision tasks into the file store (storage.py, telegram_staging.py).  The daemon (daemon.py) polls: it asks the
  queue (policies.py, \<open>get_pending_tasks\<close>) for the next task, claims it, checks the manifest of a coding task
  (task_manifest.py, repository_boundary.py), claims its input in the store, starts it on a worker (workers.py),
  runs a handler (handlers.py) under the model profile of the P40 (model_profiles.py) and records the outcome in the
  database and the store.  After a restart it reconciles the
  two.  Some results wait for an operator (review.py), epochs hold a batch of tasks behind a review barrier
  (epoch_manager.py).  Second Shift (src/second_shift) keeps a registry of models and a ledger of attempts in two
  files; its dispatcher routes a coding goal, with the help of the broker's director
  (src/gtx_broker/controller.py, classifier.py, escalation_policy.py, state.py) under one of its workflows.  The
  backlog (backlog_manifest.py, backlog_runner.py) is a manifest of items whose status the registry keeps; the
  execution adapter (backlog_execution_adapter.py) claims an item, has the dispatcher route it, runs a worker, the
  tests and the review gates, reports to the dispatcher and settles the item.  Beside all this the broker reads a vault
  of notes and writes into one directory of it (vault_readers.py), and collects the READMEs of local and remote
  repositories (repo_readers.py).

  \<^bold>\<open>The library.\<close>

  \<^item> \<open>GtxPrelude\<close>: Python's string methods, JSON documents, tables as lists of rows, the lemma collections.
  \<^item> \<open>BrokerDb\<close>, \<open>SqlSession\<close>: the tables as records, and methods as programs of SQL statements.  A session is
    the committed database, the working copy of an open transaction and a counter of statements; the
    environment says which statements fail and what other clients do between two of them.  The locale
    \<open>guarantee\<close> is the contract "every statement has one of the allowed effects"; \<open>Protocol\<close> and \<open>Transitions\<close>
    interpret it for the effects the scheduler's statements have and for the tasks table.
  \<^item> \<open>Effects\<close>: programs that return, raise or are killed, with the locale \<open>effect_law\<close> (what a program may do to
    its state, closed under sequencing and handlers) and weakest preconditions over such runs.
  \<^item> \<open>PyLibrary\<close>: what handlers and adapters use of Python's library: \<open>shlex\<close>, paths, indexing with its exceptions,
    \<open>finally\<close>, and the lemma collection \<open>returns\<close> that takes a returning program apart.

  \<^bold>\<open>Theories and the code they model.\<close>

  \<^item> \<open>RepositoryBoundary\<close>, \<open>TaskManifest\<close>: repository_boundary.py, task_manifest.py.  The records \<open>owned_repository\<close>,
    \<open>preflight\<close> and the check of a manifest with the error of each branch; git and the file system are
    parameters.
  \<^item> \<open>Workers\<close>, \<open>Scheduler\<close>, \<open>Queue\<close>, \<open>Epochs\<close>: workers.py, scheduler.py, policies.py, epoch_manager.py.  One definition
    per method, statement by statement, with the transaction or autocommit mode of the code.
  \<^item> \<open>Storage\<close>, \<open>Staging\<close>: storage.py and telegram_staging.py.  A disk is a map from lifecycle root and task to a
    directory; each file operation may work, fail, be torn, or be the last of a killed process.
  \<^item> \<open>Daemon\<close>, \<open>Review\<close>: daemon.py and review.py as programs over the database session and the store together.
  \<^item> \<open>Handlers\<close>, \<open>Profiles\<close>: scheduler/handlers.py and scheduler/model_profiles.py, one definition per method, over an
    environment that says at each moment how a process, a request or a file operation ends.  \<open>Daemon\<close> knows handlers and
    the profile only by their results, so its properties hold for these and for any others.
  \<^item> \<open>Inodes\<close>, \<open>Vault\<close>: vault_readers.py over system calls on inodes that others change between any two calls.  A
    descriptor is the number of its inode, and the state records which inodes were touched through descriptors.
    \<open>Readmes\<close>: repo_readers.py over the same calls, with HTTP and the clock as moments of the environment.
  \<^item> \<open>Escalation\<close>, \<open>GtxDirector\<close>: classifier.py and escalation_policy.py as functions; state.py and controller.py as
    programs over the registry of Second Shift, in which the broker has a namespace.
  \<^item> \<open>Shift\<close>, \<open>ShiftHealth\<close>, \<open>ShiftDispatch\<close>: src/second_shift: state.py and registry.py; credit_state.py, ledger.py and
    pool_recovery.py; dispatch.py and workflow_policy.py.  The state is the record \<open>sfile\<close> of the two files, and
    \<open>update_state\<close> reads both, applies a mutator and writes one after the other.
  \<^item> \<open>Backlog\<close>, \<open>Gates\<close>, \<open>Adapter\<close>: backlog_manifest.py and backlog_runner.py; then the workers and review gates, and
    the phases, of backlog_execution_adapter.py, one definition per method.  The adapter is a record of what it was
    constructed with and of the world it calls: each process is a moment at which the environment says how it ends.

  \<^bold>\<open>What the lemmas show.\<close>

  \<^item> \<open>SchedulerProps\<close>, \<open>LifecycleProps\<close>, \<open>QueueProps\<close> (over \<open>Protocol\<close>, \<open>Transitions\<close>, \<open>CalmRuns\<close>): the database invariant among
    protocol-abiding clients, mutual exclusion on the P40, the state machine of a task, what a successful
    claim, start, approval or selection implies, the order of the queue; and the places where an autocommit
    transition, a torn completion or a routing rule breaks what the code means to do.
  \<^item> \<open>TaskManifest\<close>: an accepted manifest satisfies the admission contract and is a fixed point of the check.
  \<^item> \<open>StorageProps\<close>, \<open>StoreRecovery\<close>: every sequence of store operations, with any faults and kills, is a walk in the
    abstract lifecycle of a task's directory, loses no input, and can be resumed; what retention and staging
    may touch.
  \<^item> \<open>DaemonProps\<close>, \<open>Review\<close>: a handler only runs on a task that was allowed, admitted and started; a dispatch settles
    its task; a decision is on disk before the database changes; what a restart does not recover.
  \<^item> \<open>ShiftProps\<close>: every sequence of calls of Second Shift and of the director, whatever fails or dies, keeps the
    registry and the ledger sound and the broker's namespace well typed; undisturbed, the P40's counter is
    the count of its attempts in the ledger.
  \<^item> \<open>ShiftRoutes\<close>: which worker a route selects, what an observation of the pool may change, and three
    runs on which the two files, the pool or the broker's counters go wrong.
  \<^item> \<open>BacklogProps\<close>, \<open>AdapterProps\<close> (over the rules \<open>ShiftRules\<close>, \<open>ShiftFrames\<close>, \<open>BacklogRules\<close>): manifests survive saving; the queue
    holds at most one item in progress; an item is completed only on a reviewed candidate and an accepted final
    verification in the ledger, whatever fails, raises or dies.  The locale \<open>settling_final\<close> states what the adapter
    needs of a condition on the ledger, once for any and once for the condition "verified".  \<open>AdapterRun\<close> works one run out.
  \<^item> \<open>GateProps\<close>: what a passing verdict of one of the adapter's own reviewers rests on.
  \<^item> \<open>HandlerProps\<close>: what a successful vision, coding or review task rests on, and two answers that escape a handler.
  \<^item> \<open>ProfileProps\<close>: work under a profile runs on a checked server while the lease is held, and the lease is given back.
  \<^item> \<open>VaultProps\<close>: a session touches only inodes of the vault, and changes none outside the write directory, whatever
    others do meanwhile; \<open>io_gives\<close> of \<open>Inodes\<close> is the contract both are proved with.
  \<^item> \<open>ReadmeProps\<close>: discovery never raises and answers for every repository; two runs on which READMEs get lost.
  \<^item> \<open>GtxRuns\<close>: how many attempts the P40 gets under the director, and where that bound is lost.

  \<^bold>\<open>Bounds and fuel.\<close>

  Loops over lists are structural.  \<open>SqlSession\<close> repeats a locked statement on a number of attempts left, which
  is the code's own retry bound.  The daemon's loop is modelled turn by turn, so no fuel is needed, and every
  program of the model is a total function.  The search of the vault recurses as deep as the
  interpreter allows, and raises beyond; the pages of a GitHub account are read with fuel, one unit per page.  \<open>show_digits\<close> terminates by a measure.

  \<^bold>\<open>Assumptions.\<close>

  Strings are code points below 256.  Python's integers are unbounded.  \<open>os.rename\<close> and \<open>os.replace\<close> on one file
  system are atomic.  SQLite gives BEGIN IMMEDIATE the write lock and undoes a transaction that is rolled
  back.  The calls on the store and on the files of Second Shift are sequential: the locks make the single
  accesses so, and no property here speaks of two daemons on one store.  JSON encoding is not modelled but for
  the size and syntax checks the code makes; a stored document is the value it encodes.  Timestamps are
  microseconds, parsed only in the form \<open>isoformat\<close> writes.  Floats occur as exact rationals, in documents
  as JSON numbers.  Parameters of the model are git, the file system outside the store, MIME
  types and SHA-256, processes, HTTP requests and the decoding of JSON and images in handlers and profiles, the clock, the
  order in which a Python set is iterated and the texts of operating system errors.

  \<^bold>\<open>Not modelled.\<close>

  The schema creation and migrations, HTTP servers and clients (status_api.py, api.py,
  telegram_ingress.py), the tool adapters over the readers, and the output quality
  checks: they are network, subprocesses and text extraction around the state modelled
  here.  Logging, telemetry, signals and environment variables are
  left out of the parts that are modelled.
\<close>

end
